(* ===== verification/Prelude.thy ===== *)
theory Prelude
  imports Main "HOL-Library.AList"
begin

text \<open>
  Shared vocabulary of the development: texts as lists of Unicode code points with the parts of
  Go's \<open>strings\<close> and \<open>unicode\<close> packages and of JavaScript's \<open>String\<close> that the sources use,
  times with Go's zero value, counting of list elements (used to count goroutines), and the
  theorem collections that carry the component proofs.
\<close>

named_theorems text_simps \<open>equations of the text functions on concrete texts\<close>
named_theorems mgr_defs \<open>definitions of the locked sections of the job manager\<close>
named_theorems mgr_frame \<open>what a locked section leaves unchanged\<close>

section \<open>Texts\<close>

text \<open>
  A text is the list of its code points (Go's \<open>[]rune(s)\<close>). \<open>asc\<close> turns an ASCII literal into a
  text; literals with characters outside ASCII are written as lists of code points.
\<close>

type_synonym rune = nat
type_synonym "text" = "rune list"

definition asc :: "string \<Rightarrow> text" where
  "asc s = map of_char s"

lemma asc_Nil [simp, text_simps]: "asc [] = []"
  by (simp add: asc_def)

lemma asc_Cons [simp, text_simps]: "asc (c # cs) = of_char c # asc cs"
  by (simp add: asc_def)

definition unicode_IsSpace :: "rune \<Rightarrow> bool" where
  "unicode_IsSpace r \<longleftrightarrow>
     9 \<le> r \<and> r \<le> 13 \<or> r = 32 \<or> r = 133 \<or> r = 160 \<or> r = 5760 \<or>
     8192 \<le> r \<and> r \<le> 8202 \<or> r = 8232 \<or> r = 8233 \<or> r = 8239 \<or> r = 8287 \<or> r = 12288"

text \<open>
  \<open>unicode.ToLower\<close> on ASCII, Latin-1, Latin Extended-A, Greek, Cyrillic and the full-width Latin
  letters; code points of other blocks are left as they are.
\<close>

definition unicode_ToLower :: "rune \<Rightarrow> rune" where
  "unicode_ToLower r =
     (if 65 \<le> r \<and> r \<le> 90 then r + 32
      else if 192 \<le> r \<and> r \<le> 222 \<and> r \<noteq> 215 then r + 32
      else if 256 \<le> r \<and> r \<le> 303 \<and> even r then r + 1
      else if r = 304 then 105
      else if 306 \<le> r \<and> r \<le> 311 \<and> even r then r + 1
      else if 313 \<le> r \<and> r \<le> 328 \<and> odd r then r + 1
      else if 330 \<le> r \<and> r \<le> 375 \<and> even r then r + 1
      else if r = 376 then 255
      else if r = 377 \<or> r = 379 \<or> r = 381 then r + 1
      else if r = 902 then 940
      else if 904 \<le> r \<and> r \<le> 906 then r + 37
      else if r = 908 then 972
      else if r = 910 \<or> r = 911 then r + 63
      else if 913 \<le> r \<and> r \<le> 939 \<and> r \<noteq> 930 then r + 32
      else if 1024 \<le> r \<and> r \<le> 1039 then r + 80
      else if 1040 \<le> r \<and> r \<le> 1071 then r + 32
      else if 65313 \<le> r \<and> r \<le> 65338 then r + 32
      else r)"

text \<open>The three stretches of the table, each small enough to be decided on its own.\<close>

lemma unicode_ToLower_latin1: "r < 256 \<Longrightarrow> unicode_ToLower r =
   (if 65 \<le> r \<and> r \<le> 90 then r + 32 else if 192 \<le> r \<and> r \<le> 222 \<and> r \<noteq> 215 then r + 32 else r)"
  by (simp add: unicode_ToLower_def)

lemma unicode_ToLower_latin_ext: "256 \<le> r \<Longrightarrow> r < 384 \<Longrightarrow> unicode_ToLower r =
   (if r \<le> 303 \<and> even r then r + 1
      else if r = 304 then 105
      else if 306 \<le> r \<and> r \<le> 311 \<and> even r then r + 1
      else if 313 \<le> r \<and> r \<le> 328 \<and> odd r then r + 1
      else if 330 \<le> r \<and> r \<le> 375 \<and> even r then r + 1
      else if r = 376 then 255
      else if r = 377 \<or> r = 379 \<or> r = 381 then r + 1 else r)"
  by (simp add: unicode_ToLower_def)

lemma unicode_ToLower_high: "384 \<le> r \<Longrightarrow> unicode_ToLower r =
   (if r = 902 then 940
      else if 904 \<le> r \<and> r \<le> 906 then r + 37
      else if r = 908 then 972
      else if r = 910 \<or> r = 911 then r + 63
      else if 913 \<le> r \<and> r \<le> 939 \<and> r \<noteq> 930 then r + 32
      else if 1024 \<le> r \<and> r \<le> 1039 then r + 80
      else if 1040 \<le> r \<and> r \<le> 1071 then r + 32
      else if 65313 \<le> r \<and> r \<le> 65338 then r + 32
      else r)"
  by (simp add: unicode_ToLower_def)

lemma ToLower_idem_latin1: "r < 256 \<Longrightarrow> unicode_ToLower (unicode_ToLower r) = unicode_ToLower r"
  by (simp add: unicode_ToLower_latin1)

lemma ToLower_idem_latin_ext: "256 \<le> r \<Longrightarrow> r < 384 \<Longrightarrow> unicode_ToLower (unicode_ToLower r) = unicode_ToLower r"
  by (auto simp: unicode_ToLower_latin1 unicode_ToLower_latin_ext split: if_splits)

lemma ToLower_idem_high: "384 \<le> r \<Longrightarrow> unicode_ToLower (unicode_ToLower r) = unicode_ToLower r"
  by (simp add: unicode_ToLower_high)

lemma IsSpace_ToLower_latin1: "r < 256 \<Longrightarrow> unicode_IsSpace (unicode_ToLower r) = unicode_IsSpace r"
  by (simp add: unicode_ToLower_latin1 unicode_IsSpace_def)

lemma IsSpace_ToLower_latin_ext: "256 \<le> r \<Longrightarrow> r < 384 \<Longrightarrow> unicode_IsSpace (unicode_ToLower r) = unicode_IsSpace r"
  by (simp add: unicode_ToLower_latin_ext unicode_IsSpace_def)

lemma IsSpace_ToLower_high: "384 \<le> r \<Longrightarrow> unicode_IsSpace (unicode_ToLower r) = unicode_IsSpace r"
  by (simp add: unicode_ToLower_high unicode_IsSpace_def)

lemma unicode_ToLower_idem [simp]:
  "unicode_ToLower (unicode_ToLower r) = unicode_ToLower r"
  using ToLower_idem_latin1 ToLower_idem_latin_ext ToLower_idem_high by (meson not_le)

lemma unicode_IsSpace_ToLower [simp]:
  "unicode_IsSpace (unicode_ToLower r) = unicode_IsSpace r"
  using IsSpace_ToLower_latin1 IsSpace_ToLower_latin_ext IsSpace_ToLower_high by (meson not_le)

subsection \<open>Trimming\<close>

definition trim_left_by :: "('a \<Rightarrow> bool) \<Rightarrow> 'a list \<Rightarrow> 'a list" where
  "trim_left_by P xs = dropWhile P xs"

definition trim_right_by :: "('a \<Rightarrow> bool) \<Rightarrow> 'a list \<Rightarrow> 'a list" where
  "trim_right_by P xs = rev (dropWhile P (rev xs))"

definition trim_by :: "('a \<Rightarrow> bool) \<Rightarrow> 'a list \<Rightarrow> 'a list" where
  "trim_by P xs = trim_right_by P (trim_left_by P xs)"

definition trimmed_by :: "('a \<Rightarrow> bool) \<Rightarrow> 'a list \<Rightarrow> bool" where
  "trimmed_by P xs \<longleftrightarrow> xs = [] \<or> \<not> P (hd xs) \<and> \<not> P (last xs)"

lemma trim_right_by_Nil [simp]: "trim_right_by P [] = []"
  by (simp add: trim_right_by_def)

lemma trim_right_by_snoc [simp]:
  "trim_right_by P (xs @ [x]) = (if P x then trim_right_by P xs else xs @ [x])"
  by (simp add: trim_right_by_def)

lemma trim_right_by_eq_Nil [simp]: "trim_right_by P xs = [] \<longleftrightarrow> (\<forall>x\<in>set xs. P x)"
  by (simp add: trim_right_by_def)

lemma trim_right_by_split: "trim_right_by P xs @ rev (takeWhile P (rev xs)) = xs"
  by (metis rev_append rev_rev_ident takeWhile_dropWhile_id trim_right_by_def)

lemma hd_trim_right_by: "trim_right_by P xs \<noteq> [] \<Longrightarrow> hd (trim_right_by P xs) = hd xs"
  by (metis hd_append2 trim_right_by_split)

lemma last_trim_right_by: "trim_right_by P xs \<noteq> [] \<Longrightarrow> \<not> P (last (trim_right_by P xs))"
  by (induction xs rule: rev_induct) (auto split: if_splits)

lemma set_trim_right_by: "set (trim_right_by P xs) \<subseteq> set xs"
  by (induction xs rule: rev_induct) auto

lemma trim_by_eq_Nil [simp]: "trim_by P xs = [] \<longleftrightarrow> (\<forall>x\<in>set xs. P x)"
  by (metis dropWhile_eq_Nil_conv hd_dropWhile hd_in_set trim_by_def trim_left_by_def
      trim_right_by_eq_Nil empty_iff list.set(1))

lemma trim_by_trimmed [simp, intro]: "trimmed_by P (trim_by P xs)"
  unfolding trimmed_by_def trim_by_def trim_left_by_def
  by (metis dropWhile.simps(1) hd_dropWhile hd_trim_right_by last_trim_right_by
      trim_right_by_Nil)

lemma trim_right_by_id: "xs = [] \<or> \<not> P (last xs) \<Longrightarrow> trim_right_by P xs = xs"
  by (cases xs rule: rev_cases) auto

lemma trimmed_by_id: "trimmed_by P xs \<Longrightarrow> trim_by P xs = xs"
  by (cases xs) (auto simp: trimmed_by_def trim_by_def trim_left_by_def trim_right_by_id)

lemma trim_by_idem [simp]: "trim_by P (trim_by P xs) = trim_by P xs"
  by (simp add: trimmed_by_id)

lemma set_trim_by: "set (trim_by P xs) \<subseteq> set xs"
  unfolding trim_by_def trim_left_by_def
  using set_trim_right_by[of P "dropWhile P xs"] set_dropWhileD[of _ P xs] by blast

lemma length_trim_by: "length (trim_by P xs) \<le> length xs"
proof -
  have "length (trim_right_by P ys) \<le> length ys" for ys
    by (induction ys rule: rev_induct) auto
  then show ?thesis
    unfolding trim_by_def trim_left_by_def by (meson le_trans length_dropWhile_le)
qed

lemma dropWhile_map_cong:
  "(\<And>x. P (f x) = P x) \<Longrightarrow> dropWhile P (map f xs) = map f (dropWhile P xs)"
  by (induction xs) auto

lemma trim_by_map: "(\<And>x. P (f x) = P x) \<Longrightarrow> trim_by P (map f xs) = map f (trim_by P xs)"
  by (simp add: trim_by_def trim_left_by_def trim_right_by_def dropWhile_map_cong rev_map)

definition strings_TrimSpace :: "text \<Rightarrow> text" where
  "strings_TrimSpace s = trim_by unicode_IsSpace s"

definition strings_ToLower :: "text \<Rightarrow> text" where
  "strings_ToLower s = map unicode_ToLower s"

text \<open>\<open>strings.TrimRight(s, "/")\<close>\<close>

definition trim_right_slash :: "text \<Rightarrow> text" where
  "trim_right_slash s = trim_right_by (\<lambda>r. r = 47) s"

lemma strings_TrimSpace_idem [simp]:
  "strings_TrimSpace (strings_TrimSpace s) = strings_TrimSpace s"
  by (simp add: strings_TrimSpace_def)

lemma strings_TrimSpace_Nil [simp]: "strings_TrimSpace [] = []"
  by (simp add: strings_TrimSpace_def)

lemma strings_ToLower_idem [simp]:
  "strings_ToLower (strings_ToLower s) = strings_ToLower s"
  by (simp add: strings_ToLower_def comp_def)

lemma strings_ToLower_TrimSpace:
  "strings_TrimSpace (strings_ToLower s) = strings_ToLower (strings_TrimSpace s)"
  by (simp add: strings_TrimSpace_def strings_ToLower_def trim_by_map)

subsection \<open>Fields and joining\<close>

text \<open>\<open>strings.FieldsFunc\<close>: the maximal runs of code points that are no separator.\<close>

function strings_FieldsFunc :: "(rune \<Rightarrow> bool) \<Rightarrow> text \<Rightarrow> text list" where
  "strings_FieldsFunc sep s =
     (let rest = dropWhile sep s in
      if rest = [] then []
      else takeWhile (\<lambda>r. \<not> sep r) rest # strings_FieldsFunc sep (dropWhile (\<lambda>r. \<not> sep r) rest))"
  by pat_completeness auto
termination
proof (relation "measure (\<lambda>(sep, s). length s)", simp, clarsimp)
  fix sep :: "rune \<Rightarrow> bool" and s :: "text" and x
  assume x: "x \<in> set s" "\<not> sep x"
  then obtain y ys where e: "dropWhile sep s = y # ys"
    by (metis dropWhile_eq_Nil_conv list.exhaust)
  then have "\<not> sep y" by (metis hd_dropWhile list.distinct(1) list.sel(1))
  then have "length (dropWhile (\<lambda>r. \<not> sep r) (dropWhile sep s)) \<le> length ys"
    using e length_dropWhile_le by simp
  also have "\<dots> < length s" using e length_dropWhile_le[of sep s] by simp
  finally show "length (dropWhile (\<lambda>r. \<not> sep r) (dropWhile sep s)) < length s" .
qed

declare strings_FieldsFunc.simps [simp del]

lemma strings_FieldsFunc_Nil:
  "dropWhile sep s = [] \<Longrightarrow> strings_FieldsFunc sep s = []"
  by (subst strings_FieldsFunc.simps) (simp add: Let_def)

lemma strings_FieldsFunc_Cons:
  "dropWhile sep s = y # ys \<Longrightarrow> strings_FieldsFunc sep s =
     takeWhile (\<lambda>r. \<not> sep r) (y # ys) # strings_FieldsFunc sep (dropWhile (\<lambda>r. \<not> sep r) (y # ys))"
  by (subst strings_FieldsFunc.simps) (simp add: Let_def)

lemma strings_FieldsFunc_items:
  "f \<in> set (strings_FieldsFunc sep s) \<Longrightarrow> f \<noteq> [] \<and> (\<forall>r\<in>set f. \<not> sep r)"
proof (induction sep s rule: strings_FieldsFunc.induct)
  case (1 sep s)
  show ?case
  proof (cases "dropWhile sep s")
    case Nil
    with "1.prems" show ?thesis by (simp add: strings_FieldsFunc_Nil)
  next
    case (Cons y ys)
    then have y: "\<not> sep y" by (metis hd_dropWhile list.distinct(1) list.sel(1))
    from "1.prems" Cons consider
      "f = takeWhile (\<lambda>r. \<not> sep r) (y # ys)"
      | "f \<in> set (strings_FieldsFunc sep (dropWhile (\<lambda>r. \<not> sep r) (dropWhile sep s)))"
      by (auto simp: strings_FieldsFunc_Cons)
    then show ?thesis
    proof cases
      case 1
      then show ?thesis using y by (auto dest: set_takeWhileD)
    next
      case 2
      have "dropWhile sep s \<noteq> []" using Cons by simp
      from "1.IH"[OF refl this 2] show ?thesis .
    qed
  qed
qed

text \<open>\<open>strings.Join\<close> and \<open>Array.prototype.join\<close>\<close>

fun join_with :: "text \<Rightarrow> text list \<Rightarrow> text" where
  "join_with sep [] = []"
| "join_with sep [x] = x"
| "join_with sep (x # y # xs) = x @ sep @ join_with sep (y # xs)"

lemma join_with_Cons: "xs \<noteq> [] \<Longrightarrow> join_with sep (x # xs) = x @ sep @ join_with sep xs"
  by (cases xs) auto

section \<open>Decimal numerals\<close>

fun dec :: "nat \<Rightarrow> text" where
  "dec n = (if n < 10 then [48 + n] else dec (n div 10) @ [48 + n mod 10])"

declare dec.simps [simp del]

definition dec_value :: "text \<Rightarrow> nat" where
  "dec_value ds = foldl (\<lambda>n d. 10 * n + (d - 48)) 0 ds"

lemma dec_digits: "dec n \<noteq> [] \<and> (\<forall>d\<in>set (dec n). 48 \<le> d \<and> d \<le> 57)"
proof (induction n rule: dec.induct)
  case (1 n)
  then show ?case by (cases "n < 10") (auto simp: dec.simps[of n])
qed

lemma dec_value_dec [simp]: "dec_value (dec n) = n"
proof (induction n rule: dec.induct)
  case (1 n)
  then show ?case by (cases "n < 10") (simp_all add: dec.simps[of n] dec_value_def)
qed

section \<open>Times\<close>

text \<open>
  \<open>time.Time\<close> in nanoseconds; \<open>None\<close> is the zero value \<open>time.Time{}\<close>, which \<open>IsZero\<close> tests for and
  which every other instant is after. \<open>time.Duration\<close> is an \<^typ>\<open>int\<close> of nanoseconds.
\<close>

type_synonym gotime = "int option"
type_synonym duration = int

abbreviation time_zero :: gotime where "time_zero \<equiv> None"

definition second :: duration where "second = 1000000000"

text \<open>
  \<open>int64\<close> arithmetic: \<open>time.Duration(seconds) * time.Second\<close> wraps around at 64 bits.
\<close>

definition wrap64 :: "int \<Rightarrow> int" where
  "wrap64 x = (x + 2 ^ 63) mod 2 ^ 64 - 2 ^ 63"

lemma wrap64_id: "- (2 ^ 63) \<le> x \<Longrightarrow> x < 2 ^ 63 \<Longrightarrow> wrap64 x = x"
  by (simp add: wrap64_def)

definition seconds :: "int \<Rightarrow> duration" where
  "seconds s = wrap64 (s * second)"

section \<open>Go's \<open>error\<close> values\<close>

text \<open>
  A function that returns only an \<open>error\<close> returns an option, \<open>None\<close> for \<open>nil\<close>. A chain of checks
  with early returns is the first error of the list of its checks.
\<close>

definition fail_if :: "bool \<Rightarrow> 'e \<Rightarrow> 'e option" where
  "fail_if c e = (if c then Some e else None)"

fun first_error :: "'e option list \<Rightarrow> 'e option" where
  "first_error [] = None"
| "first_error (None # es) = first_error es"
| "first_error (Some e # es) = Some e"

lemma fail_if_None [simp]: "fail_if c e = None \<longleftrightarrow> \<not> c"
  by (simp add: fail_if_def)

lemma first_error_Cons_None [simp]:
  "first_error (e # es) = None \<longleftrightarrow> e = None \<and> first_error es = None"
  by (cases e) auto

lemma first_error_append:
  "first_error (xs @ ys) = (case first_error xs of None \<Rightarrow> first_error ys | Some e \<Rightarrow> Some e)"
  by (induction xs rule: first_error.induct) auto

section \<open>Counting\<close>

text \<open>\<open>cnt P xs\<close> counts the elements of \<open>xs\<close> that satisfy \<open>P\<close>.\<close>

definition cnt :: "('a \<Rightarrow> bool) \<Rightarrow> 'a list \<Rightarrow> nat" where
  "cnt P xs = length (filter P xs)"

lemma cnt_Nil [simp]: "cnt P [] = 0"
  by (simp add: cnt_def)

lemma cnt_Cons [simp]: "cnt P (x # xs) = (if P x then Suc (cnt P xs) else cnt P xs)"
  by (simp add: cnt_def)

lemma cnt_append [simp]: "cnt P (xs @ ys) = cnt P xs + cnt P ys"
  by (simp add: cnt_def)

lemma cnt_update:
  "i < length xs \<Longrightarrow>
   cnt P (xs[i := y]) + (if P (xs ! i) then 1 else 0) = cnt P xs + (if P y then 1 else 0)"
proof (induction xs arbitrary: i)
  case (Cons x xs)
  then show ?case by (cases i) auto
qed simp

lemma cnt_update_same: "i < length xs \<Longrightarrow> P y = P (xs ! i) \<Longrightarrow> cnt P (xs[i := y]) = cnt P xs"
  using cnt_update[of i xs P y] by (auto split: if_splits)

lemma cnt_update_drop:
  "i < length xs \<Longrightarrow> P (xs ! i) \<Longrightarrow> \<not> P y \<Longrightarrow> cnt P (xs[i := y]) = cnt P xs - 1"
  using cnt_update[of i xs P y] by simp

lemma cnt_update_add:
  "i < length xs \<Longrightarrow> \<not> P (xs ! i) \<Longrightarrow> P y \<Longrightarrow> cnt P (xs[i := y]) = Suc (cnt P xs)"
  using cnt_update[of i xs P y] by simp

lemma cnt_pos: "i < length xs \<Longrightarrow> P (xs ! i) \<Longrightarrow> 0 < cnt P xs"
  by (auto simp: cnt_def filter_empty_conv)

lemma cnt_zero: "cnt P xs = 0 \<longleftrightarrow> (\<forall>x\<in>set xs. \<not> P x)"
  by (induction xs) auto

lemma cnt_mono: "(\<And>x. P x \<Longrightarrow> Q x) \<Longrightarrow> cnt P xs \<le> cnt Q xs"
  by (induction xs) (auto simp: le_SucI)

lemma cnt_two: "i < length xs \<Longrightarrow> j < length xs \<Longrightarrow> i \<noteq> j \<Longrightarrow> P (xs ! i) \<Longrightarrow> P (xs ! j) \<Longrightarrow> 2 \<le> cnt P xs"
proof (induction xs arbitrary: i j)
  case (Cons x xs)
  then show ?case
    by (cases i; cases j) (auto simp: Suc_le_eq dest: cnt_pos[of _ xs P])
qed simp

end
