(* ===== verification/Config.thy ===== *)
theory Config
  imports Prelude
begin

text \<open>
  The configuration of \<open>internal/config/config.go\<close>: its records, defaults, normalisation and
  validation. The parsers of the Go \<open>net\<close> and \<open>net/url\<close> packages are fields of a record that the
  validators take as an argument. Errors are constructors named after the messages of the source.
\<close>

section \<open>Records\<close>

record config_target =
  t_ID :: int
  t_SortOrder :: int
  t_Name :: "text"
  t_APIBaseURL :: "text"
  t_APIKey :: "text"
  t_APIKeyEnv :: "text"
  t_Model :: "text"
  t_WireAPI :: "text"
  t_ConfigOverrides :: "text list"

record openilink_config =
  oi_Enabled :: bool
  oi_BaseURL :: "text"
  oi_Token :: "text"
  oi_TokenEnv :: "text"
  oi_AllowedUserIDs :: "text list"
  oi_HTTPTimeoutSecond :: int
  oi_enabledSet :: bool

record telegram_config =
  tg_Enabled :: bool
  tg_BaseURL :: "text"
  tg_Token :: "text"
  tg_TokenEnv :: "text"
  tg_AllowedUserIDs :: "text list"
  tg_HTTPTimeoutSecond :: int
  tg_PollTimeoutSecond :: int
  tg_enabledSet :: bool

record web_config =
  wb_ListenAddress :: "text"
  wb_AdminUsername :: "text"
  wb_AdminPasswordEnv :: "text"
  wb_CookieSecure :: bool
  wb_TrustedProxies :: "text list"
  wb_ActivityLimit :: int
  wb_cookieSecureSet :: bool

record codex_config =
  cx_Binary :: "text"
  cx_PromptsFile :: "text"
  cx_Prompts :: "text list"
  cx_PromptsPersisted :: bool
  cx_RequestTimeoutSecond :: int
  cx_RetryMinSecond :: int
  cx_RetryMaxSecond :: int
  cx_KeepaliveMinSecond :: int
  cx_KeepaliveMaxSecond :: int
  cx_MaxParallel :: int
  cx_SuccessMessage :: "text"
  cx_ReasoningEffort :: "text"
  cx_ConfigOverrides :: "text list"
  cx_Targets :: "config_target list"

record config =
  c_OpenILink :: openilink_config
  c_Telegram :: telegram_config
  c_Codex :: codex_config
  c_Web :: web_config

text \<open>What the validators read of a parsed URL (\<open>url.URL\<close>).\<close>

record url_parts =
  u_Scheme :: "text"
  u_Host :: "text"
  u_HasUser :: bool
  u_Fragment :: "text"
  u_RawQuery :: "text"

record go_net =
  url_Parse :: "text \<Rightarrow> url_parts option"
  net_SplitHostPort :: "text \<Rightarrow> (text \<times> text) option"
  net_ParseIP :: "text \<Rightarrow> bool"
  net_ParseCIDR :: "text \<Rightarrow> bool"

datatype config_error =
    NotAbsoluteHTTPURL "text"
  | URLHasUserinfo "text"
  | URLHasFragment "text"
  | URLHasQuery "text"
  | ListenAddressRequired
  | ListenAddressNotHostPort
  | ListenAddressPortRange
  | TrustedProxyInvalid nat
  | BadOverride "text" nat
  | OpenILinkTokenRequired
  | OpenILinkTimeoutNotPositive
  | TelegramTokenRequired
  | TelegramHTTPTimeoutNotPositive
  | TelegramPollTimeoutNotPositive
  | TelegramHTTPTimeoutNotAbovePoll
  | BinaryRequired
  | RequestTimeoutNotPositive
  | RetryIntervalTooSmall
  | RetryMinAboveMax
  | KeepaliveIntervalTooSmall
  | KeepaliveMinAboveMax
  | MaxParallelNotPositive
  | NoTargets
  | ActivityLimitNegative
  | TargetNameRequired nat
  | TargetNameReserved "text"
  | TargetNameHasSeparator "text"
  | DuplicateTargetName "text"
  | TargetAPIKeyRequired "text"
  | TargetModelRequired "text"
  | TargetWireAPIUnsupported "text" "text"
  | SortOrderNegative
  | PromptsFileRequired
  | SuccessMessageRequired
  | ReasoningEffortRequired
  | PromptsEmpty
  | PromptEmpty nat
  | ReasoningEffortInvalid
  | TokenEnvNotSet "text"
  | AdminPasswordEnvRequired
  | AdminPasswordTooShort

section \<open>Constants\<close>

definition defaultHubBaseURL :: "text" where "defaultHubBaseURL = asc ''http://127.0.0.1:9800''"
definition defaultTelegramBaseURL :: "text" where
  "defaultTelegramBaseURL = asc ''https://api.telegram.org''"
definition defaultTelegramHTTP :: int where "defaultTelegramHTTP = 45"
definition defaultTelegramPoll :: int where "defaultTelegramPoll = 30"
definition defaultCodexBinary :: "text" where "defaultCodexBinary = asc ''codex''"
definition defaultPromptsFile :: "text" where "defaultPromptsFile = asc ''prompts.txt''"
definition defaultRequestTimeout :: int where "defaultRequestTimeout = 180"
definition defaultRetryMin :: int where "defaultRetryMin = 3"
definition defaultRetryMax :: int where "defaultRetryMax = 8"
definition defaultKeepaliveMin :: int where "defaultKeepaliveMin = 2700"
definition defaultKeepaliveMax :: int where "defaultKeepaliveMax = 3300"
definition defaultMaxParallel :: int where "defaultMaxParallel = 2"
definition defaultSuccessMessage :: "text" where "defaultSuccessMessage = [24320, 36460]"
definition defaultReasoningEffort :: "text" where "defaultReasoningEffort = asc ''low''"
definition defaultWireAPI :: "text" where "defaultWireAPI = asc ''responses''"
definition defaultHTTPTimeout :: int where "defaultHTTPTimeout = 15"
definition defaultWebListenAddress :: "text" where "defaultWebListenAddress = asc '':8080''"
definition defaultWebAdminUsername :: "text" where "defaultWebAdminUsername = asc ''admin''"
definition defaultWebPasswordEnv :: "text" where "defaultWebPasswordEnv = asc ''WEB_ADMIN_PASSWORD''"
definition defaultWebActivityLimit :: int where "defaultWebActivityLimit = 200"
definition minimumRetryIntervalSec :: int where "minimumRetryIntervalSec = 1"
definition MinimumAdminPasswordLength :: nat where "MinimumAdminPasswordLength = 5"

lemmas config_constants [text_simps] =
  defaultHubBaseURL_def defaultTelegramBaseURL_def defaultTelegramHTTP_def defaultTelegramPoll_def
  defaultCodexBinary_def defaultPromptsFile_def defaultRequestTimeout_def defaultRetryMin_def
  defaultRetryMax_def defaultKeepaliveMin_def defaultKeepaliveMax_def defaultMaxParallel_def
  defaultSuccessMessage_def defaultReasoningEffort_def defaultWireAPI_def defaultHTTPTimeout_def
  defaultWebListenAddress_def defaultWebAdminUsername_def defaultWebPasswordEnv_def
  defaultWebActivityLimit_def minimumRetryIntervalSec_def MinimumAdminPasswordLength_def

section \<open>Defaults\<close>

definition DefaultDatabaseConfig :: config where
  "DefaultDatabaseConfig =
    \<lparr>c_OpenILink = \<lparr>oi_Enabled = False, oi_BaseURL = defaultHubBaseURL, oi_Token = [],
        oi_TokenEnv = [], oi_AllowedUserIDs = [], oi_HTTPTimeoutSecond = defaultHTTPTimeout,
        oi_enabledSet = True\<rparr>,
     c_Telegram = \<lparr>tg_Enabled = False, tg_BaseURL = defaultTelegramBaseURL, tg_Token = [],
        tg_TokenEnv = [], tg_AllowedUserIDs = [], tg_HTTPTimeoutSecond = defaultTelegramHTTP,
        tg_PollTimeoutSecond = defaultTelegramPoll, tg_enabledSet = True\<rparr>,
     c_Codex = \<lparr>cx_Binary = defaultCodexBinary, cx_PromptsFile = defaultPromptsFile,
        cx_Prompts = [], cx_PromptsPersisted = False,
        cx_RequestTimeoutSecond = defaultRequestTimeout, cx_RetryMinSecond = defaultRetryMin,
        cx_RetryMaxSecond = defaultRetryMax, cx_KeepaliveMinSecond = defaultKeepaliveMin,
        cx_KeepaliveMaxSecond = defaultKeepaliveMax, cx_MaxParallel = defaultMaxParallel,
        cx_SuccessMessage = defaultSuccessMessage, cx_ReasoningEffort = defaultReasoningEffort,
        cx_ConfigOverrides = [], cx_Targets = []\<rparr>,
     c_Web = \<lparr>wb_ListenAddress = defaultWebListenAddress,
        wb_AdminUsername = defaultWebAdminUsername, wb_AdminPasswordEnv = [],
        wb_CookieSecure = False, wb_TrustedProxies = [],
        wb_ActivityLimit = defaultWebActivityLimit, wb_cookieSecureSet = True\<rparr>\<rparr>"

definition default_if_blank :: "text \<Rightarrow> text \<Rightarrow> text" where
  "default_if_blank d s = (if strings_TrimSpace s = [] then d else s)"

definition default_if_zero :: "int \<Rightarrow> int \<Rightarrow> int" where
  "default_if_zero d n = (if n = 0 then d else n)"

definition applyTargetDefaults :: "config_target \<Rightarrow> config_target" where
  "applyTargetDefaults t =
     (let wire = strings_ToLower (strings_TrimSpace (t_WireAPI t)) in
      t\<lparr>t_Name := strings_TrimSpace (t_Name t),
        t_APIBaseURL := trim_right_slash (strings_TrimSpace (t_APIBaseURL t)),
        t_Model := strings_TrimSpace (t_Model t),
        t_APIKeyEnv := strings_TrimSpace (t_APIKeyEnv t),
        t_WireAPI := (if strings_TrimSpace wire = [] then defaultWireAPI else wire)\<rparr>)"

text \<open>
  \<open>applyDefaults\<close>; \<open>join_dir\<close> stands for \<open>filepath.IsAbs\<close> and \<open>filepath.Join\<close> with the directory
  of the configuration file.
\<close>

definition applyDefaults :: "(text \<Rightarrow> text) \<Rightarrow> config \<Rightarrow> config" where
  "applyDefaults join_dir c =
     (let w = c_Web c; oi = c_OpenILink c; tg = c_Telegram c; cx = c_Codex c in
      c\<lparr>c_Web := w\<lparr>
          wb_ListenAddress := (if wb_ListenAddress w = [] then defaultWebListenAddress
            else wb_ListenAddress w),
          wb_AdminUsername := default_if_blank defaultWebAdminUsername (wb_AdminUsername w),
          wb_AdminPasswordEnv := default_if_blank defaultWebPasswordEnv (wb_AdminPasswordEnv w),
          wb_CookieSecure := (if wb_cookieSecureSet w then wb_CookieSecure w else True),
          wb_ActivityLimit := default_if_zero defaultWebActivityLimit (wb_ActivityLimit w),
          wb_TrustedProxies := map strings_TrimSpace (wb_TrustedProxies w)\<rparr>,
        c_OpenILink := oi\<lparr>
          oi_BaseURL := trim_right_slash (strings_TrimSpace
            (default_if_blank defaultHubBaseURL (oi_BaseURL oi))),
          oi_Token := strings_TrimSpace (oi_Token oi),
          oi_TokenEnv := strings_TrimSpace (oi_TokenEnv oi),
          oi_HTTPTimeoutSecond := default_if_zero defaultHTTPTimeout (oi_HTTPTimeoutSecond oi)\<rparr>,
        c_Telegram := tg\<lparr>
          tg_BaseURL := trim_right_slash (strings_TrimSpace
            (default_if_blank defaultTelegramBaseURL (tg_BaseURL tg))),
          tg_Token := strings_TrimSpace (tg_Token tg),
          tg_TokenEnv := strings_TrimSpace (tg_TokenEnv tg),
          tg_HTTPTimeoutSecond := default_if_zero defaultTelegramHTTP (tg_HTTPTimeoutSecond tg),
          tg_PollTimeoutSecond := default_if_zero defaultTelegramPoll (tg_PollTimeoutSecond tg)\<rparr>,
        c_Codex := cx\<lparr>
          cx_Binary := default_if_blank defaultCodexBinary (cx_Binary cx),
          cx_PromptsFile := join_dir (default_if_blank defaultPromptsFile (cx_PromptsFile cx)),
          cx_RequestTimeoutSecond :=
            default_if_zero defaultRequestTimeout (cx_RequestTimeoutSecond cx),
          cx_RetryMinSecond := default_if_zero defaultRetryMin (cx_RetryMinSecond cx),
          cx_RetryMaxSecond := default_if_zero defaultRetryMax (cx_RetryMaxSecond cx),
          cx_KeepaliveMinSecond := default_if_zero defaultKeepaliveMin (cx_KeepaliveMinSecond cx),
          cx_KeepaliveMaxSecond := default_if_zero defaultKeepaliveMax (cx_KeepaliveMaxSecond cx),
          cx_MaxParallel := default_if_zero defaultMaxParallel (cx_MaxParallel cx),
          cx_SuccessMessage := default_if_blank defaultSuccessMessage (cx_SuccessMessage cx),
          cx_ReasoningEffort := default_if_blank defaultReasoningEffort (cx_ReasoningEffort cx),
          cx_Targets := map applyTargetDefaults (cx_Targets cx)\<rparr>\<rparr>)"

definition NormalizeTarget :: "config_target \<Rightarrow> config_target" where
  "NormalizeTarget t =
     (let wire = strings_ToLower (strings_TrimSpace (t_WireAPI t)) in
      t\<lparr>t_Name := strings_TrimSpace (t_Name t),
        t_APIBaseURL := trim_right_slash (strings_TrimSpace (t_APIBaseURL t)),
        t_APIKey := strings_TrimSpace (t_APIKey t),
        t_APIKeyEnv := strings_TrimSpace (t_APIKeyEnv t),
        t_Model := strings_TrimSpace (t_Model t),
        t_WireAPI := (if wire = [] then defaultWireAPI else wire),
        t_ConfigOverrides := map strings_TrimSpace (t_ConfigOverrides t)\<rparr>)"

section \<open>Enablement and secrets\<close>

definition IsOpenILinkEnabled :: "openilink_config \<Rightarrow> bool" where
  "IsOpenILinkEnabled c =
     (if oi_enabledSet c then oi_Enabled c
      else oi_Enabled c \<or> strings_TrimSpace (oi_Token c) \<noteq> [] \<or> strings_TrimSpace (oi_TokenEnv c) \<noteq> [])"

definition IsTelegramEnabled :: "telegram_config \<Rightarrow> bool" where
  "IsTelegramEnabled c =
     (if tg_enabledSet c then tg_Enabled c
      else tg_Enabled c \<or> strings_TrimSpace (tg_Token c) \<noteq> [] \<or> strings_TrimSpace (tg_TokenEnv c) \<noteq> [])"

definition oi_SetEnabledExplicit :: "bool \<Rightarrow> openilink_config \<Rightarrow> openilink_config" where
  "oi_SetEnabledExplicit v c = c\<lparr>oi_Enabled := v, oi_enabledSet := True\<rparr>"

definition tg_SetEnabledExplicit :: "bool \<Rightarrow> telegram_config \<Rightarrow> telegram_config" where
  "tg_SetEnabledExplicit v c = c\<lparr>tg_Enabled := v, tg_enabledSet := True\<rparr>"

text \<open>\<open>resolveSecrets\<close>; \<open>getenv\<close> is \<open>os.Getenv\<close>, which returns the empty text for an unset variable.\<close>

fun resolveTargetSecrets ::
  "(text \<Rightarrow> text) \<Rightarrow> config_target list \<Rightarrow> config_error + config_target list" where
  "resolveTargetSecrets getenv [] = Inr []"
| "resolveTargetSecrets getenv (t # ts) =
     (if t_APIKey t = [] \<and> t_APIKeyEnv t \<noteq> [] then
        (if getenv (t_APIKeyEnv t) = [] then Inl (TokenEnvNotSet (t_APIKeyEnv t))
         else map_sum id (\<lambda>us. t\<lparr>t_APIKey := getenv (t_APIKeyEnv t)\<rparr> # us)
                (resolveTargetSecrets getenv ts))
      else map_sum id (\<lambda>us. t # us) (resolveTargetSecrets getenv ts))"

definition resolveSecrets :: "(text \<Rightarrow> text) \<Rightarrow> config \<Rightarrow> config_error + config" where
  "resolveSecrets getenv c =
     (let oi = c_OpenILink c; tg = c_Telegram c;
          oiNeeds = IsOpenILinkEnabled oi \<and> oi_Token oi = [] \<and> oi_TokenEnv oi \<noteq> [];
          tgNeeds = IsTelegramEnabled tg \<and> tg_Token tg = [] \<and> tg_TokenEnv tg \<noteq> [] in
      if oiNeeds \<and> getenv (oi_TokenEnv oi) = [] then Inl (TokenEnvNotSet (oi_TokenEnv oi))
      else if tgNeeds \<and> getenv (tg_TokenEnv tg) = [] then Inl (TokenEnvNotSet (tg_TokenEnv tg))
      else map_sum id
        (\<lambda>ts. c\<lparr>c_OpenILink := (if oiNeeds then oi\<lparr>oi_Token := getenv (oi_TokenEnv oi)\<rparr> else oi),
                c_Telegram := (if tgNeeds then tg\<lparr>tg_Token := getenv (tg_TokenEnv tg)\<rparr> else tg),
                c_Codex := (c_Codex c)\<lparr>cx_Targets := ts\<rparr>\<rparr>)
        (resolveTargetSecrets getenv (cx_Targets (c_Codex c))))"

definition AdminPassword :: "(text \<Rightarrow> text) \<Rightarrow> config \<Rightarrow> config_error + text" where
  "AdminPassword getenv c =
     (let envName = strings_TrimSpace (wb_AdminPasswordEnv (c_Web c)) in
      if envName = [] then Inl AdminPasswordEnvRequired
      else if length (getenv envName) < MinimumAdminPasswordLength then Inl AdminPasswordTooShort
      else Inr (getenv envName))"

section \<open>Durations\<close>

definition RequestTimeout :: "config \<Rightarrow> duration" where
  "RequestTimeout c = seconds (cx_RequestTimeoutSecond (c_Codex c))"

definition KeepaliveMin :: "config \<Rightarrow> duration" where
  "KeepaliveMin c = seconds (cx_KeepaliveMinSecond (c_Codex c))"

definition KeepaliveMax :: "config \<Rightarrow> duration" where
  "KeepaliveMax c = seconds (cx_KeepaliveMaxSecond (c_Codex c))"

definition RetryMin :: "config \<Rightarrow> duration" where
  "RetryMin c = seconds (cx_RetryMinSecond (c_Codex c))"

definition RetryMax :: "config \<Rightarrow> duration" where
  "RetryMax c = seconds (cx_RetryMaxSecond (c_Codex c))"

definition HTTPTimeout :: "config \<Rightarrow> duration" where
  "HTTPTimeout c = seconds (oi_HTTPTimeoutSecond (c_OpenILink c))"

definition TelegramHTTPTimeout :: "config \<Rightarrow> duration" where
  "TelegramHTTPTimeout c = seconds (tg_HTTPTimeoutSecond (c_Telegram c))"

definition TelegramPollTimeout :: "config \<Rightarrow> duration" where
  "TelegramPollTimeout c = seconds (tg_PollTimeoutSecond (c_Telegram c))"

section \<open>Validation\<close>

definition validateHTTPURL :: "go_net \<Rightarrow> text \<Rightarrow> text \<Rightarrow> config_error option" where
  "validateHTTPURL net label raw =
     (case url_Parse net raw of
        None \<Rightarrow> Some (NotAbsoluteHTTPURL label)
      | Some u \<Rightarrow> first_error
          [fail_if (u_Host u = [] \<or> u_Scheme u \<noteq> asc ''http'' \<and> u_Scheme u \<noteq> asc ''https'')
             (NotAbsoluteHTTPURL label),
           fail_if (u_HasUser u) (URLHasUserinfo label),
           fail_if (u_Fragment u \<noteq> []) (URLHasFragment label),
           fail_if (u_RawQuery u \<noteq> []) (URLHasQuery label)])"

text \<open>
  \<open>strconv.Atoi\<close>: an optional sign and at least one decimal digit, and a value that fits an
  \<open>int\<close> of 64 bits.
\<close>

definition digits_value :: "text \<Rightarrow> int" where
  "digits_value ds = foldl (\<lambda>n d. 10 * n + (int d - 48)) 0 ds"

definition strconv_Atoi :: "text \<Rightarrow> int option" where
  "strconv_Atoi s =
     (let neg = (s \<noteq> [] \<and> hd s = 45);
          ds = (if s \<noteq> [] \<and> (hd s = 43 \<or> hd s = 45) then tl s else s);
          v = (if neg then - digits_value ds else digits_value ds) in
      if ds \<noteq> [] \<and> list_all (\<lambda>d. 48 \<le> d \<and> d \<le> 57) ds \<and> - (2 ^ 63) \<le> v \<and> v < 2 ^ 63
      then Some v else None)"

definition validateListenAddress :: "go_net \<Rightarrow> text \<Rightarrow> config_error option" where
  "validateListenAddress net raw =
     (let raw = strings_TrimSpace raw in
      if raw = [] then Some ListenAddressRequired
      else case net_SplitHostPort net raw of
        None \<Rightarrow> Some ListenAddressNotHostPort
      | Some (_, port) \<Rightarrow>
          (case strconv_Atoi port of
             None \<Rightarrow> Some ListenAddressPortRange
           | Some parsed \<Rightarrow> fail_if (parsed < 0 \<or> parsed > 65535) ListenAddressPortRange))"

fun validateOverridesFrom :: "text \<Rightarrow> nat \<Rightarrow> text list \<Rightarrow> config_error option" where
  "validateOverridesFrom label i [] = None"
| "validateOverridesFrom label i (v # vs) =
     (if strings_TrimSpace v = [] \<or> 61 \<notin> set v then Some (BadOverride label i)
      else validateOverridesFrom label (Suc i) vs)"

definition validateOverrides :: "text \<Rightarrow> text list \<Rightarrow> config_error option" where
  "validateOverrides label values = validateOverridesFrom label 0 values"

text \<open>The separators of target names in commands: spaces, and the ASCII and full-width comma and
  semicolon.\<close>

definition name_separator :: "rune \<Rightarrow> bool" where
  "name_separator r \<longleftrightarrow> unicode_IsSpace r \<or> r = 44 \<or> r = 65292 \<or> r = 59 \<or> r = 65307"

definition validateTargetFields :: "go_net \<Rightarrow> config_target \<Rightarrow> config_error option" where
  "validateTargetFields net t = first_error
     [validateHTTPURL net (t_Name t) (t_APIBaseURL t),
      fail_if (t_APIKey t = []) (TargetAPIKeyRequired (t_Name t)),
      fail_if (t_Model t = []) (TargetModelRequired (t_Name t)),
      fail_if (t_WireAPI t \<noteq> asc ''responses'') (TargetWireAPIUnsupported (t_Name t) (t_WireAPI t)),
      validateOverrides (t_Name t) (t_ConfigOverrides t)]"

fun validateTargets ::
  "go_net \<Rightarrow> text list \<Rightarrow> nat \<Rightarrow> config_target list \<Rightarrow> config_error option" where
  "validateTargets net seen i [] = None"
| "validateTargets net seen i (t # ts) =
     (let key = strings_ToLower (t_Name t) in
      first_error
       [fail_if (t_Name t = []) (TargetNameRequired i),
        fail_if (key = asc ''all'' \<or> key = [20840, 37096]) (TargetNameReserved (t_Name t)),
        fail_if (list_ex name_separator (t_Name t)) (TargetNameHasSeparator (t_Name t)),
        fail_if (key \<in> set seen) (DuplicateTargetName (t_Name t)),
        validateTargetFields net t,
        validateTargets net (key # seen) (Suc i) ts])"

definition validate :: "go_net \<Rightarrow> bool \<Rightarrow> config \<Rightarrow> config_error option" where
  "validate net allowEmptyTargets c =
     (let oi = c_OpenILink c; tg = c_Telegram c; cx = c_Codex c in
      first_error
       [(if IsOpenILinkEnabled oi then first_error
           [validateHTTPURL net (asc ''openilink.base_url'') (oi_BaseURL oi),
            fail_if (strings_TrimSpace (oi_Token oi) = []) OpenILinkTokenRequired,
            fail_if (oi_HTTPTimeoutSecond oi \<le> 0) OpenILinkTimeoutNotPositive] else None),
        (if IsTelegramEnabled tg then first_error
           [validateHTTPURL net (asc ''telegram.base_url'') (tg_BaseURL tg),
            fail_if (strings_TrimSpace (tg_Token tg) = []) TelegramTokenRequired,
            fail_if (tg_HTTPTimeoutSecond tg \<le> 0) TelegramHTTPTimeoutNotPositive,
            fail_if (tg_PollTimeoutSecond tg \<le> 0) TelegramPollTimeoutNotPositive,
            fail_if (tg_HTTPTimeoutSecond tg \<le> tg_PollTimeoutSecond tg)
              TelegramHTTPTimeoutNotAbovePoll] else None),
        fail_if (strings_TrimSpace (cx_Binary cx) = []) BinaryRequired,
        fail_if (cx_RequestTimeoutSecond cx \<le> 0) RequestTimeoutNotPositive,
        fail_if (cx_RetryMinSecond cx < minimumRetryIntervalSec \<or>
          cx_RetryMaxSecond cx < minimumRetryIntervalSec) RetryIntervalTooSmall,
        fail_if (cx_RetryMinSecond cx > cx_RetryMaxSecond cx) RetryMinAboveMax,
        fail_if (cx_KeepaliveMinSecond cx < minimumRetryIntervalSec \<or>
          cx_KeepaliveMaxSecond cx < minimumRetryIntervalSec) KeepaliveIntervalTooSmall,
        fail_if (cx_KeepaliveMinSecond cx > cx_KeepaliveMaxSecond cx) KeepaliveMinAboveMax,
        fail_if (cx_MaxParallel cx \<le> 0) MaxParallelNotPositive,
        fail_if (\<not> allowEmptyTargets \<and> cx_Targets cx = []) NoTargets,
        fail_if (wb_ActivityLimit (c_Web c) < 0) ActivityLimitNegative,
        validateOverrides (asc ''codex.config_overrides'') (cx_ConfigOverrides cx),
        validateTargets net [] 0 (cx_Targets cx)])"

definition Validate :: "go_net \<Rightarrow> config \<Rightarrow> config_error option" where
  "Validate net c = validate net False c"

text \<open>\<open>Load\<close>, from the decoded file on.\<close>

definition Load ::
  "go_net \<Rightarrow> (text \<Rightarrow> text) \<Rightarrow> (text \<Rightarrow> text) \<Rightarrow> config \<Rightarrow> config_error + config" where
  "Load net join_dir getenv decoded =
     (case resolveSecrets getenv (applyDefaults join_dir decoded) of
        Inl e \<Rightarrow> Inl e
      | Inr c \<Rightarrow> (case Validate net c of Some e \<Rightarrow> Inl e | None \<Rightarrow> Inr c))"

definition ValidateAllowEmptyTargets :: "go_net \<Rightarrow> config \<Rightarrow> config_error option" where
  "ValidateAllowEmptyTargets net c = validate net True c"

definition ValidateTarget :: "go_net \<Rightarrow> config_target \<Rightarrow> config_error option" where
  "ValidateTarget net t =
     (if t_SortOrder t < 0 then Some SortOrderNegative
      else ValidateAllowEmptyTargets net (DefaultDatabaseConfig
        \<lparr>c_Codex := (c_Codex DefaultDatabaseConfig)\<lparr>cx_Targets := [t]\<rparr>\<rparr>))"

fun validatePrompts :: "nat \<Rightarrow> text list \<Rightarrow> config_error option" where
  "validatePrompts i [] = None"
| "validatePrompts i (p # ps) =
     (if strings_TrimSpace p = [] then Some (PromptEmpty i) else validatePrompts (Suc i) ps)"

definition ValidateCodex :: "go_net \<Rightarrow> codex_config \<Rightarrow> config_error option" where
  "ValidateCodex net cx = first_error
     [fail_if (strings_TrimSpace (cx_PromptsFile cx) = []) PromptsFileRequired,
      fail_if (strings_TrimSpace (cx_SuccessMessage cx) = []) SuccessMessageRequired,
      fail_if (strings_TrimSpace (cx_ReasoningEffort cx) = []) ReasoningEffortRequired,
      fail_if (cx_PromptsPersisted cx \<and> cx_Prompts cx = []) PromptsEmpty,
      validatePrompts 0 (cx_Prompts cx),
      fail_if (strings_ToLower (strings_TrimSpace (cx_ReasoningEffort cx)) \<notin>
        {asc ''low'', asc ''medium'', asc ''high'', asc ''xhigh''}) ReasoningEffortInvalid,
      ValidateAllowEmptyTargets net (DefaultDatabaseConfig\<lparr>c_Codex := cx\<rparr>)]"

definition ValidateOpenILink :: "go_net \<Rightarrow> openilink_config \<Rightarrow> config_error option" where
  "ValidateOpenILink net oi = first_error
     [validateHTTPURL net (asc ''openilink.base_url'')
        (trim_right_slash (strings_TrimSpace (oi_BaseURL oi))),
      fail_if (oi_HTTPTimeoutSecond oi \<le> 0) OpenILinkTimeoutNotPositive,
      ValidateAllowEmptyTargets net
        (DefaultDatabaseConfig\<lparr>c_OpenILink := oi\<lparr>oi_enabledSet := True\<rparr>\<rparr>)]"

definition ValidateTelegram :: "go_net \<Rightarrow> telegram_config \<Rightarrow> config_error option" where
  "ValidateTelegram net tg = first_error
     [validateHTTPURL net (asc ''telegram.base_url'')
        (trim_right_slash (strings_TrimSpace (tg_BaseURL tg))),
      fail_if (tg_HTTPTimeoutSecond tg \<le> 0) TelegramHTTPTimeoutNotPositive,
      fail_if (tg_PollTimeoutSecond tg \<le> 0) TelegramPollTimeoutNotPositive,
      fail_if (tg_HTTPTimeoutSecond tg \<le> tg_PollTimeoutSecond tg) TelegramHTTPTimeoutNotAbovePoll,
      ValidateAllowEmptyTargets net
        (DefaultDatabaseConfig\<lparr>c_Telegram := tg\<lparr>tg_enabledSet := True\<rparr>\<rparr>)]"

fun validateTrustedProxies :: "go_net \<Rightarrow> nat \<Rightarrow> text list \<Rightarrow> config_error option" where
  "validateTrustedProxies net i [] = None"
| "validateTrustedProxies net i (p # ps) =
     (let proxy = strings_TrimSpace p in
      if proxy = asc ''*'' \<or> net_ParseIP net proxy \<or> net_ParseCIDR net proxy
      then validateTrustedProxies net (Suc i) ps else Some (TrustedProxyInvalid i))"

definition ValidateWeb :: "go_net \<Rightarrow> web_config \<Rightarrow> config_error option" where
  "ValidateWeb net w = first_error
     [fail_if (strings_TrimSpace (wb_ListenAddress w) = []) ListenAddressRequired,
      validateListenAddress net (wb_ListenAddress w),
      validateTrustedProxies net 0 (wb_TrustedProxies w),
      ValidateAllowEmptyTargets net (DefaultDatabaseConfig\<lparr>c_Web := w\<rparr>)]"

section \<open>What validation accepts\<close>

text \<open>The specification of an acceptable target, independent of the order of the checks.\<close>

definition valid_target :: "go_net \<Rightarrow> config_target \<Rightarrow> bool" where
  "valid_target net t \<longleftrightarrow>
     t_Name t \<noteq> [] \<and> strings_ToLower (t_Name t) \<notin> {asc ''all'', [20840, 37096]} \<and>
     (\<forall>r\<in>set (t_Name t). \<not> name_separator r) \<and>
     validateHTTPURL net (t_Name t) (t_APIBaseURL t) = None \<and>
     t_APIKey t \<noteq> [] \<and> t_Model t \<noteq> [] \<and> t_WireAPI t = asc ''responses'' \<and>
     (\<forall>v\<in>set (t_ConfigOverrides t). strings_TrimSpace v \<noteq> [] \<and> 61 \<in> set v)"

definition valid_timing :: "codex_config \<Rightarrow> bool" where
  "valid_timing cx \<longleftrightarrow>
     0 < cx_RequestTimeoutSecond cx \<and>
     1 \<le> cx_RetryMinSecond cx \<and> cx_RetryMinSecond cx \<le> cx_RetryMaxSecond cx \<and>
     1 \<le> cx_KeepaliveMinSecond cx \<and> cx_KeepaliveMinSecond cx \<le> cx_KeepaliveMaxSecond cx \<and>
     0 < cx_MaxParallel cx"

lemma validateOverridesFrom_None:
  "validateOverridesFrom label i vs = None \<longleftrightarrow>
   (\<forall>v\<in>set vs. strings_TrimSpace v \<noteq> [] \<and> 61 \<in> set v)"
  by (induction label i vs rule: validateOverridesFrom.induct) auto

lemma validateTargets_None:
  "validateTargets net seen i ts = None \<longleftrightarrow>
   list_all (valid_target net) ts \<and>
   distinct (map (\<lambda>t. strings_ToLower (t_Name t)) ts) \<and>
   set (map (\<lambda>t. strings_ToLower (t_Name t)) ts) \<inter> set seen = {}"
proof (induction net seen i ts rule: validateTargets.induct)
  case (2 net seen i t ts)
  have fields: "validateTargetFields net t = None \<and> t_Name t \<noteq> [] \<and>
      strings_ToLower (t_Name t) \<noteq> asc ''all'' \<and> strings_ToLower (t_Name t) \<noteq> [20840, 37096] \<and>
      \<not> list_ex name_separator (t_Name t) \<longleftrightarrow> valid_target net t"
    unfolding validateTargetFields_def valid_target_def validateOverrides_def
    by (auto simp: validateOverridesFrom_None list_ex_iff simp del: asc_Cons)
  show ?case
    using 2 fields[symmetric] by (auto simp: Let_def simp del: asc_Cons)
qed simp

lemma validate_timing: "validate net b c = None \<Longrightarrow> valid_timing (c_Codex c)"
  by (simp add: validate_def Let_def valid_timing_def minimumRetryIntervalSec_def)

lemma validate_targets:
  "validate net b c = None \<Longrightarrow>
   list_all (valid_target net) (cx_Targets (c_Codex c)) \<and>
   distinct (map (\<lambda>t. strings_ToLower (t_Name t)) (cx_Targets (c_Codex c)))"
  by (simp add: validate_def Let_def validateTargets_None)

lemma name_separator_space: "unicode_IsSpace r \<Longrightarrow> name_separator r"
  by (simp add: name_separator_def)

lemma separator_free_trim:
  assumes "\<forall>r\<in>set s. \<not> name_separator r"
  shows "strings_TrimSpace s = s"
proof -
  have "trimmed_by unicode_IsSpace s"
    unfolding trimmed_by_def using assms name_separator_space
    by (metis hd_in_set last_in_set)
  then show ?thesis by (simp add: strings_TrimSpace_def trimmed_by_id)
qed

section \<open>A sample configuration\<close>

definition sample_net :: go_net where
  "sample_net = \<lparr>url_Parse = (\<lambda>_. Some \<lparr>u_Scheme = asc ''https'', u_Host = asc ''h'', u_HasUser = False,
      u_Fragment = [], u_RawQuery = []\<rparr>),
    net_SplitHostPort = (\<lambda>_. Some ([], asc ''8080'')), net_ParseIP = (\<lambda>_. True),
    net_ParseCIDR = (\<lambda>_. True)\<rparr>"

definition sample_target :: config_target where
  "sample_target = \<lparr>t_ID = 1, t_SortOrder = 0, t_Name = asc ''a'', t_APIBaseURL = asc ''https://h'',
    t_APIKey = asc ''k'', t_APIKeyEnv = [], t_Model = asc ''m'', t_WireAPI = asc ''responses'',
    t_ConfigOverrides = [asc ''x=1'']\<rparr>"

definition sample_config :: config where
  "sample_config = DefaultDatabaseConfig
     \<lparr>c_Telegram := (c_Telegram DefaultDatabaseConfig)\<lparr>tg_Enabled := True, tg_Token := asc ''t''\<rparr>,
      c_Codex := (c_Codex DefaultDatabaseConfig)\<lparr>cx_Targets := [sample_target]\<rparr>\<rparr>"

lemmas sample_defs = sample_net_def sample_target_def sample_config_def DefaultDatabaseConfig_def
  config_constants

section \<open>Properties\<close>

text \<open>
  C40. Full validation accepts a configuration exactly when every enabled message adapter has a
  usable URL, a token and positive timeouts (Telegram's HTTP timeout above its poll timeout), the
  task settings are in range, the overrides are well formed, every target is acceptable and no
  two target names agree up to case.
\<close>

theorem validate_iff:
  "Validate net c = None \<longleftrightarrow>
     (\<not> IsOpenILinkEnabled (c_OpenILink c) \<or>
        validateHTTPURL net (asc ''openilink.base_url'') (oi_BaseURL (c_OpenILink c)) = None \<and>
        strings_TrimSpace (oi_Token (c_OpenILink c)) \<noteq> [] \<and>
        0 < oi_HTTPTimeoutSecond (c_OpenILink c)) \<and>
     (\<not> IsTelegramEnabled (c_Telegram c) \<or>
        validateHTTPURL net (asc ''telegram.base_url'') (tg_BaseURL (c_Telegram c)) = None \<and>
        strings_TrimSpace (tg_Token (c_Telegram c)) \<noteq> [] \<and>
        0 < tg_PollTimeoutSecond (c_Telegram c) \<and>
        tg_PollTimeoutSecond (c_Telegram c) < tg_HTTPTimeoutSecond (c_Telegram c)) \<and>
     strings_TrimSpace (cx_Binary (c_Codex c)) \<noteq> [] \<and> valid_timing (c_Codex c) \<and>
     cx_Targets (c_Codex c) \<noteq> [] \<and> 0 \<le> wb_ActivityLimit (c_Web c) \<and>
     (\<forall>v\<in>set (cx_ConfigOverrides (c_Codex c)). strings_TrimSpace v \<noteq> [] \<and> 61 \<in> set v) \<and>
     list_all (valid_target net) (cx_Targets (c_Codex c)) \<and>
     distinct (map (\<lambda>t. strings_ToLower (t_Name t)) (cx_Targets (c_Codex c)))"
  unfolding Validate_def validate_def Let_def valid_timing_def minimumRetryIntervalSec_def
    validateOverrides_def
  by (auto simp: validateTargets_None validateOverridesFrom_None simp del: asc_Cons)

theorem validate_iff_witness: "Validate sample_net sample_config = None"
  unfolding validate_iff
  by (simp add: sample_defs valid_target_def valid_timing_def validateHTTPURL_def name_separator_def
      IsOpenILinkEnabled_def strings_TrimSpace_def strings_ToLower_def unicode_IsSpace_def
      unicode_ToLower_def trim_by_def trim_left_by_def trim_right_by_def)

text \<open>
  The task-section validator accepts a maximal keepalive interval (and any other interval)
  whose conversion to \<open>time.Duration\<close> overflows: ten thousand million seconds pass the check and
  become a negative duration, below the minimum.
\<close>

lemma keepalive_overflow_accepted:
  "\<exists>cx. ValidateCodex net cx = None \<and>
     cx_KeepaliveMinSecond cx \<le> cx_KeepaliveMaxSecond cx \<and>
     KeepaliveMax (DefaultDatabaseConfig\<lparr>c_Codex := cx\<rparr>) < 0 \<and>
     0 < KeepaliveMin (DefaultDatabaseConfig\<lparr>c_Codex := cx\<rparr>)"
proof
  let ?cx = "(c_Codex DefaultDatabaseConfig)\<lparr>cx_KeepaliveMaxSecond := 10000000000\<rparr>"
  have "ValidateCodex net ?cx = None"
    by (simp add: ValidateCodex_def ValidateAllowEmptyTargets_def validate_def Let_def
        DefaultDatabaseConfig_def IsOpenILinkEnabled_def IsTelegramEnabled_def
        validateOverrides_def config_constants strings_TrimSpace_def strings_ToLower_def
        unicode_IsSpace_def unicode_ToLower_def trim_by_def trim_left_by_def trim_right_by_def)
  then show "ValidateCodex net ?cx = None \<and>
     cx_KeepaliveMinSecond ?cx \<le> cx_KeepaliveMaxSecond ?cx \<and>
     KeepaliveMax (DefaultDatabaseConfig\<lparr>c_Codex := ?cx\<rparr>) < 0 \<and>
     0 < KeepaliveMin (DefaultDatabaseConfig\<lparr>c_Codex := ?cx\<rparr>)"
    by (simp add: DefaultDatabaseConfig_def KeepaliveMax_def KeepaliveMin_def seconds_def
        wrap64_def second_def config_constants)
qed

end
