(* ===== verification/Sanitize.thy ===== *)
theory Sanitize
  imports Config
begin

text \<open>
  Text clean-up that keeps URLs and credentials out of logs and status fields:
  \<open>sanitizeTargetError\<close> and \<open>truncate\<close> of \<open>internal/jobs/manager.go\<close>, \<open>redact\<close> of
  \<open>internal/codex/runner.go\<close>, with the library functions they use (\<open>strings.ReplaceAll\<close>,
  \<open>url.QueryEscape\<close>, and the one regular expression, \<open>absoluteURLPattern\<close>).
\<close>

section \<open>Library functions\<close>

fun strip_prefix :: "'a list \<Rightarrow> 'a list \<Rightarrow> 'a list option" where
  "strip_prefix [] s = Some s"
| "strip_prefix (p # ps) [] = None"
| "strip_prefix (p # ps) (c # cs) = (if p = c then strip_prefix ps cs else None)"

lemma strip_prefix_Some: "strip_prefix p s = Some r \<longleftrightarrow> s = p @ r"
  by (induction p s rule: strip_prefix.induct) auto

lemma strip_prefix_None: "strip_prefix p s = None \<longleftrightarrow> (\<forall>r. s \<noteq> p @ r)"
  using strip_prefix_Some by (metis option.exhaust option.simps(3))

text \<open>\<open>strings.ReplaceAll(s, old, new)\<close> for a non-empty \<open>old\<close>: leftmost, non-overlapping.\<close>

function replace_all :: "'a list \<Rightarrow> 'a list \<Rightarrow> 'a list \<Rightarrow> 'a list" where
  "replace_all old new s =
     (if old = [] then s
      else case strip_prefix old s of
        Some rest \<Rightarrow> new @ replace_all old new rest
      | None \<Rightarrow> (case s of [] \<Rightarrow> [] | c # cs \<Rightarrow> c # replace_all old new cs))"
  by pat_completeness auto
termination
  by (relation "measure (\<lambda>(old, new, s). length s)") (auto simp: strip_prefix_Some)

declare replace_all.simps [simp del]

lemma replace_all_Nil [simp]: "replace_all old new [] = []"
  by (subst replace_all.simps) (auto split: option.split simp: strip_prefix_Some)

lemma replace_all_match:
  "old \<noteq> [] \<Longrightarrow> replace_all old new (old @ rest) = new @ replace_all old new rest"
  by (subst replace_all.simps) (auto split: option.split simp: strip_prefix_Some strip_prefix_None)

lemma replace_all_skip:
  "strip_prefix old (c # cs) = None \<Longrightarrow> replace_all old new (c # cs) = c # replace_all old new cs"
  by (subst replace_all.simps) (auto split: option.split)

text \<open>\<open>url.QueryEscape\<close> works on the UTF-8 bytes of the text.\<close>

definition utf8 :: "rune \<Rightarrow> nat list" where
  "utf8 r =
     (if r < 128 then [r]
      else if r < 2048 then [192 + r div 64, 128 + r mod 64]
      else if r < 65536 then [224 + r div 4096, 128 + r div 64 mod 64, 128 + r mod 64]
      else [240 + r div 262144, 128 + r div 4096 mod 64, 128 + r div 64 mod 64, 128 + r mod 64])"

definition hex_digit :: "nat \<Rightarrow> rune" where
  "hex_digit n = (if n < 10 then 48 + n else 55 + n)"

definition query_unreserved :: "nat \<Rightarrow> bool" where
  "query_unreserved b \<longleftrightarrow> 97 \<le> b \<and> b \<le> 122 \<or> 65 \<le> b \<and> b \<le> 90 \<or> 48 \<le> b \<and> b \<le> 57 \<or>
     b = 45 \<or> b = 95 \<or> b = 46 \<or> b = 126"

definition query_escape_byte :: "nat \<Rightarrow> text" where
  "query_escape_byte b =
     (if query_unreserved b then [b] else if b = 32 then [43]
      else [37, hex_digit (b div 16), hex_digit (b mod 16)])"

definition url_QueryEscape :: "text \<Rightarrow> text" where
  "url_QueryEscape s = concat (map query_escape_byte (concat (map utf8 s)))"

section \<open>The URL pattern\<close>

text \<open>
  \<open>(?i)\b(?:https?|wss?)://[^\s]+\<close> in Go's RE2: \<open>\b\<close> is a boundary between an ASCII word
  character and anything else, \<open>\s\<close> is one of tab, newline, form feed, return and space, and the
  scheme letters match in either case (\<open>s\<close> also matches U+017F, the long s).
\<close>

definition re_word :: "rune \<Rightarrow> bool" where
  "re_word r \<longleftrightarrow> 97 \<le> r \<and> r \<le> 122 \<or> 65 \<le> r \<and> r \<le> 90 \<or> 48 \<le> r \<and> r \<le> 57 \<or> r = 95"

definition re_space :: "rune \<Rightarrow> bool" where
  "re_space r \<longleftrightarrow> r = 9 \<or> r = 10 \<or> r = 12 \<or> r = 13 \<or> r = 32"

definition fold_eq :: "rune \<Rightarrow> rune \<Rightarrow> bool" where
  "fold_eq p c \<longleftrightarrow> c = p \<or> 97 \<le> p \<and> p \<le> 122 \<and> c + 32 = p \<or> p = 115 \<and> c = 383"

fun strip_fold :: "text \<Rightarrow> text \<Rightarrow> text option" where
  "strip_fold [] s = Some s"
| "strip_fold (p # ps) [] = None"
| "strip_fold (p # ps) (c # cs) = (if fold_eq p c then strip_fold ps cs else None)"

fun first_some :: "'a option list \<Rightarrow> 'a option" where
  "first_some [] = None"
| "first_some (Some x # xs) = Some x"
| "first_some (None # xs) = first_some xs"

text \<open>The rest of the text after a match that starts here, if there is one.\<close>

definition match_url :: "text \<Rightarrow> text option" where
  "match_url s =
     (case first_some (map (\<lambda>p. strip_fold p s)
        [asc ''https://'', asc ''http://'', asc ''wss://'', asc ''ws://'']) of
        None \<Rightarrow> None
      | Some rest \<Rightarrow> (if rest \<noteq> [] \<and> \<not> re_space (hd rest) then Some (dropWhile (\<lambda>r. \<not> re_space r) rest)
                     else None))"

lemma strip_fold_length: "strip_fold p s = Some r \<Longrightarrow> length r \<le> length s"
  by (induction p s rule: strip_fold.induct) (auto split: if_splits)

lemma first_some_mem: "first_some xs = Some x \<Longrightarrow> Some x \<in> set xs"
  by (induction xs rule: first_some.induct) auto

lemma match_url_length: "match_url s = Some r \<Longrightarrow> length r < length s"
proof -
  assume a: "match_url s = Some r"
  then obtain rest where rest: "first_some (map (\<lambda>p. strip_fold p s)
        [asc ''https://'', asc ''http://'', asc ''wss://'', asc ''ws://'']) = Some rest"
      and ne: "rest \<noteq> []" "\<not> re_space (hd rest)"
      and r: "r = dropWhile (\<lambda>r. \<not> re_space r) rest"
    by (auto simp: match_url_def split: option.splits if_splits simp del: asc_Cons)
  from first_some_mem[OF rest] have "length rest \<le> length s"
    by (auto simp del: asc_Cons dest: strip_fold_length[OF sym])
  moreover have "length r < length rest"
    using ne r by (cases rest) (auto simp: le_imp_less_Suc length_dropWhile_le)
  ultimately show ?thesis by simp
qed

text \<open>\<open>ReplaceAllString(value, "[URL]")\<close>; \<open>prev\<close> tells whether the code point before is a word
  character.\<close>

function redact_urls_from :: "bool \<Rightarrow> text \<Rightarrow> text" where
  "redact_urls_from prev [] = []"
| "redact_urls_from prev (c # cs) =
     (case (if prev then None else match_url (c # cs)) of
        Some rest \<Rightarrow> asc ''[URL]'' @ redact_urls_from False rest
      | None \<Rightarrow> c # redact_urls_from (re_word c) cs)"
  by pat_completeness auto
termination
  by (relation "measure (\<lambda>(prev, s). length s)")
    (auto split: if_splits dest: match_url_length)

definition redact_urls :: "text \<Rightarrow> text" where
  "redact_urls s = redact_urls_from False s"

section \<open>Sanitising\<close>

definition truncate_text :: "text \<Rightarrow> nat \<Rightarrow> text" where
  "truncate_text value maximum =
     (let value = strings_TrimSpace value in
      if length value \<le> maximum then value else take maximum value @ [8230])"

definition redacted :: "text" where "redacted = asc ''[REDACTED]''"

fun redact :: "text \<Rightarrow> text list \<Rightarrow> text" where
  "redact value [] = value"
| "redact value (secret # secrets) =
     redact (if secret = [] then value else replace_all secret redacted value) secrets"

definition sanitizeTargetError :: "config_target \<Rightarrow> text \<Rightarrow> text" where
  "sanitizeTargetError t value =
     truncate_text
       (redact (redact_urls (strings_TrimSpace value))
          [t_APIKey t, url_QueryEscape (t_APIKey t), t_APIKeyEnv t]) 600"

lemma length_truncate_text: "length (truncate_text v n) \<le> Suc n"
  by (simp add: truncate_text_def Let_def)

lemma length_sanitize: "length (sanitizeTargetError t v) \<le> 601"
  using length_truncate_text[of _ 600] by (simp add: sanitizeTargetError_def)

end
