(* ===== verification/Jobs.thy ===== *)
theory Jobs
  imports Sanitize "HOL-Library.Monad_Syntax" "HOL-Library.Product_Lexorder"
    "HOL-Library.List_Lexorder"
begin

text \<open>
  The job manager of \<open>internal/jobs/manager.go\<close>: its state and the sections of its methods that
  run under \<open>Manager.mu\<close>. Each section is a function from the manager to the manager; where the
  source would dereference the pointer of a missing map entry, the section is \<open>None\<close> (the Go
  program panics). The current time, random draws and outcomes of \<open>persist\<close> callbacks are
  arguments. The goroutines that call the sections in turn are in theory \<open>Scheduler\<close>.

  Representation: a channel that is only ever closed and replaced (\<open>targetArbiter.changed\<close>,
  \<open>parallelChanged\<close>, \<open>scheduleChanged\<close>) is a counter of its replacements; a waiter remembers the
  value it saw and is woken when the counter differs. A \<open>context.CancelFunc\<close> is the number of
  the context it cancels, and \<open>m_cancelled\<close> holds the contexts cancelled so far. Run identifiers
  (\<open>uint64\<close>) are natural numbers. \<open>m_targetHost\<close> stands for \<open>codex.TargetHost\<close>.
\<close>

section \<open>Data\<close>

type_synonym key = "text"
type_synonym ctxid = nat
type_synonym messenger = nat

datatype qstate = StateIdle | StateRunning | StateSucceeded | StateStopped

datatype kstate =
    KeepaliveStateRequesting | KeepaliveStateWaitingQueue
  | KeepaliveStateWaitingNext | KeepaliveStateStopped

datatype requestOwner =
  requestOwnerNone | requestOwnerQueue | requestOwnerKeepalive | requestOwnerAdhoc

record codex_result =
  r_Success :: bool
  r_Response :: "text"
  r_ProcessOutput :: "text"
  r_ExitCode :: int
  r_Error :: "text"
  r_Duration :: duration

record subscriber =
  s_Recipient :: "text"
  s_TraceID :: "text"
  s_Key :: "text"
  s_Messenger :: "messenger option"

record job =
  j_state :: qstate
  j_attempts :: nat
  j_startedAt :: gotime
  j_lastAttempt :: gotime
  j_nextAttempt :: gotime
  j_finishedAt :: gotime
  j_lastError :: "text"
  j_runID :: nat
  j_cancel :: "ctxid option"
  j_subscribers :: "(text \<times> subscriber) list"
  j_workers :: nat

record keepaliveJob =
  k_state :: kstate
  k_requests :: nat
  k_startedAt :: gotime
  k_lastRequest :: gotime
  k_lastSuccess :: gotime
  k_lastFailure :: gotime
  k_nextRequest :: gotime
  k_stoppedAt :: gotime
  k_lastError :: "text"
  k_runID :: nat
  k_cancel :: "ctxid option"
  k_scheduleChanged :: nat
  k_workers :: nat

record targetArbiter =
  a_owner :: requestOwner
  a_ownerRunID :: nat
  a_cancel :: "ctxid option"
  a_changed :: nat

record queueSnapshot =
  qs_Name :: "text"
  qs_Model :: "text"
  qs_APIHost :: "text"
  qs_State :: qstate
  qs_Attempts :: nat
  qs_StartedAt :: gotime
  qs_LastAttempt :: gotime
  qs_NextAttempt :: gotime
  qs_FinishedAt :: gotime
  qs_LastError :: "text"

record keepaliveSnapshot =
  ks_Name :: "text"
  ks_Model :: "text"
  ks_APIHost :: "text"
  ks_State :: kstate
  ks_Requests :: nat
  ks_StartedAt :: gotime
  ks_LastRequest :: gotime
  ks_LastSuccess :: gotime
  ks_LastFailure :: gotime
  ks_NextRequest :: gotime
  ks_StoppedAt :: gotime
  ks_LastError :: "text"

record targetSnapshot =
  ts_ID :: int
  ts_SortOrder :: int
  ts_Name :: "text"
  ts_Model :: "text"
  ts_APIHost :: "text"
  ts_Busy :: bool
  ts_AdhocRunning :: bool
  ts_Queue :: queueSnapshot
  ts_Keepalive :: keepaliveSnapshot

record managerSnapshot =
  ms_Targets :: "targetSnapshot list"
  ms_CurrentProcesses :: nat
  ms_MaxParallel :: int

record mgr_event =
  ev_ID :: nat
  ev_Snapshot :: managerSnapshot

text \<open>A buffered Go channel of events: its capacity and what is buffered.\<close>

record event_chan =
  ch_cap :: nat
  ch_buf :: "mgr_event list"

record manager =
  m_targetHost :: "config_target \<Rightarrow> text"
  m_messenger :: "messenger option"
  m_keepaliveMin :: duration
  m_keepaliveMax :: duration
  m_successMessage :: "text"
  m_maxParallel :: int
  m_targets :: "key \<rightharpoonup> config_target"
  m_order :: "key list"
  m_jobs :: "key \<rightharpoonup> job"
  m_keepalives :: "key \<rightharpoonup> keepaliveJob"
  m_arbiters :: "key \<rightharpoonup> targetArbiter"
  m_currentProcesses :: nat
  m_slotsInUse :: nat
  m_nextEventID :: nat
  m_nextObserverID :: nat
  m_nextAdhocRunID :: nat
  m_observers :: "(nat \<times> event_chan) list"
  m_runWG :: nat
  m_shuttingDown :: bool
  m_parallelChanged :: nat
  m_nextCtx :: ctxid
  m_cancelled :: "ctxid set"
  m_rootDone :: bool

datatype manager_error =
    ErrTargetBusy | ErrTargetNotFound | ErrTargetConflict | ErrAdhocUnavailable
  | ErrShuttingDown | ErrPersist "text"

record startResult =
  sr_Started :: "text list"
  sr_Already :: "text list"
  sr_Unknown :: "text list"

record stopResult =
  st_Stopped :: "text list"
  st_Inactive :: "text list"
  st_Unknown :: "text list"

section \<open>Names and contexts\<close>

definition zero_target :: config_target where
  "zero_target = \<lparr>t_ID = 0, t_SortOrder = 0, t_Name = [], t_APIBaseURL = [], t_APIKey = [],
     t_APIKeyEnv = [], t_Model = [], t_WireAPI = [], t_ConfigOverrides = []\<rparr>"

text \<open>Reading \<open>m.targets[key]\<close> yields the zero \<open>Target\<close> for a missing key.\<close>

definition target_at :: "manager \<Rightarrow> key \<Rightarrow> config_target" where
  "target_at m k = (case m_targets m k of None \<Rightarrow> zero_target | Some t \<Rightarrow> t)"

definition normalizeName :: "text \<Rightarrow> key" where
  "normalizeName value = strings_ToLower (strings_TrimSpace value)"

definition containsAll :: "text list \<Rightarrow> bool" where
  "containsAll names \<longleftrightarrow>
     list_ex (\<lambda>n. normalizeName n \<in> {asc ''all'', [20840, 37096], asc ''*''}) names"

fun resolve_names :: "(key \<rightharpoonup> config_target) \<Rightarrow> key list \<Rightarrow> text list \<Rightarrow> key list \<times> text list" where
  "resolve_names tm seen [] = ([], [])"
| "resolve_names tm seen (name # names) =
     (let key = normalizeName name in
      if key = [] \<or> key \<in> set seen then resolve_names tm seen names
      else let (keys, unknown) = resolve_names tm (key # seen) names in
        if tm key = None then (keys, name # unknown) else (key # keys, unknown))"

definition resolveLocked :: "manager \<Rightarrow> text list \<Rightarrow> key list \<times> text list" where
  "resolveLocked m names =
     (if names = [] \<or> containsAll names then (m_order m, [])
      else resolve_names (m_targets m) [] names)"

definition job_ctx_done :: "manager \<Rightarrow> ctxid \<Rightarrow> bool" where
  "job_ctx_done m c \<longleftrightarrow> c \<in> m_cancelled m \<or> m_rootDone m"

definition cancel_ctx :: "ctxid option \<Rightarrow> manager \<Rightarrow> manager" where
  "cancel_ctx c m = (case c of None \<Rightarrow> m | Some i \<Rightarrow> m\<lparr>m_cancelled := insert i (m_cancelled m)\<rparr>)"

text \<open>\<open>context.WithCancel\<close>: the next context number is taken.\<close>

definition with_cancel :: "manager \<Rightarrow> ctxid \<times> manager" where
  "with_cancel m = (m_nextCtx m, m\<lparr>m_nextCtx := Suc (m_nextCtx m)\<rparr>)"

definition randomDuration :: "int \<Rightarrow> duration \<Rightarrow> duration \<Rightarrow> duration" where
  "randomDuration draw minimum maximum =
     (if maximum \<le> minimum then minimum else minimum + draw mod (maximum - minimum + 1))"

definition minDuration :: "duration \<Rightarrow> duration \<Rightarrow> duration" where
  "minDuration a b = (if a < b then a else b)"

section \<open>Snapshots and observers\<close>

definition targetBusyLocked :: "manager \<Rightarrow> key \<Rightarrow> bool option" where
  "targetBusyLocked m k = do {
     j \<leftarrow> m_jobs m k;
     ka \<leftarrow> m_keepalives m k;
     a \<leftarrow> m_arbiters m k;
     Some (j_state j = StateRunning \<or> j_workers j > 0 \<or>
           k_state ka \<noteq> KeepaliveStateStopped \<or> k_workers ka > 0 \<or>
           a_owner a \<noteq> requestOwnerNone) }"

definition queueSnapshotLocked :: "manager \<Rightarrow> key \<Rightarrow> queueSnapshot option" where
  "queueSnapshotLocked m k = do {
     j \<leftarrow> m_jobs m k;
     let t = target_at m k;
     Some \<lparr>qs_Name = t_Name t, qs_Model = t_Model t, qs_APIHost = m_targetHost m t,
       qs_State = j_state j, qs_Attempts = j_attempts j, qs_StartedAt = j_startedAt j,
       qs_LastAttempt = j_lastAttempt j, qs_NextAttempt = j_nextAttempt j,
       qs_FinishedAt = j_finishedAt j, qs_LastError = j_lastError j\<rparr> }"

definition keepaliveSnapshotLocked :: "manager \<Rightarrow> key \<Rightarrow> keepaliveSnapshot option" where
  "keepaliveSnapshotLocked m k = do {
     ka \<leftarrow> m_keepalives m k;
     let t = target_at m k;
     Some \<lparr>ks_Name = t_Name t, ks_Model = t_Model t, ks_APIHost = m_targetHost m t,
       ks_State = k_state ka, ks_Requests = k_requests ka, ks_StartedAt = k_startedAt ka,
       ks_LastRequest = k_lastRequest ka, ks_LastSuccess = k_lastSuccess ka,
       ks_LastFailure = k_lastFailure ka, ks_NextRequest = k_nextRequest ka,
       ks_StoppedAt = k_stoppedAt ka, ks_LastError = k_lastError ka\<rparr> }"

definition targetSnapshotLocked :: "manager \<Rightarrow> key \<Rightarrow> targetSnapshot option" where
  "targetSnapshotLocked m k = do {
     q \<leftarrow> queueSnapshotLocked m k;
     ka \<leftarrow> keepaliveSnapshotLocked m k;
     busy \<leftarrow> targetBusyLocked m k;
     a \<leftarrow> m_arbiters m k;
     let t = target_at m k;
     Some \<lparr>ts_ID = t_ID t, ts_SortOrder = t_SortOrder t, ts_Name = qs_Name q,
       ts_Model = qs_Model q, ts_APIHost = qs_APIHost q, ts_Busy = busy,
       ts_AdhocRunning = (a_owner a = requestOwnerAdhoc), ts_Queue = q, ts_Keepalive = ka\<rparr> }"

definition snapshotLocked :: "manager \<Rightarrow> managerSnapshot option" where
  "snapshotLocked m = do {
     ts \<leftarrow> those (map (targetSnapshotLocked m) (m_order m));
     Some \<lparr>ms_Targets = ts, ms_CurrentProcesses = m_currentProcesses m,
           ms_MaxParallel = m_maxParallel m\<rparr> }"

text \<open>
  \<open>publishLocked\<close> never blocks: an observer whose buffer is full is removed and its channel closed.
\<close>

definition publish_one :: "mgr_event \<Rightarrow> nat \<times> event_chan \<Rightarrow> (nat \<times> event_chan) option" where
  "publish_one ev ob =
     (if length (ch_buf (snd ob)) < ch_cap (snd ob)
      then Some (fst ob, (snd ob)\<lparr>ch_buf := ch_buf (snd ob) @ [ev]\<rparr>) else None)"

definition publishLocked :: "mgr_event \<Rightarrow> manager \<Rightarrow> manager" where
  "publishLocked ev m = m\<lparr>m_observers := List.map_filter (publish_one ev) (m_observers m)\<rparr>"

definition broadcastStateLocked :: "manager \<Rightarrow> manager option" where
  "broadcastStateLocked m = do {
     snapshot \<leftarrow> snapshotLocked m;
     Some (publishLocked \<lparr>ev_ID = Suc (m_nextEventID m), ev_Snapshot = snapshot\<rparr>
       (m\<lparr>m_nextEventID := Suc (m_nextEventID m)\<rparr>)) }"

definition Observe :: "int \<Rightarrow> manager \<Rightarrow> (managerSnapshot \<times> nat \<times> manager) option" where
  "Observe buffer m = do {
     let cap = (if buffer \<le> 0 then 32 else nat buffer);
     let ob = Suc (m_nextObserverID m);
     let m' = m\<lparr>m_nextObserverID := ob,
                m_observers := m_observers m @ [(ob, \<lparr>ch_cap = cap, ch_buf = []\<rparr>)]\<rparr>;
     snapshot \<leftarrow> snapshotLocked m';
     Some (snapshot, ob, m') }"

text \<open>\<open>Subscription.Close\<close>\<close>

definition closeObserver :: "nat \<Rightarrow> manager \<Rightarrow> manager" where
  "closeObserver ob m = m\<lparr>m_observers := filter (\<lambda>o'. fst o' \<noteq> ob) (m_observers m)\<rparr>"

text \<open>The observer's side of the channel: take the oldest buffered event.\<close>

definition receiveEvent :: "nat \<Rightarrow> manager \<Rightarrow> (mgr_event \<times> manager) option" where
  "receiveEvent ob m =
     (case map_of (m_observers m) ob of
        None \<Rightarrow> None
      | Some ch \<Rightarrow> (case ch_buf ch of
          [] \<Rightarrow> None
        | ev # evs \<Rightarrow> Some (ev, m\<lparr>m_observers := AList.update ob (ch\<lparr>ch_buf := evs\<rparr>) (m_observers m)\<rparr>)))"

definition ObserverCount :: "manager \<Rightarrow> nat" where
  "ObserverCount m = length (m_observers m)"

section \<open>Signals\<close>

definition signalTargetLocked :: "key \<Rightarrow> manager \<Rightarrow> manager option" where
  "signalTargetLocked k m = do {
     a \<leftarrow> m_arbiters m k;
     Some (m\<lparr>m_arbiters := (m_arbiters m)(k \<mapsto> a\<lparr>a_changed := Suc (a_changed a)\<rparr>)\<rparr>) }"

definition signalParallelLocked :: "manager \<Rightarrow> manager" where
  "signalParallelLocked m = m\<lparr>m_parallelChanged := Suc (m_parallelChanged m)\<rparr>"

definition releaseTargetLocked :: "key \<Rightarrow> requestOwner \<Rightarrow> nat \<Rightarrow> manager \<Rightarrow> manager option" where
  "releaseTargetLocked k owner runID m = do {
     a \<leftarrow> m_arbiters m k;
     if a_owner a \<noteq> owner \<or> a_ownerRunID a \<noteq> runID then Some m
     else signalTargetLocked k (m\<lparr>m_arbiters := (m_arbiters m)(k \<mapsto>
            a\<lparr>a_owner := requestOwnerNone, a_ownerRunID := 0, a_cancel := None\<rparr>)\<rparr>) }"

section \<open>Construction\<close>

definition fresh_job :: job where
  "fresh_job = \<lparr>j_state = StateIdle, j_attempts = 0, j_startedAt = time_zero,
     j_lastAttempt = time_zero, j_nextAttempt = time_zero, j_finishedAt = time_zero,
     j_lastError = [], j_runID = 0, j_cancel = None, j_subscribers = [], j_workers = 0\<rparr>"

definition fresh_keepalive :: keepaliveJob where
  "fresh_keepalive = \<lparr>k_state = KeepaliveStateStopped, k_requests = 0, k_startedAt = time_zero,
     k_lastRequest = time_zero, k_lastSuccess = time_zero, k_lastFailure = time_zero,
     k_nextRequest = time_zero, k_stoppedAt = time_zero, k_lastError = [], k_runID = 0,
     k_cancel = None, k_scheduleChanged = 0, k_workers = 0\<rparr>"

definition fresh_arbiter :: targetArbiter where
  "fresh_arbiter = \<lparr>a_owner = requestOwnerNone, a_ownerRunID = 0, a_cancel = None, a_changed = 0\<rparr>"

definition add_entry :: "config_target \<Rightarrow> manager \<Rightarrow> manager" where
  "add_entry t m =
     (let k = normalizeName (t_Name t) in
      m\<lparr>m_targets := (m_targets m)(k \<mapsto> t), m_order := m_order m @ [k],
        m_jobs := (m_jobs m)(k \<mapsto> fresh_job),
        m_keepalives := (m_keepalives m)(k \<mapsto> fresh_keepalive),
        m_arbiters := (m_arbiters m)(k \<mapsto> fresh_arbiter)\<rparr>)"

definition empty_manager ::
  "(config_target \<Rightarrow> text) \<Rightarrow> messenger option \<Rightarrow> duration \<Rightarrow> duration \<Rightarrow> int \<Rightarrow> text \<Rightarrow> manager" where
  "empty_manager targetHost messenger keepaliveMin keepaliveMax maxParallel successMessage =
    \<lparr>m_targetHost = targetHost, m_messenger = messenger, m_keepaliveMin = keepaliveMin,
     m_keepaliveMax = keepaliveMax, m_successMessage = successMessage,
     m_maxParallel = maxParallel, m_targets = Map.empty, m_order = [], m_jobs = Map.empty,
     m_keepalives = Map.empty, m_arbiters = Map.empty, m_currentProcesses = 0, m_slotsInUse = 0,
     m_nextEventID = 0, m_nextObserverID = 0, m_nextAdhocRunID = 0, m_observers = [],
     m_runWG = 0, m_shuttingDown = False, m_parallelChanged = 0, m_nextCtx = 0,
     m_cancelled = {}, m_rootDone = False\<rparr>"

definition New ::
  "(config_target \<Rightarrow> text) \<Rightarrow> config_target list \<Rightarrow> messenger option \<Rightarrow> duration \<Rightarrow> duration \<Rightarrow>
   int \<Rightarrow> text \<Rightarrow> manager" where
  "New targetHost targets messenger keepaliveMin keepaliveMax maxParallel successMessage =
     fold add_entry targets
       (empty_manager targetHost messenger keepaliveMin keepaliveMax maxParallel successMessage)"

section \<open>Stopping\<close>

definition stopQueueLocked :: "int \<Rightarrow> key \<Rightarrow> manager \<Rightarrow> manager option" where
  "stopQueueLocked now k m =
     (case m_jobs m k of
        None \<Rightarrow> Some m
      | Some j \<Rightarrow>
          if j_state j \<noteq> StateRunning \<and> j_workers j = 0 then Some m
          else do {
            let j1 = j\<lparr>j_runID := Suc (j_runID j), j_cancel := None\<rparr>;
            let j2 = (if j_state j = StateRunning then
                        j1\<lparr>j_state := StateStopped, j_finishedAt := Some now,
                           j_nextAttempt := time_zero, j_subscribers := []\<rparr> else j1);
            m1 \<leftarrow> signalTargetLocked k (m\<lparr>m_jobs := (m_jobs m)(k \<mapsto> j2)\<rparr>);
            Some (cancel_ctx (j_cancel j) m1) })"

definition stopKeepaliveLocked :: "int \<Rightarrow> key \<Rightarrow> manager \<Rightarrow> manager option" where
  "stopKeepaliveLocked now k m =
     (case m_keepalives m k of
        None \<Rightarrow> Some m
      | Some ka \<Rightarrow>
          if k_state ka = KeepaliveStateStopped \<and> k_workers ka = 0 then Some m
          else do {
            let k1 = ka\<lparr>k_runID := Suc (k_runID ka), k_cancel := None\<rparr>;
            let k2 = (if k_state ka \<noteq> KeepaliveStateStopped then
                        k1\<lparr>k_state := KeepaliveStateStopped, k_stoppedAt := Some now,
                           k_nextRequest := time_zero\<rparr> else k1);
            m1 \<leftarrow> signalTargetLocked k (m\<lparr>m_keepalives := (m_keepalives m)(k \<mapsto> k2)\<rparr>);
            Some (cancel_ctx (k_cancel ka) m1) })"

definition stopAdhocLocked :: "key \<Rightarrow> manager \<Rightarrow> manager" where
  "stopAdhocLocked k m =
     (case m_arbiters m k of
        None \<Rightarrow> m
      | Some a \<Rightarrow>
          if a_owner a \<noteq> requestOwnerAdhoc then m
          else cancel_ctx (a_cancel a)
            (m\<lparr>m_arbiters := (m_arbiters m)(k \<mapsto> a\<lparr>a_cancel := None\<rparr>)\<rparr>))"

text \<open>One target of the loop of \<open>stop\<close>: whether anything was running there, and the new state.\<close>

definition stop_target :: "int \<Rightarrow> key \<Rightarrow> manager \<Rightarrow> (bool \<times> manager) option" where
  "stop_target now k m = do {
     j \<leftarrow> m_jobs m k;
     ka \<leftarrow> m_keepalives m k;
     let queueActive = (j_state j = StateRunning \<or> j_workers j > 0);
     m1 \<leftarrow> (if queueActive then stopQueueLocked now k m else Some m);
     let keepaliveActive = (k_state ka \<noteq> KeepaliveStateStopped \<or> k_workers ka > 0);
     m2 \<leftarrow> (if keepaliveActive then stopKeepaliveLocked now k m1 else Some m1);
     a \<leftarrow> m_arbiters m2 k;
     let adhocActive = (a_owner a = requestOwnerAdhoc);
     Some (queueActive \<or> keepaliveActive \<or> adhocActive,
           if adhocActive then stopAdhocLocked k m2 else m2) }"

fun stop_targets ::
  "int \<Rightarrow> key list \<Rightarrow> stopResult \<times> bool \<times> manager \<Rightarrow> (stopResult \<times> bool \<times> manager) option" where
  "stop_targets now [] s = Some s"
| "stop_targets now (k # ks) (res, changed, m) = do {
     (stopped, m') \<leftarrow> stop_target now k m;
     let name = t_Name (target_at m k);
     stop_targets now ks
       (if stopped then (res\<lparr>st_Stopped := st_Stopped res @ [name]\<rparr>, True, m')
        else (res\<lparr>st_Inactive := st_Inactive res @ [name]\<rparr>, changed, m')) }"

text \<open>\<open>stop\<close>, the implementation of \<open>Stop\<close>, \<open>StopTask\<close> and \<open>StopKeepalive\<close>.\<close>

definition StopTask :: "int \<Rightarrow> text list \<Rightarrow> manager \<Rightarrow> (stopResult \<times> manager) option" where
  "StopTask now names m = do {
     let (keys, unknown) = resolveLocked m names;
     (res, changed, m1) \<leftarrow> stop_targets now keys
        (\<lparr>st_Stopped = [], st_Inactive = [], st_Unknown = unknown\<rparr>, False, m);
     m2 \<leftarrow> (if changed then broadcastStateLocked m1 else Some m1);
     Some (res, m2) }"

section \<open>Starting\<close>

definition addSubscriberLocked :: "subscriber \<Rightarrow> job \<Rightarrow> job" where
  "addSubscriberLocked s j =
     (if s_Recipient s = [] then j
      else let k = strings_TrimSpace (s_Key s);
               k' = (if k = [] then s_Recipient s else k)
           in j\<lparr>j_subscribers := AList.update k' s (j_subscribers j)\<rparr>)"

text \<open>
  The section of \<open>prepareMode\<close>: refuse, or ask the active modes to stop and report whether the
  target is still busy (then the caller waits for it to become idle and tries again).
\<close>

datatype prepare_result = PrepareRefused | PrepareBusy | PrepareReady

definition prepareMode :: "int \<Rightarrow> key \<Rightarrow> requestOwner \<Rightarrow> manager \<Rightarrow> (prepare_result \<times> manager) option" where
  "prepareMode now k desired m =
     (if m_targets m k = None \<or> m_shuttingDown m then Some (PrepareRefused, m)
      else do {
        j \<leftarrow> m_jobs m k;
        ka \<leftarrow> m_keepalives m k;
        a \<leftarrow> m_arbiters m k;
        if desired = requestOwnerQueue \<and> j_state j = StateRunning then Some (PrepareRefused, m)
        else if desired = requestOwnerKeepalive \<and> k_state ka \<noteq> KeepaliveStateStopped
        then Some (PrepareRefused, m)
        else do {
          let stopA = (a_owner a = requestOwnerAdhoc);
          let m1 = (if stopA then stopAdhocLocked k m else m);
          let stopK = (desired = requestOwnerQueue \<and>
                       (k_state ka \<noteq> KeepaliveStateStopped \<or> k_workers ka > 0));
          m2 \<leftarrow> (if stopK then stopKeepaliveLocked now k m1 else Some m1);
          let stopQ = (desired = requestOwnerKeepalive \<and> (j_state j = StateRunning \<or> j_workers j > 0));
          m3 \<leftarrow> (if stopQ then stopQueueLocked now k m2 else Some m2);
          busy \<leftarrow> targetBusyLocked m3 k;
          m4 \<leftarrow> (if stopA \<or> stopK \<or> stopQ then broadcastStateLocked m3 else Some m3);
          Some (if busy then PrepareBusy else PrepareReady, m4) } })"

text \<open>
  What \<open>startQueue\<close> and \<open>startKeepalive\<close> do when \<open>prepareMode\<close> refuses, and their final section.
  \<open>CommitRetry\<close> is the \<open>continue\<close> of their loops; \<open>CommitStarted\<close> carries the target name, the run
  identifier and the context of the goroutine that is started.
\<close>

datatype commit_result =
    CommitMissing | CommitAlready "text" | CommitRetry | CommitStarted "text" nat ctxid

definition queueRefused :: "key \<Rightarrow> subscriber \<Rightarrow> manager \<Rightarrow> (commit_result \<times> manager) option" where
  "queueRefused k s m =
     (case m_targets m k of
        None \<Rightarrow> Some (CommitMissing, m)
      | Some t \<Rightarrow>
          if s_Recipient s = [] then Some (CommitAlready (t_Name t), m)
          else do {
            j \<leftarrow> m_jobs m k;
            Some (CommitAlready (t_Name t),
              if j_state j = StateRunning
              then m\<lparr>m_jobs := (m_jobs m)(k \<mapsto> addSubscriberLocked s j)\<rparr> else m) })"

definition keepaliveRefused :: "key \<Rightarrow> manager \<Rightarrow> (commit_result \<times> manager) option" where
  "keepaliveRefused k m =
     (case m_targets m k of
        None \<Rightarrow> Some (CommitMissing, m)
      | Some t \<Rightarrow> Some (CommitAlready (t_Name t), m))"

definition startQueueCommit ::
  "int \<Rightarrow> key \<Rightarrow> subscriber \<Rightarrow> manager \<Rightarrow> (commit_result \<times> manager) option" where
  "startQueueCommit now k s m =
     (case m_targets m k of
        None \<Rightarrow> Some (CommitMissing, m)
      | Some t \<Rightarrow>
          if m_shuttingDown m then Some (CommitAlready (t_Name t), m)
          else do {
            j \<leftarrow> m_jobs m k;
            if j_state j = StateRunning then
              Some (CommitAlready (t_Name t),
                m\<lparr>m_jobs := (m_jobs m)(k \<mapsto> addSubscriberLocked s j)\<rparr>)
            else do {
              ka \<leftarrow> m_keepalives m k;
              if k_state ka \<noteq> KeepaliveStateStopped \<or> k_workers ka > 0 then Some (CommitRetry, m)
              else do {
                let (c, m1) = with_cancel m;
                let j1 = (addSubscriberLocked s j)\<lparr>j_runID := Suc (j_runID j),
                  j_cancel := Some c, j_state := StateRunning, j_attempts := 0,
                  j_startedAt := Some now, j_lastAttempt := time_zero,
                  j_nextAttempt := time_zero, j_finishedAt := time_zero, j_lastError := []\<rparr>;
                m2 \<leftarrow> broadcastStateLocked (m1\<lparr>m_jobs := (m_jobs m1)(k \<mapsto> j1)\<rparr>);
                m3 \<leftarrow> signalTargetLocked k m2;
                Some (CommitStarted (t_Name t) (j_runID j1) c,
                  m3\<lparr>m_runWG := Suc (m_runWG m3),
                     m_jobs := (m_jobs m3)(k \<mapsto> j1\<lparr>j_workers := Suc (j_workers j1)\<rparr>)\<rparr>) } } })"

definition startKeepaliveCommit :: "int \<Rightarrow> key \<Rightarrow> manager \<Rightarrow> (commit_result \<times> manager) option" where
  "startKeepaliveCommit now k m =
     (case m_targets m k of
        None \<Rightarrow> Some (CommitMissing, m)
      | Some t \<Rightarrow>
          if m_shuttingDown m then Some (CommitAlready (t_Name t), m)
          else do {
            ka \<leftarrow> m_keepalives m k;
            if k_state ka \<noteq> KeepaliveStateStopped then Some (CommitAlready (t_Name t), m)
            else do {
              j \<leftarrow> m_jobs m k;
              if j_state j = StateRunning \<or> j_workers j > 0 then Some (CommitRetry, m)
              else do {
                let (c, m1) = with_cancel m;
                let k1 = ka\<lparr>k_runID := Suc (k_runID ka), k_cancel := Some c,
                  k_state := KeepaliveStateRequesting, k_requests := 0,
                  k_startedAt := Some now, k_lastRequest := time_zero,
                  k_lastSuccess := time_zero, k_lastFailure := time_zero,
                  k_nextRequest := time_zero, k_stoppedAt := time_zero, k_lastError := []\<rparr>;
                m2 \<leftarrow> broadcastStateLocked (m1\<lparr>m_keepalives := (m_keepalives m1)(k \<mapsto> k1)\<rparr>);
                m3 \<leftarrow> signalTargetLocked k m2;
                Some (CommitStarted (t_Name t) (k_runID k1) c,
                  m3\<lparr>m_runWG := Suc (m_runWG m3),
                     m_keepalives := (m_keepalives m3)(k \<mapsto> k1\<lparr>k_workers := Suc (k_workers k1)\<rparr>)\<rparr>) } } })"

section \<open>Workers: the sections of \<open>run\<close> and \<open>runKeepalive\<close>\<close>

datatype acquire_result = AcquireInvalid | AcquireWait nat | AcquireOK

text \<open>One round of \<open>acquireQueueTarget\<close>; a waiter gets the value of \<open>changed\<close> it waits on.\<close>

definition acquireQueueTarget :: "key \<Rightarrow> nat \<Rightarrow> manager \<Rightarrow> (acquire_result \<times> manager) option" where
  "acquireQueueTarget k runID m = do {
     j \<leftarrow> m_jobs m k;
     a \<leftarrow> m_arbiters m k;
     if j_runID j \<noteq> runID \<or> j_state j \<noteq> StateRunning then Some (AcquireInvalid, m)
     else if a_owner a = requestOwnerNone then
       Some (AcquireOK, m\<lparr>m_arbiters := (m_arbiters m)(k \<mapsto>
         a\<lparr>a_owner := requestOwnerQueue, a_ownerRunID := runID\<rparr>)\<rparr>)
     else Some (AcquireWait (a_changed a), m) }"

text \<open>One round of \<open>acquire\<close> (a global process slot).\<close>

definition acquire_slot :: "manager \<Rightarrow> acquire_result \<times> manager" where
  "acquire_slot m =
     (if int (m_slotsInUse m) < m_maxParallel m
      then (AcquireOK, m\<lparr>m_slotsInUse := Suc (m_slotsInUse m)\<rparr>)
      else (AcquireWait (m_parallelChanged m), m))"

definition releaseSlot :: "manager \<Rightarrow> manager" where
  "releaseSlot m = signalParallelLocked
     (m\<lparr>m_slotsInUse := (if m_slotsInUse m > 0 then m_slotsInUse m - 1 else m_slotsInUse m)\<rparr>)"

definition finishProcess :: "manager \<Rightarrow> manager option" where
  "finishProcess m = broadcastStateLocked (signalParallelLocked
     (m\<lparr>m_currentProcesses :=
          (if m_currentProcesses m > 0 then m_currentProcesses m - 1 else m_currentProcesses m),
        m_slotsInUse := (if m_slotsInUse m > 0 then m_slotsInUse m - 1 else m_slotsInUse m)\<rparr>))"

definition beginAttempt ::
  "int \<Rightarrow> key \<Rightarrow> nat \<Rightarrow> manager \<Rightarrow> ((nat \<times> config_target) option \<times> manager) option" where
  "beginAttempt now k runID m = do {
     j \<leftarrow> m_jobs m k;
     a \<leftarrow> m_arbiters m k;
     if j_runID j \<noteq> runID \<or> j_state j \<noteq> StateRunning \<or> a_owner a \<noteq> requestOwnerQueue \<or>
        a_ownerRunID a \<noteq> runID
     then Some (None, m)
     else do {
       let j1 = j\<lparr>j_attempts := Suc (j_attempts j), j_lastAttempt := Some now,
                  j_nextAttempt := time_zero\<rparr>;
       m1 \<leftarrow> broadcastStateLocked (m\<lparr>m_jobs := (m_jobs m)(k \<mapsto> j1),
                m_currentProcesses := Suc (m_currentProcesses m)\<rparr>);
       Some (Some (j_attempts j1, target_at m1 k), m1) } }"

definition markFailure :: "key \<Rightarrow> nat \<Rightarrow> codex_result \<Rightarrow> manager \<Rightarrow> (bool \<times> manager) option" where
  "markFailure k runID result m = do {
     j \<leftarrow> m_jobs m k;
     let valid = (j_runID j = runID \<and> j_state j = StateRunning);
     let m1 = (if valid then m\<lparr>m_jobs := (m_jobs m)(k \<mapsto>
                 j\<lparr>j_lastError := sanitizeTargetError (target_at m k) (r_Error result),
                   j_nextAttempt := time_zero\<rparr>)\<rparr> else m);
     m2 \<leftarrow> releaseTargetLocked k requestOwnerQueue runID m1;
     m3 \<leftarrow> (if valid then broadcastStateLocked m2 else Some m2);
     Some (valid, m3) }"

text \<open>
  \<open>Time.Sub\<close> saturates: the difference to the zero time is the largest duration. \<open>markSuccess\<close>
  returns the subscribers to notify and the time since the job was started.
\<close>

definition time_since :: "gotime \<Rightarrow> int \<Rightarrow> duration" where
  "time_since start now = (case start of None \<Rightarrow> 2 ^ 63 - 1 | Some s \<Rightarrow> now - s)"

definition markSuccess ::
  "int \<Rightarrow> key \<Rightarrow> nat \<Rightarrow> manager \<Rightarrow> ((subscriber list \<times> duration) option \<times> manager) option" where
  "markSuccess now k runID m = do {
     j \<leftarrow> m_jobs m k;
     if j_runID j \<noteq> runID \<or> j_state j \<noteq> StateRunning then do {
       m1 \<leftarrow> releaseTargetLocked k requestOwnerQueue runID m;
       Some (None, m1) }
     else do {
       let j1 = j\<lparr>j_state := StateSucceeded, j_finishedAt := Some now,
                  j_nextAttempt := time_zero, j_lastError := [], j_cancel := None,
                  j_subscribers := []\<rparr>;
       let m1 = cancel_ctx (j_cancel j) (m\<lparr>m_jobs := (m_jobs m)(k \<mapsto> j1)\<rparr>);
       m2 \<leftarrow> releaseTargetLocked k requestOwnerQueue runID m1;
       m3 \<leftarrow> broadcastStateLocked m2;
       Some (Some (map snd (j_subscribers j), time_since (j_startedAt j) now), m3) } }"

definition markQueueCancelled :: "int \<Rightarrow> key \<Rightarrow> nat \<Rightarrow> manager \<Rightarrow> manager option" where
  "markQueueCancelled now k runID m = do {
     j \<leftarrow> m_jobs m k;
     m1 \<leftarrow> releaseTargetLocked k requestOwnerQueue runID m;
     if j_runID j \<noteq> runID \<or> j_state j \<noteq> StateRunning then Some m1
     else do {
       m2 \<leftarrow> signalTargetLocked k (m1\<lparr>m_jobs := (m_jobs m1)(k \<mapsto>
         j\<lparr>j_state := StateStopped, j_finishedAt := Some now, j_nextAttempt := time_zero,
           j_cancel := None, j_subscribers := []\<rparr>)\<rparr>);
       broadcastStateLocked m2 } }"

definition finishQueueWorker :: "key \<Rightarrow> manager \<Rightarrow> manager option" where
  "finishQueueWorker k m =
     (case m_jobs m k of
        None \<Rightarrow> Some m
      | Some j \<Rightarrow>
          if j_workers j > 0 then
            broadcastStateLocked (m\<lparr>m_jobs := (m_jobs m)(k \<mapsto> j\<lparr>j_workers := j_workers j - 1\<rparr>)\<rparr>)
          else Some m)"

text \<open>First and second section of a round of \<open>beginKeepaliveRequest\<close>.\<close>

definition beginKeepaliveCheck :: "key \<Rightarrow> nat \<Rightarrow> manager \<Rightarrow> (acquire_result \<times> manager) option" where
  "beginKeepaliveCheck k runID m = do {
     ka \<leftarrow> m_keepalives m k;
     j \<leftarrow> m_jobs m k;
     a \<leftarrow> m_arbiters m k;
     if k_runID ka \<noteq> runID \<or> k_state ka = KeepaliveStateStopped then Some (AcquireInvalid, m)
     else if j_state j = StateRunning \<or> a_owner a \<noteq> requestOwnerNone then do {
       let st = (if j_state j = StateRunning \<or> a_owner a = requestOwnerQueue
                 then KeepaliveStateWaitingQueue else KeepaliveStateRequesting);
       let m1 = m\<lparr>m_keepalives := (m_keepalives m)(k \<mapsto> ka\<lparr>k_state := st\<rparr>)\<rparr>;
       m2 \<leftarrow> (if st \<noteq> k_state ka then broadcastStateLocked m1 else Some m1);
       Some (AcquireWait (a_changed a), m2) }
     else do {
       m2 \<leftarrow> (if k_state ka \<noteq> KeepaliveStateRequesting
              then broadcastStateLocked (m\<lparr>m_keepalives := (m_keepalives m)(k \<mapsto>
                     ka\<lparr>k_state := KeepaliveStateRequesting\<rparr>)\<rparr>)
              else Some m);
       Some (AcquireOK, m2) } }"

datatype begin_keepalive_result =
    KBeginInvalid | KBeginContended nat | KBeginOK nat config_target

definition beginKeepaliveCommit ::
  "int \<Rightarrow> key \<Rightarrow> nat \<Rightarrow> manager \<Rightarrow> (begin_keepalive_result \<times> manager) option" where
  "beginKeepaliveCommit now k runID m = do {
     ka \<leftarrow> m_keepalives m k;
     j \<leftarrow> m_jobs m k;
     a \<leftarrow> m_arbiters m k;
     if k_runID ka \<noteq> runID \<or> k_state ka = KeepaliveStateStopped then Some (KBeginInvalid, m)
     else if j_state j = StateRunning \<or> a_owner a \<noteq> requestOwnerNone then do {
       let st = (if j_state j = StateRunning \<or> a_owner a = requestOwnerQueue
                 then KeepaliveStateWaitingQueue else k_state ka);
       let m1 = m\<lparr>m_keepalives := (m_keepalives m)(k \<mapsto> ka\<lparr>k_state := st\<rparr>)\<rparr>;
       m2 \<leftarrow> (if st \<noteq> k_state ka then broadcastStateLocked m1 else Some m1);
       Some (KBeginContended (a_changed a), m2) }
     else do {
       let k1 = ka\<lparr>k_state := KeepaliveStateRequesting, k_requests := Suc (k_requests ka),
                   k_lastRequest := Some now, k_nextRequest := time_zero\<rparr>;
       m1 \<leftarrow> broadcastStateLocked (m\<lparr>
          m_arbiters := (m_arbiters m)(k \<mapsto> a\<lparr>a_owner := requestOwnerKeepalive, a_ownerRunID := runID\<rparr>),
          m_keepalives := (m_keepalives m)(k \<mapsto> k1),
          m_currentProcesses := Suc (m_currentProcesses m)\<rparr>);
       Some (KBeginOK (k_requests k1) (target_at m1 k), m1) } }"

definition finishKeepaliveRequest ::
  "int \<Rightarrow> int \<Rightarrow> key \<Rightarrow> nat \<Rightarrow> codex_result \<Rightarrow> manager \<Rightarrow> (bool \<times> manager) option" where
  "finishKeepaliveRequest now draw k runID result m = do {
     ka \<leftarrow> m_keepalives m k;
     if k_runID ka \<noteq> runID \<or> k_state ka = KeepaliveStateStopped then do {
       m1 \<leftarrow> releaseTargetLocked k requestOwnerKeepalive runID m;
       Some (False, m1) }
     else do {
       let delay = randomDuration draw (m_keepaliveMin m) (m_keepaliveMax m);
       let k1 = (if r_Success result then ka\<lparr>k_lastSuccess := Some now\<rparr>
                 else ka\<lparr>k_lastFailure := Some now,
                        k_lastError := sanitizeTargetError (target_at m k) (r_Error result)\<rparr>);
       let k2 = k1\<lparr>k_state := KeepaliveStateWaitingNext, k_nextRequest := Some (now + delay)\<rparr>;
       m1 \<leftarrow> releaseTargetLocked k requestOwnerKeepalive runID
              (m\<lparr>m_keepalives := (m_keepalives m)(k \<mapsto> k2)\<rparr>);
       m2 \<leftarrow> broadcastStateLocked m1;
       Some (True, m2) } }"

definition markKeepaliveCancelled :: "int \<Rightarrow> key \<Rightarrow> nat \<Rightarrow> manager \<Rightarrow> manager option" where
  "markKeepaliveCancelled now k runID m = do {
     ka \<leftarrow> m_keepalives m k;
     m1 \<leftarrow> releaseTargetLocked k requestOwnerKeepalive runID m;
     if k_runID ka \<noteq> runID \<or> k_state ka = KeepaliveStateStopped then Some m1
     else do {
       m2 \<leftarrow> signalTargetLocked k (m1\<lparr>m_keepalives := (m_keepalives m1)(k \<mapsto>
         ka\<lparr>k_state := KeepaliveStateStopped, k_stoppedAt := Some now,
            k_nextRequest := time_zero, k_cancel := None\<rparr>)\<rparr>);
       broadcastStateLocked m2 } }"

definition finishKeepaliveWorker :: "key \<Rightarrow> manager \<Rightarrow> manager option" where
  "finishKeepaliveWorker k m =
     (case m_keepalives m k of
        None \<Rightarrow> Some m
      | Some ka \<Rightarrow>
          if k_workers ka > 0 then
            broadcastStateLocked (m\<lparr>m_keepalives := (m_keepalives m)(k \<mapsto> ka\<lparr>k_workers := k_workers ka - 1\<rparr>)\<rparr>)
          else Some m)"

text \<open>
  One round of \<open>waitKeepaliveNext\<close>: \<open>None\<close> inside when the run is over, otherwise when the next
  request is due and the value of \<open>scheduleChanged\<close> to wait on.
\<close>

definition waitKeepaliveNext :: "key \<Rightarrow> nat \<Rightarrow> manager \<Rightarrow> (gotime \<times> nat) option" where
  "waitKeepaliveNext k runID m =
     (case m_keepalives m k of
        None \<Rightarrow> None
      | Some ka \<Rightarrow>
          if k_runID ka \<noteq> runID \<or> k_state ka = KeepaliveStateStopped then None
          else Some (k_nextRequest ka, k_scheduleChanged ka))"

definition time_due :: "int \<Rightarrow> gotime \<Rightarrow> bool" where
  "time_due now at \<longleftrightarrow> (case at of None \<Rightarrow> True | Some t \<Rightarrow> t - now \<le> 0)"

section \<open>Manual requests\<close>

fun find_key_by_id :: "manager \<Rightarrow> int \<Rightarrow> key list \<Rightarrow> key option" where
  "find_key_by_id m i [] = None"
| "find_key_by_id m i (k # ks) = (if t_ID (target_at m k) = i then Some k else find_key_by_id m i ks)"

definition targetKeyByIDLocked :: "manager \<Rightarrow> int \<Rightarrow> key option" where
  "targetKeyByIDLocked m i = find_key_by_id m i (m_order m)"

definition TargetByID :: "manager \<Rightarrow> int \<Rightarrow> config_target option" where
  "TargetByID m i = map_option (target_at m) (targetKeyByIDLocked m i)"

text \<open>
  First section of \<open>RunAdhoc\<close>: reserve the target. The result names the key, the run, the context
  and the target.
\<close>

definition reserveAdhoc ::
  "int \<Rightarrow> manager \<Rightarrow> ((manager_error + key \<times> nat \<times> ctxid \<times> config_target) \<times> manager) option" where
  "reserveAdhoc i m =
     (case targetKeyByIDLocked m i of
        None \<Rightarrow> Some (Inl ErrTargetNotFound, m)
      | Some k \<Rightarrow>
          if m_shuttingDown m \<or> m_rootDone m then Some (Inl ErrShuttingDown, m)
          else do {
            busy \<leftarrow> targetBusyLocked m k;
            if busy then Some (Inl ErrTargetBusy, m)
            else do {
              let (c, m1) = with_cancel m;
              let runID = Suc (m_nextAdhocRunID m1);
              a \<leftarrow> m_arbiters m1 k;
              m2 \<leftarrow> broadcastStateLocked (m1\<lparr>m_nextAdhocRunID := runID,
                m_arbiters := (m_arbiters m1)(k \<mapsto> a\<lparr>a_owner := requestOwnerAdhoc,
                  a_ownerRunID := runID, a_cancel := Some c\<rparr>),
                m_runWG := Suc (m_runWG m1)\<rparr>);
              Some (Inr (k, runID, c, target_at m k), m2) } })"

text \<open>Second section: the process is counted if the reservation still stands.\<close>

definition startAdhocProcess :: "key \<Rightarrow> nat \<Rightarrow> manager \<Rightarrow> (bool \<times> manager) option" where
  "startAdhocProcess k runID m =
     (case m_arbiters m k of
        None \<Rightarrow> Some (False, m)
      | Some a \<Rightarrow>
          if a_owner a \<noteq> requestOwnerAdhoc \<or> a_ownerRunID a \<noteq> runID then Some (False, m)
          else do {
            m1 \<leftarrow> broadcastStateLocked (m\<lparr>m_currentProcesses := Suc (m_currentProcesses m)\<rparr>);
            Some (True, m1) })"

definition finishAdhocRequest :: "key \<Rightarrow> nat \<Rightarrow> bool \<Rightarrow> bool \<Rightarrow> manager \<Rightarrow> manager option" where
  "finishAdhocRequest k runID slotAcquired processStarted m = do {
     let m1 = (if processStarted \<and> m_currentProcesses m > 0
               then m\<lparr>m_currentProcesses := m_currentProcesses m - 1\<rparr> else m);
     let m2 = (if slotAcquired \<and> m_slotsInUse m1 > 0
               then signalParallelLocked (m1\<lparr>m_slotsInUse := m_slotsInUse m1 - 1\<rparr>) else m1);
     m3 \<leftarrow> (case m_arbiters m2 k of
        None \<Rightarrow> Some m2
      | Some a \<Rightarrow>
          if a_owner a = requestOwnerAdhoc \<and> a_ownerRunID a = runID then
            signalTargetLocked k (m2\<lparr>m_arbiters := (m_arbiters m2)(k \<mapsto>
              a\<lparr>a_owner := requestOwnerNone, a_ownerRunID := 0, a_cancel := None\<rparr>)\<rparr>)
          else Some m2);
     m4 \<leftarrow> broadcastStateLocked m3;
     Some (m4\<lparr>m_runWG := m_runWG m4 - 1\<rparr>) }"

section \<open>Targets\<close>

definition target_rank :: "manager \<Rightarrow> key \<Rightarrow> int \<times> int \<times> text" where
  "target_rank m k =
     (let t = target_at m k in (t_SortOrder t, t_ID t, strings_ToLower (t_Name t)))"

definition sortTargetsLocked :: "manager \<Rightarrow> manager" where
  "sortTargetsLocked m = m\<lparr>m_order := sort_key (target_rank m) (m_order m)\<rparr>"

text \<open>
  \<open>persist\<close> takes the target and returns an error or the target as the callback leaves it.
\<close>

definition CreateTarget ::
  "config_target option \<Rightarrow> (config_target \<Rightarrow> manager_error + config_target) \<Rightarrow> manager \<Rightarrow>
   (manager_error option \<times> manager) option" where
  "CreateTarget target persist m =
     (case target of
        None \<Rightarrow> Some (Some ErrTargetNotFound, m)
      | Some t \<Rightarrow>
          if m_targets m (normalizeName (t_Name t)) \<noteq> None then Some (Some ErrTargetConflict, m)
          else case persist t of
            Inl e \<Rightarrow> Some (Some e, m)
          | Inr t' \<Rightarrow>
              if m_targets m (normalizeName (t_Name t')) \<noteq> None then Some (Some ErrTargetConflict, m)
              else do {
                m1 \<leftarrow> broadcastStateLocked (sortTargetsLocked (add_entry t' m));
                Some (None, m1) })"

text \<open>
  First section of \<open>UpdateTarget\<close> and \<open>DeleteTarget\<close>: ask whatever runs on the target to stop. The
  result is the key to wait for.
\<close>

definition quiesceTarget :: "int \<Rightarrow> int \<Rightarrow> manager \<Rightarrow> ((manager_error + key) \<times> manager) option" where
  "quiesceTarget now i m =
     (case targetKeyByIDLocked m i of
        None \<Rightarrow> Some (Inl ErrTargetNotFound, m)
      | Some k \<Rightarrow> do {
          busy \<leftarrow> targetBusyLocked m k;
          if busy then do {
            m1 \<leftarrow> stopQueueLocked now k m;
            m2 \<leftarrow> stopKeepaliveLocked now k m1;
            m3 \<leftarrow> broadcastStateLocked (stopAdhocLocked k m2);
            Some (Inr k, m3) }
          else Some (Inr k, m) })"

text \<open>The check of one round of \<open>waitTargetIdle\<close>: does the target exist, and is it idle?\<close>

definition targetIdle :: "key \<Rightarrow> manager \<Rightarrow> (bool \<times> bool) option" where
  "targetIdle k m =
     (case m_targets m k of
        None \<Rightarrow> Some (False, False)
      | Some t \<Rightarrow> do {
          busy \<leftarrow> targetBusyLocked m k;
          a \<leftarrow> m_arbiters m k;
          Some (True, \<not> busy \<and> a_owner a = requestOwnerNone) })"

fun replace_first :: "'a \<Rightarrow> 'a \<Rightarrow> 'a list \<Rightarrow> 'a list" where
  "replace_first old new [] = []"
| "replace_first old new (x # xs) = (if x = old then new # xs else x # replace_first old new xs)"

definition rename_entry :: "key \<Rightarrow> key \<Rightarrow> manager \<Rightarrow> manager" where
  "rename_entry old new m =
     m\<lparr>m_targets := (m_targets m)(old := None),
       m_jobs := ((m_jobs m)(old := None))(new := m_jobs m old),
       m_keepalives := ((m_keepalives m)(old := None))(new := m_keepalives m old),
       m_arbiters := ((m_arbiters m)(old := None))(new := m_arbiters m old),
       m_order := replace_first old new (m_order m)\<rparr>"

definition name_taken :: "manager \<Rightarrow> key \<Rightarrow> int \<Rightarrow> bool" where
  "name_taken m k i \<longleftrightarrow> (case m_targets m k of None \<Rightarrow> False | Some t \<Rightarrow> t_ID t \<noteq> i)"

definition updateTargetCommit ::
  "int \<Rightarrow> config_target \<Rightarrow> (config_target \<Rightarrow> manager_error + config_target) \<Rightarrow> manager \<Rightarrow>
   (manager_error option \<times> manager) option" where
  "updateTargetCommit i t persist m =
     (case targetKeyByIDLocked m i of
        None \<Rightarrow> Some (Some ErrTargetNotFound, m)
      | Some old \<Rightarrow> do {
          busy \<leftarrow> targetBusyLocked m old;
          if busy then Some (Some ErrTargetBusy, m)
          else if name_taken m (normalizeName (t_Name t)) i then Some (Some ErrTargetConflict, m)
          else case persist t of
            Inl e \<Rightarrow> Some (Some e, m)
          | Inr t' \<Rightarrow>
              let new = normalizeName (t_Name t') in
              if name_taken m new i then Some (Some ErrTargetConflict, m)
              else do {
                let m1 = (if new \<noteq> old then rename_entry old new m else m);
                m2 \<leftarrow> broadcastStateLocked
                        (sortTargetsLocked (m1\<lparr>m_targets := (m_targets m1)(new \<mapsto> t')\<rparr>));
                Some (None, m2) } })"

definition remove_entry :: "key \<Rightarrow> manager \<Rightarrow> manager" where
  "remove_entry k m =
     m\<lparr>m_targets := (m_targets m)(k := None), m_jobs := (m_jobs m)(k := None),
       m_keepalives := (m_keepalives m)(k := None), m_arbiters := (m_arbiters m)(k := None),
       m_order := remove1 k (m_order m)\<rparr>"

definition deleteTargetCommit ::
  "int \<Rightarrow> manager_error option \<Rightarrow> manager \<Rightarrow> (manager_error option \<times> manager) option" where
  "deleteTargetCommit i persist m =
     (case targetKeyByIDLocked m i of
        None \<Rightarrow> Some (Some ErrTargetNotFound, m)
      | Some k \<Rightarrow> do {
          busy \<leftarrow> targetBusyLocked m k;
          if busy then Some (Some ErrTargetBusy, m)
          else case persist of
            Some e \<Rightarrow> Some (Some e, m)
          | None \<Rightarrow> do {
              m1 \<leftarrow> broadcastStateLocked (remove_entry k m);
              Some (None, m1) } })"

section \<open>Settings and shutdown\<close>

definition resample :: "int \<Rightarrow> int \<Rightarrow> manager \<Rightarrow> keepaliveJob \<Rightarrow> keepaliveJob" where
  "resample now draw m ka =
     (if k_state ka = KeepaliveStateWaitingNext \<and> k_nextRequest ka \<noteq> time_zero
      then ka\<lparr>k_nextRequest := Some (now + randomDuration draw (m_keepaliveMin m) (m_keepaliveMax m)),
              k_scheduleChanged := Suc (k_scheduleChanged ka)\<rparr>
      else ka)"

definition UpdateSettings ::
  "int \<Rightarrow> (key \<Rightarrow> int) \<Rightarrow> duration \<Rightarrow> duration \<Rightarrow> int \<Rightarrow> text \<Rightarrow> manager \<Rightarrow> manager option" where
  "UpdateSettings now draw keepaliveMin keepaliveMax maxParallel successMessage m = do {
     let m1 = (if keepaliveMin \<noteq> m_keepaliveMin m \<or> keepaliveMax \<noteq> m_keepaliveMax m then
                 let m0 = m\<lparr>m_keepaliveMin := keepaliveMin, m_keepaliveMax := keepaliveMax\<rparr>
                 in m0\<lparr>m_keepalives := (\<lambda>k. map_option (resample now (draw k) m0) (m_keepalives m0 k))\<rparr>
               else m);
     let m2 = (if maxParallel > 0 \<and> maxParallel \<noteq> m_maxParallel m1
               then signalParallelLocked (m1\<lparr>m_maxParallel := maxParallel\<rparr>) else m1);
     broadcastStateLocked (m2\<lparr>m_successMessage := successMessage\<rparr>) }"

definition SetMessenger :: "messenger option \<Rightarrow> manager \<Rightarrow> manager" where
  "SetMessenger messenger m = m\<lparr>m_messenger := messenger\<rparr>"

definition active_cancels :: "manager \<Rightarrow> ctxid set" where
  "active_cancels m =
     {c. \<exists>k\<in>dom (m_jobs m). map_option j_cancel (m_jobs m k) = Some (Some c)} \<union>
     {c. \<exists>k\<in>dom (m_keepalives m). map_option k_cancel (m_keepalives m k) = Some (Some c)} \<union>
     {c. \<exists>k\<in>dom (m_arbiters m). \<exists>a. m_arbiters m k = Some a \<and>
           a_owner a = requestOwnerAdhoc \<and> a_cancel a = Some c}"

definition BeginShutdown :: "manager \<Rightarrow> manager" where
  "BeginShutdown m =
     (if m_shuttingDown m then m
      else m\<lparr>m_shuttingDown := True, m_cancelled := m_cancelled m \<union> active_cancels m\<rparr>)"

definition TargetNames :: "manager \<Rightarrow> text list" where
  "TargetNames m = map (\<lambda>k. t_Name (target_at m k)) (m_order m)"

definition Snapshots :: "manager \<Rightarrow> text list \<Rightarrow> (queueSnapshot list \<times> text list) option" where
  "Snapshots m names = do {
     let (keys, unknown) = resolveLocked m names;
     qs \<leftarrow> those (map (queueSnapshotLocked m) keys);
     Some (qs, unknown) }"

definition KeepaliveSnapshots ::
  "manager \<Rightarrow> text list \<Rightarrow> (keepaliveSnapshot list \<times> text list) option" where
  "KeepaliveSnapshots m names = do {
     let (keys, unknown) = resolveLocked m names;
     ks \<leftarrow> those (map (keepaliveSnapshotLocked m) keys);
     Some (ks, unknown) }"

end
