(* ===== verification/Jobs_View.thy ===== *)
theory Jobs_View
  imports Jobs
begin

text \<open>
  Well-formedness of the job manager and its view as one cell per target. A cell keeps what the
  scheduling argument needs of a target's queue job, keepalive job and arbiter. Every section of
  theory \<open>Jobs\<close> is shown to succeed on a well-formed manager (no missing map entry is
  dereferenced), to keep it well formed, and to change the view as stated by its effect lemma;
  theory \<open>Scheduler\<close> reasons about goroutines with these lemmas only.
\<close>

section \<open>Well-formedness\<close>

definition wf :: "manager \<Rightarrow> bool" where
  "wf m \<longleftrightarrow>
     distinct (m_order m) \<and> dom (m_targets m) = set (m_order m) \<and>
     dom (m_jobs m) = set (m_order m) \<and> dom (m_keepalives m) = set (m_order m) \<and>
     dom (m_arbiters m) = set (m_order m) \<and>
     (\<forall>k t. m_targets m k = Some t \<longrightarrow> normalizeName (t_Name t) = k) \<and>
     inj_on (\<lambda>k. t_ID (target_at m k)) (set (m_order m))"

lemma wf_cong:
  assumes "m_targets m' = m_targets m" "m_order m' = m_order m"
    "dom (m_jobs m') = dom (m_jobs m)" "dom (m_keepalives m') = dom (m_keepalives m)"
    "dom (m_arbiters m') = dom (m_arbiters m)"
  shows "wf m' = wf m"
  using assms by (simp add: wf_def target_at_def)

lemma wf_jobs: "wf m \<Longrightarrow> m_targets m k \<noteq> None \<Longrightarrow> \<exists>j. m_jobs m k = Some j"
  and wf_keepalives: "wf m \<Longrightarrow> m_targets m k \<noteq> None \<Longrightarrow> \<exists>ka. m_keepalives m k = Some ka"
  and wf_arbiters: "wf m \<Longrightarrow> m_targets m k \<noteq> None \<Longrightarrow> \<exists>a. m_arbiters m k = Some a"
  by (force simp: wf_def)+

section \<open>Cells\<close>

record cell =
  c_state :: qstate
  c_run :: nat
  c_workers :: nat
  c_kstate :: kstate
  c_krun :: nat
  c_kworkers :: nat
  c_owner :: requestOwner
  c_ownerRun :: nat
  c_changed :: nat

definition cell_of :: "job \<Rightarrow> keepaliveJob \<Rightarrow> targetArbiter \<Rightarrow> cell" where
  "cell_of j ka a = \<lparr>c_state = j_state j, c_run = j_runID j, c_workers = j_workers j,
     c_kstate = k_state ka, c_krun = k_runID ka, c_kworkers = k_workers ka,
     c_owner = a_owner a, c_ownerRun = a_ownerRunID a, c_changed = a_changed a\<rparr>"

definition cells :: "manager \<Rightarrow> key \<rightharpoonup> cell" where
  "cells m k =
     (case (m_jobs m k, m_keepalives m k, m_arbiters m k) of
        (Some j, Some ka, Some a) \<Rightarrow> Some (cell_of j ka a) | _ \<Rightarrow> None)"

lemma cells_Some:
  "cells m k = Some c \<longleftrightarrow> (\<exists>j ka a. m_jobs m k = Some j \<and> m_keepalives m k = Some ka \<and>
     m_arbiters m k = Some a \<and> c = cell_of j ka a)"
  by (auto simp: cells_def split: option.splits)

lemma cells_dom: "wf m \<Longrightarrow> dom (cells m) = set (m_order m)"
proof -
  have "dom (cells m) = dom (m_jobs m) \<inter> dom (m_keepalives m) \<inter> dom (m_arbiters m)"
    by (auto simp: cells_def split: option.splits)
  moreover assume "wf m"
  ultimately show ?thesis by (simp add: wf_def)
qed

lemma cells_target: "wf m \<Longrightarrow> (\<exists>c. cells m k = Some c) \<longleftrightarrow> m_targets m k \<noteq> None"
  using cells_dom[of m] unfolding wf_def by (metis domD domI domIff)

lemma cells_None: "wf m \<Longrightarrow> cells m k = None \<longleftrightarrow> m_targets m k = None"
  using cells_target[of m k] by auto

definition cell_busy :: "cell \<Rightarrow> bool" where
  "cell_busy c \<longleftrightarrow> c_state c = StateRunning \<or> c_workers c > 0 \<or>
     c_kstate c \<noteq> KeepaliveStateStopped \<or> c_kworkers c > 0 \<or> c_owner c \<noteq> requestOwnerNone"

lemma targetBusy_cell: "cells m k = Some c \<Longrightarrow> targetBusyLocked m k = Some (cell_busy c)"
  by (auto simp: targetBusyLocked_def cells_Some cell_of_def cell_busy_def)

text \<open>
  Sections of theory \<open>Jobs\<close> update single map entries; these are the corresponding updates of
  the view.
\<close>

lemma cells_jobs_update:
  "m_keepalives m k = Some ka \<Longrightarrow> m_arbiters m k = Some a \<Longrightarrow>
   cells (m\<lparr>m_jobs := (m_jobs m)(k \<mapsto> j)\<rparr>) = (cells m)(k \<mapsto> cell_of j ka a)"
  by (rule ext) (auto simp: cells_def split: option.splits)

lemma cells_keepalives_update:
  "m_jobs m k = Some j \<Longrightarrow> m_arbiters m k = Some a \<Longrightarrow>
   cells (m\<lparr>m_keepalives := (m_keepalives m)(k \<mapsto> ka)\<rparr>) = (cells m)(k \<mapsto> cell_of j ka a)"
  by (rule ext) (auto simp: cells_def split: option.splits)

lemma cells_arbiters_update:
  "m_jobs m k = Some j \<Longrightarrow> m_keepalives m k = Some ka \<Longrightarrow>
   cells (m\<lparr>m_arbiters := (m_arbiters m)(k \<mapsto> a)\<rparr>) = (cells m)(k \<mapsto> cell_of j ka a)"
  by (rule ext) (auto simp: cells_def split: option.splits)

lemma cells_cong:
  "m_jobs m' = m_jobs m \<Longrightarrow> m_keepalives m' = m_keepalives m \<Longrightarrow> m_arbiters m' = m_arbiters m \<Longrightarrow>
   cells m' = cells m"
  by (rule ext) (simp add: cells_def)

section \<open>Broadcasts\<close>

text \<open>On a well-formed manager a broadcast succeeds and touches only the event counter and the
  observers' buffers.\<close>

definition bc :: "manager \<Rightarrow> manager" where
  "bc m = m\<lparr>m_nextEventID := Suc (m_nextEventID m),
     m_observers := List.map_filter (publish_one
       \<lparr>ev_ID = Suc (m_nextEventID m), ev_Snapshot = the (snapshotLocked m)\<rparr>) (m_observers m)\<rparr>"

lemma those_map_Some: "(\<forall>x\<in>set xs. f x \<noteq> None) \<Longrightarrow> those (map f xs) = Some (map (the \<circ> f) xs)"
  by (induction xs) auto

lemma targetSnapshot_defined: "cells m k \<noteq> None \<Longrightarrow> targetSnapshotLocked m k \<noteq> None"
  by (auto simp: targetSnapshotLocked_def queueSnapshotLocked_def keepaliveSnapshotLocked_def
      targetBusyLocked_def cells_Some Let_def)

lemma snapshot_wf:
  assumes "wf m"
  shows "snapshotLocked m = Some \<lparr>ms_Targets = map (the \<circ> targetSnapshotLocked m) (m_order m),
     ms_CurrentProcesses = m_currentProcesses m, ms_MaxParallel = m_maxParallel m\<rparr>"
proof -
  have "\<forall>k\<in>set (m_order m). targetSnapshotLocked m k \<noteq> None"
    using assms cells_dom targetSnapshot_defined by blast
  then show ?thesis by (simp add: snapshotLocked_def those_map_Some)
qed

lemma broadcast_wf: "wf m \<Longrightarrow> broadcastStateLocked m = Some (bc m)"
  by (simp add: broadcastStateLocked_def snapshot_wf publishLocked_def bc_def)

lemma bc_simps [simp]:
  "m_targetHost (bc m) = m_targetHost m" "m_messenger (bc m) = m_messenger m"
  "m_keepaliveMin (bc m) = m_keepaliveMin m" "m_keepaliveMax (bc m) = m_keepaliveMax m"
  "m_successMessage (bc m) = m_successMessage m" "m_maxParallel (bc m) = m_maxParallel m"
  "m_targets (bc m) = m_targets m" "m_order (bc m) = m_order m" "m_jobs (bc m) = m_jobs m"
  "m_keepalives (bc m) = m_keepalives m" "m_arbiters (bc m) = m_arbiters m"
  "m_currentProcesses (bc m) = m_currentProcesses m" "m_slotsInUse (bc m) = m_slotsInUse m"
  "m_nextObserverID (bc m) = m_nextObserverID m" "m_nextAdhocRunID (bc m) = m_nextAdhocRunID m"
  "m_runWG (bc m) = m_runWG m" "m_shuttingDown (bc m) = m_shuttingDown m"
  "m_parallelChanged (bc m) = m_parallelChanged m" "m_nextCtx (bc m) = m_nextCtx m"
  "m_cancelled (bc m) = m_cancelled m" "m_rootDone (bc m) = m_rootDone m"
  by (simp_all add: bc_def)

lemma target_at_cong: "m_targets m' = m_targets m \<Longrightarrow> target_at m' = target_at m"
  by (rule ext) (simp add: target_at_def)

lemma wf_bc [simp]: "wf (bc m) = wf m"
  by (rule wf_cong) simp_all

lemma cells_bc [simp]: "cells (bc m) = cells m"
  by (rule cells_cong) simp_all

text \<open>Fields outside the maps and the order are irrelevant to well-formedness and to the view.\<close>

lemma wf_frame [simp]:
  "wf (m_targetHost_update f1 m) = wf m"
  "wf (m_messenger_update f2 m) = wf m"
  "wf (m_keepaliveMin_update f3 m) = wf m"
  "wf (m_keepaliveMax_update f4 m) = wf m"
  "wf (m_successMessage_update f5 m) = wf m"
  "wf (m_maxParallel_update f6 m) = wf m"
  "wf (m_currentProcesses_update f7 m) = wf m"
  "wf (m_slotsInUse_update f8 m) = wf m"
  "wf (m_nextEventID_update f9 m) = wf m"
  "wf (m_nextObserverID_update f10 m) = wf m"
  "wf (m_nextAdhocRunID_update f11 m) = wf m"
  "wf (m_observers_update f12 m) = wf m"
  "wf (m_runWG_update f13 m) = wf m"
  "wf (m_shuttingDown_update f14 m) = wf m"
  "wf (m_parallelChanged_update f15 m) = wf m"
  "wf (m_nextCtx_update f16 m) = wf m"
  "wf (m_cancelled_update f17 m) = wf m"
  "wf (m_rootDone_update f18 m) = wf m"
  by (rule wf_cong; simp)+

lemma cells_frame [simp]:
  "cells (m_targetHost_update f19 m) = cells m"
  "cells (m_messenger_update f20 m) = cells m"
  "cells (m_keepaliveMin_update f21 m) = cells m"
  "cells (m_keepaliveMax_update f22 m) = cells m"
  "cells (m_successMessage_update f23 m) = cells m"
  "cells (m_maxParallel_update f24 m) = cells m"
  "cells (m_currentProcesses_update f25 m) = cells m"
  "cells (m_slotsInUse_update f26 m) = cells m"
  "cells (m_nextEventID_update f27 m) = cells m"
  "cells (m_nextObserverID_update f28 m) = cells m"
  "cells (m_nextAdhocRunID_update f29 m) = cells m"
  "cells (m_observers_update f30 m) = cells m"
  "cells (m_runWG_update f31 m) = cells m"
  "cells (m_shuttingDown_update f32 m) = cells m"
  "cells (m_parallelChanged_update f33 m) = cells m"
  "cells (m_nextCtx_update f34 m) = cells m"
  "cells (m_cancelled_update f35 m) = cells m"
  "cells (m_rootDone_update f36 m) = cells m"
  by (rule cells_cong; simp)+

lemma target_at_frame [simp]:
  "target_at (m_jobs_update f m) = target_at m" "target_at (m_keepalives_update g m) = target_at m"
  "target_at (m_arbiters_update h m) = target_at m" "target_at (bc m) = target_at m"
  by (rule target_at_cong; simp)+

section \<open>Effects\<close>

text \<open>
  \<open>eff m m' V\<close>: the section led from \<open>m\<close> to a well-formed \<open>m'\<close> with view \<open>V\<close>, and the process
  counters, settings, set of targets and shutdown flag are untouched.
\<close>

definition eff :: "manager \<Rightarrow> manager \<Rightarrow> (key \<rightharpoonup> cell) \<Rightarrow> bool" where
  "eff m m' V \<longleftrightarrow> wf m' \<and> cells m' = V \<and> m_slotsInUse m' = m_slotsInUse m \<and>
     m_currentProcesses m' = m_currentProcesses m \<and> m_maxParallel m' = m_maxParallel m \<and>
     m_parallelChanged m' = m_parallelChanged m \<and> m_targets m' = m_targets m \<and>
     m_order m' = m_order m \<and> m_runWG m' = m_runWG m \<and>
     m_nextAdhocRunID m' = m_nextAdhocRunID m \<and> m_shuttingDown m' = m_shuttingDown m"

lemma eff_refl: "wf m \<Longrightarrow> eff m m (cells m)"
  by (simp add: eff_def)

lemma eff_trans: "eff m m1 V1 \<Longrightarrow> eff m1 m2 V2 \<Longrightarrow> eff m m2 V2"
  by (simp add: eff_def)

lemma eff_bc [simp]: "eff m (bc m') V = eff m m' V"
  by (simp add: eff_def)

lemma cancel_ctx_simps [simp]:
  "m_targets (cancel_ctx c m) = m_targets m" "m_order (cancel_ctx c m) = m_order m"
  "m_jobs (cancel_ctx c m) = m_jobs m" "m_keepalives (cancel_ctx c m) = m_keepalives m"
  "m_arbiters (cancel_ctx c m) = m_arbiters m" "m_slotsInUse (cancel_ctx c m) = m_slotsInUse m"
  "m_currentProcesses (cancel_ctx c m) = m_currentProcesses m"
  "m_maxParallel (cancel_ctx c m) = m_maxParallel m"
  "m_parallelChanged (cancel_ctx c m) = m_parallelChanged m" "m_runWG (cancel_ctx c m) = m_runWG m"
  "m_nextAdhocRunID (cancel_ctx c m) = m_nextAdhocRunID m"
  "m_shuttingDown (cancel_ctx c m) = m_shuttingDown m"
  "m_targetHost (cancel_ctx c m) = m_targetHost m"
  by (cases c; simp add: cancel_ctx_def)+

lemma wf_cancel_ctx [simp]: "wf (cancel_ctx c m) = wf m"
  by (rule wf_cong) simp_all

lemma cells_cancel_ctx [simp]: "cells (cancel_ctx c m) = cells m"
  by (rule cells_cong) simp_all

lemma eff_cancel_ctx [simp]: "eff m (cancel_ctx c m') V = eff m m' V"
  by (simp add: eff_def)

lemma eff_jobs:
  assumes "wf m" "m_jobs m k = Some j0" "m_keepalives m k = Some ka" "m_arbiters m k = Some a"
  shows "eff m (m\<lparr>m_jobs := (m_jobs m)(k \<mapsto> j)\<rparr>) ((cells m)(k \<mapsto> cell_of j ka a))"
proof -
  have "wf (m\<lparr>m_jobs := (m_jobs m)(k \<mapsto> j)\<rparr>) = wf m"
    by (rule wf_cong) (use assms(2) in auto)
  with assms show ?thesis by (simp add: eff_def cells_jobs_update)
qed

lemma eff_keepalives:
  assumes "wf m" "m_jobs m k = Some j" "m_keepalives m k = Some ka0" "m_arbiters m k = Some a"
  shows "eff m (m\<lparr>m_keepalives := (m_keepalives m)(k \<mapsto> ka)\<rparr>) ((cells m)(k \<mapsto> cell_of j ka a))"
proof -
  have "wf (m\<lparr>m_keepalives := (m_keepalives m)(k \<mapsto> ka)\<rparr>) = wf m"
    by (rule wf_cong) (use assms(3) in auto)
  with assms show ?thesis by (simp add: eff_def cells_keepalives_update)
qed

lemma eff_arbiters:
  assumes "wf m" "m_jobs m k = Some j" "m_keepalives m k = Some ka" "m_arbiters m k = Some a0"
  shows "eff m (m\<lparr>m_arbiters := (m_arbiters m)(k \<mapsto> a)\<rparr>) ((cells m)(k \<mapsto> cell_of j ka a))"
proof -
  have "wf (m\<lparr>m_arbiters := (m_arbiters m)(k \<mapsto> a)\<rparr>) = wf m"
    by (rule wf_cong) (use assms(4) in auto)
  with assms show ?thesis by (simp add: eff_def cells_arbiters_update)
qed

lemmas eff_entries = eff_jobs eff_keepalives eff_arbiters

section \<open>Effects of the sections\<close>

subsection \<open>Signals and releases\<close>

definition cell_release :: "requestOwner \<Rightarrow> nat \<Rightarrow> cell \<Rightarrow> cell" where
  "cell_release owner run c =
     (if c_owner c = owner \<and> c_ownerRun c = run
      then c\<lparr>c_owner := requestOwnerNone, c_ownerRun := 0, c_changed := Suc (c_changed c)\<rparr> else c)"

lemma signal_eff:
  assumes "wf m" "cells m k = Some c"
  shows "\<exists>m'. signalTargetLocked k m = Some m' \<and> m_jobs m' = m_jobs m \<and>
    m_keepalives m' = m_keepalives m \<and>
    eff m m' ((cells m)(k \<mapsto> c\<lparr>c_changed := Suc (c_changed c)\<rparr>))"
proof -
  from assms(2) obtain j ka a where e: "m_jobs m k = Some j" "m_keepalives m k = Some ka"
    "m_arbiters m k = Some a" "c = cell_of j ka a" by (auto simp: cells_Some)
  then show ?thesis
    using eff_arbiters[OF assms(1) e(1-3), of "a\<lparr>a_changed := Suc (a_changed a)\<rparr>"]
    by (auto simp: signalTargetLocked_def cell_of_def)
qed

lemma release_eff:
  assumes "wf m" "cells m k = Some c"
  shows "\<exists>m'. releaseTargetLocked k owner run m = Some m' \<and> m_jobs m' = m_jobs m \<and>
    m_keepalives m' = m_keepalives m \<and> eff m m' ((cells m)(k \<mapsto> cell_release owner run c))"
proof -
  from assms(2) obtain j ka a where e: "m_jobs m k = Some j" "m_keepalives m k = Some ka"
    "m_arbiters m k = Some a" "c = cell_of j ka a" by (auto simp: cells_Some)
  show ?thesis
  proof (cases "a_owner a = owner \<and> a_ownerRunID a = run")
    case True
    then show ?thesis
      using e eff_arbiters[OF assms(1) e(1-3), of "a\<lparr>a_owner := requestOwnerNone,
          a_ownerRunID := 0, a_cancel := None, a_changed := Suc (a_changed a)\<rparr>"]
      by (auto simp: releaseTargetLocked_def signalTargetLocked_def cell_of_def cell_release_def)
  next
    case False
    then show ?thesis
      using e eff_refl[OF assms(1)] assms(2)
      by (auto simp: releaseTargetLocked_def cell_of_def cell_release_def fun_upd_idem)
  qed
qed

subsection \<open>Stopping\<close>

definition cell_stopQueue :: "cell \<Rightarrow> cell" where
  "cell_stopQueue c =
     (if c_state c \<noteq> StateRunning \<and> c_workers c = 0 then c
      else c\<lparr>c_run := Suc (c_run c), c_changed := Suc (c_changed c),
             c_state := (if c_state c = StateRunning then StateStopped else c_state c)\<rparr>)"

definition cell_stopKeepalive :: "cell \<Rightarrow> cell" where
  "cell_stopKeepalive c =
     (if c_kstate c = KeepaliveStateStopped \<and> c_kworkers c = 0 then c
      else c\<lparr>c_krun := Suc (c_krun c), c_changed := Suc (c_changed c),
             c_kstate := KeepaliveStateStopped\<rparr>)"

lemma stopQueue_eff:
  assumes "wf m" "cells m k = Some c"
  shows "\<exists>m'. stopQueueLocked now k m = Some m' \<and> m_keepalives m' = m_keepalives m \<and>
    eff m m' ((cells m)(k \<mapsto> cell_stopQueue c))"
proof -
  from assms(2) obtain j ka a where e: "m_jobs m k = Some j" "m_keepalives m k = Some ka"
    "m_arbiters m k = Some a" "c = cell_of j ka a" by (auto simp: cells_Some)
  show ?thesis
  proof (cases "j_state j \<noteq> StateRunning \<and> j_workers j = 0")
    case True
    then show ?thesis
      using e eff_refl[OF assms(1)] assms(2)
      by (auto simp: stopQueueLocked_def cell_of_def cell_stopQueue_def fun_upd_idem)
  next
    case False
    let ?j1 = "j\<lparr>j_runID := Suc (j_runID j), j_cancel := None\<rparr>"
    let ?j2 = "if j_state j = StateRunning then ?j1\<lparr>j_state := StateStopped,
      j_finishedAt := Some now, j_nextAttempt := time_zero, j_subscribers := []\<rparr> else ?j1"
    let ?m1 = "m\<lparr>m_jobs := (m_jobs m)(k \<mapsto> ?j2)\<rparr>"
    have 1: "eff m ?m1 ((cells m)(k \<mapsto> cell_of ?j2 ka a))" by (rule eff_jobs[OF assms(1) e(1-3)])
    then obtain m2 where 2: "signalTargetLocked k ?m1 = Some m2"
      "m_keepalives m2 = m_keepalives ?m1"
      "eff ?m1 m2 ((cells ?m1)(k \<mapsto> (cell_of ?j2 ka a)\<lparr>c_changed := Suc (a_changed a)\<rparr>))"
      using signal_eff[of ?m1 k "cell_of ?j2 ka a"] by (auto simp: eff_def cell_of_def)
    from eff_trans[OF 1 2(3)] 1 have "eff m m2 ((cells m)(k \<mapsto> cell_stopQueue c))"
      using False e(4) by (auto simp: eff_def cell_of_def cell_stopQueue_def)
    with 2(1,2) False e(1) show ?thesis
      by (intro exI[of _ "cancel_ctx (j_cancel j) m2"]) (auto simp: stopQueueLocked_def)
  qed
qed

lemma stopKeepalive_eff:
  assumes "wf m" "cells m k = Some c"
  shows "\<exists>m'. stopKeepaliveLocked now k m = Some m' \<and> m_jobs m' = m_jobs m \<and>
    eff m m' ((cells m)(k \<mapsto> cell_stopKeepalive c))"
proof -
  from assms(2) obtain j ka a where e: "m_jobs m k = Some j" "m_keepalives m k = Some ka"
    "m_arbiters m k = Some a" "c = cell_of j ka a" by (auto simp: cells_Some)
  show ?thesis
  proof (cases "k_state ka = KeepaliveStateStopped \<and> k_workers ka = 0")
    case True
    then show ?thesis
      using e eff_refl[OF assms(1)] assms(2)
      by (auto simp: stopKeepaliveLocked_def cell_of_def cell_stopKeepalive_def fun_upd_idem)
  next
    case False
    let ?k1 = "ka\<lparr>k_runID := Suc (k_runID ka), k_cancel := None\<rparr>"
    let ?k2 = "if k_state ka \<noteq> KeepaliveStateStopped then ?k1\<lparr>k_state := KeepaliveStateStopped,
      k_stoppedAt := Some now, k_nextRequest := time_zero\<rparr> else ?k1"
    let ?m1 = "m\<lparr>m_keepalives := (m_keepalives m)(k \<mapsto> ?k2)\<rparr>"
    have 1: "eff m ?m1 ((cells m)(k \<mapsto> cell_of j ?k2 a))"
      by (rule eff_keepalives[OF assms(1) e(1-3)])
    then obtain m2 where 2: "signalTargetLocked k ?m1 = Some m2" "m_jobs m2 = m_jobs ?m1"
      "eff ?m1 m2 ((cells ?m1)(k \<mapsto> (cell_of j ?k2 a)\<lparr>c_changed := Suc (a_changed a)\<rparr>))"
      using signal_eff[of ?m1 k "cell_of j ?k2 a"] by (auto simp: eff_def cell_of_def)
    from eff_trans[OF 1 2(3)] 1 have "eff m m2 ((cells m)(k \<mapsto> cell_stopKeepalive c))"
      using False e(4) by (auto simp: eff_def cell_of_def cell_stopKeepalive_def)
    with 2(1,2) False e(2) show ?thesis
      by (intro exI[of _ "cancel_ctx (k_cancel ka) m2"]) (auto simp: stopKeepaliveLocked_def)
  qed
qed

lemma stopAdhoc_eff:
  assumes "wf m"
  shows "m_jobs (stopAdhocLocked k m) = m_jobs m"
    "m_keepalives (stopAdhocLocked k m) = m_keepalives m"
    "eff m (stopAdhocLocked k m) (cells m)"
proof -
  have *: "eff m (m\<lparr>m_arbiters := (m_arbiters m)(k \<mapsto> a\<lparr>a_cancel := None\<rparr>)\<rparr>) (cells m)"
    if a: "m_arbiters m k = Some a" for a
  proof -
    obtain j ka where "m_jobs m k = Some j" "m_keepalives m k = Some ka"
      using a assms unfolding wf_def by (metis domD domI)
    from eff_arbiters[OF assms this a, of "a\<lparr>a_cancel := None\<rparr>"] show ?thesis
      using a \<open>m_jobs m k = Some j\<close> \<open>m_keepalives m k = Some ka\<close>
      by (simp add: cell_of_def fun_upd_idem cells_Some)
  qed
  show "m_jobs (stopAdhocLocked k m) = m_jobs m"
    "m_keepalives (stopAdhocLocked k m) = m_keepalives m"
    by (simp_all add: stopAdhocLocked_def split: option.split)
  show "eff m (stopAdhocLocked k m) (cells m)"
    using * eff_refl[OF assms] by (simp add: stopAdhocLocked_def split: option.split)
qed

text \<open>
  \<open>stops m m'\<close>: \<open>m'\<close> results from \<open>m\<close> by any number of stop requests to queue and keepalive
  jobs. Every section that asks running work to stop is of this kind.
\<close>

inductive stops :: "manager \<Rightarrow> manager \<Rightarrow> bool" for m where
  stops_refl: "wf m \<Longrightarrow> eff m m' (cells m) \<Longrightarrow> stops m m'"
| stops_queue: "stops m m1 \<Longrightarrow> cells m1 k = Some c \<Longrightarrow>
    eff m1 m2 ((cells m1)(k \<mapsto> cell_stopQueue c)) \<Longrightarrow> stops m m2"
| stops_keepalive: "stops m m1 \<Longrightarrow> cells m1 k = Some c \<Longrightarrow>
    eff m1 m2 ((cells m1)(k \<mapsto> cell_stopKeepalive c)) \<Longrightarrow> stops m m2"

lemma stops_wf: "stops m m' \<Longrightarrow> wf m'"
  by (induction rule: stops.induct) (auto simp: eff_def)

lemma stops_order: "stops m m' \<Longrightarrow> m_order m' = m_order m"
  by (induction rule: stops.induct) (auto simp: eff_def)

lemma stops_eff_same: "stops m m1 \<Longrightarrow> eff m1 m2 (cells m1) \<Longrightarrow> stops m m2"
proof (induction rule: stops.induct)
  case (stops_refl m1)
  then show ?case by (metis eff_def eff_trans stops.stops_refl)
next
  case (stops_queue m1 k c m3)
  then show ?case by (metis eff_def eff_trans stops.stops_queue)
next
  case (stops_keepalive m1 k c m3)
  then show ?case by (metis eff_def eff_trans stops.stops_keepalive)
qed

lemma stops_bc: "stops m m1 \<Longrightarrow> stops m (bc m1)"
  using eff_refl[OF stops_wf] by (auto intro: stops_eff_same)

lemma stops_stopQueue:
  assumes "stops m m1" "cells m1 k = Some c"
  shows "\<exists>m2. stopQueueLocked now k m1 = Some m2 \<and> m_keepalives m2 = m_keepalives m1 \<and> stops m m2 \<and>
    cells m2 = (cells m1)(k \<mapsto> cell_stopQueue c)"
  using stopQueue_eff[OF stops_wf[OF assms(1)] assms(2)] stops_queue[OF assms]
  by (auto simp: eff_def)

lemma stops_stopKeepalive:
  assumes "stops m m1" "cells m1 k = Some c"
  shows "\<exists>m2. stopKeepaliveLocked now k m1 = Some m2 \<and> m_jobs m2 = m_jobs m1 \<and> stops m m2 \<and>
    cells m2 = (cells m1)(k \<mapsto> cell_stopKeepalive c)"
  using stopKeepalive_eff[OF stops_wf[OF assms(1)] assms(2)] stops_keepalive[OF assms]
  by (auto simp: eff_def)

lemma stops_stopAdhoc: "stops m m1 \<Longrightarrow> stops m (stopAdhocLocked k m1)"
  by (blast intro: stops_eff_same stopAdhoc_eff(3) stops_wf)

lemma cells_stopAdhoc: "wf m \<Longrightarrow> cells (stopAdhocLocked k m) = cells m"
  using stopAdhoc_eff(3)[of m k] by (simp add: eff_def)

lemma cell_stopQueue_idle: "c_state c \<noteq> StateRunning \<Longrightarrow> c_workers c = 0 \<Longrightarrow> cell_stopQueue c = c"
  by (simp add: cell_stopQueue_def)

lemma cell_stopKeepalive_idle:
  "c_kstate c = KeepaliveStateStopped \<Longrightarrow> c_kworkers c = 0 \<Longrightarrow> cell_stopKeepalive c = c"
  by (simp add: cell_stopKeepalive_def)

lemma cell_stop_fields [simp]:
  "c_kstate (cell_stopQueue c) = c_kstate c" "c_kworkers (cell_stopQueue c) = c_kworkers c"
  "c_krun (cell_stopQueue c) = c_krun c" "c_owner (cell_stopQueue c) = c_owner c"
  "c_ownerRun (cell_stopQueue c) = c_ownerRun c" "c_workers (cell_stopQueue c) = c_workers c"
  "c_state (cell_stopKeepalive c) = c_state c" "c_workers (cell_stopKeepalive c) = c_workers c"
  "c_run (cell_stopKeepalive c) = c_run c" "c_owner (cell_stopKeepalive c) = c_owner c"
  "c_ownerRun (cell_stopKeepalive c) = c_ownerRun c"
  "c_kworkers (cell_stopKeepalive c) = c_kworkers c"
  by (simp_all add: cell_stopQueue_def cell_stopKeepalive_def)

lemma stop_target_stops:
  assumes "stops m m1" "cells m1 k = Some c"
  shows "\<exists>m2. stop_target now k m1 = Some (c_state c = StateRunning \<or> c_workers c > 0 \<or>
      c_kstate c \<noteq> KeepaliveStateStopped \<or> c_kworkers c > 0 \<or> c_owner c = requestOwnerAdhoc, m2) \<and>
    stops m m2 \<and> cells m2 = (cells m1)(k \<mapsto> cell_stopKeepalive (cell_stopQueue c))"
proof -
  from assms(2) obtain j ka a where e: "m_jobs m1 k = Some j" "m_keepalives m1 k = Some ka"
    "c = cell_of j ka a" by (auto simp: cells_Some)
  let ?q = "j_state j = StateRunning \<or> j_workers j > 0"
  let ?k = "k_state ka \<noteq> KeepaliveStateStopped \<or> k_workers ka > 0"
  obtain m2 where 2: "(if ?q then stopQueueLocked now k m1 else Some m1) = Some m2"
    "m_keepalives m2 = m_keepalives m1" "stops m m2"
    "cells m2 = (cells m1)(k \<mapsto> cell_stopQueue c)"
  proof (cases ?q)
    case True
    then show ?thesis using that stops_stopQueue[OF assms, of now] by auto
  next
    case False
    then have "cell_stopQueue c = c" using e(3) by (simp add: cell_stopQueue_def cell_of_def)
    then show ?thesis using that[of m1] False assms by (simp add: fun_upd_idem)
  qed
  then have c2: "cells m2 k = Some (cell_stopQueue c)" by simp
  obtain m3 where 3: "(if ?k then stopKeepaliveLocked now k m2 else Some m2) = Some m3"
    "stops m m3" "cells m3 = (cells m2)(k \<mapsto> cell_stopKeepalive (cell_stopQueue c))"
  proof (cases ?k)
    case True
    then show ?thesis using that stops_stopKeepalive[OF 2(3) c2, of now] by auto
  next
    case False
    then have "cell_stopKeepalive (cell_stopQueue c) = cell_stopQueue c"
      using e(3) by (simp add: cell_stopKeepalive_idle cell_of_def)
    then show ?thesis using that[of m2] False 2(3) c2 by (simp add: fun_upd_idem)
  qed
  from 3(3) obtain a3 where a3: "m_arbiters m3 k = Some a3" "a_owner a3 = c_owner c"
    using cells_Some[of m3 k "cell_stopKeepalive (cell_stopQueue c)"] e(3)
    by (auto simp: cell_of_def) (metis cell.select_convs(7) cell_stop_fields(10) cell_stop_fields(4))
  show ?thesis
    by (rule exI[of _ "if a_owner a3 = requestOwnerAdhoc then stopAdhocLocked k m3 else m3"])
      (use e 2 3 a3 stops_stopAdhoc[OF 3(2)] cells_stopAdhoc[OF stops_wf[OF 3(2)]] in
        \<open>auto simp: stop_target_def cell_of_def Let_def\<close>)
qed

lemma stop_targets_stops:
  assumes "stops m m1" "set ks \<subseteq> set (m_order m)"
  shows "\<exists>res' ch' m2. stop_targets now ks (res, ch, m1) = Some (res', ch', m2) \<and> stops m m2"
  using assms
proof (induction ks arbitrary: m1 res ch)
  case (Cons k ks)
  then have "k \<in> set (m_order m1)" using stops_order by auto
  then obtain c where "cells m1 k = Some c"
    using cells_dom[OF stops_wf[OF Cons.prems(1)]] by blast
  from stop_target_stops[OF Cons.prems(1) this] obtain b m2
    where 2: "stop_target now k m1 = Some (b, m2)" "stops m m2" by blast
  show ?case using 2(1) Cons.IH[OF 2(2)] Cons.prems(2) by (cases b) (auto simp: Let_def)
qed auto

end
