(* ===== verification/Jobs_Effects.thy ===== *)
theory Jobs_Effects
  imports Jobs_View
begin

text \<open>
  Effect lemmas for the public operations and for the sections of the workers: on a well-formed
  manager each of them succeeds, and its effect on the view is the stated one.
\<close>

section \<open>Resolving names\<close>

lemma resolve_names_known:
  "resolve_names tm seen names = (keys, unknown) \<Longrightarrow>
   (\<forall>k\<in>set keys. tm k \<noteq> None) \<and> distinct keys \<and> set keys \<inter> set seen = {}"
proof (induction tm seen names arbitrary: keys unknown rule: resolve_names.induct)
  case (2 tm seen name names)
  let ?key = "normalizeName name"
  show ?case
  proof (cases "?key = [] \<or> ?key \<in> set seen")
    case True
    with "2.prems" "2.IH"(1) show ?thesis by (simp add: Let_def)
  next
    case False
    obtain ks us where r: "resolve_names tm (?key # seen) names = (ks, us)" by fastforce
    with "2.IH"(2)[OF refl False r] "2.prems" False show ?thesis
      by (auto simp: Let_def split: if_splits)
  qed
qed simp

lemma resolveLocked_known:
  assumes "wf m" "resolveLocked m names = (keys, unknown)"
  shows "set keys \<subseteq> set (m_order m)" "distinct keys"
proof -
  have *: "dom (m_targets m) = set (m_order m)" "distinct (m_order m)"
    using assms(1) by (auto simp: wf_def)
  show "set keys \<subseteq> set (m_order m)"
    using assms(2) *(1) resolve_names_known[of "m_targets m" "[]" names keys unknown]
    by (auto simp: resolveLocked_def dom_def split: if_splits)
  show "distinct keys"
    using assms(2) *(2) resolve_names_known[of "m_targets m" "[]" names keys unknown]
    by (auto simp: resolveLocked_def split: if_splits)
qed

section \<open>Stop requests\<close>

lemma StopTask_stops:
  assumes "wf m"
  shows "\<exists>res m'. StopTask now names m = Some (res, m') \<and> stops m m'"
proof -
  obtain keys unknown where r: "resolveLocked m names = (keys, unknown)" by fastforce
  have "stops m m" using assms eff_refl by (blast intro: stops_refl)
  from stop_targets_stops[OF this resolveLocked_known(1)[OF assms r]]
  obtain res ch m1 where 1: "stop_targets now keys
      (\<lparr>st_Stopped = [], st_Inactive = [], st_Unknown = unknown\<rparr>, False, m) = Some (res, ch, m1)"
    "stops m m1" by blast
  then show ?thesis
    using r broadcast_wf[OF stops_wf[OF 1(2)]] stops_bc[OF 1(2)]
    by (cases ch) (auto simp: StopTask_def)
qed

lemma quiesce_stops:
  assumes "wf m"
  shows "\<exists>res m'. quiesceTarget now i m = Some (res, m') \<and> stops m m'"
proof (cases "targetKeyByIDLocked m i")
  case None
  then show ?thesis using assms eff_refl by (auto simp: quiesceTarget_def intro: stops_refl)
next
  case (Some k)
  have "find_key_by_id m i ks = Some k \<Longrightarrow> k \<in> set ks" for ks
    by (induction ks) (auto split: if_splits)
  with Some have "k \<in> set (m_order m)" by (simp add: targetKeyByIDLocked_def)
  then obtain c where c: "cells m k = Some c" using cells_dom[OF assms] by blast
  have 0: "stops m m" using assms eff_refl by (blast intro: stops_refl)
  from stops_stopQueue[OF 0 c] obtain m1 where 1: "stopQueueLocked now k m = Some m1" "stops m m1"
    "cells m1 = (cells m)(k \<mapsto> cell_stopQueue c)" by blast
  then have "cells m1 k = Some (cell_stopQueue c)" by simp
  from stops_stopKeepalive[OF 1(2) this] obtain m2
    where 2: "stopKeepaliveLocked now k m1 = Some m2" "stops m m2" by blast
  note 3 = stops_stopAdhoc[OF 2(2), of k]
  show ?thesis
    using Some targetBusy_cell[OF c] 0 1(1) 2(1) broadcast_wf[OF stops_wf[OF 3]] stops_bc[OF 3]
    by (cases "cell_busy c") (auto simp: quiesceTarget_def)
qed

lemma prepareMode_stops:
  assumes "wf m"
  shows "\<exists>res m'. prepareMode now k desired m = Some (res, m') \<and> stops m m' \<and>
    (res = PrepareReady \<longrightarrow> (\<exists>c. cells m' k = Some c \<and> \<not> cell_busy c))"
proof (cases "m_targets m k = None \<or> m_shuttingDown m")
  case True
  then show ?thesis using assms eff_refl by (auto simp: prepareMode_def intro: stops_refl)
next
  case False
  then obtain c where c: "cells m k = Some c" using cells_target[OF assms] by blast
  then obtain j ka a where e: "m_jobs m k = Some j" "m_keepalives m k = Some ka"
    "m_arbiters m k = Some a" "c = cell_of j ka a" by (auto simp: cells_Some)
  have 0: "stops m m" using assms eff_refl by (blast intro: stops_refl)
  let ?refuse = "desired = requestOwnerQueue \<and> j_state j = StateRunning \<or>
    desired = requestOwnerKeepalive \<and> k_state ka \<noteq> KeepaliveStateStopped"
  show ?thesis
  proof (cases ?refuse)
    case True
    with False e 0 show ?thesis by (auto simp: prepareMode_def)
  next
    case nr: False
    let ?A = "a_owner a = requestOwnerAdhoc"
    let ?K = "desired = requestOwnerQueue \<and> (k_state ka \<noteq> KeepaliveStateStopped \<or> k_workers ka > 0)"
    let ?Q = "desired = requestOwnerKeepalive \<and> (j_state j = StateRunning \<or> j_workers j > 0)"
    let ?m1 = "if ?A then stopAdhocLocked k m else m"
    have 1: "stops m ?m1" "cells ?m1 k = Some c"
      using 0 stops_stopAdhoc[OF 0] cells_stopAdhoc[OF assms] c by auto
    obtain m2 c2 where 2: "(if ?K then stopKeepaliveLocked now k ?m1 else Some ?m1) = Some m2"
      "stops m m2" "cells m2 k = Some c2"
      using stops_stopKeepalive[OF 1, of now] 1 by (cases ?K) auto
    obtain m3 c3 where 3: "(if ?Q then stopQueueLocked now k m2 else Some m2) = Some m3"
      "stops m m3" "cells m3 k = Some c3"
      using stops_stopQueue[OF 2(2,3), of now] 2(2,3) by (cases ?Q) auto
    let ?m4 = "if ?A \<or> ?K \<or> ?Q then bc m3 else m3"
    have 4: "(if ?A \<or> ?K \<or> ?Q then broadcastStateLocked m3 else Some m3) = Some ?m4"
      "stops m ?m4" "cells ?m4 k = Some c3"
      using broadcast_wf[OF stops_wf[OF 3(2)]] 3(2,3) stops_bc[OF 3(2)] by auto
    have "prepareMode now k desired m =
        Some (if cell_busy c3 then PrepareBusy else PrepareReady, ?m4)"
      using False nr e 2(1) 3(1) 4(1) targetBusy_cell[OF 3(3)]
      unfolding prepareMode_def Let_def by (simp del: if_split_asm)
    with 4 show ?thesis by auto
  qed
qed

section \<open>Starting\<close>

text \<open>Changes of the three entries of one key, in whatever order the section makes them.\<close>

lemma view_upd:
  assumes "wf m" "cells m k = Some c" "m_targets m' = m_targets m" "m_order m' = m_order m"
    "m_jobs m' = (m_jobs m)(k \<mapsto> j)" "m_keepalives m' = (m_keepalives m)(k \<mapsto> ka)"
    "m_arbiters m' = (m_arbiters m)(k \<mapsto> a)"
  shows "wf m'" "cells m' = (cells m)(k \<mapsto> cell_of j ka a)"
proof -
  have "k \<in> dom (m_jobs m)" "k \<in> dom (m_keepalives m)" "k \<in> dom (m_arbiters m)"
    using assms(2) by (auto simp: cells_Some)
  then have "wf m' = wf m"
    by (intro wf_cong) (simp_all add: assms(3-) insert_absorb)
  with assms(1) show "wf m'" by simp
  show "cells m' = (cells m)(k \<mapsto> cell_of j ka a)"
    by (rule ext) (simp add: cells_def assms(5-))
qed

lemma eff_upd:
  assumes "wf m" "cells m k = Some c" "m_targets m' = m_targets m" "m_order m' = m_order m"
    "m_jobs m' = (m_jobs m)(k \<mapsto> j)" "m_keepalives m' = (m_keepalives m)(k \<mapsto> ka)"
    "m_arbiters m' = (m_arbiters m)(k \<mapsto> a)"
    "m_slotsInUse m' = m_slotsInUse m0" "m_currentProcesses m' = m_currentProcesses m0"
    "m_maxParallel m' = m_maxParallel m0" "m_parallelChanged m' = m_parallelChanged m0"
    "m_targets m0 = m_targets m" "m_order m0 = m_order m" "m_runWG m' = m_runWG m0"
    "m_nextAdhocRunID m' = m_nextAdhocRunID m0" "m_shuttingDown m' = m_shuttingDown m0"
  shows "eff m0 m' ((cells m)(k \<mapsto> cell_of j ka a))"
  using view_upd[OF assms(1-7)] assms(3,4,8-) by (simp add: eff_def)

lemma addSubscriber_fields [simp]:
  "j_state (addSubscriberLocked s j) = j_state j" "j_runID (addSubscriberLocked s j) = j_runID j"
  "j_workers (addSubscriberLocked s j) = j_workers j"
  by (simp_all add: addSubscriberLocked_def Let_def)

lemma queueRefused_eff:
  assumes "wf m"
  shows "\<exists>r m'. queueRefused k s m = Some (r, m') \<and> eff m m' (cells m) \<and>
    (\<forall>n run ctx. r \<noteq> CommitStarted n run ctx) \<and> r \<noteq> CommitRetry"
proof (cases "m_targets m k")
  case None
  then show ?thesis using eff_refl[OF assms] by (auto simp: queueRefused_def)
next
  case (Some t)
  then obtain c where "cells m k = Some c" using cells_target[OF assms] by blast
  then obtain j ka a where e: "m_jobs m k = Some j" "m_keepalives m k = Some ka"
    "m_arbiters m k = Some a" "c = cell_of j ka a" by (auto simp: cells_Some)
  have "(cells m)(k \<mapsto> cell_of (addSubscriberLocked s j) ka a) = cells m"
    using e \<open>cells m k = Some c\<close> by (auto simp: cell_of_def)
  then show ?thesis
    using Some e eff_refl[OF assms] eff_jobs[OF assms e(1-3), of "addSubscriberLocked s j"]
    by (auto simp: queueRefused_def)
qed

lemma keepaliveRefused_eff:
  assumes "wf m"
  shows "\<exists>r m'. keepaliveRefused k m = Some (r, m') \<and> eff m m' (cells m) \<and>
    (\<forall>n run ctx. r \<noteq> CommitStarted n run ctx) \<and> r \<noteq> CommitRetry"
  using eff_refl[OF assms] by (auto simp: keepaliveRefused_def split: option.split)

definition cell_startQueue :: "cell \<Rightarrow> cell" where
  "cell_startQueue c = c\<lparr>c_state := StateRunning, c_run := Suc (c_run c),
     c_workers := Suc (c_workers c), c_changed := Suc (c_changed c)\<rparr>"

definition cell_startKeepalive :: "cell \<Rightarrow> cell" where
  "cell_startKeepalive c = c\<lparr>c_kstate := KeepaliveStateRequesting, c_krun := Suc (c_krun c),
     c_kworkers := Suc (c_kworkers c), c_changed := Suc (c_changed c)\<rparr>"

lemma startQueueCommit_started:
  assumes "wf m" "cells m k = Some c" "\<not> m_shuttingDown m" "c_state c \<noteq> StateRunning"
    "c_kstate c = KeepaliveStateStopped" "c_kworkers c = 0"
  shows "\<exists>name m'. startQueueCommit now k s m =
      Some (CommitStarted name (Suc (c_run c)) (m_nextCtx m), m') \<and>
    eff (m\<lparr>m_runWG := Suc (m_runWG m)\<rparr>) m' ((cells m)(k \<mapsto> cell_startQueue c))"
proof -
  from assms(2) obtain j ka a where e: "m_jobs m k = Some j" "m_keepalives m k = Some ka"
    "m_arbiters m k = Some a" "c = cell_of j ka a" by (auto simp: cells_Some)
  obtain t where t: "m_targets m k = Some t" using assms(1,2) cells_target by blast
  let ?j1 = "(addSubscriberLocked s j)\<lparr>j_runID := Suc (j_runID j), j_cancel := Some (m_nextCtx m),
      j_state := StateRunning, j_attempts := 0, j_startedAt := Some now, j_lastAttempt := time_zero,
      j_nextAttempt := time_zero, j_finishedAt := time_zero, j_lastError := []\<rparr>"
  let ?m1 = "m\<lparr>m_nextCtx := Suc (m_nextCtx m), m_jobs := (m_jobs m)(k \<mapsto> ?j1)\<rparr>"
  have w1: "wf ?m1"
    by (rule view_upd(1)[OF assms(1,2), where j = ?j1 and ka = ka and a = a])
      (simp_all add: e fun_upd_idem)
  let ?a = "a\<lparr>a_changed := Suc (a_changed a)\<rparr>" and ?j2 = "?j1\<lparr>j_workers := Suc (j_workers j)\<rparr>"
  let ?m' = "(bc ?m1)\<lparr>m_arbiters := (m_arbiters m)(k \<mapsto> ?a), m_runWG := Suc (m_runWG m),
     m_jobs := (m_jobs m)(k \<mapsto> ?j2)\<rparr>"
  have "startQueueCommit now k s m =
      Some (CommitStarted (t_Name t) (Suc (c_run c)) (m_nextCtx m), ?m')"
    using assms(3-) t e broadcast_wf[OF w1]
    by (simp add: startQueueCommit_def with_cancel_def signalTargetLocked_def cell_of_def Let_def)
  moreover have "eff (m\<lparr>m_runWG := Suc (m_runWG m)\<rparr>) ?m' ((cells m)(k \<mapsto> cell_of ?j2 ka ?a))"
    by (rule eff_upd[OF assms(1,2)]) (simp_all add: e fun_upd_idem)
  ultimately show ?thesis using e(4) by (simp add: cell_of_def cell_startQueue_def)
qed

lemma startQueueCommit_eff:
  assumes "wf m" "startQueueCommit now k s m = Some (r, m')"
    "\<not> (\<exists>n run ctx. r = CommitStarted n run ctx)"
  shows "eff m m' (cells m)"
proof (cases "m_targets m k")
  case None
  then show ?thesis using assms(2) eff_refl[OF assms(1)] by (auto simp: startQueueCommit_def)
next
  case (Some t)
  then obtain c where c: "cells m k = Some c" using cells_target[OF assms(1)] by blast
  then obtain j ka a where e: "m_jobs m k = Some j" "m_keepalives m k = Some ka"
    "m_arbiters m k = Some a" "c = cell_of j ka a" by (auto simp: cells_Some)
  have "(cells m)(k \<mapsto> cell_of (addSubscriberLocked s j) ka a) = cells m"
    using e c by (auto simp: cell_of_def)
  then have "eff m (m\<lparr>m_jobs := (m_jobs m)(k \<mapsto> addSubscriberLocked s j)\<rparr>) (cells m)"
    using eff_jobs[OF assms(1) e(1-3), of "addSubscriberLocked s j"] by simp
  then show ?thesis
    using assms(2,3) Some e eff_refl[OF assms(1)]
      startQueueCommit_started[OF assms(1) c, of now s]
    by (auto simp: startQueueCommit_def cell_of_def split: if_splits)
qed

lemma startQueueCommit_defined:
  assumes "wf m"
  shows "\<exists>r m'. startQueueCommit now k s m = Some (r, m')"
proof (cases "m_targets m k")
  case (Some t)
  then obtain c where c: "cells m k = Some c" using cells_target[OF assms] by blast
  then obtain j ka a where e: "m_jobs m k = Some j" "m_keepalives m k = Some ka"
    "c = cell_of j ka a" by (auto simp: cells_Some)
  then show ?thesis
    using Some startQueueCommit_started[OF assms c, of now s]
    by (cases "m_shuttingDown m \<or> j_state j = StateRunning \<or>
        k_state ka \<noteq> KeepaliveStateStopped \<or> k_workers ka > 0")
      (auto simp: startQueueCommit_def cell_of_def)
qed (simp add: startQueueCommit_def)

lemma startQueueCommit_startedD:
  assumes "wf m" "startQueueCommit now k s m = Some (CommitStarted n run ctx, m')"
  shows "\<exists>c. cells m k = Some c \<and> \<not> m_shuttingDown m \<and> c_state c \<noteq> StateRunning \<and>
    c_kstate c = KeepaliveStateStopped \<and> c_kworkers c = 0 \<and> run = Suc (c_run c) \<and>
    eff (m\<lparr>m_runWG := Suc (m_runWG m)\<rparr>) m' ((cells m)(k \<mapsto> cell_startQueue c))"
proof -
  from assms(2) obtain t where t: "m_targets m k = Some t"
    by (auto simp: startQueueCommit_def split: option.splits)
  then obtain c where c: "cells m k = Some c" using cells_target[OF assms(1)] by blast
  then obtain j ka a where e: "m_jobs m k = Some j" "m_keepalives m k = Some ka"
    "c = cell_of j ka a" by (auto simp: cells_Some)
  have g: "\<not> m_shuttingDown m" "c_state c \<noteq> StateRunning" "c_kstate c = KeepaliveStateStopped"
    "c_kworkers c = 0"
    using assms(2) t e by (auto simp: startQueueCommit_def cell_of_def split: if_splits)
  from startQueueCommit_started[OF assms(1) c g, of now s] assms(2) c g show ?thesis by auto
qed

lemma startKeepaliveCommit_started:
  assumes "wf m" "cells m k = Some c" "\<not> m_shuttingDown m"
    "c_kstate c = KeepaliveStateStopped" "c_state c \<noteq> StateRunning" "c_workers c = 0"
  shows "\<exists>name m'. startKeepaliveCommit now k m =
      Some (CommitStarted name (Suc (c_krun c)) (m_nextCtx m), m') \<and>
    eff (m\<lparr>m_runWG := Suc (m_runWG m)\<rparr>) m' ((cells m)(k \<mapsto> cell_startKeepalive c))"
proof -
  from assms(2) obtain j ka a where e: "m_jobs m k = Some j" "m_keepalives m k = Some ka"
    "m_arbiters m k = Some a" "c = cell_of j ka a" by (auto simp: cells_Some)
  obtain t where t: "m_targets m k = Some t" using assms(1,2) cells_target by blast
  let ?k1 = "ka\<lparr>k_runID := Suc (k_runID ka), k_cancel := Some (m_nextCtx m),
      k_state := KeepaliveStateRequesting, k_requests := 0, k_startedAt := Some now,
      k_lastRequest := time_zero, k_lastSuccess := time_zero, k_lastFailure := time_zero,
      k_nextRequest := time_zero, k_stoppedAt := time_zero, k_lastError := []\<rparr>"
  let ?m1 = "m\<lparr>m_nextCtx := Suc (m_nextCtx m), m_keepalives := (m_keepalives m)(k \<mapsto> ?k1)\<rparr>"
  have w1: "wf ?m1"
    by (rule view_upd(1)[OF assms(1,2), where j = j and ka = ?k1 and a = a])
      (simp_all add: e fun_upd_idem)
  let ?a = "a\<lparr>a_changed := Suc (a_changed a)\<rparr>" and ?k2 = "?k1\<lparr>k_workers := Suc (k_workers ka)\<rparr>"
  let ?m' = "(bc ?m1)\<lparr>m_arbiters := (m_arbiters m)(k \<mapsto> ?a), m_runWG := Suc (m_runWG m),
     m_keepalives := (m_keepalives m)(k \<mapsto> ?k2)\<rparr>"
  have "startKeepaliveCommit now k m =
      Some (CommitStarted (t_Name t) (Suc (c_krun c)) (m_nextCtx m), ?m')"
    using assms(3-) t e broadcast_wf[OF w1]
    by (simp add: startKeepaliveCommit_def with_cancel_def signalTargetLocked_def cell_of_def Let_def)
  moreover have "eff (m\<lparr>m_runWG := Suc (m_runWG m)\<rparr>) ?m' ((cells m)(k \<mapsto> cell_of j ?k2 ?a))"
    by (rule eff_upd[OF assms(1,2)]) (simp_all add: e fun_upd_idem)
  ultimately show ?thesis using e(4) by (simp add: cell_of_def cell_startKeepalive_def)
qed

lemma startKeepaliveCommit_cases:
  assumes "wf m"
  shows "(\<exists>r. startKeepaliveCommit now k m = Some (r, m) \<and> (\<forall>n run ctx. r \<noteq> CommitStarted n run ctx)) \<or>
    (\<exists>c n m'. cells m k = Some c \<and> \<not> m_shuttingDown m \<and> c_kstate c = KeepaliveStateStopped \<and>
      c_state c \<noteq> StateRunning \<and> c_workers c = 0 \<and>
      startKeepaliveCommit now k m = Some (CommitStarted n (Suc (c_krun c)) (m_nextCtx m), m') \<and>
      eff (m\<lparr>m_runWG := Suc (m_runWG m)\<rparr>) m' ((cells m)(k \<mapsto> cell_startKeepalive c)))"
proof (cases "m_targets m k")
  case None
  then show ?thesis by (auto simp: startKeepaliveCommit_def)
next
  case (Some t)
  then obtain c where c: "cells m k = Some c" using cells_target[OF assms] by blast
  then obtain j ka a where e: "m_jobs m k = Some j" "m_keepalives m k = Some ka"
    "c = cell_of j ka a" by (auto simp: cells_Some)
  show ?thesis
  proof (cases "\<not> m_shuttingDown m \<and> c_kstate c = KeepaliveStateStopped \<and>
      c_state c \<noteq> StateRunning \<and> c_workers c = 0")
    case True
    then show ?thesis using c startKeepaliveCommit_started[OF assms c, of now] by blast
  next
    case False
    then show ?thesis using Some e by (auto simp: startKeepaliveCommit_def cell_of_def)
  qed
qed

lemma startQueueCommit_cases:
  assumes "wf m"
  shows "(\<exists>r m'. startQueueCommit now k s m = Some (r, m') \<and> eff m m' (cells m) \<and>
      (\<forall>n run ctx. r \<noteq> CommitStarted n run ctx)) \<or>
    (\<exists>c n m'. cells m k = Some c \<and> \<not> m_shuttingDown m \<and> c_state c \<noteq> StateRunning \<and>
      c_kstate c = KeepaliveStateStopped \<and> c_kworkers c = 0 \<and>
      startQueueCommit now k s m = Some (CommitStarted n (Suc (c_run c)) (m_nextCtx m), m') \<and>
      eff (m\<lparr>m_runWG := Suc (m_runWG m)\<rparr>) m' ((cells m)(k \<mapsto> cell_startQueue c)))"
proof -
  obtain r m' where rm: "startQueueCommit now k s m = Some (r, m')"
    using startQueueCommit_defined[OF assms] by blast
  show ?thesis
  proof (cases "\<exists>n run ctx. r = CommitStarted n run ctx")
    case True
    then obtain c where c: "cells m k = Some c" and g: "\<not> m_shuttingDown m"
      "c_state c \<noteq> StateRunning" "c_kstate c = KeepaliveStateStopped" "c_kworkers c = 0"
      using startQueueCommit_startedD[OF assms] rm by blast
    show ?thesis using c g startQueueCommit_started[OF assms c g, of now s] by blast
  next
    case False
    then show ?thesis using rm startQueueCommit_eff[OF assms rm] by blast
  qed
qed

section \<open>Sections of the queue worker\<close>

lemma acquireQueueTarget_eff:
  assumes "wf m" "cells m k = Some c"
  shows "acquireQueueTarget k run m =
      (if c_run c \<noteq> run \<or> c_state c \<noteq> StateRunning then Some (AcquireInvalid, m)
       else if c_owner c \<noteq> requestOwnerNone then Some (AcquireWait (c_changed c), m)
       else acquireQueueTarget k run m)"
    "c_run c = run \<Longrightarrow> c_state c = StateRunning \<Longrightarrow> c_owner c = requestOwnerNone \<Longrightarrow>
     \<exists>m'. acquireQueueTarget k run m = Some (AcquireOK, m') \<and>
       eff m m' ((cells m)(k \<mapsto> c\<lparr>c_owner := requestOwnerQueue, c_ownerRun := run\<rparr>))"
proof -
  from assms(2) obtain j ka a where e: "m_jobs m k = Some j" "m_keepalives m k = Some ka"
    "m_arbiters m k = Some a" "c = cell_of j ka a" by (auto simp: cells_Some)
  show "acquireQueueTarget k run m =
      (if c_run c \<noteq> run \<or> c_state c \<noteq> StateRunning then Some (AcquireInvalid, m)
       else if c_owner c \<noteq> requestOwnerNone then Some (AcquireWait (c_changed c), m)
       else acquireQueueTarget k run m)"
    using e by (simp add: acquireQueueTarget_def cell_of_def)
  assume "c_run c = run" "c_state c = StateRunning" "c_owner c = requestOwnerNone"
  then show "\<exists>m'. acquireQueueTarget k run m = Some (AcquireOK, m') \<and>
       eff m m' ((cells m)(k \<mapsto> c\<lparr>c_owner := requestOwnerQueue, c_ownerRun := run\<rparr>))"
    using e eff_arbiters[OF assms(1) e(1-3),
        of "a\<lparr>a_owner := requestOwnerQueue, a_ownerRunID := run\<rparr>"]
    by (simp add: acquireQueueTarget_def cell_of_def)
qed

lemma finishProcess_eff:
  assumes "wf m"
  shows "\<exists>m'. finishProcess m = Some m' \<and>
    eff (m\<lparr>m_currentProcesses := m_currentProcesses m - 1, m_slotsInUse := m_slotsInUse m - 1,
          m_parallelChanged := Suc (m_parallelChanged m)\<rparr>) m' (cells m)"
  using assms by (auto simp: finishProcess_def signalParallelLocked_def broadcast_wf eff_def)

lemma releaseSlot_eff:
  "wf m \<Longrightarrow> eff (m\<lparr>m_slotsInUse := m_slotsInUse m - 1,
     m_parallelChanged := Suc (m_parallelChanged m)\<rparr>) (releaseSlot m) (cells m)"
  by (simp add: releaseSlot_def signalParallelLocked_def eff_def)

lemma beginAttempt_eff:
  assumes "wf m" "cells m k = Some c"
  shows "c_run c \<noteq> run \<or> c_state c \<noteq> StateRunning \<or> c_owner c \<noteq> requestOwnerQueue \<or>
      c_ownerRun c \<noteq> run \<Longrightarrow> beginAttempt now k run m = Some (None, m)"
    "c_run c = run \<Longrightarrow> c_state c = StateRunning \<Longrightarrow> c_owner c = requestOwnerQueue \<Longrightarrow>
     c_ownerRun c = run \<Longrightarrow> \<exists>n m'. beginAttempt now k run m = Some (Some (n, target_at m k), m') \<and>
       eff (m\<lparr>m_currentProcesses := Suc (m_currentProcesses m)\<rparr>) m' (cells m)"
proof -
  from assms(2) obtain j ka a where e: "m_jobs m k = Some j" "m_keepalives m k = Some ka"
    "m_arbiters m k = Some a" "c = cell_of j ka a" by (auto simp: cells_Some)
  show "c_run c \<noteq> run \<or> c_state c \<noteq> StateRunning \<or> c_owner c \<noteq> requestOwnerQueue \<or>
      c_ownerRun c \<noteq> run \<Longrightarrow> beginAttempt now k run m = Some (None, m)"
    using e by (auto simp: beginAttempt_def cell_of_def)
  assume v: "c_run c = run" "c_state c = StateRunning" "c_owner c = requestOwnerQueue"
    "c_ownerRun c = run"
  let ?j = "j\<lparr>j_attempts := Suc (j_attempts j), j_lastAttempt := Some now, j_nextAttempt := time_zero\<rparr>"
  let ?m1 = "m\<lparr>m_jobs := (m_jobs m)(k \<mapsto> ?j), m_currentProcesses := Suc (m_currentProcesses m)\<rparr>"
  have "eff (m\<lparr>m_currentProcesses := Suc (m_currentProcesses m)\<rparr>) ?m1
      ((cells m)(k \<mapsto> cell_of ?j ka a))"
    by (rule eff_upd[OF assms]) (simp_all add: e fun_upd_idem)
  moreover have "(cells m)(k \<mapsto> cell_of ?j ka a) = cells m"
    using e assms(2) by (auto simp: cell_of_def)
  ultimately show "\<exists>n m'. beginAttempt now k run m = Some (Some (n, target_at m k), m') \<and>
       eff (m\<lparr>m_currentProcesses := Suc (m_currentProcesses m)\<rparr>) m' (cells m)"
    using e v broadcast_wf[of ?m1] target_at_cong[of ?m1 m]
    by (auto simp: beginAttempt_def cell_of_def eff_def)
qed

lemma markFailure_eff:
  assumes "wf m" "cells m k = Some c"
  shows "\<exists>m'. markFailure k run result m =
      Some (c_run c = run \<and> c_state c = StateRunning, m') \<and>
    eff m m' ((cells m)(k \<mapsto> cell_release requestOwnerQueue run c))"
proof -
  from assms(2) obtain j ka a where e: "m_jobs m k = Some j" "m_keepalives m k = Some ka"
    "m_arbiters m k = Some a" "c = cell_of j ka a" by (auto simp: cells_Some)
  let ?v = "j_runID j = run \<and> j_state j = StateRunning"
  let ?j = "j\<lparr>j_lastError := sanitizeTargetError (target_at m k) (r_Error result),
      j_nextAttempt := time_zero\<rparr>"
  let ?m1 = "if ?v then m\<lparr>m_jobs := (m_jobs m)(k \<mapsto> ?j)\<rparr> else m"
  have "(cells m)(k \<mapsto> cell_of ?j ka a) = cells m" using e assms(2) by (auto simp: cell_of_def)
  then have 1: "eff m ?m1 (cells m)"
    using eff_jobs[OF assms(1) e(1-3), of ?j] eff_refl[OF assms(1)] by auto
  then have w1: "wf ?m1" and c1: "cells ?m1 = cells m" by (simp_all only: eff_def)
  from release_eff[OF w1, of k c requestOwnerQueue run] c1 assms(2) obtain m2
    where 2: "releaseTargetLocked k requestOwnerQueue run ?m1 = Some m2"
      "eff ?m1 m2 ((cells m)(k \<mapsto> cell_release requestOwnerQueue run c))"
    by (simp only:) blast
  from eff_trans[OF 1 2(2)] have 3: "eff m m2 ((cells m)(k \<mapsto> cell_release requestOwnerQueue run c))" .
  then have "wf m2" by (simp add: eff_def)
  show ?thesis
    using 2(1) 3 e broadcast_wf[OF \<open>wf m2\<close>]
    by (cases ?v) (auto simp: markFailure_def cell_of_def Let_def)
qed

lemma markSuccess_eff:
  assumes "wf m" "cells m k = Some c"
  shows "\<exists>subs m'. markSuccess now k run m = Some (subs, m') \<and>
    (subs \<noteq> None \<longleftrightarrow> c_run c = run \<and> c_state c = StateRunning) \<and>
    eff m m' ((cells m)(k \<mapsto> cell_release requestOwnerQueue run
      (if c_run c = run \<and> c_state c = StateRunning then c\<lparr>c_state := StateSucceeded\<rparr> else c)))"
proof -
  from assms(2) obtain j ka a where e: "m_jobs m k = Some j" "m_keepalives m k = Some ka"
    "m_arbiters m k = Some a" "c = cell_of j ka a" by (auto simp: cells_Some)
  show ?thesis
  proof (cases "j_runID j = run \<and> j_state j = StateRunning")
    case False
    with release_eff[OF assms, of requestOwnerQueue run] e show ?thesis
      by (auto simp: markSuccess_def cell_of_def)
  next
    case True
    let ?j = "j\<lparr>j_state := StateSucceeded, j_finishedAt := Some now, j_nextAttempt := time_zero,
      j_lastError := [], j_cancel := None, j_subscribers := []\<rparr>"
    let ?m1 = "cancel_ctx (j_cancel j) (m\<lparr>m_jobs := (m_jobs m)(k \<mapsto> ?j)\<rparr>)"
    let ?c1 = "c\<lparr>c_state := StateSucceeded\<rparr>"
    have 1: "eff m ?m1 ((cells m)(k \<mapsto> ?c1))"
      using eff_jobs[OF assms(1) e(1-3), of ?j] e(4) by (simp add: cell_of_def)
    then have w1: "wf ?m1" and c1: "cells ?m1 = (cells m)(k \<mapsto> ?c1)" by (simp_all only: eff_def)
    from release_eff[OF w1, of k ?c1 requestOwnerQueue run] c1 obtain m2
      where 2: "releaseTargetLocked k requestOwnerQueue run ?m1 = Some m2"
        "eff ?m1 m2 ((cells m)(k \<mapsto> cell_release requestOwnerQueue run ?c1))" by auto
    from eff_trans[OF 1 2(2)] have "wf m2" by (simp add: eff_def)
    show ?thesis
      using 2(1) eff_trans[OF 1 2(2)] e True broadcast_wf[OF \<open>wf m2\<close>]
      by (auto simp: markSuccess_def cell_of_def Let_def)
  qed
qed

definition cell_cancelQueue :: "nat \<Rightarrow> cell \<Rightarrow> cell" where
  "cell_cancelQueue run c =
     (let c1 = cell_release requestOwnerQueue run c in
      if c_run c = run \<and> c_state c = StateRunning
      then c1\<lparr>c_state := StateStopped, c_changed := Suc (c_changed c1)\<rparr> else c1)"

lemma cell_release_fields [simp]:
  "c_state (cell_release ow run c) = c_state c" "c_run (cell_release ow run c) = c_run c"
  "c_workers (cell_release ow run c) = c_workers c" "c_kstate (cell_release ow run c) = c_kstate c"
  "c_krun (cell_release ow run c) = c_krun c" "c_kworkers (cell_release ow run c) = c_kworkers c"
  by (simp_all add: cell_release_def)

lemma markQueueCancelled_eff:
  assumes "wf m" "cells m k = Some c"
  shows "\<exists>m'. markQueueCancelled now k run m = Some m' \<and>
    eff m m' ((cells m)(k \<mapsto> cell_cancelQueue run c))"
proof -
  let ?c1 = "cell_release requestOwnerQueue run c"
  from release_eff[OF assms, of requestOwnerQueue run] obtain m1
    where 1: "releaseTargetLocked k requestOwnerQueue run m = Some m1" "m_jobs m1 = m_jobs m"
      "eff m m1 ((cells m)(k \<mapsto> ?c1))" by blast
  then have w1: "wf m1" and c1: "cells m1 = (cells m)(k \<mapsto> ?c1)" by (simp_all add: eff_def)
  then have "cells m1 k = Some ?c1" by simp
  then obtain j ka a where e: "m_jobs m1 k = Some j" "m_keepalives m1 k = Some ka"
    "m_arbiters m1 k = Some a" "?c1 = cell_of j ka a" by (auto simp: cells_Some)
  have js: "c_run c = j_runID j" "c_state c = j_state j"
    using e(4) cell_release_fields(1,2)[of requestOwnerQueue run c] by (simp_all add: cell_of_def)
  show ?thesis
  proof (cases "j_runID j = run \<and> j_state j = StateRunning")
    case False
    with 1 e(1) js show ?thesis
      by (auto simp: markQueueCancelled_def cell_cancelQueue_def Let_def)
  next
    case True
    let ?j = "j\<lparr>j_state := StateStopped, j_finishedAt := Some now, j_nextAttempt := time_zero,
        j_cancel := None, j_subscribers := []\<rparr>"
    let ?m2 = "m1\<lparr>m_jobs := (m_jobs m1)(k \<mapsto> ?j)\<rparr>"
    have 2: "eff m1 ?m2 ((cells m1)(k \<mapsto> cell_of ?j ka a))" by (rule eff_jobs[OF w1 e(1-3)])
    then obtain m3 where 3: "signalTargetLocked k ?m2 = Some m3"
      "eff ?m2 m3 ((cells m1)(k \<mapsto> (cell_of ?j ka a)\<lparr>c_changed := Suc (a_changed a)\<rparr>))"
      using signal_eff[of ?m2 k "cell_of ?j ka a"] by (auto simp: eff_def cell_of_def)
    have "(cell_of ?j ka a)\<lparr>c_changed := Suc (a_changed a)\<rparr> = cell_cancelQueue run c"
      using True js e(4) by (simp add: cell_cancelQueue_def cell_of_def Let_def)
    then have 4: "eff m m3 ((cells m)(k \<mapsto> cell_cancelQueue run c))"
      using eff_trans[OF 1(3) eff_trans[OF 2 3(2)]] c1 by simp
    then have "wf m3" by (simp add: eff_def)
    from broadcast_wf[OF this] show ?thesis
      using 1(1,2) e(1) True 3(1) 4 by (auto simp: markQueueCancelled_def)
  qed
qed

lemma finishQueueWorker_eff:
  assumes "wf m" "cells m k = Some c" "0 < c_workers c"
  shows "\<exists>m'. finishQueueWorker k m = Some m' \<and>
    eff m m' ((cells m)(k \<mapsto> c\<lparr>c_workers := c_workers c - 1\<rparr>))"
proof -
  from assms(2) obtain j ka a where e: "m_jobs m k = Some j" "m_keepalives m k = Some ka"
    "m_arbiters m k = Some a" "c = cell_of j ka a" by (auto simp: cells_Some)
  show ?thesis
    using eff_jobs[OF assms(1) e(1-3), of "j\<lparr>j_workers := j_workers j - 1\<rparr>"] e assms(3)
    by (auto simp: finishQueueWorker_def cell_of_def broadcast_wf eff_def)
qed

section \<open>Sections of the keepalive worker\<close>

lemma beginKeepaliveCheck_eff:
  assumes "wf m" "cells m k = Some c"
  shows "\<exists>r m' st. beginKeepaliveCheck k run m = Some (r, m') \<and>
    eff m m' ((cells m)(k \<mapsto> c\<lparr>c_kstate := st\<rparr>)) \<and>
    (if c_krun c \<noteq> run \<or> c_kstate c = KeepaliveStateStopped
     then r = AcquireInvalid \<and> st = c_kstate c
     else if c_state c = StateRunning \<or> c_owner c \<noteq> requestOwnerNone
     then r = AcquireWait (c_changed c) \<and>
       st = (if c_state c = StateRunning \<or> c_owner c = requestOwnerQueue
             then KeepaliveStateWaitingQueue else KeepaliveStateRequesting)
     else r = AcquireOK \<and> st = KeepaliveStateRequesting)"
proof -
  from assms(2) obtain j ka a where e: "m_jobs m k = Some j" "m_keepalives m k = Some ka"
    "m_arbiters m k = Some a" "c = cell_of j ka a" by (auto simp: cells_Some)
  have 0: "eff m m ((cells m)(k \<mapsto> c\<lparr>c_kstate := c_kstate c\<rparr>))"
    using eff_refl[OF assms(1)] assms(2) by (simp add: fun_upd_idem)
  have u: "eff m (m\<lparr>m_keepalives := (m_keepalives m)(k \<mapsto> ka\<lparr>k_state := st\<rparr>)\<rparr>)
      ((cells m)(k \<mapsto> c\<lparr>c_kstate := st\<rparr>))" for st
    using eff_keepalives[OF assms(1) e(1-3), of "ka\<lparr>k_state := st\<rparr>"] e(4) by (simp add: cell_of_def)
  then have w: "wf (m\<lparr>m_keepalives := (m_keepalives m)(k \<mapsto> ka\<lparr>k_state := st\<rparr>)\<rparr>)" for st
    by (simp add: eff_def)
  show ?thesis
    using e 0 u broadcast_wf[OF w] by (auto simp: beginKeepaliveCheck_def cell_of_def Let_def)
qed

lemma beginKeepaliveCommit_eff:
  assumes "wf m" "cells m k = Some c"
  shows "c_krun c \<noteq> run \<or> c_kstate c = KeepaliveStateStopped \<Longrightarrow>
      beginKeepaliveCommit now k run m = Some (KBeginInvalid, m)"
    "c_krun c = run \<Longrightarrow> c_kstate c \<noteq> KeepaliveStateStopped \<Longrightarrow>
     c_state c = StateRunning \<or> c_owner c \<noteq> requestOwnerNone \<Longrightarrow>
     \<exists>m'. beginKeepaliveCommit now k run m = Some (KBeginContended (c_changed c), m') \<and>
       eff m m' ((cells m)(k \<mapsto> c\<lparr>c_kstate :=
         (if c_state c = StateRunning \<or> c_owner c = requestOwnerQueue
          then KeepaliveStateWaitingQueue else c_kstate c)\<rparr>))"
    "c_krun c = run \<Longrightarrow> c_kstate c \<noteq> KeepaliveStateStopped \<Longrightarrow> c_state c \<noteq> StateRunning \<Longrightarrow>
     c_owner c = requestOwnerNone \<Longrightarrow>
     \<exists>n m'. beginKeepaliveCommit now k run m = Some (KBeginOK n (target_at m k), m') \<and>
       eff (m\<lparr>m_currentProcesses := Suc (m_currentProcesses m)\<rparr>) m' ((cells m)(k \<mapsto>
         c\<lparr>c_owner := requestOwnerKeepalive, c_ownerRun := run,
           c_kstate := KeepaliveStateRequesting\<rparr>))"
proof -
  from assms(2) obtain j ka a where e: "m_jobs m k = Some j" "m_keepalives m k = Some ka"
    "m_arbiters m k = Some a" "c = cell_of j ka a" by (auto simp: cells_Some)
  show "c_krun c \<noteq> run \<or> c_kstate c = KeepaliveStateStopped \<Longrightarrow>
      beginKeepaliveCommit now k run m = Some (KBeginInvalid, m)"
    using e by (auto simp: beginKeepaliveCommit_def cell_of_def)
  show "\<exists>m'. beginKeepaliveCommit now k run m = Some (KBeginContended (c_changed c), m') \<and>
       eff m m' ((cells m)(k \<mapsto> c\<lparr>c_kstate :=
         (if c_state c = StateRunning \<or> c_owner c = requestOwnerQueue
          then KeepaliveStateWaitingQueue else c_kstate c)\<rparr>))"
    if "c_krun c = run" "c_kstate c \<noteq> KeepaliveStateStopped"
      "c_state c = StateRunning \<or> c_owner c \<noteq> requestOwnerNone"
  proof -
    have u: "eff m (m\<lparr>m_keepalives := (m_keepalives m)(k \<mapsto> ka\<lparr>k_state := st\<rparr>)\<rparr>)
        ((cells m)(k \<mapsto> c\<lparr>c_kstate := st\<rparr>))" for st
      using eff_keepalives[OF assms(1) e(1-3), of "ka\<lparr>k_state := st\<rparr>"] e(4)
      by (simp add: cell_of_def)
    then have w: "wf (m\<lparr>m_keepalives := (m_keepalives m)(k \<mapsto> ka\<lparr>k_state := st\<rparr>)\<rparr>)" for st
      by (simp add: eff_def)
    let ?st = "if j_state j = StateRunning \<or> a_owner a = requestOwnerQueue
          then KeepaliveStateWaitingQueue else k_state ka"
    let ?m1 = "m\<lparr>m_keepalives := (m_keepalives m)(k \<mapsto> ka\<lparr>k_state := ?st\<rparr>)\<rparr>"
    have "beginKeepaliveCommit now k run m = Some (KBeginContended (c_changed c),
        if ?st \<noteq> k_state ka then bc ?m1 else ?m1)"
      using that e broadcast_wf[OF w[of ?st]]
      by (simp add: beginKeepaliveCommit_def cell_of_def Let_def)
    moreover have "eff m (if ?st \<noteq> k_state ka then bc ?m1 else ?m1)
        ((cells m)(k \<mapsto> c\<lparr>c_kstate := ?st\<rparr>))"
      using u[of ?st] by (cases "?st \<noteq> k_state ka") (simp_all only: if_True if_False eff_bc not_True_eq_False not_False_eq_True)
    moreover have "c_state c = j_state j" "c_owner c = a_owner a" "c_kstate c = k_state ka"
      using e(4) by (simp_all add: cell_of_def)
    ultimately show ?thesis by (simp only:) blast
  qed
  show "\<exists>n m'. beginKeepaliveCommit now k run m = Some (KBeginOK n (target_at m k), m') \<and>
       eff (m\<lparr>m_currentProcesses := Suc (m_currentProcesses m)\<rparr>) m' ((cells m)(k \<mapsto>
         c\<lparr>c_owner := requestOwnerKeepalive, c_ownerRun := run,
           c_kstate := KeepaliveStateRequesting\<rparr>))"
    if "c_krun c = run" "c_kstate c \<noteq> KeepaliveStateStopped" "c_state c \<noteq> StateRunning"
      "c_owner c = requestOwnerNone"
  proof -
    let ?k = "ka\<lparr>k_state := KeepaliveStateRequesting, k_requests := Suc (k_requests ka),
                   k_lastRequest := Some now, k_nextRequest := time_zero\<rparr>"
    let ?a = "a\<lparr>a_owner := requestOwnerKeepalive, a_ownerRunID := run\<rparr>"
    let ?m1 = "m\<lparr>m_arbiters := (m_arbiters m)(k \<mapsto> ?a), m_keepalives := (m_keepalives m)(k \<mapsto> ?k),
          m_currentProcesses := Suc (m_currentProcesses m)\<rparr>"
    have 1: "eff (m\<lparr>m_currentProcesses := Suc (m_currentProcesses m)\<rparr>) ?m1
        ((cells m)(k \<mapsto> cell_of j ?k ?a))"
      by (rule eff_upd[OF assms]) (simp_all add: e fun_upd_idem)
    then have "wf ?m1" by (simp add: eff_def)
    from broadcast_wf[OF this] show ?thesis
      using 1 that e target_at_cong[of ?m1 m]
      by (auto simp: beginKeepaliveCommit_def cell_of_def Let_def)
  qed
qed

lemma finishKeepaliveRequest_eff:
  assumes "wf m" "cells m k = Some c"
  shows "\<exists>m'. finishKeepaliveRequest now draw k run result m =
      Some (c_krun c = run \<and> c_kstate c \<noteq> KeepaliveStateStopped, m') \<and>
    eff m m' ((cells m)(k \<mapsto> cell_release requestOwnerKeepalive run
      (if c_krun c = run \<and> c_kstate c \<noteq> KeepaliveStateStopped
       then c\<lparr>c_kstate := KeepaliveStateWaitingNext\<rparr> else c)))"
proof -
  from assms(2) obtain j ka a where e: "m_jobs m k = Some j" "m_keepalives m k = Some ka"
    "m_arbiters m k = Some a" "c = cell_of j ka a" by (auto simp: cells_Some)
  show ?thesis
  proof (cases "k_runID ka = run \<and> k_state ka \<noteq> KeepaliveStateStopped")
    case False
    with release_eff[OF assms, of requestOwnerKeepalive run] e show ?thesis
      by (auto simp: finishKeepaliveRequest_def cell_of_def)
  next
    case True
    let ?k1 = "if r_Success result then ka\<lparr>k_lastSuccess := Some now\<rparr>
       else ka\<lparr>k_lastFailure := Some now,
              k_lastError := sanitizeTargetError (target_at m k) (r_Error result)\<rparr>"
    let ?k2 = "?k1\<lparr>k_state := KeepaliveStateWaitingNext, k_nextRequest :=
       Some (now + randomDuration draw (m_keepaliveMin m) (m_keepaliveMax m))\<rparr>"
    let ?m1 = "m\<lparr>m_keepalives := (m_keepalives m)(k \<mapsto> ?k2)\<rparr>"
    let ?c1 = "c\<lparr>c_kstate := KeepaliveStateWaitingNext\<rparr>"
    have "cell_of j ?k2 a = ?c1" using e(4) by (simp add: cell_of_def)
    then have 1: "eff m ?m1 ((cells m)(k \<mapsto> ?c1))"
      using eff_keepalives[OF assms(1) e(1-3), of ?k2] by simp
    then have w1: "wf ?m1" and c1: "cells ?m1 = (cells m)(k \<mapsto> ?c1)" by (simp_all only: eff_def)
    from release_eff[OF w1, of k ?c1 requestOwnerKeepalive run] c1 obtain m2
      where 2: "releaseTargetLocked k requestOwnerKeepalive run ?m1 = Some m2"
        "eff ?m1 m2 ((cells m)(k \<mapsto> cell_release requestOwnerKeepalive run ?c1))" by auto
    from eff_trans[OF 1 2(2)] have "wf m2" by (simp add: eff_def)
    have "finishKeepaliveRequest now draw k run result m = Some (True, bc m2)"
      using 2(1) e True broadcast_wf[OF \<open>wf m2\<close>]
      unfolding finishKeepaliveRequest_def Let_def by simp
    then show ?thesis using eff_trans[OF 1 2(2)] True e(4) by (simp add: cell_of_def)
  qed
qed

definition cell_cancelKeepalive :: "nat \<Rightarrow> cell \<Rightarrow> cell" where
  "cell_cancelKeepalive run c =
     (let c1 = cell_release requestOwnerKeepalive run c in
      if c_krun c = run \<and> c_kstate c \<noteq> KeepaliveStateStopped
      then c1\<lparr>c_kstate := KeepaliveStateStopped, c_changed := Suc (c_changed c1)\<rparr> else c1)"

lemma markKeepaliveCancelled_eff:
  assumes "wf m" "cells m k = Some c"
  shows "\<exists>m'. markKeepaliveCancelled now k run m = Some m' \<and>
    eff m m' ((cells m)(k \<mapsto> cell_cancelKeepalive run c))"
proof -
  let ?c1 = "cell_release requestOwnerKeepalive run c"
  from release_eff[OF assms, of requestOwnerKeepalive run] obtain m1
    where 1: "releaseTargetLocked k requestOwnerKeepalive run m = Some m1"
      "m_keepalives m1 = m_keepalives m" "eff m m1 ((cells m)(k \<mapsto> ?c1))" by blast
  then have w1: "wf m1" and c1: "cells m1 = (cells m)(k \<mapsto> ?c1)" by (simp_all add: eff_def)
  then have "cells m1 k = Some ?c1" by simp
  then obtain j ka a where e: "m_jobs m1 k = Some j" "m_keepalives m1 k = Some ka"
    "m_arbiters m1 k = Some a" "?c1 = cell_of j ka a" by (auto simp: cells_Some)
  have ks: "c_krun c = k_runID ka" "c_kstate c = k_state ka"
    using e(4) cell_release_fields(4,5)[of requestOwnerKeepalive run c] by (simp_all add: cell_of_def)
  show ?thesis
  proof (cases "k_runID ka = run \<and> k_state ka \<noteq> KeepaliveStateStopped")
    case False
    with 1 e(2) ks show ?thesis
      by (auto simp: markKeepaliveCancelled_def cell_cancelKeepalive_def Let_def)
  next
    case True
    let ?k = "ka\<lparr>k_state := KeepaliveStateStopped, k_stoppedAt := Some now,
            k_nextRequest := time_zero, k_cancel := None\<rparr>"
    let ?m2 = "m1\<lparr>m_keepalives := (m_keepalives m1)(k \<mapsto> ?k)\<rparr>"
    have 2: "eff m1 ?m2 ((cells m1)(k \<mapsto> cell_of j ?k a))" by (rule eff_keepalives[OF w1 e(1-3)])
    then obtain m3 where 3: "signalTargetLocked k ?m2 = Some m3"
      "eff ?m2 m3 ((cells m1)(k \<mapsto> (cell_of j ?k a)\<lparr>c_changed := Suc (a_changed a)\<rparr>))"
      using signal_eff[of ?m2 k "cell_of j ?k a"] by (auto simp: eff_def cell_of_def)
    have "(cell_of j ?k a)\<lparr>c_changed := Suc (a_changed a)\<rparr> = cell_cancelKeepalive run c"
      using True ks e(4) by (simp add: cell_cancelKeepalive_def cell_of_def Let_def)
    then have 4: "eff m m3 ((cells m)(k \<mapsto> cell_cancelKeepalive run c))"
      using eff_trans[OF 1(3) eff_trans[OF 2 3(2)]] c1 by simp
    then have "wf m3" by (simp add: eff_def)
    from broadcast_wf[OF this] show ?thesis
      using 1(1,2) e(2) True 3(1) 4 by (auto simp: markKeepaliveCancelled_def)
  qed
qed

lemma finishKeepaliveWorker_eff:
  assumes "wf m" "cells m k = Some c" "0 < c_kworkers c"
  shows "\<exists>m'. finishKeepaliveWorker k m = Some m' \<and>
    eff m m' ((cells m)(k \<mapsto> c\<lparr>c_kworkers := c_kworkers c - 1\<rparr>))"
proof -
  from assms(2) obtain j ka a where e: "m_jobs m k = Some j" "m_keepalives m k = Some ka"
    "m_arbiters m k = Some a" "c = cell_of j ka a" by (auto simp: cells_Some)
  show ?thesis
    using eff_keepalives[OF assms(1) e(1-3), of "ka\<lparr>k_workers := k_workers ka - 1\<rparr>"] e assms(3)
    by (auto simp: finishKeepaliveWorker_def cell_of_def broadcast_wf eff_def)
qed

section \<open>Manual requests\<close>

lemma find_key_by_id_mem: "find_key_by_id m i ks = Some k \<Longrightarrow> k \<in> set ks \<and> t_ID (target_at m k) = i"
  by (induction ks) (auto split: if_splits)

lemma targetKeyByID_known:
  assumes "wf m" "targetKeyByIDLocked m i = Some k"
  shows "\<exists>c t. cells m k = Some c \<and> m_targets m k = Some t \<and> t_ID t = i"
proof -
  have k: "k \<in> set (m_order m)" "t_ID (target_at m k) = i"
    using find_key_by_id_mem assms(2) by (auto simp: targetKeyByIDLocked_def)
  then have "k \<in> dom (cells m)" "k \<in> dom (m_targets m)"
    using assms(1) cells_dom[OF assms(1)] by (auto simp: wf_def)
  with k(2) show ?thesis by (auto simp: target_at_def)
qed

lemma reserveAdhoc_cases:
  assumes "wf m"
  shows "(\<exists>err. reserveAdhoc i m = Some (Inl err, m)) \<or>
    (\<exists>k c m'. cells m k = Some c \<and> \<not> cell_busy c \<and> \<not> m_shuttingDown m \<and>
      reserveAdhoc i m = Some (Inr (k, Suc (m_nextAdhocRunID m), m_nextCtx m, target_at m k), m') \<and>
      eff (m\<lparr>m_runWG := Suc (m_runWG m), m_nextAdhocRunID := Suc (m_nextAdhocRunID m)\<rparr>) m'
        ((cells m)(k \<mapsto> c\<lparr>c_owner := requestOwnerAdhoc, c_ownerRun := Suc (m_nextAdhocRunID m)\<rparr>)))"
proof (cases "targetKeyByIDLocked m i")
  case None
  then show ?thesis by (auto simp: reserveAdhoc_def)
next
  case (Some k)
  then obtain c where c: "cells m k = Some c" using targetKeyByID_known[OF assms] by blast
  then obtain j ka a where e: "m_jobs m k = Some j" "m_keepalives m k = Some ka"
    "m_arbiters m k = Some a" "c = cell_of j ka a" by (auto simp: cells_Some)
  show ?thesis
  proof (cases "m_shuttingDown m \<or> m_rootDone m \<or> cell_busy c")
    case True
    then show ?thesis using Some targetBusy_cell[OF c] by (auto simp: reserveAdhoc_def)
  next
    case False
    let ?run = "Suc (m_nextAdhocRunID m)"
    let ?a = "a\<lparr>a_owner := requestOwnerAdhoc, a_ownerRunID := ?run, a_cancel := Some (m_nextCtx m)\<rparr>"
    let ?m1 = "m\<lparr>m_nextCtx := Suc (m_nextCtx m), m_nextAdhocRunID := ?run,
       m_arbiters := (m_arbiters m)(k \<mapsto> ?a), m_runWG := Suc (m_runWG m)\<rparr>"
    have 1: "eff (m\<lparr>m_runWG := Suc (m_runWG m), m_nextAdhocRunID := ?run\<rparr>) ?m1
        ((cells m)(k \<mapsto> cell_of j ka ?a))"
      by (rule eff_upd[OF assms c]) (simp_all add: e fun_upd_idem)
    then have "wf ?m1" by (simp add: eff_def)
    from broadcast_wf[OF this] False Some e targetBusy_cell[OF c]
    have "reserveAdhoc i m = Some (Inr (k, ?run, m_nextCtx m, target_at m k), bc ?m1)"
      by (simp add: reserveAdhoc_def with_cancel_def)
    with 1 c False e(4) show ?thesis by (auto simp: cell_of_def)
  qed
qed

lemma startAdhocProcess_eff:
  assumes "wf m" "cells m k = Some c" "c_owner c = requestOwnerAdhoc" "c_ownerRun c = run"
  shows "\<exists>m'. startAdhocProcess k run m = Some (True, m') \<and>
    eff (m\<lparr>m_currentProcesses := Suc (m_currentProcesses m)\<rparr>) m' (cells m)"
proof -
  from assms(2) obtain j ka a where e: "m_jobs m k = Some j" "m_keepalives m k = Some ka"
    "m_arbiters m k = Some a" "c = cell_of j ka a" by (auto simp: cells_Some)
  show ?thesis
    using assms(1,3,4) e by (auto simp: startAdhocProcess_def cell_of_def broadcast_wf eff_def)
qed

lemma finishAdhocRequest_eff:
  assumes "wf m" "cells m k = Some c" "c_owner c = requestOwnerAdhoc" "c_ownerRun c = run"
    "slot \<Longrightarrow> 0 < m_slotsInUse m"
  shows "\<exists>m'. finishAdhocRequest k run slot proc m = Some m' \<and>
    eff (m\<lparr>m_currentProcesses := (if proc then m_currentProcesses m - 1 else m_currentProcesses m),
          m_slotsInUse := (if slot then m_slotsInUse m - 1 else m_slotsInUse m),
          m_parallelChanged := (if slot then Suc (m_parallelChanged m) else m_parallelChanged m),
          m_runWG := m_runWG m - 1\<rparr>) m' ((cells m)(k \<mapsto> cell_release requestOwnerAdhoc run c))"
proof -
  from assms(2) obtain j ka a where e: "m_jobs m k = Some j" "m_keepalives m k = Some ka"
    "m_arbiters m k = Some a" "c = cell_of j ka a" by (auto simp: cells_Some)
  let ?a = "a\<lparr>a_owner := requestOwnerNone, a_ownerRunID := 0, a_cancel := None,
      a_changed := Suc (a_changed a)\<rparr>"
  let ?m1 = "if proc \<and> 0 < m_currentProcesses m
      then m\<lparr>m_currentProcesses := m_currentProcesses m - 1\<rparr> else m"
  let ?m2 = "if slot then signalParallelLocked (?m1\<lparr>m_slotsInUse := m_slotsInUse m - 1\<rparr>) else ?m1"
  let ?m3 = "?m2\<lparr>m_arbiters := (m_arbiters m)(k \<mapsto> ?a)\<rparr>"
  have w3: "wf ?m3"
    by (rule view_upd(1)[OF assms(1,2), where j = j and ka = ka and a = ?a])
      (simp_all add: e fun_upd_idem signalParallelLocked_def)
  have "finishAdhocRequest k run slot proc m = Some ((bc ?m3)\<lparr>m_runWG := m_runWG m - 1\<rparr>)"
    using e assms(3-5) broadcast_wf[OF w3]
    by (cases proc; cases "m_currentProcesses m = 0"; cases slot)
      (simp_all add: finishAdhocRequest_def cell_of_def signalTargetLocked_def
        signalParallelLocked_def Let_def)
  moreover have "eff (m\<lparr>m_currentProcesses := (if proc then m_currentProcesses m - 1 else m_currentProcesses m),
          m_slotsInUse := (if slot then m_slotsInUse m - 1 else m_slotsInUse m),
          m_parallelChanged := (if slot then Suc (m_parallelChanged m) else m_parallelChanged m),
          m_runWG := m_runWG m - 1\<rparr>) ((bc ?m3)\<lparr>m_runWG := m_runWG m - 1\<rparr>)
       ((cells m)(k \<mapsto> cell_of j ka ?a))"
    by (rule eff_upd[OF assms(1,2)]) (simp_all add: e fun_upd_idem signalParallelLocked_def)
  ultimately show ?thesis using e(4) assms(3,4) by (simp add: cell_of_def cell_release_def)
qed

end
