(* ===== verification/Jobs_Targets.thy ===== *)
theory Jobs_Targets
  imports Jobs_Effects
begin

text \<open>
  The target store inside the manager: creation, replacement (with renaming), deletion and display
  order (\<open>CreateTarget\<close>, \<open>UpdateTarget\<close>, \<open>DeleteTarget\<close>, \<open>sortTargetsLocked\<close>), the constructor
  \<open>New\<close> and \<open>UpdateSettings\<close>, with their effects on well-formedness and on the view.

  The callbacks that write to the database are parameters. What the manager relies on is named:
  \<open>persist_fresh\<close> (a created target gets an identifier that no other target has) and
  \<open>persist_keeps_id\<close> (an updated target keeps its identifier).
\<close>

definition persist_fresh ::
  "(config_target \<Rightarrow> manager_error + config_target) \<Rightarrow> manager \<Rightarrow> bool" where
  "persist_fresh persist m \<longleftrightarrow>
     (\<forall>t t'. persist t = Inr t' \<longrightarrow> (\<forall>k s. m_targets m k = Some s \<longrightarrow> t_ID s \<noteq> t_ID t'))"

definition persist_keeps_id ::
  "(config_target \<Rightarrow> manager_error + config_target) \<Rightarrow> int \<Rightarrow> bool" where
  "persist_keeps_id persist i \<longleftrightarrow> (\<forall>t t'. persist t = Inr t' \<longrightarrow> t_ID t' = i)"

text \<open>\<open>reshape m m' V\<close>: like \<open>eff\<close>, but the set of targets may change.\<close>

definition reshape :: "manager \<Rightarrow> manager \<Rightarrow> (key \<rightharpoonup> cell) \<Rightarrow> bool" where
  "reshape m m' V \<longleftrightarrow> wf m' \<and> cells m' = V \<and> m_slotsInUse m' = m_slotsInUse m \<and>
     m_currentProcesses m' = m_currentProcesses m \<and> m_maxParallel m' = m_maxParallel m \<and>
     m_parallelChanged m' = m_parallelChanged m \<and> m_runWG m' = m_runWG m \<and>
     m_nextAdhocRunID m' = m_nextAdhocRunID m \<and> m_shuttingDown m' = m_shuttingDown m"

lemma eff_reshape: "eff m m' V \<Longrightarrow> reshape m m' V"
  by (simp add: eff_def reshape_def)

lemma reshape_refl: "wf m \<Longrightarrow> reshape m m (cells m)"
  by (simp add: reshape_def)

lemma reshape_bc [simp]: "reshape m (bc m') V = reshape m m' V"
  by (simp add: reshape_def)

section \<open>Display order\<close>

lemma sort_fields [simp]:
  "m_targets (sortTargetsLocked m) = m_targets m" "m_jobs (sortTargetsLocked m) = m_jobs m"
  "m_keepalives (sortTargetsLocked m) = m_keepalives m"
  "m_arbiters (sortTargetsLocked m) = m_arbiters m"
  "set (m_order (sortTargetsLocked m)) = set (m_order m)"
  "distinct (m_order (sortTargetsLocked m)) = distinct (m_order m)"
  by (simp_all add: sortTargetsLocked_def)

lemma sort_target_at [simp]: "target_at (sortTargetsLocked m) = target_at m"
  by (rule target_at_cong) simp

lemma sort_wf [simp]: "wf (sortTargetsLocked m) = wf m"
  by (simp add: wf_def)

lemma sort_reshape [simp]: "reshape m (sortTargetsLocked m') V = reshape m m' V"
proof -
  have "cells (sortTargetsLocked m') = cells m'" by (rule cells_cong) simp_all
  then show ?thesis
    unfolding reshape_def sort_wf by (simp add: sortTargetsLocked_def)
qed

lemma target_rank_sort [simp]: "target_rank (sortTargetsLocked m) = target_rank m"
  by (rule ext) (simp add: target_rank_def)

definition in_display_order :: "manager \<Rightarrow> bool" where
  "in_display_order m \<longleftrightarrow> sorted (map (target_rank m) (m_order m))"

lemma sort_in_display_order: "in_display_order (sortTargetsLocked m)"
  by (simp add: in_display_order_def) (simp add: sortTargetsLocked_def)

lemma bc_in_display_order [simp]: "in_display_order (bc m) = in_display_order m"
proof -
  have "target_rank (bc m) = target_rank m" by (rule ext) (simp add: target_rank_def)
  then show ?thesis by (simp add: in_display_order_def)
qed

section \<open>Construction and creation\<close>

definition fresh_cell :: cell where
  "fresh_cell = cell_of fresh_job fresh_keepalive fresh_arbiter"

lemma fresh_cell_idle [simp]: "\<not> cell_busy fresh_cell"
  by (simp add: fresh_cell_def cell_of_def cell_busy_def fresh_job_def fresh_keepalive_def
      fresh_arbiter_def)

lemma target_at_upd [simp]:
  "m_targets m' = (m_targets m)(k \<mapsto> t) \<Longrightarrow> target_at m' k' = (if k' = k then t else target_at m k')"
  by (simp add: target_at_def)

lemma add_entry_wf:
  assumes "wf m" "m_targets m (normalizeName (t_Name t)) = None"
    "\<forall>k s. m_targets m k = Some s \<longrightarrow> t_ID s \<noteq> t_ID t"
  shows "wf (add_entry t m)"
proof -
  let ?k = "normalizeName (t_Name t)"
  have n: "?k \<notin> set (m_order m)" using assms(1,2) by (auto simp: wf_def)
  have at: "target_at (add_entry t m) k = (if k = ?k then t else target_at m k)" for k
    by (rule target_at_upd) (simp add: add_entry_def Let_def)
  have known: "\<exists>s. m_targets m k = Some s \<and> target_at m k = s" if "k \<in> set (m_order m)" for k
  proof -
    from that assms(1) have "k \<in> dom (m_targets m)" by (simp add: wf_def)
    then show ?thesis by (auto simp: target_at_def)
  qed
  have i: "inj_on (\<lambda>k. t_ID (target_at (add_entry t m) k)) (set (m_order (add_entry t m)))"
  proof (rule inj_onI)
    fix x y
    assume "x \<in> set (m_order (add_entry t m))" "y \<in> set (m_order (add_entry t m))"
      and e: "t_ID (target_at (add_entry t m) x) = t_ID (target_at (add_entry t m) y)"
    then have "x = ?k \<or> x \<in> set (m_order m)" "y = ?k \<or> y \<in> set (m_order m)"
      by (auto simp: add_entry_def Let_def)
    moreover have old: "t_ID (target_at m z) \<noteq> t_ID t" if "z \<in> set (m_order m)" for z
      using known[OF that] assms(3) by auto
    moreover have "inj_on (\<lambda>k. t_ID (target_at m k)) (set (m_order m))"
      using assms(1) by (simp add: wf_def)
    ultimately show "x = y"
      using e n unfolding at by (auto simp: inj_on_def split: if_splits)
  qed
  have d: "dom (m_targets (add_entry t m)) = set (m_order (add_entry t m))"
    "dom (m_jobs (add_entry t m)) = set (m_order (add_entry t m))"
    "dom (m_keepalives (add_entry t m)) = set (m_order (add_entry t m))"
    "dom (m_arbiters (add_entry t m)) = set (m_order (add_entry t m))"
    using assms(1) by (auto simp: wf_def add_entry_def Let_def)
  have "\<forall>k s. m_targets (add_entry t m) k = Some s \<longrightarrow> normalizeName (t_Name s) = k"
    using assms(1) by (auto simp: wf_def add_entry_def Let_def)
  moreover have "distinct (m_order (add_entry t m))"
    using assms(1) n by (simp add: wf_def add_entry_def Let_def)
  ultimately show ?thesis using i d unfolding wf_def by blast
qed

lemma add_entry_reshape:
  assumes "wf m" "m_targets m (normalizeName (t_Name t)) = None"
    "\<forall>k s. m_targets m k = Some s \<longrightarrow> t_ID s \<noteq> t_ID t"
  shows "reshape m (add_entry t m) ((cells m)(normalizeName (t_Name t) \<mapsto> fresh_cell))"
proof -
  have "cells (add_entry t m) = (cells m)(normalizeName (t_Name t) \<mapsto> fresh_cell)"
    by (rule ext) (simp add: cells_def add_entry_def Let_def fresh_cell_def)
  with add_entry_wf[OF assms] show ?thesis by (simp add: reshape_def add_entry_def Let_def)
qed

lemma CreateTarget_reshape:
  assumes "wf m" "persist_fresh persist m"
  shows "\<exists>r m'. CreateTarget target persist m = Some (r, m') \<and>
    (r \<noteq> None \<and> m' = m \<or>
     r = None \<and> in_display_order m' \<and> (\<exists>k t'. cells m k = None \<and> normalizeName (t_Name t') = k \<and>
       m_targets m' = (m_targets m)(k \<mapsto> t') \<and> reshape m m' ((cells m)(k \<mapsto> fresh_cell))))"
proof (cases target)
  case (Some t)
  show ?thesis
  proof (cases "m_targets m (normalizeName (t_Name t)) \<noteq> None")
    case False
    show ?thesis
    proof (cases "persist t")
      case (Inr t')
      let ?k = "normalizeName (t_Name t')"
      show ?thesis
      proof (cases "m_targets m ?k = None")
        case True
        have id: "\<forall>k s. m_targets m k = Some s \<longrightarrow> t_ID s \<noteq> t_ID t'"
          using assms(2) Inr by (auto simp: persist_fresh_def)
        let ?m = "sortTargetsLocked (add_entry t' m)"
        have r: "reshape m ?m ((cells m)(?k \<mapsto> fresh_cell))"
          using add_entry_reshape[OF assms(1) True id] by simp
        then have b: "broadcastStateLocked ?m = Some (bc ?m)"
          by (intro broadcast_wf) (simp add: reshape_def)
        have "m_targets ?m = (m_targets m)(?k \<mapsto> t')" by (simp add: add_entry_def Let_def)
        with r b show ?thesis
          using Some False Inr True assms(1) cells_None[OF assms(1), of ?k]
          by (auto simp: CreateTarget_def sort_in_display_order)
      qed (use Some False Inr in \<open>auto simp: CreateTarget_def\<close>)
    qed (use Some False in \<open>auto simp: CreateTarget_def\<close>)
  qed (use Some in \<open>auto simp: CreateTarget_def\<close>)
qed (auto simp: CreateTarget_def)

lemma empty_manager_wf: "wf (empty_manager h ms a b p s)"
  by (simp add: wf_def empty_manager_def)

lemma fold_add_entry_wf:
  assumes "wf m" "distinct (map (\<lambda>t. normalizeName (t_Name t)) ts)" "distinct (map t_ID ts)"
    "\<forall>t\<in>set ts. m_targets m (normalizeName (t_Name t)) = None"
    "\<forall>t\<in>set ts. \<forall>k s. m_targets m k = Some s \<longrightarrow> t_ID s \<noteq> t_ID t"
    "\<forall>k c. cells m k = Some c \<longrightarrow> c = fresh_cell"
  shows "wf (fold add_entry ts m) \<and> (\<forall>k c. cells (fold add_entry ts m) k = Some c \<longrightarrow> c = fresh_cell) \<and>
    m_slotsInUse (fold add_entry ts m) = m_slotsInUse m \<and>
    m_currentProcesses (fold add_entry ts m) = m_currentProcesses m \<and>
    m_runWG (fold add_entry ts m) = m_runWG m"
  using assms
proof (induction ts arbitrary: m)
  case (Cons t ts)
  have r: "reshape m (add_entry t m) ((cells m)(normalizeName (t_Name t) \<mapsto> fresh_cell))"
    by (rule add_entry_reshape) (use Cons.prems in auto)
  have "wf (fold add_entry ts (add_entry t m)) \<and>
    (\<forall>k c. cells (fold add_entry ts (add_entry t m)) k = Some c \<longrightarrow> c = fresh_cell) \<and>
    m_slotsInUse (fold add_entry ts (add_entry t m)) = m_slotsInUse (add_entry t m) \<and>
    m_currentProcesses (fold add_entry ts (add_entry t m)) = m_currentProcesses (add_entry t m) \<and>
    m_runWG (fold add_entry ts (add_entry t m)) = m_runWG (add_entry t m)"
  proof (rule Cons.IH)
    show "wf (add_entry t m)" using r by (simp add: reshape_def)
    show "\<forall>k c. cells (add_entry t m) k = Some c \<longrightarrow> c = fresh_cell"
      using r Cons.prems(6) by (auto simp: reshape_def split: if_splits)
    show "\<forall>t'\<in>set ts. m_targets (add_entry t m) (normalizeName (t_Name t')) = None"
      using Cons.prems(2,4) by (auto simp: add_entry_def Let_def image_iff)
    show "\<forall>t'\<in>set ts. \<forall>k s. m_targets (add_entry t m) k = Some s \<longrightarrow> t_ID s \<noteq> t_ID t'"
      using Cons.prems(3,5) by (auto simp: add_entry_def Let_def image_iff)
  qed (use Cons.prems(2,3) in auto)
  with r show ?case by (simp add: reshape_def)
qed simp

text \<open>The manager built from a validated configuration is well formed and idle.\<close>

lemma New_wf:
  assumes "distinct (map (\<lambda>t. normalizeName (t_Name t)) ts)" "distinct (map t_ID ts)"
  shows "wf (New h ts ms a b p s)" "cells (New h ts ms a b p s) k = Some c \<Longrightarrow> c = fresh_cell"
    "m_slotsInUse (New h ts ms a b p s) = 0" "m_currentProcesses (New h ts ms a b p s) = 0"
    "m_runWG (New h ts ms a b p s) = 0"
proof -
  have "\<forall>k c. cells (empty_manager h ms a b p s) k = Some c \<longrightarrow> c = fresh_cell"
    by (simp add: cells_def empty_manager_def)
  with fold_add_entry_wf[OF empty_manager_wf assms, of h ms a b p s]
  show "wf (New h ts ms a b p s)" "cells (New h ts ms a b p s) k = Some c \<Longrightarrow> c = fresh_cell"
    "m_slotsInUse (New h ts ms a b p s) = 0" "m_currentProcesses (New h ts ms a b p s) = 0"
    "m_runWG (New h ts ms a b p s) = 0"
    by (auto simp: New_def empty_manager_def)
qed

section \<open>Replacement\<close>

lemma set_replace_first:
  "distinct xs \<Longrightarrow> old \<in> set xs \<Longrightarrow> set (replace_first old new xs) = insert new (set xs - {old})"
  by (induction xs) auto

lemma distinct_replace_first:
  "distinct xs \<Longrightarrow> new \<notin> set xs \<Longrightarrow> distinct (replace_first old new xs)"
proof (induction xs)
  case (Cons x xs)
  have "set (replace_first old new xs) \<subseteq> insert new (set xs)" by (induction xs) auto
  with Cons show ?case by auto
qed simp

text \<open>The maps and the order after an accepted update from \<open>old\<close> to \<open>new\<close>.\<close>

definition replaced :: "key \<Rightarrow> key \<Rightarrow> config_target \<Rightarrow> manager \<Rightarrow> manager" where
  "replaced old new t' m =
     (let m1 = (if new \<noteq> old then rename_entry old new m else m)
      in m1\<lparr>m_targets := (m_targets m1)(new \<mapsto> t')\<rparr>)"

lemma replaced_fields:
  "m_targets (replaced old new t' m) = ((m_targets m)(old := None))(new \<mapsto> t')"
  "m_jobs (replaced old new t' m) = ((m_jobs m)(old := None))(new := m_jobs m old)"
  "m_keepalives (replaced old new t' m) = ((m_keepalives m)(old := None))(new := m_keepalives m old)"
  "m_arbiters (replaced old new t' m) = ((m_arbiters m)(old := None))(new := m_arbiters m old)"
  "m_order (replaced old new t' m) =
     (if new = old then m_order m else replace_first old new (m_order m))"
  by (auto simp: replaced_def rename_entry_def Let_def)

lemma wf_known_id:
  assumes "wf m" "m_targets m k = Some t" "m_targets m k' = Some t'" "t_ID t = t_ID t'"
  shows "k = k'"
proof -
  have "k \<in> set (m_order m)" "k' \<in> set (m_order m)" using assms by (auto simp: wf_def)
  moreover have "inj_on (\<lambda>k. t_ID (target_at m k)) (set (m_order m))" using assms(1) by (simp add: wf_def)
  ultimately show ?thesis
    using assms(2-4) by (auto simp: inj_on_def target_at_def)
qed

lemma replaced_wf:
  assumes "wf m" "m_targets m old = Some t" "new = old \<or> m_targets m new = None"
    "t_ID t' = t_ID t" "normalizeName (t_Name t') = new"
  shows "wf (replaced old new t' m)"
proof -
  let ?m = "replaced old new t' m"
  have old: "old \<in> set (m_order m)" using assms(1,2) by (auto simp: wf_def)
  have set_order: "set (m_order ?m) = insert new (set (m_order m) - {old})"
    using assms(1) old set_replace_first[of "m_order m" old new]
    by (auto simp: replaced_fields wf_def)
  have ent: "m_jobs m old \<noteq> None" "m_keepalives m old \<noteq> None" "m_arbiters m old \<noteq> None"
    using old assms(1) by (auto simp: wf_def)
  have doms: "dom (m_targets ?m) = set (m_order ?m)" "dom (m_jobs ?m) = set (m_order ?m)"
    "dom (m_keepalives ?m) = set (m_order ?m)" "dom (m_arbiters ?m) = set (m_order ?m)"
    using assms(1) ent unfolding set_order wf_def by (auto simp: replaced_fields)
  have "distinct (m_order ?m)"
    using assms(1,3) by (auto simp: replaced_fields wf_def intro!: distinct_replace_first)
  moreover have "\<forall>k s. m_targets ?m k = Some s \<longrightarrow> normalizeName (t_Name s) = k"
    using assms(1,5) by (auto simp: replaced_fields wf_def)
  moreover have "inj_on (\<lambda>k. t_ID (target_at ?m k)) (set (m_order ?m))"
  proof (rule inj_onI)
    fix x y
    assume xy: "x \<in> set (m_order ?m)" "y \<in> set (m_order ?m)"
      "t_ID (target_at ?m x) = t_ID (target_at ?m y)"
    have id: "\<exists>k s. m_targets m k = Some s \<and> t_ID (target_at ?m z) = t_ID s \<and>
        k = (if z = new then old else z)" if "z \<in> set (m_order ?m)" for z
    proof (cases "z = new")
      case False
      then have "z \<noteq> old" "m_targets m z \<noteq> None"
        using that assms(1) unfolding set_order by (auto simp: wf_def)
      with False show ?thesis by (auto simp: target_at_def replaced_fields)
    qed (use assms(2,4) in \<open>auto simp: target_at_def replaced_fields\<close>)
    from id[OF xy(1)] id[OF xy(2)] xy(3) wf_known_id[OF assms(1)]
    have "(if x = new then old else x) = (if y = new then old else y)" by metis
    then show "x = y" using xy(1,2) unfolding set_order by (auto split: if_splits)
  qed
  ultimately show ?thesis using doms unfolding wf_def by blast
qed

lemma replaced_reshape:
  assumes "wf m" "m_targets m old = Some t" "new = old \<or> m_targets m new = None"
    "t_ID t' = t_ID t" "normalizeName (t_Name t') = new" "cells m old = Some c"
  shows "reshape m (replaced old new t' m) (((cells m)(old := None))(new \<mapsto> c))"
proof -
  have "cells (replaced old new t' m) = ((cells m)(old := None))(new \<mapsto> c)"
    using assms(6) by (intro ext) (auto simp: cells_def replaced_fields split: option.splits)
  with replaced_wf[OF assms(1-5)] show ?thesis
    by (simp add: reshape_def) (simp add: replaced_def rename_entry_def Let_def)
qed

lemma updateTarget_reshape:
  assumes "wf m" "persist_keeps_id persist i"
  shows "\<exists>r m'. updateTargetCommit i t persist m = Some (r, m') \<and>
    (r \<noteq> None \<and> m' = m \<or>
     r = None \<and> in_display_order m' \<and> (\<exists>old new c t'. targetKeyByIDLocked m i = Some old \<and>
       persist t = Inr t' \<and> new = normalizeName (t_Name t') \<and> cells m old = Some c \<and>
       \<not> cell_busy c \<and> (new = old \<or> cells m new = None) \<and>
       m_targets m' = ((m_targets m)(old := None))(new \<mapsto> t') \<and>
       reshape m m' (((cells m)(old := None))(new \<mapsto> c))))"
proof (cases "targetKeyByIDLocked m i")
  case (Some old)
  obtain c t0 where known: "cells m old = Some c" "m_targets m old = Some t0" "t_ID t0 = i"
    using targetKeyByID_known[OF assms(1) Some] by blast
  show ?thesis
  proof (cases "cell_busy c \<or> name_taken m (normalizeName (t_Name t)) i")
    case False
    show ?thesis
    proof (cases "persist t")
      case (Inr t')
      let ?new = "normalizeName (t_Name t')"
      show ?thesis
      proof (cases "name_taken m ?new i")
        case nt: False
        have new: "?new = old \<or> m_targets m ?new = None"
          using nt known wf_known_id[OF assms(1) known(2), of ?new]
          by (auto simp: name_taken_def split: option.splits)
        let ?m = "sortTargetsLocked (replaced old ?new t' m)"
        have r: "reshape m ?m (((cells m)(old := None))(?new \<mapsto> c))"
          using replaced_reshape[OF assms(1) known(2) new _ refl known(1)] known(3) Inr assms(2)
          by (simp add: persist_keeps_id_def)
        then have b: "broadcastStateLocked ?m = Some (bc ?m)"
          by (intro broadcast_wf) (simp add: reshape_def)
        have "updateTargetCommit i t persist m = Some (None, bc ?m)"
          using Some targetBusy_cell[OF known(1)] False Inr nt b
          by (simp add: updateTargetCommit_def replaced_def Let_def)
        moreover have "?new = old \<or> cells m ?new = None" using new cells_None[OF assms(1)] by auto
        ultimately show ?thesis
          using r Some Inr known(1) False
          by (auto simp: sort_in_display_order replaced_fields)
      qed (use Some Inr False targetBusy_cell[OF known(1)] in \<open>auto simp: updateTargetCommit_def Let_def\<close>)
    qed (use Some False targetBusy_cell[OF known(1)] in \<open>auto simp: updateTargetCommit_def\<close>)
  qed (use Some targetBusy_cell[OF known(1)] in \<open>auto simp: updateTargetCommit_def\<close>)
qed (auto simp: updateTargetCommit_def)

section \<open>Deletion\<close>

lemma remove_entry_reshape:
  assumes "wf m"
  shows "reshape m (remove_entry k m) ((cells m)(k := None))"
proof -
  have "distinct (m_order m)" using assms by (simp add: wf_def)
  then have s: "set (m_order (remove_entry k m)) = set (m_order m) - {k}"
    by (simp add: remove_entry_def)
  have "inj_on (\<lambda>k. t_ID (target_at m k)) (set (m_order m) - {k})"
    using assms by (auto simp: wf_def intro: inj_on_subset)
  then have "inj_on (\<lambda>k'. t_ID (target_at (remove_entry k m) k')) (set (m_order (remove_entry k m)))"
    unfolding s by (auto simp: inj_on_def target_at_def remove_entry_def)
  then have "wf (remove_entry k m)"
    using assms unfolding wf_def s by (auto simp: remove_entry_def)
  moreover have "cells (remove_entry k m) = (cells m)(k := None)"
    by (intro ext) (auto simp: cells_def remove_entry_def split: option.splits)
  ultimately show ?thesis by (simp add: reshape_def) (simp add: remove_entry_def)
qed

lemma deleteTarget_reshape:
  assumes "wf m"
  shows "\<exists>r m'. deleteTargetCommit i persist m = Some (r, m') \<and>
    (r \<noteq> None \<and> m' = m \<or>
     r = None \<and> (\<exists>k c. targetKeyByIDLocked m i = Some k \<and> cells m k = Some c \<and> \<not> cell_busy c \<and>
       m_targets m' = (m_targets m)(k := None) \<and> reshape m m' ((cells m)(k := None))))"
proof (cases "targetKeyByIDLocked m i")
  case (Some k)
  obtain c where known: "cells m k = Some c" using targetKeyByID_known[OF assms Some] by blast
  note r = remove_entry_reshape[OF assms, of k]
  then have "broadcastStateLocked (remove_entry k m) = Some (bc (remove_entry k m))"
    by (intro broadcast_wf) (simp add: reshape_def)
  with r Some known targetBusy_cell[OF known] show ?thesis
    by (cases "cell_busy c"; cases persist) (auto simp: deleteTargetCommit_def, simp add: remove_entry_def)
qed (auto simp: deleteTargetCommit_def)

section \<open>Settings\<close>

lemma resample_fields [simp]:
  "k_state (resample now d m ka) = k_state ka" "k_runID (resample now d m ka) = k_runID ka"
  "k_workers (resample now d m ka) = k_workers ka"
  by (simp_all add: resample_def)

lemma UpdateSettings_effect:
  assumes "wf m"
  shows "\<exists>m'. UpdateSettings now draw kmin kmax n msg m = Some m' \<and> wf m' \<and> cells m' = cells m \<and>
    m_slotsInUse m' = m_slotsInUse m \<and> m_currentProcesses m' = m_currentProcesses m \<and>
    m_runWG m' = m_runWG m \<and> m_nextAdhocRunID m' = m_nextAdhocRunID m \<and>
    m_shuttingDown m' = m_shuttingDown m \<and>
    m_maxParallel m' = (if n > 0 then n else m_maxParallel m) \<and>
    m_parallelChanged m' = (if n > 0 \<and> n \<noteq> m_maxParallel m then Suc (m_parallelChanged m)
      else m_parallelChanged m)"
proof -
  let ?m1 = "if kmin \<noteq> m_keepaliveMin m \<or> kmax \<noteq> m_keepaliveMax m then
      let m0 = m\<lparr>m_keepaliveMin := kmin, m_keepaliveMax := kmax\<rparr>
      in m0\<lparr>m_keepalives := (\<lambda>k. map_option (resample now (draw k) m0) (m_keepalives m0 k))\<rparr>
    else m"
  have d: "dom (m_keepalives ?m1) = dom (m_keepalives m)"
    by (auto simp: Let_def dom_def)
  have w: "wf ?m1" using assms wf_cong[of ?m1 m] d by (simp add: Let_def split: if_splits)
  have c: "cells ?m1 = cells m"
    by (rule ext) (auto simp: cells_def cell_of_def Let_def split: option.splits)
  let ?m2 = "if n > 0 \<and> n \<noteq> m_maxParallel ?m1
      then signalParallelLocked (?m1\<lparr>m_maxParallel := n\<rparr>) else ?m1"
  let ?m3 = "?m2\<lparr>m_successMessage := msg\<rparr>"
  have w3: "wf ?m3" and c3: "cells ?m3 = cells m"
    using w c by (simp_all add: signalParallelLocked_def)
  have "UpdateSettings now draw kmin kmax n msg m = Some (bc ?m3)"
    using broadcast_wf[OF w3] unfolding UpdateSettings_def Let_def by simp
  with w3 c3 show ?thesis
    by (intro exI[of _ "bc ?m3"]) (auto simp: signalParallelLocked_def Let_def)
qed

end
