(* ===== verification/Accounting.thy ===== *)
theory Accounting
  imports Jobs_Targets
begin

text \<open>
  The accounting between goroutines and the manager. A goroutine is abstracted to a profile: which
  kind of work it does, for which target and run, whether it is counted as a worker, whether it
  holds the target's arbiter or a process slot, whether it is counted as a process or in the wait
  group, and which channel it waits on. \<open>cell_inv\<close> relates the profiles to one target's cell and
  \<open>ledger\<close> to the whole manager. Every condition counts profiles, so that a change of one profile
  is a change by one of finitely many numbers.
\<close>

record prof =
  p_kind :: requestOwner
  p_key :: key
  p_run :: nat
  p_count :: bool
  p_live :: bool
  p_holds :: bool
  p_slot :: bool
  p_proc :: bool
  p_wg :: bool
  p_twait :: "nat option"
  p_swait :: "nat option"

definition p_ok :: "prof \<Rightarrow> bool" where
  "p_ok p \<longleftrightarrow> (p_live p \<longrightarrow> p_count p) \<and> (p_twait p \<noteq> None \<longrightarrow> p_count p) \<and>
     (p_count p \<longrightarrow> p_kind p = requestOwnerQueue \<or> p_kind p = requestOwnerKeepalive) \<and>
     (p_holds p \<longrightarrow> p_kind p \<noteq> requestOwnerNone \<and> (p_count p \<or> p_kind p = requestOwnerAdhoc)) \<and>
     (p_proc p \<longrightarrow> p_slot p) \<and> (p_slot p \<or> p_count p \<or> p_holds p \<or> p_swait p \<noteq> None \<longrightarrow> p_wg p)"

section \<open>Counts\<close>

definition is_worker :: "requestOwner \<Rightarrow> key \<Rightarrow> prof \<Rightarrow> bool" where
  "is_worker ow k p \<longleftrightarrow> p_key p = k \<and> p_kind p = ow \<and> p_count p"

definition is_run :: "requestOwner \<Rightarrow> key \<Rightarrow> nat \<Rightarrow> prof \<Rightarrow> bool" where
  "is_run ow k r p \<longleftrightarrow> is_worker ow k p \<and> p_run p = r"

definition is_live :: "requestOwner \<Rightarrow> key \<Rightarrow> nat \<Rightarrow> prof \<Rightarrow> bool" where
  "is_live ow k r p \<longleftrightarrow> is_run ow k r p \<and> p_live p"

definition is_future :: "requestOwner \<Rightarrow> key \<Rightarrow> nat \<Rightarrow> prof \<Rightarrow> bool" where
  "is_future ow k r p \<longleftrightarrow> is_worker ow k p \<and> r < p_run p"

definition is_holder :: "key \<Rightarrow> prof \<Rightarrow> bool" where
  "is_holder k p \<longleftrightarrow> p_key p = k \<and> p_holds p"

definition is_stray :: "key \<Rightarrow> requestOwner \<Rightarrow> nat \<Rightarrow> prof \<Rightarrow> bool" where
  "is_stray k ow r p \<longleftrightarrow> is_holder k p \<and> (p_kind p \<noteq> ow \<or> p_run p \<noteq> r)"

text \<open>A waiter on the target's channel that no signal will wake.\<close>

definition is_lost :: "key \<Rightarrow> nat \<Rightarrow> bool \<Rightarrow> prof \<Rightarrow> bool" where
  "is_lost k changed free p \<longleftrightarrow> p_key p = k \<and>
     (case p_twait p of None \<Rightarrow> False | Some n \<Rightarrow> changed < n \<or> n = changed \<and> free)"

lemmas profile_defs = is_worker_def is_run_def is_live_def is_future_def is_holder_def is_stray_def
  is_lost_def

definition cell_inv :: "prof list \<Rightarrow> key \<Rightarrow> cell \<Rightarrow> bool" where
  "cell_inv ps k c \<longleftrightarrow>
     c_workers c = cnt (is_worker requestOwnerQueue k) ps \<and>
     c_kworkers c = cnt (is_worker requestOwnerKeepalive k) ps \<and>
     (c_workers c = 0 \<or> c_kworkers c = 0) \<and>
     cnt (is_holder k) ps = (if c_owner c = requestOwnerNone then 0 else 1) \<and>
     cnt (is_stray k (c_owner c) (c_ownerRun c)) ps = 0 \<and>
     (c_state c = StateRunning \<longrightarrow> 0 < cnt (is_live requestOwnerQueue k (c_run c)) ps) \<and>
     (c_kstate c \<noteq> KeepaliveStateStopped \<longrightarrow>
        0 < cnt (is_live requestOwnerKeepalive k (c_krun c)) ps) \<and>
     cnt (is_future requestOwnerQueue k (c_run c)) ps = 0 \<and>
     cnt (is_future requestOwnerKeepalive k (c_krun c)) ps = 0 \<and>
     (\<forall>r. cnt (is_run requestOwnerQueue k r) ps \<le> 1) \<and>
     (\<forall>r. cnt (is_run requestOwnerKeepalive k r) ps \<le> 1) \<and>
     c_kstate c \<noteq> KeepaliveStateWaitingQueue \<and>
     cnt (is_lost k (c_changed c) (c_owner c = requestOwnerNone)) ps = 0"

definition quiet :: "prof list \<Rightarrow> key \<Rightarrow> bool" where
  "quiet ps k \<longleftrightarrow> cnt (\<lambda>p. p_key p = k \<and> (p_count p \<or> p_holds p)) ps = 0"

lemma cell_inv_quiet:
  assumes "quiet ps k" "list_all p_ok ps" "\<not> cell_busy c"
  shows "cell_inv ps k c"
proof -
  have q: "\<not> p_count p \<and> \<not> p_holds p \<and> p_twait p = None" if "p \<in> set ps" "p_key p = k" for p
    using assms(1,2) that by (auto simp: quiet_def cnt_zero list_all_iff p_ok_def)
  have z: "cnt (is_worker ow k) ps = 0" "cnt (is_holder k) ps = 0" "cnt (is_run ow k r) ps = 0"
    "cnt (is_future ow k r) ps = 0" "cnt (is_stray k ow r) ps = 0" "cnt (is_lost k n b) ps = 0"
    for ow r n b
    using q by (auto simp: cnt_zero profile_defs)
  show ?thesis using assms(3) z by (simp add: cell_inv_def cell_busy_def)
qed

lemma idle_quiet:
  assumes "cell_inv ps k c" "list_all p_ok ps" "\<not> cell_busy c"
  shows "quiet ps k"
proof -
  have "cnt (is_worker requestOwnerQueue k) ps = 0" "cnt (is_worker requestOwnerKeepalive k) ps = 0"
    "cnt (is_holder k) ps = 0"
    using assms(1,3) by (auto simp: cell_inv_def cell_busy_def)
  then show ?thesis
    using assms(2) by (auto simp: quiet_def cnt_zero list_all_iff p_ok_def is_worker_def is_holder_def)
qed

lemma cell_inv_two_holders:
  assumes "cell_inv ps k c" "i < length ps" "j < length ps" "is_holder k (ps ! i)" "is_holder k (ps ! j)"
  shows "i = j"
proof (rule ccontr)
  assume "i \<noteq> j"
  from cnt_two[of i ps j "is_holder k", OF assms(2,3) this assms(4,5)] assms(1) show False
    by (simp add: cell_inv_def split: if_splits)
qed

lemma holder_owner:
  assumes "cell_inv ps k c" "p \<in> set ps" "is_holder k p"
  shows "c_owner c = p_kind p" "c_ownerRun c = p_run p"
  using assms by (auto simp: cell_inv_def cnt_zero is_stray_def)

text \<open>A worker that does not hold the arbiter is not its recorded owner.\<close>

lemma non_holder:
  assumes "cell_inv ps k c" "list_all p_ok ps" "i < length ps" "is_worker ow k (ps ! i)"
    "\<not> p_holds (ps ! i)" "ow = requestOwnerQueue \<or> ow = requestOwnerKeepalive"
  shows "\<not> (c_owner c = ow \<and> c_ownerRun c = p_run (ps ! i))"
proof
  assume o: "c_owner c = ow \<and> c_ownerRun c = p_run (ps ! i)"
  with assms(1,6) have "cnt (is_holder k) ps = 1" by (auto simp: cell_inv_def)
  then obtain p where p: "p \<in> set ps" "is_holder k p" using cnt_zero[of "is_holder k" ps] by auto
  then obtain j where j: "j < length ps" "ps ! j = p" by (auto simp: in_set_conv_nth)
  have "p_kind p = ow" "p_run p = p_run (ps ! i)" using holder_owner[OF assms(1) p] o by auto
  moreover have "p_count p" using p assms(2,6) \<open>p_kind p = ow\<close>
    by (auto simp: list_all_iff p_ok_def is_holder_def)
  ultimately have "is_run ow k (p_run (ps ! i)) (ps ! j)" "is_run ow k (p_run (ps ! i)) (ps ! i)"
    using p(2) j(2) assms(4) by (auto simp: profile_defs)
  moreover have "i \<noteq> j" using assms(5) p(2) j(2) by (auto simp: is_holder_def)
  ultimately have "2 \<le> cnt (is_run ow k (p_run (ps ! i))) ps"
    using cnt_two[of i ps j] assms(3) j(1) by auto
  then show False using assms(1,6) unfolding cell_inv_def by (metis Suc_1 not_less_eq_eq)
qed

section \<open>One goroutine moves\<close>

text \<open>The cells of other targets are not concerned.\<close>

lemma cell_inv_other:
  assumes "i < length ps" "p_key (ps ! i) = p_key p'" "k \<noteq> p_key p'"
  shows "cell_inv (ps[i := p']) k c = cell_inv ps k c"
proof -
  have *: "cnt P (ps[i := p']) = cnt P ps" if "\<And>p. P p \<Longrightarrow> p_key p = k" for P
    using that assms by (intro cnt_update_same) auto
  have "cnt (is_worker ow k) (ps[i := p']) = cnt (is_worker ow k) ps"
    "cnt (is_run ow k r) (ps[i := p']) = cnt (is_run ow k r) ps"
    "cnt (is_live ow k r) (ps[i := p']) = cnt (is_live ow k r) ps"
    "cnt (is_future ow k r) (ps[i := p']) = cnt (is_future ow k r) ps"
    "cnt (is_holder k) (ps[i := p']) = cnt (is_holder k) ps"
    "cnt (is_stray k ow r) (ps[i := p']) = cnt (is_stray k ow r) ps"
    "cnt (is_lost k n b) (ps[i := p']) = cnt (is_lost k n b) ps" for ow r n b
    by (rule *, simp add: profile_defs)+
  then show ?thesis unfolding cell_inv_def by simp
qed

lemma quiet_other:
  assumes "i < length ps" "p_key (ps ! i) = p_key p'" "k \<noteq> p_key p'"
  shows "quiet (ps[i := p']) k = quiet ps k"
  unfolding quiet_def using assms by (subst cnt_update_same) auto

text \<open>
  What a goroutine's section may do to its own cell: \<open>move p c p' c'\<close>. All sections of all workers
  satisfy it.
\<close>

definition move :: "prof \<Rightarrow> cell \<Rightarrow> prof \<Rightarrow> cell \<Rightarrow> bool" where
  "move p c p' c' \<longleftrightarrow>
     p_kind p' = p_kind p \<and> p_key p' = p_key p \<and> p_run p' = p_run p \<and> (p_count p' \<longrightarrow> p_count p) \<and>
     c_workers c = c_workers c' + (if p_kind p = requestOwnerQueue \<and> p_count p \<and> \<not> p_count p' then 1 else 0) \<and>
     c_kworkers c = c_kworkers c' + (if p_kind p = requestOwnerKeepalive \<and> p_count p \<and> \<not> p_count p' then 1 else 0) \<and>
     (p_holds p' = p_holds p \<and> c_owner c' = c_owner c \<and> c_ownerRun c' = c_ownerRun c \<or>
      \<not> p_holds p \<and> p_holds p' \<and> c_owner c = requestOwnerNone \<and> p_kind p \<noteq> requestOwnerNone \<and>
        c_owner c' = p_kind p \<and> c_ownerRun c' = p_run p \<or>
      p_holds p \<and> \<not> p_holds p' \<and> c_owner c' = requestOwnerNone \<and> c_changed c < c_changed c') \<and>
     c_changed c \<le> c_changed c' \<and> c_run c \<le> c_run c' \<and> c_krun c \<le> c_krun c' \<and>
     (c_state c' = StateRunning \<longrightarrow> c_state c = StateRunning \<and> c_run c' = c_run c \<and>
        (p_live p \<longrightarrow> p_live p' \<and> p_count p' \<or> p_kind p \<noteq> requestOwnerQueue \<or> p_run p \<noteq> c_run c)) \<and>
     (c_kstate c' \<noteq> KeepaliveStateStopped \<longrightarrow>
        c_kstate c \<noteq> KeepaliveStateStopped \<and> c_krun c' = c_krun c \<and>
        (p_live p \<longrightarrow> p_live p' \<and> p_count p' \<or> p_kind p \<noteq> requestOwnerKeepalive \<or> p_run p \<noteq> c_krun c)) \<and>
     c_kstate c' \<noteq> KeepaliveStateWaitingQueue \<and>
     (\<forall>n. p_twait p' = Some n \<longrightarrow> n \<le> c_changed c' \<and> (n = c_changed c' \<longrightarrow> c_owner c' \<noteq> requestOwnerNone))"

lemma cnt_update_le: "i < length xs \<Longrightarrow> (P y \<Longrightarrow> P (xs ! i)) \<Longrightarrow> cnt P (xs[i := y]) \<le> cnt P xs"
  by (cases "P y"; cases "P (xs ! i)") (auto simp: cnt_update_same cnt_update_drop)

lemma cnt_update_zero: "cnt P xs = 0 \<Longrightarrow> \<not> P y \<Longrightarrow> cnt P (xs[i := y]) = 0"
  by (auto simp: cnt_zero dest!: set_update_subset_insert[THEN subsetD])

lemma cnt_weaken_zero: "cnt P xs = 0 \<Longrightarrow> (\<And>x. Q x \<Longrightarrow> P x) \<Longrightarrow> cnt Q xs = 0"
  by (auto simp: cnt_zero)

lemma moveD:
  assumes "move p c p' c'"
  shows "p_kind p' = p_kind p" "p_key p' = p_key p" "p_run p' = p_run p" "p_count p' \<Longrightarrow> p_count p"
    "c_workers c = c_workers c' + (if p_kind p = requestOwnerQueue \<and> p_count p \<and> \<not> p_count p' then 1 else 0)"
    "c_kworkers c = c_kworkers c' + (if p_kind p = requestOwnerKeepalive \<and> p_count p \<and> \<not> p_count p' then 1 else 0)"
    "c_changed c \<le> c_changed c'" "c_run c \<le> c_run c'" "c_krun c \<le> c_krun c'"
    "c_kstate c' \<noteq> KeepaliveStateWaitingQueue"
  using assms unfolding move_def by blast+

lemma move_ownerD:
  assumes "move p c p' c'"
  shows "p_holds p' = p_holds p \<and> c_owner c' = c_owner c \<and> c_ownerRun c' = c_ownerRun c \<or>
      \<not> p_holds p \<and> p_holds p' \<and> c_owner c = requestOwnerNone \<and> p_kind p \<noteq> requestOwnerNone \<and>
        c_owner c' = p_kind p \<and> c_ownerRun c' = p_run p \<or>
      p_holds p \<and> \<not> p_holds p' \<and> c_owner c' = requestOwnerNone \<and> c_changed c < c_changed c'"
  using assms unfolding move_def by blast

lemma move_liveD:
  assumes "move p c p' c'"
  shows "c_state c' = StateRunning \<Longrightarrow> c_state c = StateRunning \<and> c_run c' = c_run c \<and>
      (p_live p \<longrightarrow> p_live p' \<and> p_count p' \<or> p_kind p \<noteq> requestOwnerQueue \<or> p_run p \<noteq> c_run c)"
    "c_kstate c' \<noteq> KeepaliveStateStopped \<Longrightarrow> c_kstate c \<noteq> KeepaliveStateStopped \<and> c_krun c' = c_krun c \<and>
      (p_live p \<longrightarrow> p_live p' \<and> p_count p' \<or> p_kind p \<noteq> requestOwnerKeepalive \<or> p_run p \<noteq> c_krun c)"
  using assms unfolding move_def by blast+

lemma move_waitD:
  assumes "move p c p' c'" "p_twait p' = Some n"
  shows "n \<le> c_changed c'" "n = c_changed c' \<Longrightarrow> c_owner c' \<noteq> requestOwnerNone"
  using assms unfolding move_def by blast+

lemma cell_invD:
  assumes "cell_inv ps k c"
  shows "c_workers c = cnt (is_worker requestOwnerQueue k) ps"
    "c_kworkers c = cnt (is_worker requestOwnerKeepalive k) ps"
    "c_workers c = 0 \<or> c_kworkers c = 0"
    "cnt (is_holder k) ps = (if c_owner c = requestOwnerNone then 0 else 1)"
    "cnt (is_stray k (c_owner c) (c_ownerRun c)) ps = 0"
    "c_state c = StateRunning \<Longrightarrow> 0 < cnt (is_live requestOwnerQueue k (c_run c)) ps"
    "c_kstate c \<noteq> KeepaliveStateStopped \<Longrightarrow> 0 < cnt (is_live requestOwnerKeepalive k (c_krun c)) ps"
    "cnt (is_future requestOwnerQueue k (c_run c)) ps = 0"
    "cnt (is_future requestOwnerKeepalive k (c_krun c)) ps = 0"
    "cnt (is_run requestOwnerQueue k r) ps \<le> 1" "cnt (is_run requestOwnerKeepalive k r) ps \<le> 1"
    "c_kstate c \<noteq> KeepaliveStateWaitingQueue"
    "cnt (is_lost k (c_changed c) (c_owner c = requestOwnerNone)) ps = 0"
  using assms unfolding cell_inv_def 
  by - (elim conjE, (assumption | (erule (1) mp) | (erule allE, assumption)))+

lemma move_workers:
  assumes "i < length ps" "ps ! i = p" "move p c p' c'" "p_key p = k" "cell_inv ps k c"
  shows "c_workers c' = cnt (is_worker requestOwnerQueue k) (ps[i := p'])"
    "c_kworkers c' = cnt (is_worker requestOwnerKeepalive k) (ps[i := p'])"
proof -
  note m = moveD(1-3)[OF assms(3)]
  have cn: "\<not> p_count p \<Longrightarrow> \<not> p_count p'" using moveD(4)[OF assms(3)] by blast
  show "c_workers c' = cnt (is_worker requestOwnerQueue k) (ps[i := p'])"
    using m cn moveD(5)[OF assms(3)] cell_invD(1)[OF assms(5)] assms(2,4)
      cnt_update[OF assms(1), of "is_worker requestOwnerQueue k" p']
    by (cases "p_count p"; cases "p_count p'"; cases "p_kind p = requestOwnerQueue")
      (simp_all add: is_worker_def)
  show "c_kworkers c' = cnt (is_worker requestOwnerKeepalive k) (ps[i := p'])"
    using m cn moveD(6)[OF assms(3)] cell_invD(2)[OF assms(5)] assms(2,4)
      cnt_update[OF assms(1), of "is_worker requestOwnerKeepalive k" p']
    by (cases "p_count p"; cases "p_count p'"; cases "p_kind p = requestOwnerKeepalive")
      (simp_all add: is_worker_def)
qed

lemma move_holders:
  assumes "i < length ps" "ps ! i = p" "move p c p' c'" "p_key p = k" "cell_inv ps k c"
  shows "cnt (is_holder k) (ps[i := p']) = (if c_owner c' = requestOwnerNone then 0 else 1)"
    "cnt (is_stray k (c_owner c') (c_ownerRun c')) (ps[i := p']) = 0"
proof -
  have h: "cnt (is_holder k) ps = (if c_owner c = requestOwnerNone then 0 else 1)"
    and st: "cnt (is_stray k (c_owner c) (c_ownerRun c)) ps = 0"
    using assms(5) by (simp_all add: cell_inv_def)
  have pos: "p_holds p \<Longrightarrow> c_owner c \<noteq> requestOwnerNone"
    using cnt_pos[of i ps "is_holder k"] assms(1,2,4) h by (auto simp: is_holder_def split: if_splits)
  show h': "cnt (is_holder k) (ps[i := p']) = (if c_owner c' = requestOwnerNone then 0 else 1)"
    using h pos cnt_update[OF assms(1), of "is_holder k" p'] move_ownerD[OF assms(3)]
      moveD(2)[OF assms(3)] assms(2,4)
    by (auto simp: is_holder_def split: if_splits)
  show "cnt (is_stray k (c_owner c') (c_ownerRun c')) (ps[i := p']) = 0"
  proof (cases "p_holds p' = p_holds p \<and> c_owner c' = c_owner c \<and> c_ownerRun c' = c_ownerRun c")
    case True
    have "\<not> is_stray k (c_owner c) (c_ownerRun c) p"
      using st assms(1,2) nth_mem by (auto simp: cnt_zero)
    then have "\<not> is_stray k (c_owner c) (c_ownerRun c) p'"
      using True moveD(1-3)[OF assms(3)] by (auto simp: is_stray_def is_holder_def)
    with True st show ?thesis by (simp add: cnt_update_zero)
  next
    case new: False
    show ?thesis
    proof (cases "p_holds p'")
      case True
      then have o: "c_owner c = requestOwnerNone" "c_owner c' = p_kind p" "c_ownerRun c' = p_run p"
        using new move_ownerD[OF assms(3)] by blast+
      then have "cnt (is_holder k) ps = 0" using h by simp
      then have "cnt (is_stray k (c_owner c') (c_ownerRun c')) ps = 0"
        by (rule cnt_weaken_zero) (simp add: is_stray_def)
      moreover have "\<not> is_stray k (c_owner c') (c_ownerRun c') p'"
        using o moveD(1,3)[OF assms(3)] by (auto simp: is_stray_def)
      ultimately show ?thesis by (rule cnt_update_zero)
    next
      case False
      then have "c_owner c' = requestOwnerNone" using new move_ownerD[OF assms(3)] by blast
      then have "cnt (is_holder k) (ps[i := p']) = 0" using h' by simp
      then show ?thesis by (rule cnt_weaken_zero) (simp add: is_stray_def)
    qed
  qed
qed

lemma move_live:
  assumes "i < length ps" "ps ! i = p" "move p c p' c'" "p_key p = k" "cell_inv ps k c"
  shows "c_state c' = StateRunning \<Longrightarrow> 0 < cnt (is_live requestOwnerQueue k (c_run c')) (ps[i := p'])"
    "c_kstate c' \<noteq> KeepaliveStateStopped \<Longrightarrow>
     0 < cnt (is_live requestOwnerKeepalive k (c_krun c')) (ps[i := p'])"
proof -
  assume "c_state c' = StateRunning"
  then show "0 < cnt (is_live requestOwnerQueue k (c_run c')) (ps[i := p'])"
    using moveD(1-3)[OF assms(3)] move_liveD(1)[OF assms(3)] cell_invD(6)[OF assms(5)] assms(2,4)
      cnt_update[OF assms(1), of "is_live requestOwnerQueue k (c_run c)" p'] moveD(4)[OF assms(3)]
    by (cases "p_kind p = requestOwnerQueue"; cases "p_run p = c_run c"; cases "p_live p";
        cases "p_count p"; cases "p_count p'"; cases "p_live p'")
      (simp_all add: is_live_def is_run_def is_worker_def)
next
  assume "c_kstate c' \<noteq> KeepaliveStateStopped"
  then show "0 < cnt (is_live requestOwnerKeepalive k (c_krun c')) (ps[i := p'])"
    using moveD(1-3)[OF assms(3)] move_liveD(2)[OF assms(3)] cell_invD(7)[OF assms(5)] assms(2,4)
      cnt_update[OF assms(1), of "is_live requestOwnerKeepalive k (c_krun c)" p'] moveD(4)[OF assms(3)]
    by (cases "p_kind p = requestOwnerKeepalive"; cases "p_run p = c_krun c"; cases "p_live p";
        cases "p_count p"; cases "p_count p'"; cases "p_live p'")
      (simp_all add: is_live_def is_run_def is_worker_def)
qed

lemma move_runs:
  assumes "i < length ps" "ps ! i = p" "move p c p' c'" "p_key p = k" "cell_inv ps k c"
  shows "cnt (is_future requestOwnerQueue k (c_run c')) (ps[i := p']) = 0"
    "cnt (is_future requestOwnerKeepalive k (c_krun c')) (ps[i := p']) = 0"
    "cnt (is_run requestOwnerQueue k r) (ps[i := p']) \<le> 1"
    "cnt (is_run requestOwnerKeepalive k r) (ps[i := p']) \<le> 1"
proof -
  have w: "is_worker ow k p' \<longrightarrow> is_worker ow k p" for ow
    unfolding is_worker_def moveD(1,2)[OF assms(3)] using moveD(4)[OF assms(3)] by blast
  have le1: "cnt (is_future ow k n) (ps[i := p']) \<le> cnt (is_future ow k n) ps" for ow n
    by (rule cnt_update_le[OF assms(1)])
      (simp add: is_future_def w[rule_format] assms(2) moveD(3)[OF assms(3)])
  have le2: "cnt (is_run ow k n) (ps[i := p']) \<le> cnt (is_run ow k n) ps" for ow n
    by (rule cnt_update_le[OF assms(1)])
      (simp add: is_run_def w[rule_format] assms(2) moveD(3)[OF assms(3)])
  have run: "c_run c \<le> c_run c'" "c_krun c \<le> c_krun c'" using moveD(8,9)[OF assms(3)] .
  have z: "cnt (is_future requestOwnerQueue k (c_run c)) ps = 0"
    "cnt (is_future requestOwnerKeepalive k (c_krun c)) ps = 0"
    "cnt (is_run requestOwnerQueue k r) ps \<le> 1" "cnt (is_run requestOwnerKeepalive k r) ps \<le> 1"
    using cell_invD(8-11)[OF assms(5)] by blast+
  have f: "cnt (is_future requestOwnerQueue k (c_run c')) ps = 0"
    using run(1) by (intro cnt_weaken_zero[OF z(1)]) (auto simp: is_future_def)
  have g: "cnt (is_future requestOwnerKeepalive k (c_krun c')) ps = 0"
    using run(2) by (intro cnt_weaken_zero[OF z(2)]) (auto simp: is_future_def)
  show "cnt (is_future requestOwnerQueue k (c_run c')) (ps[i := p']) = 0"
    "cnt (is_future requestOwnerKeepalive k (c_krun c')) (ps[i := p']) = 0"
    using le1[of requestOwnerQueue "c_run c'"] le1[of requestOwnerKeepalive "c_krun c'"] f g by simp_all
  show "cnt (is_run requestOwnerQueue k r) (ps[i := p']) \<le> 1"
    "cnt (is_run requestOwnerKeepalive k r) (ps[i := p']) \<le> 1"
    using le2[of requestOwnerQueue r] le2[of requestOwnerKeepalive r] z(3,4) by linarith+
qed

lemma move_lost:
  assumes "i < length ps" "ps ! i = p" "move p c p' c'" "p_key p = k" "cell_inv ps k c"
  shows "cnt (is_lost k (c_changed c') (c_owner c' = requestOwnerNone)) (ps[i := p']) = 0"
proof (rule cnt_update_zero)
  have "cnt (is_lost k (c_changed c) (c_owner c = requestOwnerNone)) ps = 0"
    using assms(5) by (simp add: cell_inv_def)
  then show "cnt (is_lost k (c_changed c') (c_owner c' = requestOwnerNone)) ps = 0"
    by (rule cnt_weaken_zero)
      (use move_ownerD[OF assms(3)] moveD(7)[OF assms(3)] in
        \<open>auto simp: is_lost_def split: option.splits\<close>)
  show "\<not> is_lost k (c_changed c') (c_owner c' = requestOwnerNone) p'"
    using move_waitD[OF assms(3)] by (force simp: is_lost_def split: option.splits)
qed

lemma cell_inv_move:
  assumes "cell_inv ps k c" "i < length ps" "ps ! i = p" "p_key p = k" "move p c p' c'"
  shows "cell_inv (ps[i := p']) k c'"
proof -
  note a = assms(2,3,5,4,1)
  have "c_workers c' = 0 \<or> c_kworkers c' = 0" "c_kstate c' \<noteq> KeepaliveStateWaitingQueue"
    using cell_invD(3)[OF assms(1)] moveD(5,6,10)[OF assms(5)] by auto
  then show ?thesis
    unfolding cell_inv_def
    using move_workers[OF a] move_holders[OF a] move_live[OF a] move_runs[OF a] move_lost[OF a]
    by blast
qed

section \<open>Stop requests and new goroutines\<close>

text \<open>A stop request changes the cell but no goroutine: \<open>stopped c c'\<close>.\<close>

definition stopped :: "cell \<Rightarrow> cell \<Rightarrow> bool" where
  "stopped c c' \<longleftrightarrow> c_workers c' = c_workers c \<and> c_kworkers c' = c_kworkers c \<and>
     c_owner c' = c_owner c \<and> c_ownerRun c' = c_ownerRun c \<and> c_changed c \<le> c_changed c' \<and>
     c_run c \<le> c_run c' \<and> c_krun c \<le> c_krun c' \<and>
     (c_state c' = StateRunning \<longrightarrow> c_state c = StateRunning \<and> c_run c' = c_run c) \<and>
     (c_kstate c' \<noteq> KeepaliveStateStopped \<longrightarrow> c_kstate c' = c_kstate c \<and> c_krun c' = c_krun c)"

lemma stopped_stopQueue: "stopped c (cell_stopQueue c)"
  by (auto simp: stopped_def cell_stopQueue_def)

lemma stopped_stopKeepalive: "stopped c (cell_stopKeepalive c)"
  by (auto simp: stopped_def cell_stopKeepalive_def)

lemma future_mono: "cnt (is_future ow k n) ps = 0 \<Longrightarrow> n \<le> n' \<Longrightarrow> cnt (is_future ow k n') ps = 0"
  by (erule cnt_weaken_zero) (auto simp: is_future_def)

lemma lost_mono:
  "cnt (is_lost k n free) ps = 0 \<Longrightarrow> n \<le> n' \<Longrightarrow> free' \<longrightarrow> free \<Longrightarrow> cnt (is_lost k n' free') ps = 0"
  by (erule cnt_weaken_zero) (auto simp: is_lost_def split: option.splits)

lemma cell_inv_stopped:
  assumes "cell_inv ps k c" "stopped c c'"
  shows "cell_inv ps k c'"
proof -
  note c = cell_invD[OF assms(1)]
  have s: "c_workers c' = c_workers c" "c_kworkers c' = c_kworkers c" "c_owner c' = c_owner c"
    "c_ownerRun c' = c_ownerRun c" "c_changed c \<le> c_changed c'" "c_run c \<le> c_run c'"
    "c_krun c \<le> c_krun c'"
    "c_state c' = StateRunning \<Longrightarrow> c_state c = StateRunning \<and> c_run c' = c_run c"
    "c_kstate c' \<noteq> KeepaliveStateStopped \<Longrightarrow> c_kstate c' = c_kstate c \<and> c_krun c' = c_krun c"
    using assms(2) unfolding stopped_def by blast+
  have "c_kstate c' \<noteq> KeepaliveStateWaitingQueue" using s(9) c(12) by (cases "c_kstate c'") auto
  then show ?thesis
    unfolding cell_inv_def s(1-4)
    using c(1-5,10,11) c(6,7) s(8,9) future_mono[OF c(8) s(6)] future_mono[OF c(9) s(7)]
      lost_mono[OF c(13) s(5)] by metis
qed

text \<open>A new goroutine \<open>p\<close> for another target does not concern the cell of \<open>k\<close>.\<close>

lemma cell_inv_append:
  assumes "p_key p \<noteq> k \<or> \<not> p_count p \<and> \<not> p_holds p \<and> p_twait p = None"
  shows "cell_inv (ps @ [p]) k c = cell_inv ps k c" "quiet (ps @ [p]) k = quiet ps k"
proof -
  have "\<not> is_worker ow k p" "\<not> is_run ow k r p" "\<not> is_live ow k r p" "\<not> is_future ow k r p"
    "\<not> is_holder k p" "\<not> is_stray k ow r p" "\<not> is_lost k n b p" for ow r n b
    using assms by (auto simp: profile_defs)
  then show "cell_inv (ps @ [p]) k c = cell_inv ps k c" by (simp add: cell_inv_def)
  show "quiet (ps @ [p]) k = quiet ps k" using assms by (auto simp: quiet_def)
qed

definition worker_prof :: "requestOwner \<Rightarrow> key \<Rightarrow> nat \<Rightarrow> prof" where
  "worker_prof ow k run = \<lparr>p_kind = ow, p_key = k, p_run = run, p_count = True, p_live = True,
     p_holds = False, p_slot = False, p_proc = False, p_wg = True, p_twait = None, p_swait = None\<rparr>"

lemma cnt_run_new:
  assumes "cnt (is_future ow k n) ps = 0"
  shows "cnt (is_run ow k (Suc n)) ps = 0"
  using assms by (auto simp: cnt_zero is_future_def is_run_def)

lemma cell_inv_startQueue:
  assumes "cell_inv ps k c" "c_kstate c = KeepaliveStateStopped" "c_kworkers c = 0"
  shows "cell_inv (ps @ [worker_prof requestOwnerQueue k (Suc (c_run c))]) k (cell_startQueue c)"
proof -
  have z: "cnt (is_future requestOwnerQueue k (c_run c)) ps = 0"
    "cnt (is_lost k (c_changed c) (c_owner c = requestOwnerNone)) ps = 0"
    using assms(1) by (simp_all add: cell_inv_def)
  have "cnt (is_future requestOwnerQueue k (Suc (c_run c))) ps = 0"
    "cnt (is_lost k (Suc (c_changed c)) (c_owner c = requestOwnerNone)) ps = 0"
    by (simp_all add: future_mono[OF z(1)] lost_mono[OF z(2)])
  with assms cnt_run_new[OF z(1)] show ?thesis
    by (auto simp: cell_inv_def cell_startQueue_def worker_prof_def profile_defs)
qed

lemma cell_inv_startKeepalive:
  assumes "cell_inv ps k c" "c_state c \<noteq> StateRunning" "c_workers c = 0"
  shows "cell_inv (ps @ [worker_prof requestOwnerKeepalive k (Suc (c_krun c))]) k (cell_startKeepalive c)"
proof -
  have z: "cnt (is_future requestOwnerKeepalive k (c_krun c)) ps = 0"
    "cnt (is_lost k (c_changed c) (c_owner c = requestOwnerNone)) ps = 0"
    using assms(1) by (simp_all add: cell_inv_def)
  have "cnt (is_future requestOwnerKeepalive k (Suc (c_krun c))) ps = 0"
    "cnt (is_lost k (Suc (c_changed c)) (c_owner c = requestOwnerNone)) ps = 0"
    by (simp_all add: future_mono[OF z(1)] lost_mono[OF z(2)])
  with assms cnt_run_new[OF z(1)] show ?thesis
    by (auto simp: cell_inv_def cell_startKeepalive_def worker_prof_def profile_defs)
qed

definition adhoc_prof :: "key \<Rightarrow> nat \<Rightarrow> prof" where
  "adhoc_prof k run = \<lparr>p_kind = requestOwnerAdhoc, p_key = k, p_run = run, p_count = False,
     p_live = False, p_holds = True, p_slot = False, p_proc = False, p_wg = True, p_twait = None,
     p_swait = None\<rparr>"

lemma cell_inv_reserve:
  assumes "cell_inv ps k c" "c_owner c = requestOwnerNone"
  shows "cell_inv (ps @ [adhoc_prof k run]) k (c\<lparr>c_owner := requestOwnerAdhoc, c_ownerRun := run\<rparr>)"
proof -
  have h: "cnt (is_holder k) ps = 0"
    and l: "cnt (is_lost k (c_changed c) (c_owner c = requestOwnerNone)) ps = 0"
    using assms by (simp_all add: cell_inv_def)
  have "cnt (is_stray k requestOwnerAdhoc run) ps = 0"
    by (rule cnt_weaken_zero[OF h]) (simp add: is_stray_def)
  moreover have "cnt (is_lost k (c_changed c) False) ps = 0"
    by (rule cnt_weaken_zero[OF l]) (auto simp: is_lost_def split: option.splits)
  ultimately show ?thesis
    using assms h by (auto simp: cell_inv_def adhoc_prof_def profile_defs)
qed

section \<open>The ledger\<close>

text \<open>
  The cells and counters of the manager agree with the goroutines. The last condition says that a
  goroutine waiting for a process slot will be signalled.
\<close>

definition ledger :: "prof list \<Rightarrow> manager \<Rightarrow> bool" where
  "ledger ps m \<longleftrightarrow> wf m \<and>
     (\<forall>k. case cells m k of Some c \<Rightarrow> cell_inv ps k c | None \<Rightarrow> quiet ps k) \<and>
     m_slotsInUse m = cnt p_slot ps \<and> m_currentProcesses m = cnt p_proc ps \<and>
     m_runWG m = cnt p_wg ps \<and> 0 < m_maxParallel m \<and>
     (\<forall>p\<in>set ps. \<forall>n. p_swait p = Some n \<longrightarrow> n \<le> m_parallelChanged m \<and>
        (n = m_parallelChanged m \<longrightarrow> m_maxParallel m \<le> int (m_slotsInUse m)))"

lemma ledger_cell: "ledger ps m \<Longrightarrow> cells m k = Some c \<Longrightarrow> cell_inv ps k c"
  unfolding ledger_def by (metis option.simps(5))

lemma ledger_quiet: "ledger ps m \<Longrightarrow> cells m k = None \<Longrightarrow> quiet ps k"
  unfolding ledger_def by (metis option.simps(4))

lemma ledger_active_cell:
  assumes "ledger ps m" "p \<in> set ps" "p_count p \<or> p_holds p"
  shows "\<exists>c. cells m (p_key p) = Some c"
  using ledger_quiet[OF assms(1), of "p_key p"] assms(2,3) by (auto simp: quiet_def cnt_zero)

text \<open>Slots: how a goroutine's section may change them.\<close>

definition slot_move :: "prof \<Rightarrow> manager \<Rightarrow> prof \<Rightarrow> manager \<Rightarrow> bool" where
  "slot_move p m p' m' \<longleftrightarrow>
     m_slotsInUse m' + (if p_slot p then 1 else 0) = m_slotsInUse m + (if p_slot p' then 1 else 0) \<and>
     m_currentProcesses m' + (if p_proc p then 1 else 0) =
       m_currentProcesses m + (if p_proc p' then 1 else 0) \<and>
     m_runWG m' + (if p_wg p then 1 else 0) = m_runWG m + (if p_wg p' then 1 else 0) \<and>
     m_maxParallel m' = m_maxParallel m \<and> m_parallelChanged m \<le> m_parallelChanged m' \<and>
     (m_slotsInUse m' < m_slotsInUse m \<longrightarrow> m_parallelChanged m < m_parallelChanged m') \<and>
     (\<forall>n. p_swait p' = Some n \<longrightarrow> n \<le> m_parallelChanged m' \<and>
        (n = m_parallelChanged m' \<longrightarrow> m_maxParallel m' \<le> int (m_slotsInUse m')))"

lemma ledger_move:
  assumes "ledger ps m" "i < length ps" "ps ! i = p" "cells m (p_key p) = Some c"
    "wf m'" "cells m' = (cells m)(p_key p \<mapsto> c')" "move p c p' c'" "slot_move p m p' m'"
  shows "ledger (ps[i := p']) m'"
proof -
  have key: "p_key p' = p_key p" using assms(7) by (simp add: move_def)
  have "case cells m' k of Some c \<Rightarrow> cell_inv (ps[i := p']) k c | None \<Rightarrow> quiet (ps[i := p']) k" for k
  proof (cases "k = p_key p")
    case True
    then show ?thesis
      using cell_inv_move[OF ledger_cell[OF assms(1,4)] assms(2,3) refl assms(7)] assms(6) by simp
  next
    case False
    then have "cells m' k = cells m k" using assms(6) by simp
    moreover have "case cells m k of Some c \<Rightarrow> cell_inv ps k c | None \<Rightarrow> quiet ps k"
      using assms(1) unfolding ledger_def by blast
    ultimately show ?thesis
      using False key assms(2,3) cell_inv_other[of i ps p' k] quiet_other[of i ps p' k]
      by (auto split: option.splits)
  qed
  moreover have "m_slotsInUse m' = cnt p_slot (ps[i := p'])"
    "m_currentProcesses m' = cnt p_proc (ps[i := p'])" "m_runWG m' = cnt p_wg (ps[i := p'])"
    using assms(1-3,8) cnt_update[OF assms(2), of p_slot p'] cnt_update[OF assms(2), of p_proc p']
      cnt_update[OF assms(2), of p_wg p'] unfolding ledger_def slot_move_def by auto
  moreover have "0 < m_maxParallel m'" using assms(1,8) by (simp add: ledger_def slot_move_def)
  moreover have "\<forall>q\<in>set (ps[i := p']). \<forall>n. p_swait q = Some n \<longrightarrow> n \<le> m_parallelChanged m' \<and>
        (n = m_parallelChanged m' \<longrightarrow> m_maxParallel m' \<le> int (m_slotsInUse m'))"
  proof (intro ballI allI impI)
    fix q n assume q: "q \<in> set (ps[i := p'])" "p_swait q = Some n"
    then consider "q = p'" | "q \<in> set ps" using set_update_subset_insert[of ps i p'] by auto
    then show "n \<le> m_parallelChanged m' \<and>
        (n = m_parallelChanged m' \<longrightarrow> m_maxParallel m' \<le> int (m_slotsInUse m'))"
    proof cases
      case 2
      then have "n \<le> m_parallelChanged m" "n = m_parallelChanged m \<longrightarrow> m_maxParallel m \<le> int (m_slotsInUse m)"
        using assms(1) q(2) by (auto simp: ledger_def)
      then show ?thesis using assms(8) unfolding slot_move_def by linarith
    qed (use q(2) assms(8) in \<open>auto simp: slot_move_def\<close>)
  qed
  ultimately show ?thesis using assms(5) unfolding ledger_def by blast
qed

end
