(* ===== verification/Systems.thy ===== *)
theory Systems
  imports Prelude
begin

text \<open>
  State machines: an initial condition, a step relation and an invariant. The stateful components
  of the development (the goroutines of the job manager, the web client's pages) interpret this
  interface and obtain that the invariant holds in every reachable state.
\<close>

definition reachable :: "('w \<Rightarrow> bool) \<Rightarrow> ('w \<Rightarrow> 'w \<Rightarrow> bool) \<Rightarrow> 'w \<Rightarrow> bool" where
  "reachable init step w \<longleftrightarrow> (\<exists>w0. init w0 \<and> step\<^sup>*\<^sup>* w0 w)"

lemma reachable_init: "init w \<Longrightarrow> reachable init step w"
  by (auto simp: reachable_def)

lemma reachable_step: "reachable init step w \<Longrightarrow> step w w' \<Longrightarrow> reachable init step w'"
  by (auto simp: reachable_def intro: rtranclp.rtrancl_into_rtrancl)

locale invariant_system =
  fixes init :: "'w \<Rightarrow> bool" and step :: "'w \<Rightarrow> 'w \<Rightarrow> bool" and inv :: "'w \<Rightarrow> bool"
  assumes init_inv: "init w \<Longrightarrow> inv w"
    and step_inv: "inv w \<Longrightarrow> step w w' \<Longrightarrow> inv w'"
begin

lemma steps_inv: "step\<^sup>*\<^sup>* w w' \<Longrightarrow> inv w \<Longrightarrow> inv w'"
  by (induction rule: rtranclp_induct) (auto intro: step_inv)

lemma reachable_inv: "reachable init step w \<Longrightarrow> inv w"
  by (auto simp: reachable_def intro: steps_inv init_inv)

end

end
