(* ===== verification/Scheduler.thy ===== *)
theory Scheduler
  imports Jobs_Targets Systems
begin

text \<open>
  The goroutines of \<open>internal/jobs/manager.go\<close>. A goroutine is a value of type \<open>thread\<close>: its
  parameters and a program counter naming the point between two critical sections (or two
  blocking operations) where it stands. \<open>run_thread\<close> performs its next section. A \<open>world\<close> is the
  manager with all goroutines; the step relation interleaves them with the calls that the web
  server and the chat commands make. What the program does not control (clock, random numbers,
  which ready branch of a \<open>select\<close> is taken, what a Codex process returns, whether a message is
  delivered) is in the environment \<open>env\<close> of a step.

  The flags of \<open>QCancel\<close> and \<open>KCancel\<close> record whether the goroutine reaches the cancellation
  holding the target's arbiter; no step reads them.
\<close>

record env =
  e_now :: int
  e_draw :: int
  e_pick :: bool
  e_result :: codex_result
  e_sent :: bool

section \<open>Program counters\<close>

datatype qpc =
    QTarget | QTargetWait nat | QSlot | QSlotWait nat | QBegin | QReleaseSlot | QReleaseTarget
  | QRun nat config_target | QFinish nat config_target codex_result
  | QDecide nat config_target codex_result | QMarkSuccess nat config_target
  | QNotify "text" nat duration "subscriber list" | QMarkFail codex_result
  | QCancel bool | QExit | QWG | QDone

datatype kpc =
    KCheck | KWait nat | KSlot | KSlotWait nat | KCommit | KBail | KYield nat
  | KRun nat config_target | KFinish codex_result | KDecide codex_result | KRelease codex_result
  | KNext | KNextWait gotime nat | KCancel bool | KExit | KWG | KDone

datatype apc =
    ASlot | ASlotWait nat | ACheck | AStart | ARun
  | AFinish bool bool "codex_result option" | ADone "codex_result option"

datatype npc = NSend | NWait | NDone

datatype mpc = MPrepare | MIdle int | MSleep int | MRefused | MCommit

datatype change =
    ChangeUpdate int "config_target option" "config_target \<Rightarrow> manager_error + config_target"
  | ChangeDelete int "manager_error option"

datatype cpc = CStart | CIdle key int | CSleep key int | CCommit | CReturn "manager_error option"

datatype thread =
    QueueWorker key nat ctxid qpc
  | KeepaliveWorker key nat ctxid kpc
  | AdhocCall key nat ctxid config_target apc
  | Notifier subscriber "text" duration npc
  | ModeCall requestOwner subscriber "key list" startResult mpc
  | ChangeCall change cpc

text \<open>The result of running a goroutine up to its next point; a started goroutine is in the list.\<close>

datatype 'pc outcome = Blocked | Panic | Step 'pc "thread list" manager

definition onto :: "'pc \<Rightarrow> manager option \<Rightarrow> 'pc outcome" where
  "onto pc r = (case r of None \<Rightarrow> Panic | Some m \<Rightarrow> Step pc [] m)"

definition branch :: "('a \<times> manager) option \<Rightarrow> ('a \<Rightarrow> 'pc) \<Rightarrow> 'pc outcome" where
  "branch r f = (case r of None \<Rightarrow> Panic | Some (x, m) \<Rightarrow> Step (f x) [] m)"

text \<open>
  A \<open>select\<close> on a context and a channel: when both are ready, either branch may run.
\<close>

definition select_ctx :: "env \<Rightarrow> bool \<Rightarrow> bool \<Rightarrow> 'pc \<Rightarrow> 'pc \<Rightarrow> manager \<Rightarrow> 'pc outcome" where
  "select_ctx e cancelled ready onCancel onReady m =
     (if cancelled \<and> (e_pick e \<or> \<not> ready) then Step onCancel [] m
      else if ready then Step onReady [] m else Blocked)"

section \<open>\<open>notifySuccess\<close> and \<open>notifySubscriber\<close>\<close>

definition maxDuration :: duration where "maxDuration = 2 ^ 63 - 1"

text \<open>\<open>Duration.Round(time.Second)\<close>: half away from zero, the largest value on overflow.\<close>

definition round_second :: "duration \<Rightarrow> duration" where
  "round_second d =
     (let n = (abs d + second div 2) div second * second in
      if d < 0 then - n else if n > maxDuration then maxDuration else n)"

definition pad_left :: "nat \<Rightarrow> text \<Rightarrow> text" where
  "pad_left n s = replicate (n - length s) 48 @ s"

text \<open>\<open>Duration.String\<close> for durations of at least one second.\<close>

definition duration_String :: "duration \<Rightarrow> text" where
  "duration_String d =
     (let total = nat (d div second); frac = nat (d mod second);
          h = total div 3600; mi = total div 60 mod 60; s = total mod 60;
          fr = (if frac = 0 then [] else 46 # trim_right_by (\<lambda>r. r = 48) (pad_left 9 (dec frac)))
      in (if h > 0 then dec h @ asc ''h'' else []) @
         (if h > 0 \<or> mi > 0 then dec mi @ asc ''m'' else []) @ dec s @ fr @ asc ''s'')"

definition formatDuration :: "duration \<Rightarrow> text" where
  "formatDuration d =
     (if round_second d < second then [19981, 36275, 32, 49, 32, 31186]
      else duration_String (round_second d))"

definition successText :: "text \<Rightarrow> text \<Rightarrow> nat \<Rightarrow> duration \<Rightarrow> text" where
  "successText target successMessage attempt elapsed =
     [9989, 32] @ target @ [65306] @ successMessage @ [65288, 31532, 32] @ dec attempt @
     [32, 27425, 65292, 32791, 26102, 32] @ formatDuration elapsed @ [65289]"

definition notifySuccess ::
  "text \<Rightarrow> nat \<Rightarrow> duration \<Rightarrow> subscriber list \<Rightarrow> manager \<Rightarrow> thread list" where
  "notifySuccess target attempt elapsed subscribers m =
     map (\<lambda>s. Notifier s (successText target (m_successMessage m) attempt elapsed) (2 * second) NSend)
       subscribers"

definition notify_step ::
  "env \<Rightarrow> subscriber \<Rightarrow> text \<Rightarrow> duration \<Rightarrow> npc \<Rightarrow> manager \<Rightarrow> (duration \<times> npc) outcome" where
  "notify_step e s message delay pc m =
     (case pc of
        NSend \<Rightarrow>
          if s_Messenger s = None \<and> m_messenger m = None then Step (delay, NDone) [] m
          else if e_sent e then Step (delay, NDone) [] m else Step (delay, NWait) [] m
      | NWait \<Rightarrow> select_ctx e (m_rootDone m) True (delay, NDone)
                  (minDuration (delay * 2) (60 * second), NSend) m
      | NDone \<Rightarrow> Blocked)"

section \<open>\<open>run\<close>: the queue worker\<close>

fun queue_step :: "env \<Rightarrow> key \<Rightarrow> nat \<Rightarrow> ctxid \<Rightarrow> qpc \<Rightarrow> manager \<Rightarrow> qpc outcome" where
  "queue_step e k run c QTarget m = branch (acquireQueueTarget k run m)
     (\<lambda>r. case r of AcquireInvalid \<Rightarrow> QCancel False | AcquireOK \<Rightarrow> QSlot | AcquireWait n \<Rightarrow> QTargetWait n)"
| "queue_step e k run c (QTargetWait n) m =
     (case m_arbiters m k of None \<Rightarrow> Panic | Some a \<Rightarrow>
        select_ctx e (job_ctx_done m c) (a_changed a \<noteq> n) (QCancel False) QTarget m)"
| "queue_step e k run c QSlot m = branch (Some (acquire_slot m))
     (\<lambda>r. case r of AcquireOK \<Rightarrow> QBegin | AcquireWait n \<Rightarrow> QSlotWait n | AcquireInvalid \<Rightarrow> QCancel True)"
| "queue_step e k run c (QSlotWait n) m =
     select_ctx e (job_ctx_done m c) (m_parallelChanged m \<noteq> n) (QCancel True) QSlot m"
| "queue_step e k run c QBegin m = branch (beginAttempt (e_now e) k run m)
     (\<lambda>r. case r of None \<Rightarrow> QReleaseSlot | Some (attempt, t) \<Rightarrow> QRun attempt t)"
| "queue_step e k run c QReleaseSlot m = Step QReleaseTarget [] (releaseSlot m)"
| "queue_step e k run c QReleaseTarget m = onto QExit (releaseTargetLocked k requestOwnerQueue run m)"
| "queue_step e k run c (QRun attempt t) m = Step (QFinish attempt t (e_result e)) [] m"
| "queue_step e k run c (QFinish attempt t r) m = onto (QDecide attempt t r) (finishProcess m)"
| "queue_step e k run c (QDecide attempt t r) m = Step
     (if r_Success r then QMarkSuccess attempt t
      else if job_ctx_done m c then QCancel True else QMarkFail r) [] m"
| "queue_step e k run c (QMarkSuccess attempt t) m = branch (markSuccess (e_now e) k run m)
     (\<lambda>r. case r of None \<Rightarrow> QExit | Some (subs, elapsed) \<Rightarrow> QNotify (t_Name t) attempt elapsed subs)"
| "queue_step e k run c (QNotify name attempt elapsed subs) m =
     Step QExit (notifySuccess name attempt elapsed subs m) m"
| "queue_step e k run c (QMarkFail r) m = branch (markFailure k run r m)
     (\<lambda>valid. if valid then QTarget else QExit)"
| "queue_step e k run c (QCancel held) m = onto QExit (markQueueCancelled (e_now e) k run m)"
| "queue_step e k run c QExit m = onto QWG (finishQueueWorker k m)"
| "queue_step e k run c QWG m = Step QDone [] (m\<lparr>m_runWG := m_runWG m - 1\<rparr>)"
| "queue_step e k run c QDone m = Blocked"

section \<open>\<open>runKeepalive\<close>: the keepalive worker\<close>

fun keepalive_step :: "env \<Rightarrow> key \<Rightarrow> nat \<Rightarrow> ctxid \<Rightarrow> kpc \<Rightarrow> manager \<Rightarrow> kpc outcome" where
  "keepalive_step e k run c KCheck m = branch (beginKeepaliveCheck k run m)
     (\<lambda>r. case r of AcquireInvalid \<Rightarrow> KCancel False | AcquireOK \<Rightarrow> KSlot | AcquireWait n \<Rightarrow> KWait n)"
| "keepalive_step e k run c (KWait n) m =
     (case m_arbiters m k of None \<Rightarrow> Panic | Some a \<Rightarrow>
        select_ctx e (job_ctx_done m c) (a_changed a \<noteq> n) (KCancel False) KCheck m)"
| "keepalive_step e k run c KSlot m = branch (Some (acquire_slot m))
     (\<lambda>r. case r of AcquireOK \<Rightarrow> KCommit | AcquireWait n \<Rightarrow> KSlotWait n | AcquireInvalid \<Rightarrow> KCancel False)"
| "keepalive_step e k run c (KSlotWait n) m =
     select_ctx e (job_ctx_done m c) (m_parallelChanged m \<noteq> n) (KCancel False) KSlot m"
| "keepalive_step e k run c KCommit m = branch (beginKeepaliveCommit (e_now e) k run m)
     (\<lambda>r. case r of KBeginInvalid \<Rightarrow> KBail | KBeginContended n \<Rightarrow> KYield n | KBeginOK req t \<Rightarrow> KRun req t)"
| "keepalive_step e k run c KBail m = Step (KCancel False) [] (releaseSlot m)"
| "keepalive_step e k run c (KYield n) m = Step (KWait n) [] (releaseSlot m)"
| "keepalive_step e k run c (KRun req t) m = Step (KFinish (e_result e)) [] m"
| "keepalive_step e k run c (KFinish r) m = onto (KDecide r) (finishProcess m)"
| "keepalive_step e k run c (KDecide r) m =
     Step (if job_ctx_done m c then KCancel True else KRelease r) [] m"
| "keepalive_step e k run c (KRelease r) m =
     branch (finishKeepaliveRequest (e_now e) (e_draw e) k run r m)
       (\<lambda>ok. if ok then KNext else KExit)"
| "keepalive_step e k run c KNext m =
     (case waitKeepaliveNext k run m of
        None \<Rightarrow> Step (KCancel False) [] m
      | Some (at, changed) \<Rightarrow>
          if time_due (e_now e) at then Step KCheck [] m else Step (KNextWait at changed) [] m)"
| "keepalive_step e k run c (KNextWait at changed) m =
     (case m_keepalives m k of None \<Rightarrow> Panic | Some ka \<Rightarrow>
        if time_due (e_now e) at \<and> \<not> e_pick e then Step KCheck [] m
        else select_ctx e (job_ctx_done m c) (k_scheduleChanged ka \<noteq> changed) (KCancel False) KNext m)"
| "keepalive_step e k run c (KCancel held) m = onto KExit (markKeepaliveCancelled (e_now e) k run m)"
| "keepalive_step e k run c KExit m = onto KWG (finishKeepaliveWorker k m)"
| "keepalive_step e k run c KWG m = Step KDone [] (m\<lparr>m_runWG := m_runWG m - 1\<rparr>)"
| "keepalive_step e k run c KDone m = Blocked"

section \<open>\<open>RunAdhoc\<close> after the reservation\<close>

fun adhoc_step :: "env \<Rightarrow> key \<Rightarrow> nat \<Rightarrow> ctxid \<Rightarrow> apc \<Rightarrow> manager \<Rightarrow> apc outcome" where
  "adhoc_step e k run c ASlot m = branch (Some (acquire_slot m))
     (\<lambda>r. case r of AcquireOK \<Rightarrow> ACheck | AcquireWait n \<Rightarrow> ASlotWait n
        | AcquireInvalid \<Rightarrow> AFinish False False None)"
| "adhoc_step e k run c (ASlotWait n) m =
     select_ctx e (job_ctx_done m c) (m_parallelChanged m \<noteq> n) (AFinish False False None) ASlot m"
| "adhoc_step e k run c ACheck m =
     Step (if job_ctx_done m c then AFinish True False None else AStart) [] m"
| "adhoc_step e k run c AStart m = branch (startAdhocProcess k run m)
     (\<lambda>ok. if ok then ARun else AFinish True False None)"
| "adhoc_step e k run c ARun m = Step (AFinish True True (Some (e_result e))) [] m"
| "adhoc_step e k run c (AFinish slot proc r) m =
     onto (ADone r) (finishAdhocRequest k run slot proc (cancel_ctx (Some c) m))"
| "adhoc_step e k run c (ADone r) m = Blocked"

section \<open>Callers\<close>

text \<open>\<open>waitTargetIdle\<close>: one look at the target, and the pause before the next.\<close>

datatype idle_round = IdleResult bool | IdleAgain

definition idle_check :: "int \<Rightarrow> int \<Rightarrow> key \<Rightarrow> manager \<Rightarrow> (idle_round \<times> manager) option" where
  "idle_check now deadline k m =
     (case targetIdle k m of
        None \<Rightarrow> None
      | Some (exists, idle) \<Rightarrow> Some
          (if \<not> exists \<or> idle then IdleResult exists
           else if now > deadline then IdleResult False else IdleAgain, m))"

definition idle_timeout :: duration where "idle_timeout = 10 * second"

text \<open>\<open>Start\<close> and \<open>StartKeepalive\<close> with \<open>startQueue\<close>, \<open>startKeepalive\<close> and \<open>prepareMode\<close>.\<close>

definition add_already :: "text \<Rightarrow> startResult \<Rightarrow> startResult" where
  "add_already name res = (if name = [] then res else res\<lparr>sr_Already := sr_Already res @ [name]\<rparr>)"

definition add_started :: "text \<Rightarrow> startResult \<Rightarrow> startResult" where
  "add_started name res = (if name = [] then res else res\<lparr>sr_Started := sr_Started res @ [name]\<rparr>)"

definition start_worker :: "requestOwner \<Rightarrow> key \<Rightarrow> nat \<Rightarrow> ctxid \<Rightarrow> thread" where
  "start_worker desired k run c =
     (if desired = requestOwnerQueue then QueueWorker k run c QTarget
      else KeepaliveWorker k run c KCheck)"

definition mode_done ::
  "requestOwner \<Rightarrow> key \<Rightarrow> key list \<Rightarrow> startResult \<Rightarrow> (commit_result \<times> manager) option \<Rightarrow>
   (key list \<times> startResult \<times> mpc) outcome" where
  "mode_done desired k ks res r =
     (case r of
        None \<Rightarrow> Panic
      | Some (CommitMissing, m) \<Rightarrow> Step (ks, res, MPrepare) [] m
      | Some (CommitAlready name, m) \<Rightarrow> Step (ks, add_already name res, MPrepare) [] m
      | Some (CommitRetry, m) \<Rightarrow> Step (k # ks, res, MPrepare) [] m
      | Some (CommitStarted name run c, m) \<Rightarrow>
          Step (ks, add_started name res, MPrepare) [start_worker desired k run c] m)"

definition mode_step ::
  "env \<Rightarrow> requestOwner \<Rightarrow> subscriber \<Rightarrow> key list \<Rightarrow> startResult \<Rightarrow> mpc \<Rightarrow> manager \<Rightarrow>
   (key list \<times> startResult \<times> mpc) outcome" where
  "mode_step e desired s keys res pc m =
     (case keys of
        [] \<Rightarrow> Blocked
      | k # ks \<Rightarrow> (case pc of
          MPrepare \<Rightarrow> branch (prepareMode (e_now e) k desired m) (\<lambda>r. (keys, res,
            case r of PrepareRefused \<Rightarrow> MRefused | PrepareReady \<Rightarrow> MCommit
            | PrepareBusy \<Rightarrow> MIdle (e_now e + idle_timeout)))
        | MIdle deadline \<Rightarrow> branch (idle_check (e_now e) deadline k m) (\<lambda>r. (keys, res,
            case r of IdleResult idle \<Rightarrow> (if idle then MPrepare else MRefused)
            | IdleAgain \<Rightarrow> MSleep deadline))
        | MSleep deadline \<Rightarrow>
            select_ctx e (m_rootDone m) True (keys, res, MRefused) (keys, res, MIdle deadline) m
        | MRefused \<Rightarrow> mode_done desired k ks res
            (if desired = requestOwnerQueue then queueRefused k s m else keepaliveRefused k m)
        | MCommit \<Rightarrow> mode_done desired k ks res
            (if desired = requestOwnerQueue then startQueueCommit (e_now e) k s m
             else startKeepaliveCommit (e_now e) k m)))"

text \<open>\<open>UpdateTarget\<close> and \<open>DeleteTarget\<close>.\<close>

definition change_id :: "change \<Rightarrow> int" where
  "change_id ch = (case ch of ChangeUpdate i t p \<Rightarrow> i | ChangeDelete i p \<Rightarrow> i)"

definition change_step :: "env \<Rightarrow> change \<Rightarrow> cpc \<Rightarrow> manager \<Rightarrow> cpc outcome" where
  "change_step e ch pc m =
     (case pc of
        CStart \<Rightarrow>
          (case ch of
             ChangeUpdate i None p \<Rightarrow> Step (CReturn (Some ErrTargetNotFound)) [] m
           | _ \<Rightarrow> branch (quiesceTarget (e_now e) (change_id ch) m)
               (\<lambda>r. case r of Inl err \<Rightarrow> CReturn (Some err)
                  | Inr k \<Rightarrow> CIdle k (e_now e + idle_timeout)))
      | CIdle k deadline \<Rightarrow> branch (idle_check (e_now e) deadline k m)
          (\<lambda>r. case r of IdleResult idle \<Rightarrow> (if idle then CCommit else CReturn (Some ErrTargetBusy))
             | IdleAgain \<Rightarrow> CSleep k deadline)
      | CSleep k deadline \<Rightarrow>
          select_ctx e (m_rootDone m) True (CReturn (Some ErrTargetBusy)) (CIdle k deadline) m
      | CCommit \<Rightarrow>
          (case ch of
             ChangeUpdate i (Some t) persist \<Rightarrow> branch (updateTargetCommit i t persist m) CReturn
           | ChangeUpdate i None persist \<Rightarrow> Step (CReturn (Some ErrTargetNotFound)) [] m
           | ChangeDelete i persist \<Rightarrow> branch (deleteTargetCommit i persist m) CReturn)
      | CReturn r \<Rightarrow> Blocked)"

section \<open>Worlds\<close>

definition run_thread :: "env \<Rightarrow> thread \<Rightarrow> manager \<Rightarrow> thread outcome" where
  "run_thread e th m =
     (case th of
        QueueWorker k run c pc \<Rightarrow> map_outcome (QueueWorker k run c) (queue_step e k run c pc m)
      | KeepaliveWorker k run c pc \<Rightarrow>
          map_outcome (KeepaliveWorker k run c) (keepalive_step e k run c pc m)
      | AdhocCall k run c t pc \<Rightarrow> map_outcome (AdhocCall k run c t) (adhoc_step e k run c pc m)
      | Notifier s message delay pc \<Rightarrow>
          map_outcome (\<lambda>(d, pc). Notifier s message d pc) (notify_step e s message delay pc m)
      | ModeCall desired s keys res pc \<Rightarrow>
          map_outcome (\<lambda>(keys, res, pc). ModeCall desired s keys res pc)
            (mode_step e desired s keys res pc m)
      | ChangeCall ch pc \<Rightarrow> map_outcome (ChangeCall ch) (change_step e ch pc m))"

record world =
  w_mgr :: manager
  w_threads :: "thread list"

definition change_ok :: "change \<Rightarrow> bool" where
  "change_ok ch \<longleftrightarrow>
     (case ch of ChangeUpdate i t persist \<Rightarrow> persist_keeps_id persist i | ChangeDelete i p \<Rightarrow> True)"

text \<open>
  One step of the world: a goroutine runs its next section, or a call arrives. \<open>step_disconnect\<close>
  is the cancellation of a manual request by its HTTP client, \<open>step_root\<close> that of the root context.
\<close>

inductive step :: "world \<Rightarrow> world \<Rightarrow> bool" where
  step_thread: "i < length (w_threads w) \<Longrightarrow>
    run_thread e (w_threads w ! i) (w_mgr w) = Step th new m' \<Longrightarrow>
    step w \<lparr>w_mgr = m', w_threads = (w_threads w)[i := th] @ new\<rparr>"
| step_start: "resolveLocked (w_mgr w) names = (keys, unknown) \<Longrightarrow>
    desired = requestOwnerQueue \<or> desired = requestOwnerKeepalive \<Longrightarrow>
    step w (w\<lparr>w_threads := w_threads w @ [ModeCall desired s keys
      \<lparr>sr_Started = [], sr_Already = [], sr_Unknown = unknown\<rparr> MPrepare]\<rparr>)"
| step_stop: "StopTask now names (w_mgr w) = Some (res, m') \<Longrightarrow> step w (w\<lparr>w_mgr := m'\<rparr>)"
| step_adhoc: "reserveAdhoc i (w_mgr w) = Some (Inr (k, run, c, t), m') \<Longrightarrow>
    step w \<lparr>w_mgr = m', w_threads = w_threads w @ [AdhocCall k run c t ASlot]\<rparr>"
| step_disconnect: "AdhocCall k run c t pc \<in> set (w_threads w) \<Longrightarrow>
    step w (w\<lparr>w_mgr := cancel_ctx (Some c) (w_mgr w)\<rparr>)"
| step_change: "change_ok ch \<Longrightarrow>
    step w (w\<lparr>w_threads := w_threads w @ [ChangeCall ch CStart]\<rparr>)"
| step_create: "persist_fresh persist (w_mgr w) \<Longrightarrow>
    CreateTarget target persist (w_mgr w) = Some (res, m') \<Longrightarrow> step w (w\<lparr>w_mgr := m'\<rparr>)"
| step_settings: "UpdateSettings now draw kmin kmax n msg (w_mgr w) = Some m' \<Longrightarrow>
    step w (w\<lparr>w_mgr := m'\<rparr>)"
| step_messenger: "step w (w\<lparr>w_mgr := SetMessenger ms (w_mgr w)\<rparr>)"
| step_shutdown: "step w (w\<lparr>w_mgr := BeginShutdown (w_mgr w)\<rparr>)"
| step_root: "step w (w\<lparr>w_mgr := (w_mgr w)\<lparr>m_rootDone := True\<rparr>\<rparr>)"
| step_observe: "Observe buffer (w_mgr w) = Some (snapshot, ob, m') \<Longrightarrow> step w (w\<lparr>w_mgr := m'\<rparr>)"
| step_close: "step w (w\<lparr>w_mgr := closeObserver ob (w_mgr w)\<rparr>)"
| step_receive: "receiveEvent ob (w_mgr w) = Some (ev, m') \<Longrightarrow> step w (w\<lparr>w_mgr := m'\<rparr>)"

text \<open>
  The program starts with the manager built from a validated configuration: target names are
  unique up to case, the database assigned distinct identifiers, at least one process is allowed.
\<close>

inductive initial :: "world \<Rightarrow> bool" where
  initialI: "distinct (map (\<lambda>t. normalizeName (t_Name t)) targets) \<Longrightarrow> distinct (map t_ID targets) \<Longrightarrow>
    0 < maxParallel \<Longrightarrow>
    initial \<lparr>w_mgr = New host targets messenger kmin kmax maxParallel msg, w_threads = []\<rparr>"

inductive_cases step_cases: "step w w'"
inductive_cases initial_cases: "initial w"

end
