(* ===== verification/Scheduler_Inv.thy ===== *)
theory Scheduler_Inv
  imports Accounting Scheduler
begin

text \<open>
  The invariant of the goroutines of theory \<open>Scheduler\<close>: the ledger of theory \<open>Accounting\<close> holds
  for their profiles. Each section of each goroutine is shown to be a \<open>move\<close>, and no section
  panics.
\<close>

section \<open>Profiles of the goroutines\<close>

definition mkp :: "requestOwner \<Rightarrow> key \<Rightarrow> nat \<Rightarrow> bool \<Rightarrow> bool \<Rightarrow> bool \<Rightarrow> bool \<Rightarrow> bool \<Rightarrow> nat option \<Rightarrow> nat option \<Rightarrow> prof"
where
  "mkp ow k run count live holds slot proc tw sw =
     \<lparr>p_kind = ow, p_key = k, p_run = run, p_count = count, p_live = live, p_holds = holds,
      p_slot = slot, p_proc = proc, p_wg = True, p_twait = tw, p_swait = sw\<rparr>"

definition null_prof :: "requestOwner \<Rightarrow> key \<Rightarrow> nat \<Rightarrow> prof" where
  "null_prof ow k run = \<lparr>p_kind = ow, p_key = k, p_run = run, p_count = False, p_live = False,
     p_holds = False, p_slot = False, p_proc = False, p_wg = False, p_twait = None, p_swait = None\<rparr>"

lemma mkp_fields [simp]:
  "p_kind (mkp ow k run co li ho sl pr tw sw) = ow" "p_key (mkp ow k run co li ho sl pr tw sw) = k"
  "p_run (mkp ow k run co li ho sl pr tw sw) = run" "p_count (mkp ow k run co li ho sl pr tw sw) = co"
  "p_live (mkp ow k run co li ho sl pr tw sw) = li" "p_holds (mkp ow k run co li ho sl pr tw sw) = ho"
  "p_slot (mkp ow k run co li ho sl pr tw sw) = sl" "p_proc (mkp ow k run co li ho sl pr tw sw) = pr"
  "p_wg (mkp ow k run co li ho sl pr tw sw)" "p_twait (mkp ow k run co li ho sl pr tw sw) = tw"
  "p_swait (mkp ow k run co li ho sl pr tw sw) = sw"
  by (simp_all add: mkp_def)

lemma null_prof_fields [simp]:
  "p_kind (null_prof ow k run) = ow" "p_key (null_prof ow k run) = k"
  "p_run (null_prof ow k run) = run" "\<not> p_count (null_prof ow k run)"
  "\<not> p_live (null_prof ow k run)" "\<not> p_holds (null_prof ow k run)"
  "\<not> p_slot (null_prof ow k run)" "\<not> p_proc (null_prof ow k run)"
  "\<not> p_wg (null_prof ow k run)" "p_twait (null_prof ow k run) = None"
  "p_swait (null_prof ow k run) = None"
  by (simp_all add: null_prof_def)

fun queue_prof :: "key \<Rightarrow> nat \<Rightarrow> qpc \<Rightarrow> prof" where
  "queue_prof k r QTarget = mkp requestOwnerQueue k r True True False False False None None"
| "queue_prof k r (QTargetWait n) = mkp requestOwnerQueue k r True True False False False (Some n) None"
| "queue_prof k r QSlot = mkp requestOwnerQueue k r True True True False False None None"
| "queue_prof k r (QSlotWait n) = mkp requestOwnerQueue k r True True True False False None (Some n)"
| "queue_prof k r QBegin = mkp requestOwnerQueue k r True True True True False None None"
| "queue_prof k r QReleaseSlot = mkp requestOwnerQueue k r True False True True False None None"
| "queue_prof k r QReleaseTarget = mkp requestOwnerQueue k r True False True False False None None"
| "queue_prof k r (QRun a t) = mkp requestOwnerQueue k r True True True True True None None"
| "queue_prof k r (QFinish a t x) = mkp requestOwnerQueue k r True True True True True None None"
| "queue_prof k r (QDecide a t x) = mkp requestOwnerQueue k r True True True False False None None"
| "queue_prof k r (QMarkSuccess a t) = mkp requestOwnerQueue k r True True True False False None None"
| "queue_prof k r (QNotify n a d s) = mkp requestOwnerQueue k r True False False False False None None"
| "queue_prof k r (QMarkFail x) = mkp requestOwnerQueue k r True True True False False None None"
| "queue_prof k r (QCancel held) = mkp requestOwnerQueue k r True True held False False None None"
| "queue_prof k r QExit = mkp requestOwnerQueue k r True False False False False None None"
| "queue_prof k r QWG = mkp requestOwnerQueue k r False False False False False None None"
| "queue_prof k r QDone = null_prof requestOwnerQueue k r"

fun keepalive_prof :: "key \<Rightarrow> nat \<Rightarrow> kpc \<Rightarrow> prof" where
  "keepalive_prof k r KCheck = mkp requestOwnerKeepalive k r True True False False False None None"
| "keepalive_prof k r (KWait n) = mkp requestOwnerKeepalive k r True True False False False (Some n) None"
| "keepalive_prof k r KSlot = mkp requestOwnerKeepalive k r True True False False False None None"
| "keepalive_prof k r (KSlotWait n) = mkp requestOwnerKeepalive k r True True False False False None (Some n)"
| "keepalive_prof k r KCommit = mkp requestOwnerKeepalive k r True True False True False None None"
| "keepalive_prof k r KBail = mkp requestOwnerKeepalive k r True True False True False None None"
| "keepalive_prof k r (KYield n) = mkp requestOwnerKeepalive k r True True False True False (Some n) None"
| "keepalive_prof k r (KRun q t) = mkp requestOwnerKeepalive k r True True True True True None None"
| "keepalive_prof k r (KFinish x) = mkp requestOwnerKeepalive k r True True True True True None None"
| "keepalive_prof k r (KDecide x) = mkp requestOwnerKeepalive k r True True True False False None None"
| "keepalive_prof k r (KRelease x) = mkp requestOwnerKeepalive k r True True True False False None None"
| "keepalive_prof k r KNext = mkp requestOwnerKeepalive k r True True False False False None None"
| "keepalive_prof k r (KNextWait at n) = mkp requestOwnerKeepalive k r True True False False False None None"
| "keepalive_prof k r (KCancel held) = mkp requestOwnerKeepalive k r True True held False False None None"
| "keepalive_prof k r KExit = mkp requestOwnerKeepalive k r True False False False False None None"
| "keepalive_prof k r KWG = mkp requestOwnerKeepalive k r False False False False False None None"
| "keepalive_prof k r KDone = null_prof requestOwnerKeepalive k r"

fun adhoc_pc_prof :: "key \<Rightarrow> nat \<Rightarrow> apc \<Rightarrow> prof" where
  "adhoc_pc_prof k r ASlot = mkp requestOwnerAdhoc k r False False True False False None None"
| "adhoc_pc_prof k r (ASlotWait n) = mkp requestOwnerAdhoc k r False False True False False None (Some n)"
| "adhoc_pc_prof k r ACheck = mkp requestOwnerAdhoc k r False False True True False None None"
| "adhoc_pc_prof k r AStart = mkp requestOwnerAdhoc k r False False True True False None None"
| "adhoc_pc_prof k r ARun = mkp requestOwnerAdhoc k r False False True True True None None"
| "adhoc_pc_prof k r (AFinish slot proc x) =
     mkp requestOwnerAdhoc k r False False True slot (slot \<and> proc) None None"
| "adhoc_pc_prof k r (ADone x) = null_prof requestOwnerAdhoc k r"

definition prof_of :: "thread \<Rightarrow> prof" where
  "prof_of th =
     (case th of
        QueueWorker k run c pc \<Rightarrow> queue_prof k run pc
      | KeepaliveWorker k run c pc \<Rightarrow> keepalive_prof k run pc
      | AdhocCall k run c t pc \<Rightarrow> adhoc_pc_prof k run pc
      | _ \<Rightarrow> null_prof requestOwnerNone [] 0)"

lemma prof_of_simps [simp]:
  "prof_of (QueueWorker k run c qp) = queue_prof k run qp"
  "prof_of (KeepaliveWorker k run c kp) = keepalive_prof k run kp"
  "prof_of (AdhocCall k run c t ap) = adhoc_pc_prof k run ap"
  "prof_of (Notifier s msg d np) = null_prof requestOwnerNone [] 0"
  "prof_of (ModeCall ow s ks res mp) = null_prof requestOwnerNone [] 0"
  "prof_of (ChangeCall ch cp) = null_prof requestOwnerNone [] 0"
  by (simp_all add: prof_of_def)

lemma p_ok_prof_of: "p_ok (prof_of th)"
proof (cases th)
  case (QueueWorker k run c pc)
  then show ?thesis by (cases pc) (simp_all add: p_ok_def)
next
  case (KeepaliveWorker k run c pc)
  then show ?thesis by (cases pc) (simp_all add: p_ok_def)
next
  case (AdhocCall k run c t pc)
  then show ?thesis by (cases pc) (simp_all add: p_ok_def)
qed (simp_all add: p_ok_def)

lemma p_ok_map [simp]: "list_all p_ok (map prof_of ths)"
  by (simp add: list_all_iff p_ok_prof_of)

section \<open>Moves of the ledger\<close>

lemma ledger_wf: "ledger ps m \<Longrightarrow> wf m"
  by (simp add: ledger_def)

lemma ledger_eff:
  assumes "ledger ps m" "i < length ps" "ps ! i = p" "cells m (p_key p) = Some c"
    "eff ma m' ((cells m)(p_key p \<mapsto> c'))" "move p c p' c'" "slot_move p m p' ma"
  shows "ledger (ps[i := p']) m'"
proof (rule ledger_move[OF assms(1-4) _ _ assms(6)])
  show "wf m'" "cells m' = (cells m)(p_key p \<mapsto> c')" using assms(5) by (simp_all add: eff_def)
  have e: "m_slotsInUse m' = m_slotsInUse ma" "m_currentProcesses m' = m_currentProcesses ma"
    "m_runWG m' = m_runWG ma" "m_maxParallel m' = m_maxParallel ma"
    "m_parallelChanged m' = m_parallelChanged ma" using assms(5) by (simp_all add: eff_def)
  show "slot_move p m p' m'" using assms(7) unfolding slot_move_def e .
qed

text \<open>A section that leaves the cell of its target alone.\<close>

lemma ledger_eff_same:
  assumes "ledger ps m" "i < length ps" "ps ! i = p" "cells m (p_key p) = Some c"
    "eff ma m' (cells m)" "move p c p' c" "slot_move p m p' ma"
  shows "ledger (ps[i := p']) m'"
proof (rule ledger_eff[OF assms(1-4) _ assms(6,7)])
  show "eff ma m' ((cells m)(p_key p \<mapsto> c))" using assms(4,5) by (simp add: fun_upd_idem)
qed

lemma ledger_stay:
  assumes "ledger ps m" "i < length ps" "ps ! i = p" "cells m (p_key p) = Some c"
    "move p c p' c" "slot_move p m p' m"
  shows "ledger (ps[i := p']) m"
  by (rule ledger_eff_same[OF assms(1-4) eff_refl[OF ledger_wf[OF assms(1)]] assms(5,6)])

text \<open>A goroutine that has no claim on any target.\<close>

definition unclaimed :: "prof \<Rightarrow> bool" where
  "unclaimed p \<longleftrightarrow> \<not> p_count p \<and> \<not> p_holds p \<and> p_twait p = None \<and> \<not> p_slot p \<and> \<not> p_proc p \<and> p_swait p = None"

lemma unclaimed_null [simp]: "unclaimed (null_prof ow k run)"
  by (simp add: unclaimed_def)

lemma cnt_update_none: "\<not> P (xs ! i) \<Longrightarrow> \<not> P y \<Longrightarrow> cnt P (xs[i := y]) = cnt P xs"
  by (cases "i < length xs") (auto simp: cnt_update_same list_update_beyond)

lemma cell_inv_unclaimed:
  assumes "unclaimed (ps ! i)" "unclaimed p'"
  shows "cell_inv (ps[i := p']) k c = cell_inv ps k c" "quiet (ps[i := p']) k = quiet ps k"
  using assms unfolding cell_inv_def quiet_def unclaimed_def
  by (simp_all add: cnt_update_none profile_defs)

lemma ledger_frame:
  assumes "ledger ps m" "wf m'" "cells m' = cells m" "m_slotsInUse m' = m_slotsInUse m"
    "m_currentProcesses m' = m_currentProcesses m" "m_runWG m' = m_runWG m"
    "m_maxParallel m' = m_maxParallel m" "m_parallelChanged m' = m_parallelChanged m"
  shows "ledger ps m'"
  using assms(1,2) unfolding ledger_def assms(3-8) by blast

lemma ledger_unclaimed:
  assumes "ledger ps m" "i < length ps" "unclaimed (ps ! i)" "unclaimed p'"
    "wf m'" "cells m' = cells m" "m_slotsInUse m' = m_slotsInUse m"
    "m_currentProcesses m' = m_currentProcesses m" "m_maxParallel m' = m_maxParallel m"
    "m_parallelChanged m' = m_parallelChanged m"
    "m_runWG m' + (if p_wg (ps ! i) then 1 else 0) = m_runWG m + (if p_wg p' then 1 else 0)"
  shows "ledger (ps[i := p']) m'"
proof -
  have "cnt p_slot (ps[i := p']) = cnt p_slot ps" "cnt p_proc (ps[i := p']) = cnt p_proc ps"
    using assms(3,4) by (simp_all add: cnt_update_none unclaimed_def)
  moreover have "m_runWG m' = cnt p_wg (ps[i := p'])"
    using assms(1,11) cnt_update[OF assms(2), of p_wg p'] by (auto simp: ledger_def)
  moreover have "p_swait q = None \<or> q \<in> set ps" if "q \<in> set (ps[i := p'])" for q
    using that assms(4) set_update_subset_insert[of ps i p'] by (auto simp: unclaimed_def)
  moreover have "\<forall>q\<in>set ps. \<forall>n. p_swait q = Some n \<longrightarrow> n \<le> m_parallelChanged m' \<and>
        (n = m_parallelChanged m' \<longrightarrow> m_maxParallel m' \<le> int (m_slotsInUse m'))"
    using assms(1) unfolding ledger_def assms(7-10) by blast
  ultimately show ?thesis
    using assms(1) unfolding ledger_def cell_inv_unclaimed[OF assms(3,4)] assms(6-10)
    using assms(5) by (metis option.distinct(1))
qed

section \<open>The queue worker\<close>

lemma slot_move_refl [simp]:
  "p_slot p' = p_slot p \<Longrightarrow> p_proc p' = p_proc p \<Longrightarrow> p_wg p' = p_wg p \<Longrightarrow> p_swait p' = None \<Longrightarrow>
   slot_move p m p' m"
  by (simp add: slot_move_def)

lemma cell_releaseD:
  assumes "c_owner c = ow" "c_ownerRun c = run"
  shows "cell_release ow run c = c\<lparr>c_owner := requestOwnerNone, c_ownerRun := 0, c_changed := Suc (c_changed c)\<rparr>"
  using assms by (simp add: cell_release_def)

lemma cell_release_other: "\<not> (c_owner c = ow \<and> c_ownerRun c = run) \<Longrightarrow> cell_release ow run c = c"
  by (auto simp: cell_release_def)

text \<open>\<open>stands ps m i p\<close>: the ledger holds and the goroutine \<open>i\<close> has profile \<open>p\<close>.\<close>

definition stands :: "prof list \<Rightarrow> manager \<Rightarrow> nat \<Rightarrow> prof \<Rightarrow> bool" where
  "stands ps m i p \<longleftrightarrow> ledger ps m \<and> list_all p_ok ps \<and> i < length ps \<and> ps ! i = p"

fun is_notifier :: "thread \<Rightarrow> bool" where
  "is_notifier (Notifier s msg d pc) \<longleftrightarrow> 2 * second \<le> d \<and> d \<le> 60 * second"
| "is_notifier _ \<longleftrightarrow> False"

definition keeps :: "prof list \<Rightarrow> nat \<Rightarrow> ('pc \<Rightarrow> prof) \<Rightarrow> 'pc outcome \<Rightarrow> bool" where
  "keeps ps i pf out \<longleftrightarrow>
     (case out of Blocked \<Rightarrow> True | Panic \<Rightarrow> False
      | Step pc new m' \<Rightarrow> ledger (ps[i := pf pc]) m' \<and> list_all is_notifier new)"

lemma keeps_simps [simp]:
  "keeps ps i pf Blocked" "\<not> keeps ps i pf Panic"
  "keeps ps i pf (Step pc new m') \<longleftrightarrow> ledger (ps[i := pf pc]) m' \<and> list_all is_notifier new"
  "keeps ps i pf (branch (Some (x, m')) f) \<longleftrightarrow> ledger (ps[i := pf (f x)]) m'"
  "keeps ps i pf (onto pc (Some m')) \<longleftrightarrow> ledger (ps[i := pf pc]) m'"
  by (simp_all add: keeps_def branch_def onto_def)

lemma keeps_select:
  "ledger (ps[i := pf a]) m \<Longrightarrow> ledger (ps[i := pf b]) m \<Longrightarrow>
   keeps ps i pf (select_ctx e done ready a b m)"
  by (simp add: select_ctx_def)

lemma stands_cell:
  assumes "stands ps m i p" "p_count p \<or> p_holds p"
  obtains c where "cells m (p_key p) = Some c" "cell_inv ps (p_key p) c" "wf m"
    "p_holds p \<Longrightarrow> c_owner c = p_kind p \<and> c_ownerRun c = p_run p"
    "\<not> p_holds p \<Longrightarrow> \<not> (c_owner c = p_kind p \<and> c_ownerRun c = p_run p)"
    "p_kind p = requestOwnerQueue \<Longrightarrow> p_count p \<Longrightarrow> c_kworkers c = 0"
    "p_kind p = requestOwnerKeepalive \<Longrightarrow> p_count p \<Longrightarrow>
       c_state c \<noteq> StateRunning \<and> c_owner c \<noteq> requestOwnerQueue"
proof -
  from assms(1) have L: "ledger ps m" and ok: "list_all p_ok ps" and i: "i < length ps" "ps ! i = p"
    by (simp_all add: stands_def)
  from i have mem: "p \<in> set ps" by auto
  from ledger_active_cell[OF L mem assms(2)] obtain c where c: "cells m (p_key p) = Some c" by blast
  note ci = ledger_cell[OF L c]
  have "p_ok p" using ok mem by (simp add: list_all_iff)
  have w: "p_count p \<Longrightarrow> 0 < cnt (is_worker (p_kind p) (p_key p)) ps"
    using cnt_pos[of i ps "is_worker (p_kind p) (p_key p)"] i by (simp add: is_worker_def)
  show thesis
  proof (rule that[OF c ci ledger_wf[OF L]])
    show "p_holds p \<Longrightarrow> c_owner c = p_kind p \<and> c_ownerRun c = p_run p"
      using holder_owner[OF ci mem] by (simp add: is_holder_def)
    show "\<not> p_holds p \<Longrightarrow> \<not> (c_owner c = p_kind p \<and> c_ownerRun c = p_run p)"
      using non_holder[OF ci ok i(1), of "p_kind p"] i(2) assms(2) \<open>p_ok p\<close>
      by (auto simp: is_worker_def p_ok_def)
    show "p_kind p = requestOwnerQueue \<Longrightarrow> p_count p \<Longrightarrow> c_kworkers c = 0"
      using w cell_invD(1,3)[OF ci] by auto
    assume k: "p_kind p = requestOwnerKeepalive" "p_count p"
    then have z: "cnt (is_worker requestOwnerQueue (p_key p)) ps = 0"
      using w cell_invD(1,2,3)[OF ci] by auto
    have "c_state c \<noteq> StateRunning"
      using cell_invD(6)[OF ci] cnt_weaken_zero[OF z, of "is_live requestOwnerQueue (p_key p) (c_run c)"]
      by (auto simp: is_live_def is_run_def)
    moreover have "c_owner c \<noteq> requestOwnerQueue"
    proof
      assume o: "c_owner c = requestOwnerQueue"
      then have "cnt (is_holder (p_key p)) ps \<noteq> 0" using cell_invD(4)[OF ci] by simp
      then obtain q where q: "q \<in> set ps" "is_holder (p_key p) q" by (auto simp: cnt_zero)
      then have "p_kind q = requestOwnerQueue" using holder_owner[OF ci q] o by simp
      then have "is_worker requestOwnerQueue (p_key p) q"
        using q ok by (auto simp: list_all_iff p_ok_def is_holder_def is_worker_def)
      with z q(1) show False by (auto simp: cnt_zero)
    qed
    ultimately show "c_state c \<noteq> StateRunning \<and> c_owner c \<noteq> requestOwnerQueue" by blast
  qed
qed

lemma stands_ledger: "stands ps m i p \<Longrightarrow> ledger ps m" "stands ps m i p \<Longrightarrow> i < length ps"
  "stands ps m i p \<Longrightarrow> ps ! i = p"
  by (simp_all add: stands_def)

lemma stands_wait_state:
  assumes "cell_inv ps k c"
  shows "c_kstate c \<noteq> KeepaliveStateWaitingQueue"
  using cell_invD(12)[OF assms] .

lemma stands_stay:
  assumes "stands ps m i p" "cells m k = Some c" "p_key p = k" "move p c p' c" "slot_move p m p' m"
  shows "ledger (ps[i := p']) m"
  using ledger_stay[OF stands_ledger[OF assms(1)] _ assms(4,5)] assms(2,3) by simp

lemma stands_eff:
  assumes "stands ps m i p" "cells m k = Some c" "eff ma m' ((cells m)(k \<mapsto> c'))" "p_key p = k"
    "move p c p' c'" "slot_move p m p' ma"
  shows "ledger (ps[i := p']) m'"
  using ledger_eff[OF stands_ledger[OF assms(1)] _ _ assms(5,6)] assms(2-4) by simp

lemma stands_eff_same:
  assumes "stands ps m i p" "cells m k = Some c" "eff ma m' (cells m)" "p_key p = k"
    "move p c p' c" "slot_move p m p' ma"
  shows "ledger (ps[i := p']) m'"
  using ledger_eff_same[OF stands_ledger[OF assms(1)] _ assms(3,5,6)] assms(2,4) by simp

text \<open>The slot counters suffice for every section that gives a slot back.\<close>

lemma stands_slots:
  assumes "stands ps m i p"
  shows "p_slot p \<Longrightarrow> 0 < m_slotsInUse m" "p_proc p \<Longrightarrow> 0 < m_currentProcesses m"
    "p_wg p \<Longrightarrow> 0 < m_runWG m"
  using assms cnt_pos[of i ps p_slot] cnt_pos[of i ps p_proc] cnt_pos[of i ps p_wg]
  by (simp_all add: stands_def ledger_def)

lemma move_same [simp]:
  "li \<longrightarrow> co \<Longrightarrow> c_kstate c \<noteq> KeepaliveStateWaitingQueue \<Longrightarrow>
   move (mkp ow k run co li ho sl pr tw sw) c (mkp ow k run co li ho sl' pr' None sw') c"
  by (simp add: move_def)

lemma acquire_slot_keeps:
  assumes "stands ps m i (mkp ow k run co li ho False False None None)" "co \<or> ho" "li \<longrightarrow> co"
  shows "case acquire_slot m of
      (AcquireOK, m') \<Rightarrow> ledger (ps[i := mkp ow k run co li ho True False None None]) m'
    | (AcquireWait n, m') \<Rightarrow> ledger (ps[i := mkp ow k run co li ho False False None (Some n)]) m'
    | (AcquireInvalid, m') \<Rightarrow> False"
proof -
  obtain c where c: "cells m k = Some c" "cell_inv ps k c" "wf m"
    by (rule stands_cell[OF assms(1)]) (use assms(2) in auto)
  note kst = cell_invD(12)[OF c(2)]
  show ?thesis
  proof (cases "int (m_slotsInUse m) < m_maxParallel m")
    case True
    let ?m = "m\<lparr>m_slotsInUse := Suc (m_slotsInUse m)\<rparr>"
    have "ledger (ps[i := mkp ow k run co li ho True False None None]) ?m"
      by (rule stands_eff_same[OF assms(1) c(1), where ma = ?m])
        (use c(3) kst assms(3) in \<open>simp_all add: eff_def slot_move_def\<close>)
    with True show ?thesis by (simp add: acquire_slot_def)
  next
    case False
    have "ledger (ps[i := mkp ow k run co li ho False False None (Some (m_parallelChanged m))]) m"
      by (rule stands_stay[OF assms(1) c(1)]) (use False kst assms(3) in \<open>simp_all add: slot_move_def\<close>)
    with False show ?thesis by (simp add: acquire_slot_def)
  qed
qed

text \<open>Giving back a slot, with or without a finished process.\<close>

lemma releaseSlot_keeps:
  assumes "stands ps m i (mkp ow k run co li ho True False tw None)" "co \<or> ho"
    "\<And>c. cells m k = Some c \<Longrightarrow> cell_inv ps k c \<Longrightarrow>
       move (mkp ow k run co li ho True False tw None) c (mkp ow k run co li ho False False tw None) c"
  shows "ledger (ps[i := mkp ow k run co li ho False False tw None]) (releaseSlot m)"
proof -
  obtain c where c: "cells m k = Some c" "cell_inv ps k c" "wf m"
    by (rule stands_cell[OF assms(1)]) (use assms(2) in auto)
  show ?thesis
    by (rule stands_eff_same[OF assms(1) c(1) releaseSlot_eff[OF c(3)]])
      (use assms(3) c stands_slots(1)[OF assms(1)] in \<open>simp_all add: slot_move_def\<close>)
qed

lemma finishProcess_keeps:
  assumes "stands ps m i (mkp ow k run co li ho True True None None)" "co \<or> ho" "li \<longrightarrow> co"
  shows "\<exists>m'. finishProcess m = Some m' \<and> ledger (ps[i := mkp ow k run co li ho False False None None]) m'"
proof -
  obtain c where c: "cells m k = Some c" "cell_inv ps k c" "wf m"
    by (rule stands_cell[OF assms(1)]) (use assms(2) in auto)
  from finishProcess_eff[OF c(3)] obtain m' where m': "finishProcess m = Some m'"
    "eff (m\<lparr>m_currentProcesses := m_currentProcesses m - 1, m_slotsInUse := m_slotsInUse m - 1,
          m_parallelChanged := Suc (m_parallelChanged m)\<rparr>) m' (cells m)" by blast
  have "ledger (ps[i := mkp ow k run co li ho False False None None]) m'"
    by (rule stands_eff_same[OF assms(1) c(1) m'(2)])
      (use cell_invD(12)[OF c(2)] stands_slots(1,2)[OF assms(1)] assms(3) in \<open>simp_all add: slot_move_def\<close>)
  with m'(1) show ?thesis by blast
qed

lemma stands_same:
  assumes "stands ps m i (mkp ow k run co li ho sl pr tw sw)" "co \<or> ho" "li \<longrightarrow> co"
  shows "ledger (ps[i := mkp ow k run co li ho sl pr None None]) m"
proof -
  obtain c where c: "cells m k = Some c" "cell_inv ps k c"
    by (rule stands_cell[OF assms(1)]) (use assms(2) in auto)
  show ?thesis
    by (rule stands_stay[OF assms(1) c(1)]) (use cell_invD(12)[OF c(2)] assms(3) in simp_all)
qed

lemma stands_wg:
  assumes "stands ps m i (mkp ow k run False False False False False None None)"
  shows "ledger (ps[i := null_prof ow k run]) (m\<lparr>m_runWG := m_runWG m - 1\<rparr>)"
  by (rule ledger_unclaimed[OF stands_ledger(1,2)[OF assms]])
    (use stands_ledger[OF assms] stands_slots(3)[OF assms] in
      \<open>simp_all add: unclaimed_def ledger_wf\<close>)

section \<open>Sections of the queue worker\<close>

lemma keeps_QTarget:
  assumes "stands ps m i (queue_prof k run QTarget)"
  shows "keeps ps i (queue_prof k run) (queue_step e k run ctx QTarget m)"
proof -
  obtain c where c: "cells m k = Some c" "cell_inv ps k c" "wf m"
    by (rule stands_cell[OF assms]) simp_all
  note s = assms[unfolded queue_prof.simps] and kst = cell_invD(12)[OF c(2)]
  consider (inv) "c_run c \<noteq> run \<or> c_state c \<noteq> StateRunning"
    | (wait) "c_run c = run" "c_state c = StateRunning" "c_owner c \<noteq> requestOwnerNone"
    | (ok) "c_run c = run" "c_state c = StateRunning" "c_owner c = requestOwnerNone" by blast
  then show ?thesis
  proof cases
    case inv
    then have "acquireQueueTarget k run m = Some (AcquireInvalid, m)"
      using acquireQueueTarget_eff(1)[OF c(3,1), of run] by simp
    then show ?thesis using stands_same[OF s] by simp
  next
    case wait
    then have "acquireQueueTarget k run m = Some (AcquireWait (c_changed c), m)"
      using acquireQueueTarget_eff(1)[OF c(3,1), of run] by simp
    moreover have "ledger (ps[i := mkp requestOwnerQueue k run True True False False False
        (Some (c_changed c)) None]) m"
      by (rule stands_stay[OF s c(1)]) (use c(1) wait kst in \<open>simp_all add: move_def\<close>)
    ultimately show ?thesis by simp
  next
    case ok
    with acquireQueueTarget_eff(2)[OF c(3,1)] obtain m' where m': "acquireQueueTarget k run m = Some (AcquireOK, m')"
      "eff m m' ((cells m)(k \<mapsto> c\<lparr>c_owner := requestOwnerQueue, c_ownerRun := run\<rparr>))" by blast
    have "ledger (ps[i := mkp requestOwnerQueue k run True True True False False None None]) m'"
      by (rule stands_eff[OF s c(1) m'(2)]) (use ok kst in \<open>simp_all add: move_def\<close>)
    then show ?thesis using m'(1) by simp
  qed
qed

lemma keeps_QBegin:
  assumes "stands ps m i (queue_prof k run QBegin)"
  shows "keeps ps i (queue_prof k run) (queue_step e k run ctx QBegin m)"
proof -
  obtain c where c: "cells m k = Some c" "cell_inv ps k c" "wf m"
    and own: "c_owner c = requestOwnerQueue" "c_ownerRun c = run"
    by (rule stands_cell[OF assms]) simp_all
  note s = assms[unfolded queue_prof.simps] and kst = cell_invD(12)[OF c(2)]
  show ?thesis
  proof (cases "c_run c = run \<and> c_state c = StateRunning")
    case True
    with beginAttempt_eff(2)[OF c(3,1)] own obtain n m' where m':
      "beginAttempt (e_now e) k run m = Some (Some (n, target_at m k), m')"
      "eff (m\<lparr>m_currentProcesses := Suc (m_currentProcesses m)\<rparr>) m' (cells m)" by blast
    have "ledger (ps[i := mkp requestOwnerQueue k run True True True True True None None]) m'"
      by (rule stands_eff_same[OF s c(1) m'(2)]) (use c(1) kst in \<open>simp_all add: slot_move_def\<close>)
    then show ?thesis using m'(1) by simp
  next
    case False
    then have "beginAttempt (e_now e) k run m = Some (None, m)"
      using beginAttempt_eff(1)[OF c(3,1)] by blast
    moreover have "ledger (ps[i := mkp requestOwnerQueue k run True False True True False None None]) m"
      by (rule stands_stay[OF s c(1)]) (use c(1) kst False in \<open>auto simp: move_def\<close>)
    ultimately show ?thesis by simp
  qed
qed

lemma keeps_QReleaseTarget:
  assumes "stands ps m i (queue_prof k run QReleaseTarget)"
  shows "keeps ps i (queue_prof k run) (queue_step e k run ctx QReleaseTarget m)"
proof -
  obtain c where c: "cells m k = Some c" "cell_inv ps k c" "wf m"
    and own: "c_owner c = requestOwnerQueue" "c_ownerRun c = run"
    by (rule stands_cell[OF assms]) simp_all
  note s = assms[unfolded queue_prof.simps] and kst = cell_invD(12)[OF c(2)]
  from release_eff[OF c(3,1), of requestOwnerQueue run] obtain m'
    where m': "releaseTargetLocked k requestOwnerQueue run m = Some m'"
      "eff m m' ((cells m)(k \<mapsto> cell_release requestOwnerQueue run c))" by blast
  have "ledger (ps[i := mkp requestOwnerQueue k run True False False False False None None]) m'"
    by (rule stands_eff[OF s c(1) m'(2)])
      (use own kst in \<open>simp_all add: move_def cell_releaseD\<close>)
  then show ?thesis using m'(1) by simp
qed

lemma keeps_QMarkSuccess:
  assumes "stands ps m i (queue_prof k run (QMarkSuccess a t))"
  shows "keeps ps i (queue_prof k run) (queue_step e k run ctx (QMarkSuccess a t) m)"
proof -
  obtain c where c: "cells m k = Some c" "cell_inv ps k c" "wf m"
    and own: "c_owner c = requestOwnerQueue" "c_ownerRun c = run"
    by (rule stands_cell[OF assms]) simp_all
  note s = assms[unfolded queue_prof.simps] and kst = cell_invD(12)[OF c(2)]
  let ?v = "c_run c = run \<and> c_state c = StateRunning"
  from markSuccess_eff[OF c(3,1), of "e_now e" run] obtain r m'
    where m': "markSuccess (e_now e) k run m = Some (r, m')"
      "eff m m' ((cells m)(k \<mapsto> cell_release requestOwnerQueue run
        (if ?v then c\<lparr>c_state := StateSucceeded\<rparr> else c)))" by blast
  have "ledger (ps[i := mkp requestOwnerQueue k run True False False False False None None]) m'"
    by (rule stands_eff[OF s c(1) m'(2)])
      (use own kst in \<open>auto simp: move_def cell_releaseD\<close>)
  then show ?thesis using m'(1) by (cases r) (auto split: prod.splits)
qed

lemma keeps_QMarkFail:
  assumes "stands ps m i (queue_prof k run (QMarkFail x))"
  shows "keeps ps i (queue_prof k run) (queue_step e k run ctx (QMarkFail x) m)"
proof -
  obtain c where c: "cells m k = Some c" "cell_inv ps k c" "wf m"
    and own: "c_owner c = requestOwnerQueue" "c_ownerRun c = run"
    by (rule stands_cell[OF assms]) simp_all
  note s = assms[unfolded queue_prof.simps] and kst = cell_invD(12)[OF c(2)]
  let ?v = "c_run c = run \<and> c_state c = StateRunning"
  from markFailure_eff[OF c(3,1), of run x] obtain m'
    where m': "markFailure k run x m = Some (?v, m')"
      "eff m m' ((cells m)(k \<mapsto> cell_release requestOwnerQueue run c))" by blast
  have "ledger (ps[i := mkp requestOwnerQueue k run True True False False False None None]) m'"
    by (rule stands_eff[OF s c(1) m'(2)]) (use own kst in \<open>auto simp: move_def cell_releaseD\<close>)
  moreover have "ledger (ps[i := mkp requestOwnerQueue k run True False False False False None None]) m'"
    if "\<not> ?v"
    by (rule stands_eff[OF s c(1) m'(2)]) (use that own kst in \<open>auto simp: move_def cell_releaseD\<close>)
  ultimately show ?thesis using m'(1) by auto
qed

lemma keeps_QCancel:
  assumes "stands ps m i (queue_prof k run (QCancel held))"
  shows "keeps ps i (queue_prof k run) (queue_step e k run ctx (QCancel held) m)"
proof -
  obtain c where c: "cells m k = Some c" "cell_inv ps k c" "wf m"
    and own: "held \<Longrightarrow> c_owner c = requestOwnerQueue \<and> c_ownerRun c = run"
    and other: "\<not> held \<Longrightarrow> \<not> (c_owner c = requestOwnerQueue \<and> c_ownerRun c = run)"
    by (rule stands_cell[OF assms]) simp_all
  note s = assms[unfolded queue_prof.simps] and kst = cell_invD(12)[OF c(2)]
  from markQueueCancelled_eff[OF c(3,1), of "e_now e" run] obtain m'
    where m': "markQueueCancelled (e_now e) k run m = Some m'"
      "eff m m' ((cells m)(k \<mapsto> cell_cancelQueue run c))" by blast
  have "ledger (ps[i := mkp requestOwnerQueue k run True False False False False None None]) m'"
  proof (rule stands_eff[OF s c(1) m'(2)])
    show "move (mkp requestOwnerQueue k run True True held False False None None) c
        (mkp requestOwnerQueue k run True False False False False None None) (cell_cancelQueue run c)"
    proof (cases held)
      case True
      with own kst show ?thesis by (auto simp: move_def cell_cancelQueue_def cell_releaseD Let_def)
    next
      case False
      with cell_release_other[OF other] kst show ?thesis
        by (auto simp: move_def cell_cancelQueue_def Let_def)
    qed
  qed simp_all
  then show ?thesis using m'(1) by simp
qed

lemma keeps_QExit:
  assumes "stands ps m i (queue_prof k run QExit)"
  shows "keeps ps i (queue_prof k run) (queue_step e k run ctx QExit m)"
proof -
  obtain c where c: "cells m k = Some c" "cell_inv ps k c" "wf m"
    by (rule stands_cell[OF assms]) simp_all
  note s = assms[unfolded queue_prof.simps] and kst = cell_invD(12)[OF c(2)]
  have "0 < c_workers c"
    using cell_invD(1)[OF c(2)] cnt_pos[of i ps "is_worker requestOwnerQueue k"] s
    by (auto simp: stands_def is_worker_def)
  with finishQueueWorker_eff[OF c(3,1)] obtain m' where m': "finishQueueWorker k m = Some m'"
    "eff m m' ((cells m)(k \<mapsto> c\<lparr>c_workers := c_workers c - 1\<rparr>))" by blast
  have "ledger (ps[i := mkp requestOwnerQueue k run False False False False False None None]) m'"
    by (rule stands_eff[OF s c(1) m'(2)]) (use \<open>0 < c_workers c\<close> kst in \<open>auto simp: move_def\<close>)
  then show ?thesis using m'(1) by simp
qed

lemma notifySuccess_notifiers: "list_all is_notifier (notifySuccess name a d subs m)"
  by (simp add: notifySuccess_def list_all_iff second_def)

lemma queue_step_keeps:
  assumes "stands ps m i (queue_prof k run pc)"
  shows "keeps ps i (queue_prof k run) (queue_step e k run ctx pc m)"
proof (cases pc)
  case QTarget
  then show ?thesis using keeps_QTarget assms by blast
next
  case (QTargetWait n)
  obtain c where c: "cells m k = Some c"
    by (rule stands_cell[OF assms]) (use QTargetWait in simp_all)
  then obtain a where "m_arbiters m k = Some a" by (auto simp: cells_Some)
  then show ?thesis
    using stands_same[OF assms[unfolded QTargetWait queue_prof.simps]] QTargetWait
    by (auto intro!: keeps_select)
next
  case QSlot
  then show ?thesis
    using acquire_slot_keeps[of ps m i requestOwnerQueue k run True True True] assms
    by (cases "acquire_slot m") (auto split: acquire_result.splits)
next
  case (QSlotWait n)
  then show ?thesis
    using stands_same[OF assms[unfolded QSlotWait queue_prof.simps]] by (auto intro!: keeps_select)
next
  case QBegin
  then show ?thesis using keeps_QBegin assms by blast
next
  case QReleaseSlot
  then show ?thesis
    using releaseSlot_keeps[OF assms[unfolded QReleaseSlot queue_prof.simps]] cell_invD(12)
    by (auto simp: move_def)
next
  case QReleaseTarget
  then show ?thesis using keeps_QReleaseTarget assms by blast
next
  case (QRun a t)
  then show ?thesis using stands_same[OF assms[unfolded QRun queue_prof.simps]] by simp
next
  case (QFinish a t x)
  then show ?thesis using finishProcess_keeps[OF assms[unfolded QFinish queue_prof.simps]] by auto
next
  case (QDecide a t x)
  then show ?thesis using stands_same[OF assms[unfolded QDecide queue_prof.simps]] by simp
next
  case (QMarkSuccess a t)
  then show ?thesis using keeps_QMarkSuccess assms by blast
next
  case (QNotify n a d subs)
  then show ?thesis
    using stands_same[OF assms[unfolded QNotify queue_prof.simps]] by (simp add: notifySuccess_notifiers)
next
  case (QMarkFail x)
  then show ?thesis using keeps_QMarkFail assms by blast
next
  case (QCancel held)
  then show ?thesis using keeps_QCancel assms by blast
next
  case QExit
  then show ?thesis using keeps_QExit assms by blast
next
  case QWG
  then show ?thesis using stands_wg[OF assms[unfolded QWG queue_prof.simps]] by simp
qed simp

section \<open>Sections of the keepalive worker\<close>

lemma keeps_KCheck:
  assumes "stands ps m i (keepalive_prof k run KCheck)"
  shows "keeps ps i (keepalive_prof k run) (keepalive_step e k run ctx KCheck m)"
proof -
  obtain c where c: "cells m k = Some c" "cell_inv ps k c" "wf m"
    and q: "c_state c \<noteq> StateRunning" "c_owner c \<noteq> requestOwnerQueue"
    by (rule stands_cell[OF assms]) simp_all
  note s = assms[unfolded keepalive_prof.simps] and kst = cell_invD(12)[OF c(2)]
  from beginKeepaliveCheck_eff[OF c(3,1), of run] obtain r m' st
    where m': "beginKeepaliveCheck k run m = Some (r, m')"
      "eff m m' ((cells m)(k \<mapsto> c\<lparr>c_kstate := st\<rparr>))"
    and r: "if c_krun c \<noteq> run \<or> c_kstate c = KeepaliveStateStopped
     then r = AcquireInvalid \<and> st = c_kstate c
     else if c_owner c \<noteq> requestOwnerNone
     then r = AcquireWait (c_changed c) \<and> st = KeepaliveStateRequesting
     else r = AcquireOK \<and> st = KeepaliveStateRequesting"
    using q by auto
  have "ledger (ps[i := mkp requestOwnerKeepalive k run True True False False False
      (case r of AcquireWait n \<Rightarrow> Some n | _ \<Rightarrow> None) None]) m'"
    by (rule stands_eff[OF s c(1) m'(2)]) (use r kst in \<open>auto simp: move_def split: if_splits\<close>)
  then show ?thesis using m'(1) r by (auto split: if_splits)
qed

lemma keeps_KCommit:
  assumes "stands ps m i (keepalive_prof k run KCommit)"
  shows "keeps ps i (keepalive_prof k run) (keepalive_step e k run ctx KCommit m)"
proof -
  obtain c where c: "cells m k = Some c" "cell_inv ps k c" "wf m"
    and q: "c_state c \<noteq> StateRunning" "c_owner c \<noteq> requestOwnerQueue"
    by (rule stands_cell[OF assms]) simp_all
  note s = assms[unfolded keepalive_prof.simps] and kst = cell_invD(12)[OF c(2)]
  consider (inv) "c_krun c \<noteq> run \<or> c_kstate c = KeepaliveStateStopped"
    | (wait) "c_krun c = run" "c_kstate c \<noteq> KeepaliveStateStopped" "c_owner c \<noteq> requestOwnerNone"
    | (ok) "c_krun c = run" "c_kstate c \<noteq> KeepaliveStateStopped" "c_owner c = requestOwnerNone" by blast
  then show ?thesis
  proof cases
    case inv
    then show ?thesis using beginKeepaliveCommit_eff(1)[OF c(3,1)] stands_same[OF s] by simp
  next
    case wait
    with beginKeepaliveCommit_eff(2)[OF c(3,1)] q obtain m' where
      m': "beginKeepaliveCommit (e_now e) k run m = Some (KBeginContended (c_changed c), m')"
      "eff m m' ((cells m)(k \<mapsto> c\<lparr>c_kstate := c_kstate c\<rparr>))" by fastforce
    have "ledger (ps[i := mkp requestOwnerKeepalive k run True True False True False
        (Some (c_changed c)) None]) m'"
      by (rule stands_eff[OF s c(1) m'(2)]) (use wait kst in \<open>simp_all add: move_def\<close>)
    then show ?thesis using m'(1) by simp
  next
    case ok
    with beginKeepaliveCommit_eff(3)[OF c(3,1)] q obtain n m' where
      m': "beginKeepaliveCommit (e_now e) k run m = Some (KBeginOK n (target_at m k), m')"
      "eff (m\<lparr>m_currentProcesses := Suc (m_currentProcesses m)\<rparr>) m' ((cells m)(k \<mapsto>
         c\<lparr>c_owner := requestOwnerKeepalive, c_ownerRun := run, c_kstate := KeepaliveStateRequesting\<rparr>))"
      by blast
    have "ledger (ps[i := mkp requestOwnerKeepalive k run True True True True True None None]) m'"
      by (rule stands_eff[OF s c(1) m'(2)]) (use ok kst in \<open>simp_all add: move_def slot_move_def\<close>)
    then show ?thesis using m'(1) by simp
  qed
qed

text \<open>A goroutine that remembers a channel has not missed its signal.\<close>

lemma stands_twait:
  assumes "stands ps m i p" "p_twait p = Some n" "cell_inv ps (p_key p) c"
  shows "n \<le> c_changed c" "n = c_changed c \<Longrightarrow> c_owner c \<noteq> requestOwnerNone"
proof -
  have "p \<in> set ps" using assms(1) by (auto simp: stands_def)
  with cell_invD(13)[OF assms(3)] have "\<not> is_lost (p_key p) (c_changed c) (c_owner c = requestOwnerNone) p"
    by (auto simp: cnt_zero)
  with assms(2) show "n \<le> c_changed c" "n = c_changed c \<Longrightarrow> c_owner c \<noteq> requestOwnerNone"
    by (auto simp: is_lost_def)
qed

lemma keeps_KYield:
  assumes "stands ps m i (keepalive_prof k run (KYield n))"
  shows "keeps ps i (keepalive_prof k run) (keepalive_step e k run ctx (KYield n) m)"
proof -
  note s = assms[unfolded keepalive_prof.simps]
  have "ledger (ps[i := mkp requestOwnerKeepalive k run True True False False False (Some n) None]) (releaseSlot m)"
    by (rule releaseSlot_keeps[OF s])
      (use stands_twait[OF s] cell_invD(12) in \<open>auto simp: move_def\<close>)
  then show ?thesis by simp
qed

lemma keeps_KRelease:
  assumes "stands ps m i (keepalive_prof k run (KRelease x))"
  shows "keeps ps i (keepalive_prof k run) (keepalive_step e k run ctx (KRelease x) m)"
proof -
  obtain c where c: "cells m k = Some c" "cell_inv ps k c" "wf m"
    and own: "c_owner c = requestOwnerKeepalive" "c_ownerRun c = run"
    by (rule stands_cell[OF assms]) simp_all
  note s = assms[unfolded keepalive_prof.simps] and kst = cell_invD(12)[OF c(2)]
  let ?v = "c_krun c = run \<and> c_kstate c \<noteq> KeepaliveStateStopped"
  from finishKeepaliveRequest_eff[OF c(3,1), of "e_now e" "e_draw e" run x] obtain m'
    where m': "finishKeepaliveRequest (e_now e) (e_draw e) k run x m = Some (?v, m')"
      "eff m m' ((cells m)(k \<mapsto> cell_release requestOwnerKeepalive run
        (if ?v then c\<lparr>c_kstate := KeepaliveStateWaitingNext\<rparr> else c)))" by blast
  have "ledger (ps[i := mkp requestOwnerKeepalive k run True True False False False None None]) m'"
    by (rule stands_eff[OF s c(1) m'(2)]) (use own kst in \<open>auto simp: move_def cell_releaseD\<close>)
  moreover have "ledger (ps[i := mkp requestOwnerKeepalive k run True False False False False None None]) m'"
    if "\<not> ?v"
    by (rule stands_eff[OF s c(1) m'(2)]) (use that own kst in \<open>auto simp: move_def cell_releaseD\<close>)
  ultimately show ?thesis using m'(1) by auto
qed

lemma keeps_KCancel:
  assumes "stands ps m i (keepalive_prof k run (KCancel held))"
  shows "keeps ps i (keepalive_prof k run) (keepalive_step e k run ctx (KCancel held) m)"
proof -
  obtain c where c: "cells m k = Some c" "cell_inv ps k c" "wf m"
    and own: "held \<Longrightarrow> c_owner c = requestOwnerKeepalive \<and> c_ownerRun c = run"
    and other: "\<not> held \<Longrightarrow> \<not> (c_owner c = requestOwnerKeepalive \<and> c_ownerRun c = run)"
    by (rule stands_cell[OF assms]) simp_all
  note s = assms[unfolded keepalive_prof.simps] and kst = cell_invD(12)[OF c(2)]
  from markKeepaliveCancelled_eff[OF c(3,1), of "e_now e" run] obtain m'
    where m': "markKeepaliveCancelled (e_now e) k run m = Some m'"
      "eff m m' ((cells m)(k \<mapsto> cell_cancelKeepalive run c))" by blast
  have "ledger (ps[i := mkp requestOwnerKeepalive k run True False False False False None None]) m'"
  proof (rule stands_eff[OF s c(1) m'(2)])
    show "move (mkp requestOwnerKeepalive k run True True held False False None None) c
        (mkp requestOwnerKeepalive k run True False False False False None None) (cell_cancelKeepalive run c)"
    proof (cases held)
      case True
      with own kst show ?thesis by (auto simp: move_def cell_cancelKeepalive_def cell_releaseD Let_def)
    next
      case False
      with cell_release_other[OF other] kst show ?thesis
        by (auto simp: move_def cell_cancelKeepalive_def Let_def)
    qed
  qed simp_all
  then show ?thesis using m'(1) by simp
qed

lemma keeps_KExit:
  assumes "stands ps m i (keepalive_prof k run KExit)"
  shows "keeps ps i (keepalive_prof k run) (keepalive_step e k run ctx KExit m)"
proof -
  obtain c where c: "cells m k = Some c" "cell_inv ps k c" "wf m"
    by (rule stands_cell[OF assms]) simp_all
  note s = assms[unfolded keepalive_prof.simps] and kst = cell_invD(12)[OF c(2)]
  have "0 < c_kworkers c"
    using cell_invD(2)[OF c(2)] cnt_pos[of i ps "is_worker requestOwnerKeepalive k"] s
    by (auto simp: stands_def is_worker_def)
  with finishKeepaliveWorker_eff[OF c(3,1)] obtain m' where m': "finishKeepaliveWorker k m = Some m'"
    "eff m m' ((cells m)(k \<mapsto> c\<lparr>c_kworkers := c_kworkers c - 1\<rparr>))" by blast
  have "ledger (ps[i := mkp requestOwnerKeepalive k run False False False False False None None]) m'"
    by (rule stands_eff[OF s c(1) m'(2)]) (use \<open>0 < c_kworkers c\<close> kst in \<open>auto simp: move_def\<close>)
  then show ?thesis using m'(1) by simp
qed

lemma keepalive_step_keeps:
  assumes "stands ps m i (keepalive_prof k run pc)"
  shows "keeps ps i (keepalive_prof k run) (keepalive_step e k run ctx pc m)"
proof (cases pc)
  case KCheck
  then show ?thesis using keeps_KCheck assms by blast
next
  case (KWait n)
  obtain c where c: "cells m k = Some c"
    by (rule stands_cell[OF assms]) (use KWait in simp_all)
  then obtain a where "m_arbiters m k = Some a" by (auto simp: cells_Some)
  then show ?thesis
    using stands_same[OF assms[unfolded KWait keepalive_prof.simps]] KWait
    by (auto intro!: keeps_select)
next
  case KSlot
  then show ?thesis
    using acquire_slot_keeps[of ps m i requestOwnerKeepalive k run True True False] assms
    by (cases "acquire_slot m") (auto split: acquire_result.splits)
next
  case (KSlotWait n)
  then show ?thesis
    using stands_same[OF assms[unfolded KSlotWait keepalive_prof.simps]] by (auto intro!: keeps_select)
next
  case KCommit
  then show ?thesis using keeps_KCommit assms by blast
next
  case KBail
  then show ?thesis
    using releaseSlot_keeps[OF assms[unfolded KBail keepalive_prof.simps]] cell_invD(12)
    by (auto simp: move_def)
next
  case (KYield n)
  then show ?thesis using keeps_KYield assms by blast
next
  case (KRun q t)
  then show ?thesis using stands_same[OF assms[unfolded KRun keepalive_prof.simps]] by simp
next
  case (KFinish x)
  then show ?thesis using finishProcess_keeps[OF assms[unfolded KFinish keepalive_prof.simps]] by auto
next
  case (KDecide x)
  then show ?thesis using stands_same[OF assms[unfolded KDecide keepalive_prof.simps]] by simp
next
  case (KRelease x)
  then show ?thesis using keeps_KRelease assms by blast
next
  case KNext
  then show ?thesis using stands_same[OF assms[unfolded KNext keepalive_prof.simps]]
    by (auto split: option.splits)
next
  case (KNextWait at n)
  obtain c where c: "cells m k = Some c"
    by (rule stands_cell[OF assms]) (use KNextWait in simp_all)
  then obtain ka where "m_keepalives m k = Some ka" by (auto simp: cells_Some)
  then show ?thesis
    using stands_same[OF assms[unfolded KNextWait keepalive_prof.simps]] KNextWait
    by (auto intro!: keeps_select)
next
  case (KCancel held)
  then show ?thesis using keeps_KCancel assms by blast
next
  case KExit
  then show ?thesis using keeps_KExit assms by blast
next
  case KWG
  then show ?thesis using stands_wg[OF assms[unfolded KWG keepalive_prof.simps]] by simp
qed simp

section \<open>Sections of a manual request\<close>

lemma keeps_AStart:
  assumes "stands ps m i (adhoc_pc_prof k run AStart)"
  shows "keeps ps i (adhoc_pc_prof k run) (adhoc_step e k run ctx AStart m)"
proof -
  obtain c where c: "cells m k = Some c" "cell_inv ps k c" "wf m"
    and own: "c_owner c = requestOwnerAdhoc" "c_ownerRun c = run"
    by (rule stands_cell[OF assms]) simp_all
  note s = assms[unfolded adhoc_pc_prof.simps] and kst = cell_invD(12)[OF c(2)]
  from startAdhocProcess_eff[OF c(3,1) own] obtain m' where
    m': "startAdhocProcess k run m = Some (True, m')"
      "eff (m\<lparr>m_currentProcesses := Suc (m_currentProcesses m)\<rparr>) m' (cells m)" by blast
  have "ledger (ps[i := mkp requestOwnerAdhoc k run False False True True True None None]) m'"
    by (rule stands_eff_same[OF s c(1) m'(2)]) (use kst in \<open>simp_all add: slot_move_def\<close>)
  then show ?thesis using m'(1) by simp
qed

lemma keeps_AFinish:
  assumes "stands ps m i (adhoc_pc_prof k run (AFinish slot proc x))" "proc \<longrightarrow> slot"
  shows "keeps ps i (adhoc_pc_prof k run) (adhoc_step e k run ctx (AFinish slot proc x) m)"
proof -
  obtain c where c: "cells m k = Some c" "cell_inv ps k c" "wf m"
    and own: "c_owner c = requestOwnerAdhoc" "c_ownerRun c = run"
    by (rule stands_cell[OF assms(1)]) simp_all
  note s = assms(1)[unfolded adhoc_pc_prof.simps] and kst = cell_invD(12)[OF c(2)]
  let ?m = "cancel_ctx (Some ctx) m"
  note cnts = stands_slots[OF s]
  have pos: "slot \<Longrightarrow> 0 < m_slotsInUse ?m" using cnts(1) by simp
  have c': "wf ?m" "cells ?m k = Some c" using c by simp_all
  from finishAdhocRequest_eff[OF c' own pos] obtain m' where
    m': "finishAdhocRequest k run slot proc ?m = Some m'"
      "eff (?m\<lparr>m_currentProcesses := (if proc then m_currentProcesses ?m - 1 else m_currentProcesses ?m),
          m_slotsInUse := (if slot then m_slotsInUse ?m - 1 else m_slotsInUse ?m),
          m_parallelChanged := (if slot then Suc (m_parallelChanged ?m) else m_parallelChanged ?m),
          m_runWG := m_runWG ?m - 1\<rparr>) m' ((cells m)(k \<mapsto> cell_release requestOwnerAdhoc run c))"
    by auto
  have "ledger (ps[i := null_prof requestOwnerAdhoc k run]) m'"
    by (rule stands_eff[OF s c(1) m'(2)])
      (use own kst cnts assms(2) in \<open>auto simp: move_def slot_move_def cell_releaseD\<close>)
  then show ?thesis using m'(1) by simp
qed

fun adhoc_pc_ok :: "apc \<Rightarrow> bool" where
  "adhoc_pc_ok (AFinish slot proc x) \<longleftrightarrow> (proc \<longrightarrow> slot)"
| "adhoc_pc_ok pc \<longleftrightarrow> True"

lemma adhoc_step_keeps:
  assumes "stands ps m i (adhoc_pc_prof k run pc)" "adhoc_pc_ok pc"
  shows "keeps ps i (adhoc_pc_prof k run) (adhoc_step e k run ctx pc m)"
proof (cases pc)
  case ASlot
  then show ?thesis
    using acquire_slot_keeps[of ps m i requestOwnerAdhoc k run False False True] assms
    by (cases "acquire_slot m") (auto split: acquire_result.splits)
next
  case (ASlotWait n)
  then show ?thesis
    using stands_same[OF assms(1)[unfolded ASlotWait adhoc_pc_prof.simps]] by (auto intro!: keeps_select)
next
  case ACheck
  then show ?thesis using stands_same[OF assms(1)[unfolded ACheck adhoc_pc_prof.simps]] by simp
next
  case AStart
  then show ?thesis using keeps_AStart assms by blast
next
  case ARun
  then show ?thesis using stands_same[OF assms(1)[unfolded ARun adhoc_pc_prof.simps]] by simp
next
  case (AFinish slot proc x)
  then show ?thesis using keeps_AFinish assms by simp
qed simp

lemma adhoc_pc_ok_step: "adhoc_step e k run ctx pc m = Step pc' new m' \<Longrightarrow> adhoc_pc_ok pc'"
  by (cases pc) (auto simp: branch_def onto_def select_ctx_def split: option.splits prod.splits
      acquire_result.splits if_splits)

end
