(* ===== verification/Scheduler_Safety.thy ===== *)
theory Scheduler_Safety
  imports Scheduler_Inv
begin

text \<open>
  The invariant of the whole world: every step of theory \<open>Scheduler\<close> keeps the ledger, so it holds
  in every reachable world. The interpretation of the interface \<open>invariant_system\<close> on the
  goroutines is at the end, followed by the safety and liveness properties of the job manager.
\<close>

section \<open>The ledger under calls\<close>

lemma ledger_stopped:
  assumes "ledger ps m" "cells m k = Some c" "eff m m' ((cells m)(k \<mapsto> c'))" "stopped c c'"
  shows "ledger ps m'"
proof -
  have e: "wf m'" "cells m' = (cells m)(k \<mapsto> c')" "m_slotsInUse m' = m_slotsInUse m"
    "m_currentProcesses m' = m_currentProcesses m" "m_runWG m' = m_runWG m"
    "m_maxParallel m' = m_maxParallel m" "m_parallelChanged m' = m_parallelChanged m"
    using assms(3) by (simp_all add: eff_def)
  have "\<forall>k'. case cells m' k' of Some c \<Rightarrow> cell_inv ps k' c | None \<Rightarrow> quiet ps k'"
    using assms(1) cell_inv_stopped[OF ledger_cell[OF assms(1,2)] assms(4)] e(2)
    unfolding ledger_def by auto
  with assms(1) e(1) show ?thesis unfolding ledger_def e(3-7) by blast
qed

lemma ledger_stops: "stops m m' \<Longrightarrow> ledger ps m \<Longrightarrow> ledger ps m'"
proof (induction rule: stops.induct)
  case (stops_refl m')
  then show ?case by (auto intro: ledger_frame simp: eff_def)
next
  case (stops_queue m1 k c m2)
  then show ?case using ledger_stopped[OF _ _ _ stopped_stopQueue] by blast
next
  case (stops_keepalive m1 k c m2)
  then show ?case using ledger_stopped[OF _ _ _ stopped_stopKeepalive] by blast
qed

lemma ledger_at:
  assumes "ledger ps m"
  shows "case cells m k of Some c \<Rightarrow> cell_inv ps k c | None \<Rightarrow> quiet ps k"
  using assms unfolding ledger_def by blast

lemma ledger_append_unclaimed:
  assumes "unclaimed p" "\<not> p_wg p"
  shows "ledger (ps @ [p]) m = ledger ps m"
proof -
  have "cell_inv (ps @ [p]) k c = cell_inv ps k c" "quiet (ps @ [p]) k = quiet ps k" for k c
    by (rule cell_inv_append; use assms(1) in \<open>simp add: unclaimed_def\<close>)+
  then have e: "cell_inv (ps @ [p]) = cell_inv ps" "quiet (ps @ [p]) = quiet ps" by blast+
  show ?thesis using assms unfolding ledger_def e by (simp add: unclaimed_def)
qed

lemma ledger_append_list:
  "(\<forall>p\<in>set qs. unclaimed p \<and> \<not> p_wg p) \<Longrightarrow> ledger (ps @ qs) m = ledger ps m"
proof (induction qs arbitrary: ps)
  case (Cons q qs)
  then have "ledger ((ps @ [q]) @ qs) m = ledger (ps @ [q]) m" using Cons.IH[of "ps @ [q]"] by simp
  with Cons.prems show ?case by (simp add: ledger_append_unclaimed)
qed simp

lemma ledger_append_claim:
  assumes "ledger ps m" "cells m (p_key p) = Some c" "p_wg p" "\<not> p_slot p" "\<not> p_proc p"
    "p_swait p = None" "eff (m\<lparr>m_runWG := Suc (m_runWG m), m_nextAdhocRunID := x\<rparr>) m'
       ((cells m)(p_key p \<mapsto> c'))" "cell_inv (ps @ [p]) (p_key p) c'"
  shows "ledger (ps @ [p]) m'"
proof -
  have e: "wf m'" "cells m' = (cells m)(p_key p \<mapsto> c')" "m_slotsInUse m' = m_slotsInUse m"
    "m_currentProcesses m' = m_currentProcesses m" "m_runWG m' = Suc (m_runWG m)"
    "m_maxParallel m' = m_maxParallel m" "m_parallelChanged m' = m_parallelChanged m"
    using assms(7) by (simp_all add: eff_def)
  have "case cells m' k of Some c \<Rightarrow> cell_inv (ps @ [p]) k c | None \<Rightarrow> quiet (ps @ [p]) k" for k
  proof (cases "k = p_key p")
    case False
    then have "p_key p \<noteq> k" by simp
    with ledger_at[OF assms(1), of k] e(2) cell_inv_append[of p k ps] show ?thesis
      by (auto split: option.splits)
  qed (use assms(8) e(2) in simp)
  moreover have "cnt p_slot (ps @ [p]) = cnt p_slot ps" "cnt p_proc (ps @ [p]) = cnt p_proc ps"
    "cnt p_wg (ps @ [p]) = Suc (cnt p_wg ps)" using assms(3-5) by simp_all
  moreover have "\<forall>q\<in>set (ps @ [p]). p_swait q = None \<or> q \<in> set ps" using assms(6) by auto
  ultimately show ?thesis
    using assms(1) e(1) unfolding ledger_def e(3-7) by (metis option.distinct(1))
qed

lemma ledger_reshape:
  assumes "ledger ps m" "reshape m m' V"
    "\<And>k. case V k of Some c \<Rightarrow> cell_inv ps k c | None \<Rightarrow> quiet ps k"
  shows "ledger ps m'"
proof -
  have e: "wf m'" "cells m' = V" "m_slotsInUse m' = m_slotsInUse m"
    "m_currentProcesses m' = m_currentProcesses m" "m_runWG m' = m_runWG m"
    "m_maxParallel m' = m_maxParallel m" "m_parallelChanged m' = m_parallelChanged m"
    using assms(2) by (simp_all add: reshape_def)
  show ?thesis using assms(1,3) e(1) unfolding ledger_def e(2-7) by blast
qed

lemma CreateTarget_ledger:
  assumes "ledger ps m" "list_all p_ok ps" "persist_fresh persist m"
    "CreateTarget t persist m = Some (r, m')"
  shows "ledger ps m'"
proof -
  from CreateTarget_reshape[OF ledger_wf[OF assms(1)] assms(3), of t] assms(4)
  consider "m' = m" | k where "cells m k = None" "reshape m m' ((cells m)(k \<mapsto> fresh_cell))" by auto
  then show ?thesis
  proof cases
    case (2 k)
    have "cell_inv ps k fresh_cell"
      by (rule cell_inv_quiet[OF ledger_quiet[OF assms(1) 2(1)] assms(2)]) simp
    then show ?thesis using ledger_reshape[OF assms(1) 2(2)] ledger_at[OF assms(1)] by simp
  qed (use assms(1) in simp)
qed

lemma deleteTarget_ledger:
  assumes "ledger ps m" "list_all p_ok ps"
  shows "\<exists>r m'. deleteTargetCommit i persist m = Some (r, m') \<and> ledger ps m'"
proof -
  from deleteTarget_reshape[OF ledger_wf[OF assms(1)], of i persist] obtain r m'
    where m': "deleteTargetCommit i persist m = Some (r, m')"
    and d: "m' = m \<or> (\<exists>k c. cells m k = Some c \<and> \<not> cell_busy c \<and> reshape m m' ((cells m)(k := None)))"
    by blast
  from d have "ledger ps m'"
  proof (elim disjE exE conjE)
    fix k c assume k: "cells m k = Some c" "\<not> cell_busy c" "reshape m m' ((cells m)(k := None))"
    then show "ledger ps m'"
      using ledger_reshape[OF assms(1) k(3)] ledger_at[OF assms(1)]
        idle_quiet[OF ledger_cell[OF assms(1) k(1)] assms(2) k(2)] by simp
  qed (use assms(1) in simp)
  with m' show ?thesis by blast
qed

lemma updateTarget_ledger:
  assumes "ledger ps m" "list_all p_ok ps" "persist_keeps_id persist i"
  shows "\<exists>r m'. updateTargetCommit i t persist m = Some (r, m') \<and> ledger ps m'"
proof -
  from updateTarget_reshape[OF ledger_wf[OF assms(1)] assms(3), of t] obtain r m'
    where m': "updateTargetCommit i t persist m = Some (r, m')"
    and d: "m' = m \<or> (\<exists>old new c. cells m old = Some c \<and> \<not> cell_busy c \<and>
      (new = old \<or> cells m new = None) \<and> reshape m m' (((cells m)(old := None))(new \<mapsto> c)))"
    by blast
  from d have "ledger ps m'"
  proof (elim disjE exE conjE)
    fix old new c
    assume k: "cells m old = Some c" "\<not> cell_busy c" "cells m new = None"
      "reshape m m' (((cells m)(old := None))(new \<mapsto> c))"
    show "ledger ps m'"
      using ledger_reshape[OF assms(1) k(4)] ledger_at[OF assms(1)]
        idle_quiet[OF ledger_cell[OF assms(1) k(1)] assms(2) k(2)]
        cell_inv_quiet[OF ledger_quiet[OF assms(1) k(3)] assms(2) k(2)] by simp
  next
    fix old new c
    assume k: "cells m old = Some c" "new = old" "reshape m m' (((cells m)(old := None))(new \<mapsto> c))"
    then show "ledger ps m'"
      using ledger_reshape[OF assms(1) k(3)] ledger_at[OF assms(1)] ledger_cell[OF assms(1) k(1)] by simp
  qed (use assms(1) in simp)
  with m' show ?thesis by blast
qed

lemma UpdateSettings_ledger:
  assumes "ledger ps m" "UpdateSettings now draw kmin kmax n msg m = Some m'"
  shows "ledger ps m'"
proof -
  from UpdateSettings_effect[OF ledger_wf[OF assms(1)], of now draw kmin kmax n msg] assms(2)
  have e: "wf m'" "cells m' = cells m" "m_slotsInUse m' = m_slotsInUse m"
    "m_currentProcesses m' = m_currentProcesses m" "m_runWG m' = m_runWG m"
    "m_maxParallel m' = (if n > 0 then n else m_maxParallel m)"
    "m_parallelChanged m' = (if n > 0 \<and> n \<noteq> m_maxParallel m then Suc (m_parallelChanged m)
      else m_parallelChanged m)" by auto
  have "\<forall>p\<in>set ps. \<forall>x. p_swait p = Some x \<longrightarrow> x \<le> m_parallelChanged m' \<and>
        (x = m_parallelChanged m' \<longrightarrow> m_maxParallel m' \<le> int (m_slotsInUse m'))"
  proof (intro ballI allI impI)
    fix p x assume p: "p \<in> set ps" "p_swait p = Some x"
    with assms(1) have "x \<le> m_parallelChanged m"
      "x = m_parallelChanged m \<longrightarrow> m_maxParallel m \<le> int (m_slotsInUse m)"
      unfolding ledger_def by blast+
    then show "x \<le> m_parallelChanged m' \<and>
        (x = m_parallelChanged m' \<longrightarrow> m_maxParallel m' \<le> int (m_slotsInUse m'))"
      unfolding e(3,6,7) by auto
  qed
  moreover have "0 < m_maxParallel m'" using assms(1) e(6) by (auto simp: ledger_def)
  ultimately show ?thesis using assms(1) e(1) unfolding ledger_def e(2-5) by blast
qed

section \<open>The world invariant\<close>

fun thread_ok :: "thread \<Rightarrow> bool" where
  "thread_ok (AdhocCall k run c t pc) \<longleftrightarrow> adhoc_pc_ok pc"
| "thread_ok (Notifier s msg d pc) \<longleftrightarrow> 2 * second \<le> d \<and> d \<le> 60 * second"
| "thread_ok (ModeCall ow s ks res pc) \<longleftrightarrow> ow = requestOwnerQueue \<or> ow = requestOwnerKeepalive"
| "thread_ok (ChangeCall ch pc) \<longleftrightarrow> change_ok ch"
| "thread_ok _ \<longleftrightarrow> True"

definition inv :: "world \<Rightarrow> bool" where
  "inv w \<longleftrightarrow> ledger (map prof_of (w_threads w)) (w_mgr w) \<and> list_all thread_ok (w_threads w)"

text \<open>The outcome of running goroutine \<open>i\<close> is sound: no panic, and the invariant is kept.\<close>

definition sound :: "thread list \<Rightarrow> nat \<Rightarrow> thread outcome \<Rightarrow> bool" where
  "sound ts i out \<longleftrightarrow>
     (case out of Blocked \<Rightarrow> True | Panic \<Rightarrow> False
      | Step th new m' \<Rightarrow> ledger (map prof_of (ts[i := th] @ new)) m' \<and> thread_ok th \<and> list_all thread_ok new)"

lemma notifiers_ok: "list_all is_notifier new \<Longrightarrow> list_all thread_ok new"
  and notifiers_unclaimed: "list_all is_notifier new \<Longrightarrow>
    \<forall>p\<in>set (map prof_of new). unclaimed p \<and> \<not> p_wg p"
proof -
  have *: "thread_ok th \<and> prof_of th = null_prof requestOwnerNone [] 0" if "is_notifier th" for th
    using that by (cases th) auto
  show "list_all is_notifier new \<Longrightarrow> list_all thread_ok new"
    using * by (auto simp: list_all_iff)
  show "list_all is_notifier new \<Longrightarrow> \<forall>p\<in>set (map prof_of new). unclaimed p \<and> \<not> p_wg p"
    using * by (auto simp: list_all_iff)
qed

lemma sound_keeps:
  assumes "keeps (map prof_of ts) i pf out" "\<And>pc. prof_of (f pc) = pf pc"
    "\<And>pc new m'. out = Step pc new m' \<Longrightarrow> thread_ok (f pc)"
  shows "sound ts i (map_outcome f out)"
proof (cases out)
  case (Step pc new m')
  with assms(1) have l: "ledger ((map prof_of ts)[i := pf pc]) m'" and n: "list_all is_notifier new"
    by simp_all
  have "ledger ((map prof_of ts)[i := pf pc] @ map prof_of new) m'"
    using l ledger_append_list[OF notifiers_unclaimed[OF n]] by simp
  then show ?thesis
    using Step n assms(2,3) notifiers_ok by (simp add: sound_def map_update)
qed (use assms(1) in \<open>simp_all add: sound_def\<close>)

text \<open>Callers have no claim: their sections are judged by the manager they leave behind.\<close>

lemma sound_caller:
  assumes "i < length ts" "prof_of (ts ! i) = null_prof requestOwnerNone [] 0"
    "\<And>th new m'. out = Step th new m' \<Longrightarrow> prof_of th = null_prof requestOwnerNone [] 0 \<and> thread_ok th \<and>
       ledger (map prof_of ts @ map prof_of new) m' \<and> list_all thread_ok new"
    "out \<noteq> Panic"
  shows "sound ts i out"
proof (cases out)
  case (Step th new m')
  have "(map prof_of ts)[i := null_prof requestOwnerNone [] 0] = map prof_of ts"
    using assms(1,2) by (metis list_update_id nth_map)
  with assms(3)[OF Step] Step show ?thesis by (simp add: sound_def map_update)
qed (use assms(4) in \<open>simp_all add: sound_def\<close>)

lemma worker_prof_start:
  "prof_of (start_worker ow k run c) = worker_prof ow k run"
  if "ow = requestOwnerQueue \<or> ow = requestOwnerKeepalive"
  using that by (auto simp: start_worker_def worker_prof_def mkp_def)

lemma startQueue_ledger:
  assumes "ledger ps m"
  shows "\<exists>r m'. startQueueCommit now k s m = Some (r, m') \<and>
    (\<forall>n run c. r = CommitStarted n run c \<longrightarrow> ledger (ps @ [worker_prof requestOwnerQueue k run]) m') \<and>
    ((\<forall>n run c. r \<noteq> CommitStarted n run c) \<longrightarrow> ledger ps m')"
proof -
  from startQueueCommit_cases[OF ledger_wf[OF assms], of now k s]
  consider r m' where "startQueueCommit now k s m = Some (r, m')" "eff m m' (cells m)"
      "\<forall>n run ctx. r \<noteq> CommitStarted n run ctx"
    | c n m' where "cells m k = Some c" "c_kstate c = KeepaliveStateStopped" "c_kworkers c = 0"
      "startQueueCommit now k s m = Some (CommitStarted n (Suc (c_run c)) (m_nextCtx m), m')"
      "eff (m\<lparr>m_runWG := Suc (m_runWG m)\<rparr>) m' ((cells m)(k \<mapsto> cell_startQueue c))" by blast
  then show ?thesis
  proof cases
    case (1 r m')
    then have "ledger ps m'" by (intro ledger_frame[OF assms]) (simp_all add: eff_def)
    with 1 show ?thesis by blast
  next
    case (2 c n m')
    let ?p = "worker_prof requestOwnerQueue k (Suc (c_run c))"
    have "ledger (ps @ [?p]) m'"
      by (rule ledger_append_claim[OF assms, where c = c and c' = "cell_startQueue c"
            and x = "m_nextAdhocRunID m"])
        (use 2 cell_inv_startQueue[OF ledger_cell[OF assms 2(1)] 2(2,3)] in
          \<open>simp_all add: worker_prof_def\<close>)
    with 2 show ?thesis by blast
  qed
qed

lemma startKeepalive_ledger:
  assumes "ledger ps m"
  shows "\<exists>r m'. startKeepaliveCommit now k m = Some (r, m') \<and>
    (\<forall>n run c. r = CommitStarted n run c \<longrightarrow> ledger (ps @ [worker_prof requestOwnerKeepalive k run]) m') \<and>
    ((\<forall>n run c. r \<noteq> CommitStarted n run c) \<longrightarrow> ledger ps m')"
proof -
  from startKeepaliveCommit_cases[OF ledger_wf[OF assms], of now k]
  consider r where "startKeepaliveCommit now k m = Some (r, m)"
      "\<forall>n run ctx. r \<noteq> CommitStarted n run ctx"
    | c n m' where "cells m k = Some c" "c_state c \<noteq> StateRunning" "c_workers c = 0"
      "startKeepaliveCommit now k m = Some (CommitStarted n (Suc (c_krun c)) (m_nextCtx m), m')"
      "eff (m\<lparr>m_runWG := Suc (m_runWG m)\<rparr>) m' ((cells m)(k \<mapsto> cell_startKeepalive c))" by blast
  then show ?thesis
  proof cases
    case (1 r)
    with assms show ?thesis by blast
  next
    case (2 c n m')
    let ?p = "worker_prof requestOwnerKeepalive k (Suc (c_krun c))"
    have "ledger (ps @ [?p]) m'"
      by (rule ledger_append_claim[OF assms, where c = c and c' = "cell_startKeepalive c"
            and x = "m_nextAdhocRunID m"])
        (use 2 cell_inv_startKeepalive[OF ledger_cell[OF assms 2(1)] 2(2,3)] in
          \<open>simp_all add: worker_prof_def\<close>)
    with 2 show ?thesis by blast
  qed
qed

lemma idle_check_defined:
  assumes "wf m"
  shows "\<exists>r. idle_check now dl k m = Some (r, m)"
proof (cases "m_targets m k")
  case (Some t)
  then obtain c where c: "cells m k = Some c" using cells_target[OF assms, of k] by auto
  then obtain a where "m_arbiters m k = Some a" by (auto simp: cells_Some)
  with Some targetBusy_cell[OF c] show ?thesis by (auto simp: idle_check_def targetIdle_def)
qed (simp add: idle_check_def targetIdle_def)

section \<open>Callers\<close>

lemma mode_done_sound:
  assumes "ledger ps m" "ow = requestOwnerQueue \<or> ow = requestOwnerKeepalive"
    "\<exists>r m'. res = Some (r, m') \<and>
      (\<forall>n run c. r = CommitStarted n run c \<longrightarrow> ledger (ps @ [worker_prof ow k run]) m') \<and>
      ((\<forall>n run c. r \<noteq> CommitStarted n run c) \<longrightarrow> ledger ps m')"
  shows "mode_done ow k ks sr res \<noteq> Panic"
    "mode_done ow k ks sr res = Step pc new m'' \<Longrightarrow>
     ledger (ps @ map prof_of new) m'' \<and> list_all thread_ok new"
proof -
  from assms(3) obtain r m' where r: "res = Some (r, m')"
    "\<forall>n run c. r = CommitStarted n run c \<longrightarrow> ledger (ps @ [worker_prof ow k run]) m'"
    "(\<forall>n run c. r \<noteq> CommitStarted n run c) \<longrightarrow> ledger ps m'" by blast
  show "mode_done ow k ks sr res \<noteq> Panic" using r by (cases r) (auto simp: mode_done_def)
  assume "mode_done ow k ks sr res = Step pc new m''"
  then show "ledger (ps @ map prof_of new) m'' \<and> list_all thread_ok new"
    using r assms(2) by (cases r) (auto simp: mode_done_def start_worker_def worker_prof_def mkp_def)
qed

lemma mode_step_sound:
  assumes "ledger ps m" "ow = requestOwnerQueue \<or> ow = requestOwnerKeepalive"
  shows "mode_step e ow s ks res pc m \<noteq> Panic"
    "mode_step e ow s ks res pc m = Step st new m' \<Longrightarrow>
     ledger (ps @ map prof_of new) m' \<and> list_all thread_ok new"
proof -
  note w = ledger_wf[OF assms(1)]
  have "mode_step e ow s ks res pc m \<noteq> Panic \<and> (mode_step e ow s ks res pc m = Step st new m' \<longrightarrow>
     ledger (ps @ map prof_of new) m' \<and> list_all thread_ok new)"
  proof (cases ks)
    case (Cons k ks')
    show ?thesis
    proof (cases pc)
      case MPrepare
      from prepareMode_stops[OF w, of "e_now e" k ow] obtain r m1
        where "prepareMode (e_now e) k ow m = Some (r, m1)" "stops m m1" by blast
      then show ?thesis using Cons MPrepare ledger_stops[OF _ assms(1)]
        by (auto simp: mode_step_def branch_def)
    next
      case (MIdle dl)
      from idle_check_defined[OF w, of "e_now e" dl k] show ?thesis
        using Cons MIdle assms(1) by (auto simp: mode_step_def branch_def)
    next
      case (MSleep dl)
      then show ?thesis using Cons assms(1) by (auto simp: mode_step_def select_ctx_def)
    next
      case MRefused
      have "\<exists>r m'. (if ow = requestOwnerQueue then queueRefused k s m else keepaliveRefused k m) = Some (r, m') \<and>
          eff m m' (cells m) \<and> (\<forall>n run ctx. r \<noteq> CommitStarted n run ctx)"
        using queueRefused_eff[OF w, of k s] keepaliveRefused_eff[OF w, of k] by auto
      then have "\<exists>r m'. (if ow = requestOwnerQueue then queueRefused k s m else keepaliveRefused k m) = Some (r, m') \<and>
          (\<forall>n run c. r = CommitStarted n run c \<longrightarrow> ledger (ps @ [worker_prof ow k run]) m') \<and>
          ((\<forall>n run c. r \<noteq> CommitStarted n run c) \<longrightarrow> ledger ps m')"
        using ledger_frame[OF assms(1)] unfolding eff_def by metis
      from mode_done_sound[OF assms this] show ?thesis
        using Cons MRefused by (simp add: mode_step_def)
    next
      case MCommit
      have "\<exists>r m'. (if ow = requestOwnerQueue then startQueueCommit (e_now e) k s m
             else startKeepaliveCommit (e_now e) k m) = Some (r, m') \<and>
          (\<forall>n run c. r = CommitStarted n run c \<longrightarrow> ledger (ps @ [worker_prof ow k run]) m') \<and>
          ((\<forall>n run c. r \<noteq> CommitStarted n run c) \<longrightarrow> ledger ps m')"
        using startQueue_ledger[OF assms(1), of "e_now e" k s]
          startKeepalive_ledger[OF assms(1), of "e_now e" k] assms(2) by auto
      from mode_done_sound[OF assms this] show ?thesis
        using Cons MCommit by (simp add: mode_step_def)
    qed
  qed (simp add: mode_step_def)
  then show "mode_step e ow s ks res pc m \<noteq> Panic"
    "mode_step e ow s ks res pc m = Step st new m' \<Longrightarrow>
     ledger (ps @ map prof_of new) m' \<and> list_all thread_ok new" by blast+
qed

lemma change_step_sound:
  assumes "ledger ps m" "list_all p_ok ps" "change_ok ch"
  shows "change_step e ch pc m \<noteq> Panic"
    "change_step e ch pc m = Step st new m' \<Longrightarrow> ledger ps m' \<and> new = []"
proof -
  note w = ledger_wf[OF assms(1)]
  have "change_step e ch pc m \<noteq> Panic \<and>
    (change_step e ch pc m = Step st new m' \<longrightarrow> ledger ps m' \<and> new = [])"
  proof (cases pc)
    case CStart
    from quiesce_stops[OF w, of "e_now e" "change_id ch"] obtain r m1
      where "quiesceTarget (e_now e) (change_id ch) m = Some (r, m1)" "stops m m1" by blast
    then show ?thesis using CStart assms(1) ledger_stops[OF _ assms(1)]
      by (auto simp: change_step_def branch_def split: change.splits option.splits)
  next
    case (CIdle k dl)
    from idle_check_defined[OF w, of "e_now e" dl k] show ?thesis
      using CIdle assms(1) by (auto simp: change_step_def branch_def)
  next
    case (CSleep k dl)
    then show ?thesis using assms(1) by (auto simp: change_step_def select_ctx_def)
  next
    case CCommit
    show ?thesis
    proof (cases ch)
      case (ChangeUpdate i t persist)
      show ?thesis
      proof (cases t)
        case (Some t')
        have "persist_keeps_id persist i" using assms(3) ChangeUpdate by (simp add: change_ok_def)
        from updateTarget_ledger[OF assms(1,2) this, of t'] show ?thesis
          using CCommit ChangeUpdate Some by (auto simp: change_step_def branch_def)
      qed (use CCommit ChangeUpdate assms(1) in \<open>auto simp: change_step_def\<close>)
    next
      case (ChangeDelete i persist)
      then show ?thesis
        using CCommit deleteTarget_ledger[OF assms(1,2), of i persist]
        by (auto simp: change_step_def branch_def)
    qed
  qed (simp add: change_step_def)
  then show "change_step e ch pc m \<noteq> Panic"
    "change_step e ch pc m = Step st new m' \<Longrightarrow> ledger ps m' \<and> new = []" by blast+
qed

lemma notify_step_sound:
  "notify_step e s msg d pc m \<noteq> Panic"
  "notify_step e s msg d pc m = Step (d', pc') new m' \<Longrightarrow> m' = m \<and> new = [] \<and>
     (2 * second \<le> d \<and> d \<le> 60 * second \<longrightarrow> 2 * second \<le> d' \<and> d' \<le> 60 * second)"
  by (cases pc; auto simp: notify_step_def select_ctx_def minDuration_def second_def split: if_splits)+

section \<open>Every step keeps the invariant\<close>

lemma run_thread_sound:
  assumes "inv w" "i < length (w_threads w)"
  shows "sound (w_threads w) i (run_thread e (w_threads w ! i) (w_mgr w))"
proof -
  let ?ts = "w_threads w" and ?m = "w_mgr w"
  have L: "ledger (map prof_of ?ts) ?m" and ok: "thread_ok (?ts ! i)"
    using assms by (auto simp: inv_def list_all_length)
  have s: "stands (map prof_of ?ts) ?m i (prof_of (?ts ! i))"
    using L assms(2) by (simp add: stands_def)
  show ?thesis
  proof (cases "?ts ! i")
    case (QueueWorker k run c pc)
    have "sound ?ts i (map_outcome (QueueWorker k run c) (queue_step e k run c pc ?m))"
      by (rule sound_keeps[OF queue_step_keeps]) (use QueueWorker s in simp_all)
    then show ?thesis using QueueWorker by (simp add: run_thread_def)
  next
    case (KeepaliveWorker k run c pc)
    have "sound ?ts i (map_outcome (KeepaliveWorker k run c) (keepalive_step e k run c pc ?m))"
      by (rule sound_keeps[OF keepalive_step_keeps]) (use KeepaliveWorker s in simp_all)
    then show ?thesis using KeepaliveWorker by (simp add: run_thread_def)
  next
    case (AdhocCall k run c t pc)
    have "sound ?ts i (map_outcome (AdhocCall k run c t) (adhoc_step e k run c pc ?m))"
      by (rule sound_keeps[OF adhoc_step_keeps]) (use AdhocCall s ok adhoc_pc_ok_step in auto)
    then show ?thesis using AdhocCall by (simp add: run_thread_def)
  next
    case (Notifier sb msg d pc)
    show ?thesis
    proof (rule sound_caller[OF assms(2)])
      show "run_thread e (?ts ! i) ?m \<noteq> Panic"
        using Notifier notify_step_sound(1)[of e sb msg d pc ?m]
        by (cases "notify_step e sb msg d pc ?m") (auto simp: run_thread_def)
      fix th new m' assume "run_thread e (?ts ! i) ?m = Step th new m'"
      then obtain st where st: "notify_step e sb msg d pc ?m = Step st new m'" "th = (case st of (d, pc) \<Rightarrow> Notifier sb msg d pc)"
        using Notifier by (cases "notify_step e sb msg d pc ?m") (auto simp: run_thread_def)
      show "prof_of th = null_prof requestOwnerNone [] 0 \<and> thread_ok th \<and>
          ledger (map prof_of ?ts @ map prof_of new) m' \<and> list_all thread_ok new"
        using notify_step_sound(2)[of e sb msg d pc ?m "fst st" "snd st"] st Notifier L ok
        by (cases st) simp
    qed (use Notifier in simp)
  next
    case (ModeCall ow sb ks res pc)
    show ?thesis
    proof (rule sound_caller[OF assms(2)])
      show "run_thread e (?ts ! i) ?m \<noteq> Panic"
        using ModeCall ok mode_step_sound(1)[OF L, of ow e sb ks res pc]
        by (cases "mode_step e ow sb ks res pc ?m") (auto simp: run_thread_def)
      fix th new m' assume "run_thread e (?ts ! i) ?m = Step th new m'"
      then obtain st where st: "mode_step e ow sb ks res pc ?m = Step st new m'" "th = (case st of (ks, res, pc) \<Rightarrow> ModeCall ow sb ks res pc)"
        using ModeCall by (cases "mode_step e ow sb ks res pc ?m") (auto simp: run_thread_def)
      show "prof_of th = null_prof requestOwnerNone [] 0 \<and> thread_ok th \<and>
          ledger (map prof_of ?ts @ map prof_of new) m' \<and> list_all thread_ok new"
        using mode_step_sound(2)[OF L _ st(1)] st(2) ModeCall ok by (cases st) simp
    qed (use ModeCall in simp)
  next
    case (ChangeCall ch pc)
    show ?thesis
    proof (rule sound_caller[OF assms(2)])
      show "run_thread e (?ts ! i) ?m \<noteq> Panic"
        using ChangeCall ok change_step_sound(1)[OF L p_ok_map, of ch e pc]
        by (cases "change_step e ch pc ?m") (auto simp: run_thread_def)
      fix th new m' assume "run_thread e (?ts ! i) ?m = Step th new m'"
      then obtain st where st: "change_step e ch pc ?m = Step st new m'" "th = ChangeCall ch st"
        using ChangeCall by (cases "change_step e ch pc ?m") (auto simp: run_thread_def)
      show "prof_of th = null_prof requestOwnerNone [] 0 \<and> thread_ok th \<and>
          ledger (map prof_of ?ts @ map prof_of new) m' \<and> list_all thread_ok new"
        using change_step_sound(2)[OF L p_ok_map _ st(1)] st(2) ChangeCall ok L by simp
    qed (use ChangeCall in simp)
  qed
qed

lemma reserveAdhoc_ledger:
  assumes "ledger ps m" "reserveAdhoc i m = Some (Inr (k, run, c, t), m')"
  shows "ledger (ps @ [adhoc_pc_prof k run ASlot]) m'"
proof -
  from reserveAdhoc_cases[OF ledger_wf[OF assms(1)], of i] assms(2) obtain cl where
    c: "cells m k = Some cl" "\<not> cell_busy cl" "run = Suc (m_nextAdhocRunID m)"
    "eff (m\<lparr>m_runWG := Suc (m_runWG m), m_nextAdhocRunID := Suc (m_nextAdhocRunID m)\<rparr>) m'
        ((cells m)(k \<mapsto> cl\<lparr>c_owner := requestOwnerAdhoc, c_ownerRun := Suc (m_nextAdhocRunID m)\<rparr>))"
    by auto
  have p: "adhoc_pc_prof k run ASlot = adhoc_prof k run" by (simp add: mkp_def adhoc_prof_def)
  have o: "c_owner cl = requestOwnerNone" using c(2) by (simp add: cell_busy_def)
  show ?thesis unfolding p
    by (rule ledger_append_claim[OF assms(1), where c = cl and x = "Suc (m_nextAdhocRunID m)" and
          c' = "cl\<lparr>c_owner := requestOwnerAdhoc, c_ownerRun := run\<rparr>"])
      (use c cell_inv_reserve[OF ledger_cell[OF assms(1) c(1)] o, of run] in \<open>simp_all add: adhoc_prof_def\<close>)
qed

lemma frame_calls:
  assumes "ledger ps m"
  shows "ledger ps (cancel_ctx c m)" "ledger ps (SetMessenger ms m)" "ledger ps (BeginShutdown m)"
    "ledger ps (m\<lparr>m_rootDone := True\<rparr>)" "ledger ps (closeObserver ob m)"
    "Observe b m = Some (sn, ob', m') \<Longrightarrow> ledger ps m'"
    "receiveEvent ob m = Some (ev, m') \<Longrightarrow> ledger ps m'"
  by (auto intro!: ledger_frame[OF assms] simp: ledger_wf[OF assms] SetMessenger_def
      BeginShutdown_def closeObserver_def Observe_def receiveEvent_def Let_def
      split: bind_splits option.splits list.splits)

lemma step_inv:
  assumes "inv w" "step w w'"
  shows "inv w'"
  using assms(2)
proof cases
  case (step_thread i e th new m')
  from run_thread_sound[OF assms(1) step_thread(2), of e] step_thread(3)
  have "ledger (map prof_of ((w_threads w)[i := th] @ new)) m'" "thread_ok th" "list_all thread_ok new"
    by (simp_all add: sound_def)
  moreover have "list_all thread_ok ((w_threads w)[i := th])"
    using assms(1) \<open>thread_ok th\<close> set_update_subset_insert[of "w_threads w" i th]
    by (auto simp: inv_def list_all_iff)
  ultimately show ?thesis using step_thread(1) by (simp add: inv_def)
next
  case (step_stop now names res m')
  with StopTask_stops[of "w_mgr w" now names] assms(1) show ?thesis
    by (auto simp: inv_def dest: ledger_wf ledger_stops)
next
  case (step_adhoc i k run c t m')
  with assms(1) reserveAdhoc_ledger[of "map prof_of (w_threads w)" "w_mgr w" i k run c t m'] show ?thesis
    by (simp add: inv_def)
next
  case (step_create persist target res m')
  with assms(1) CreateTarget_ledger[OF _ p_ok_map] show ?thesis by (auto simp: inv_def)
next
  case (step_settings now draw kmin kmax n msg m')
  with assms(1) UpdateSettings_ledger show ?thesis by (auto simp: inv_def)
next
  case (step_start names keys unknown desired s)
  with assms(1) show ?thesis by (auto simp: inv_def ledger_append_unclaimed)
next
  case (step_change ch)
  with assms(1) show ?thesis by (simp add: inv_def ledger_append_unclaimed)
next
  case (step_observe buffer snapshot ob m')
  with assms(1) frame_calls(6) show ?thesis by (auto simp: inv_def)
next
  case (step_receive ob ev m')
  with assms(1) frame_calls(7) show ?thesis by (auto simp: inv_def)
qed (use assms(1) in \<open>simp_all add: inv_def frame_calls(1-5)\<close>)

lemma initial_inv:
  assumes "initial w"
  shows "inv w"
  using assms
proof cases
  case (initialI targets maxParallel host messenger kmin kmax msg)
  let ?m = "New host targets messenger kmin kmax maxParallel msg"
  note n = New_wf[OF initialI(2,3), of host messenger kmin kmax maxParallel msg]
  have "case cells ?m k of Some c \<Rightarrow> cell_inv [] k c | None \<Rightarrow> quiet [] k" for k
    using n(2)[of k] cell_inv_quiet[of "[]" k fresh_cell] by (auto simp: quiet_def split: option.split)
  moreover have "m_maxParallel (fold add_entry ts m) = m_maxParallel m" for ts m
    by (induction ts arbitrary: m) (simp_all add: add_entry_def Let_def)
  ultimately have "ledger [] ?m"
    using n(1,3-5) initialI(4) by (simp add: ledger_def) (simp add: New_def empty_manager_def)
  then show ?thesis using initialI(1) by (simp add: inv_def)
qed

interpretation scheduler: invariant_system initial step inv
  by unfold_locales (auto intro: initial_inv step_inv)

end
