(* ===== verification/Scheduler_Props.thy ===== *)
theory Scheduler_Props
  imports Scheduler_Safety
begin

text \<open>
  What the invariant of theory \<open>Scheduler_Safety\<close> means for the job manager: one Codex process per
  target, exact counters, the slot limit, exclusive modes, no panic, no lost wake-up and no deadlock,
  and what shutdown, deletion and stop requests guarantee. The concrete run at the end of the
  theory is shared by the witnesses.
\<close>

section \<open>Reading the invariant\<close>

text \<open>A goroutine in the middle of running a Codex process for target \<open>k\<close>.\<close>

fun runs_process :: "key \<Rightarrow> thread \<Rightarrow> bool" where
  "runs_process k (QueueWorker k' run c (QRun a t)) \<longleftrightarrow> k' = k"
| "runs_process k (KeepaliveWorker k' run c (KRun q t)) \<longleftrightarrow> k' = k"
| "runs_process k (AdhocCall k' run c t ARun) \<longleftrightarrow> k' = k"
| "runs_process k _ \<longleftrightarrow> False"

text \<open>A goroutine that is registered in the wait group \<open>runWG\<close>.\<close>

definition in_progress :: "thread \<Rightarrow> bool" where
  "in_progress th \<longleftrightarrow> p_wg (prof_of th)"

definition holds_target :: "key \<Rightarrow> thread \<Rightarrow> bool" where
  "holds_target k th \<longleftrightarrow> is_holder k (prof_of th)"

definition works_on :: "key \<Rightarrow> thread \<Rightarrow> bool" where
  "works_on k th \<longleftrightarrow> p_key (prof_of th) = k \<and> (p_count (prof_of th) \<or> p_holds (prof_of th))"

lemma runs_process_holds: "runs_process k th \<Longrightarrow> holds_target k th \<and> p_proc (prof_of th)"
  by (cases "(k, th)" rule: runs_process.cases) (simp_all add: holds_target_def is_holder_def)

lemma reachable_ledger:
  "reachable initial step w \<Longrightarrow> ledger (map prof_of (w_threads w)) (w_mgr w)"
  using scheduler.reachable_inv by (simp add: inv_def)

lemma cnt_map: "cnt P (map f xs) = cnt (\<lambda>x. P (f x)) xs"
  by (induction xs) auto

lemma holder_unique:
  assumes "reachable initial step w" "i < length (w_threads w)" "j < length (w_threads w)"
    "holds_target k (w_threads w ! i)" "holds_target k (w_threads w ! j)"
  shows "i = j"
proof -
  note L = reachable_ledger[OF assms(1)]
  have "prof_of (w_threads w ! i) \<in> set (map prof_of (w_threads w))" using assms(2) by auto
  from ledger_active_cell[OF L this] assms(4) obtain c where c: "cells (w_mgr w) k = Some c"
    by (auto simp: holds_target_def is_holder_def)
  from cell_inv_two_holders[OF ledger_cell[OF L c], of i j] assms(2-5) show ?thesis
    by (simp add: holds_target_def)
qed

section \<open>Progress\<close>

text \<open>Whether a goroutine can go on in some environment.\<close>

definition enabled :: "thread \<Rightarrow> manager \<Rightarrow> bool" where
  "enabled th m \<longleftrightarrow> (\<exists>e th' new m'. run_thread e th m = Step th' new m')"

definition late :: "gotime \<Rightarrow> env" where
  "late at = \<lparr>e_now = (case at of None \<Rightarrow> 0 | Some t \<Rightarrow> t), e_draw = 0, e_pick = False,
     e_result = \<lparr>r_Success = True, r_Response = [], r_ProcessOutput = [], r_ExitCode = 0,
       r_Error = [], r_Duration = 0\<rparr>, e_sent = True\<rparr>"

lemma late_due: "time_due (e_now (late at)) at" "\<not> e_pick (late at)"
  by (auto simp: late_def time_due_def split: option.splits)

lemma enabledI:
  assumes "inv w" "i < length (w_threads w)" "run_thread e (w_threads w ! i) (w_mgr w) \<noteq> Blocked"
  shows "enabled (w_threads w ! i) (w_mgr w)"
  using run_thread_sound[OF assms(1,2), of e] assms(3)
  by (cases "run_thread e (w_threads w ! i) (w_mgr w)") (auto simp: sound_def enabled_def)

lemma not_Blocked [simp]:
  "branch r f \<noteq> Blocked" "onto pc r' \<noteq> Blocked"
  by (auto simp: branch_def onto_def split: option.splits)

lemma map_outcome_Blocked [simp]: "map_outcome f out = Blocked \<longleftrightarrow> out = Blocked"
  by (cases out) auto

text \<open>Only the two kinds of channel waits can block a goroutine of the wait group.\<close>

lemma blocks_only_waiting:
  assumes "p_wg (prof_of th)" "p_swait (prof_of th) = None"
    "p_twait (prof_of th) = None \<or> p_slot (prof_of th)"
  shows "\<exists>e. run_thread e th m \<noteq> Blocked"
proof (cases th)
  case (QueueWorker k run c pc)
  then show ?thesis using assms by (cases pc) (simp_all add: run_thread_def)
next
  case (KeepaliveWorker k run c pc)
  show ?thesis
  proof (cases pc)
    case (KNextWait at n)
    then show ?thesis
      using KeepaliveWorker late_due[of at]
      by (intro exI[of _ "late at"]) (simp add: run_thread_def split: option.splits)
  qed (use assms KeepaliveWorker in \<open>simp_all add: run_thread_def split: option.splits\<close>)
next
  case (AdhocCall k run c t pc)
  then show ?thesis using assms by (cases pc) (simp_all add: run_thread_def)
qed (use assms in simp_all)

lemma slot_wait_signalled:
  assumes "p_swait (prof_of th) = Some n" "m_parallelChanged m \<noteq> n"
  shows "run_thread e th m \<noteq> Blocked"
proof (cases th)
  case (QueueWorker k run c pc)
  then show ?thesis using assms by (cases pc) (simp_all add: run_thread_def select_ctx_def)
next
  case (KeepaliveWorker k run c pc)
  then show ?thesis using assms by (cases pc) (simp_all add: run_thread_def select_ctx_def)
next
  case (AdhocCall k run c t pc)
  then show ?thesis using assms by (cases pc) (simp_all add: run_thread_def select_ctx_def)
qed (use assms in simp_all)

lemma target_wait_signalled:
  assumes "p_twait (prof_of th) = Some n" "cells m (p_key (prof_of th)) = Some c" "c_changed c \<noteq> n"
  shows "run_thread e th m \<noteq> Blocked"
proof -
  from assms(2) obtain a where a: "m_arbiters m (p_key (prof_of th)) = Some a" "a_changed a = c_changed c"
    by (auto simp: cells_Some cell_of_def)
  show ?thesis
  proof (cases th)
    case (QueueWorker k run c pc)
    then show ?thesis using assms a by (cases pc) (simp_all add: run_thread_def select_ctx_def)
  next
    case (KeepaliveWorker k run c pc)
    then show ?thesis using assms a by (cases pc) (simp_all add: run_thread_def select_ctx_def)
  next
    case (AdhocCall k run c t pc)
    then show ?thesis using assms a by (cases pc) (simp_all add: run_thread_def select_ctx_def)
  qed (use assms in simp_all)
qed

lemma waits_exclusive:
  "p_holds (prof_of th) \<Longrightarrow> p_twait (prof_of th) = None"
  "p_slot (prof_of th) \<Longrightarrow> p_swait (prof_of th) = None"
  "p_swait (prof_of th) \<noteq> None \<Longrightarrow> p_twait (prof_of th) = None"
proof -
  have "(p_holds (prof_of th) \<longrightarrow> p_twait (prof_of th) = None) \<and>
    (p_slot (prof_of th) \<longrightarrow> p_swait (prof_of th) = None) \<and>
    (p_swait (prof_of th) \<noteq> None \<longrightarrow> p_twait (prof_of th) = None)"
  proof (cases th)
    case (QueueWorker k run c pc)
    then show ?thesis by (cases pc) simp_all
  next
    case (KeepaliveWorker k run c pc)
    then show ?thesis by (cases pc) simp_all
  next
    case (AdhocCall k run c t pc)
    then show ?thesis by (cases pc) simp_all
  qed simp_all
  then show "p_holds (prof_of th) \<Longrightarrow> p_twait (prof_of th) = None"
    "p_slot (prof_of th) \<Longrightarrow> p_swait (prof_of th) = None"
    "p_swait (prof_of th) \<noteq> None \<Longrightarrow> p_twait (prof_of th) = None" by blast+
qed

text \<open>A goroutine that does not wait for a target can go on, or one with a slot can.\<close>

lemma slot_progress:
  assumes "inv w" "i < length (w_threads w)" "in_progress (w_threads w ! i)"
    "p_twait (prof_of (w_threads w ! i)) = None \<or> p_slot (prof_of (w_threads w ! i))"
  shows "\<exists>j<length (w_threads w). in_progress (w_threads w ! j) \<and> enabled (w_threads w ! j) (w_mgr w)"
proof (cases "p_swait (prof_of (w_threads w ! i))")
  case None
  then show ?thesis
    using blocks_only_waiting[of "w_threads w ! i" "w_mgr w"] assms enabledI by (auto simp: in_progress_def)
next
  case (Some n)
  have L: "ledger (map prof_of (w_threads w)) (w_mgr w)" using assms(1) by (simp add: inv_def)
  show ?thesis
  proof (cases "m_parallelChanged (w_mgr w) = n")
    case False
    then show ?thesis using slot_wait_signalled[OF Some] enabledI[OF assms(1,2)] assms(2,3) by blast
  next
    case True
    have "prof_of (w_threads w ! i) \<in> set (map prof_of (w_threads w))" using assms(2) by auto
    with L Some True have "0 < cnt p_slot (map prof_of (w_threads w))" unfolding ledger_def by force
    then have "\<not> (\<forall>th\<in>set (w_threads w). \<not> p_slot (prof_of th))"
      using cnt_zero[of p_slot "map prof_of (w_threads w)"] by auto
    then obtain j where j: "j < length (w_threads w)" "p_slot (prof_of (w_threads w ! j))"
      by (auto simp: in_set_conv_nth)
    have "p_wg (prof_of (w_threads w ! j))" using p_ok_prof_of[of "w_threads w ! j"] j(2) by (simp add: p_ok_def)
    then show ?thesis
      using j blocks_only_waiting[of "w_threads w ! j" "w_mgr w"] waits_exclusive(2) enabledI[OF assms(1) j(1)]
      by (auto simp: in_progress_def)
  qed
qed

section \<open>Shutdown\<close>

text \<open>No section clears the shutdown flag.\<close>

lemma sd_broadcast [mgr_frame]: "broadcastStateLocked m = Some m' \<Longrightarrow> m_shuttingDown m' = m_shuttingDown m"
  by (auto simp: broadcastStateLocked_def publishLocked_def split: bind_splits)

lemma sd_signal [mgr_frame]: "signalTargetLocked k m = Some m' \<Longrightarrow> m_shuttingDown m' = m_shuttingDown m"
  by (auto simp: signalTargetLocked_def split: bind_splits)

lemma sd_release [mgr_frame]: "releaseTargetLocked k ow run m = Some m' \<Longrightarrow> m_shuttingDown m' = m_shuttingDown m"
  by (auto simp: releaseTargetLocked_def dest!: sd_signal split: bind_splits if_splits)

lemma sd_queue:
  "acquireQueueTarget k run m = Some (r, m') \<Longrightarrow> m_shuttingDown m' = m_shuttingDown m"
  "beginAttempt now k run m = Some (r', m') \<Longrightarrow> m_shuttingDown m' = m_shuttingDown m"
  "markFailure k run x m = Some (b, m') \<Longrightarrow> m_shuttingDown m' = m_shuttingDown m"
  "markSuccess now k run m = Some (s, m') \<Longrightarrow> m_shuttingDown m' = m_shuttingDown m"
  "markQueueCancelled now k run m = Some m' \<Longrightarrow> m_shuttingDown m' = m_shuttingDown m"
  "finishQueueWorker k m = Some m' \<Longrightarrow> m_shuttingDown m' = m_shuttingDown m"
  "finishProcess m = Some m' \<Longrightarrow> m_shuttingDown m' = m_shuttingDown m"
  "m_shuttingDown (releaseSlot m) = m_shuttingDown m"
  "acquire_slot m = (r, m') \<Longrightarrow> m_shuttingDown m' = m_shuttingDown m"
  by (auto simp: acquireQueueTarget_def beginAttempt_def markFailure_def markSuccess_def
      markQueueCancelled_def finishQueueWorker_def finishProcess_def releaseSlot_def acquire_slot_def
      signalParallelLocked_def Let_def dest!: mgr_frame split: bind_splits if_splits option.splits)

lemma sd_keepalive:
  "beginKeepaliveCheck k run m = Some (r, m') \<Longrightarrow> m_shuttingDown m' = m_shuttingDown m"
  "beginKeepaliveCommit now k run m = Some (r', m') \<Longrightarrow> m_shuttingDown m' = m_shuttingDown m"
  "finishKeepaliveRequest now d k run x m = Some (b, m') \<Longrightarrow> m_shuttingDown m' = m_shuttingDown m"
  "markKeepaliveCancelled now k run m = Some m' \<Longrightarrow> m_shuttingDown m' = m_shuttingDown m"
  "finishKeepaliveWorker k m = Some m' \<Longrightarrow> m_shuttingDown m' = m_shuttingDown m"
  "startAdhocProcess k run m = Some (b, m') \<Longrightarrow> m_shuttingDown m' = m_shuttingDown m"
  "finishAdhocRequest k run slot proc m = Some m' \<Longrightarrow> m_shuttingDown m' = m_shuttingDown m"
  by (auto simp: beginKeepaliveCheck_def beginKeepaliveCommit_def finishKeepaliveRequest_def
      markKeepaliveCancelled_def finishKeepaliveWorker_def startAdhocProcess_def finishAdhocRequest_def
      signalParallelLocked_def Let_def dest!: mgr_frame split: bind_splits if_splits option.splits)

lemma stops_shuttingDown: "stops m m' \<Longrightarrow> m_shuttingDown m' = m_shuttingDown m"
  by (induction rule: stops.induct) (auto simp: eff_def)

text \<open>A section of a goroutine keeps the flag; under the flag it starts nothing that is waited for.\<close>

definition winding_down :: "bool \<Rightarrow> manager \<Rightarrow> 'pc outcome \<Rightarrow> ('pc \<Rightarrow> bool) \<Rightarrow> bool" where
  "winding_down wg m out wg' \<longleftrightarrow>
     (case out of Step pc new m' \<Rightarrow> m_shuttingDown m' = m_shuttingDown m \<and> (wg' pc \<longrightarrow> wg) \<and>
        (m_shuttingDown m \<longrightarrow> (\<forall>th\<in>set new. \<not> in_progress th)) | _ \<Rightarrow> True)"

lemma notifySuccess_idle: "\<forall>th\<in>set (notifySuccess n a d subs m). \<not> in_progress th"
  by (auto simp: notifySuccess_def in_progress_def)

lemma queue_winding:
  "winding_down (p_wg (queue_prof k run pc)) m (queue_step e k run c pc m) (\<lambda>pc. p_wg (queue_prof k run pc))"
  using sd_queue(8)[of m] notifySuccess_idle
  by (cases pc) (auto simp: winding_down_def branch_def onto_def select_ctx_def
      split: option.splits prod.splits dest: sd_queue(1-7,9) sd_release)

lemma keepalive_winding:
  "winding_down (p_wg (keepalive_prof k run pc)) m (keepalive_step e k run c pc m)
     (\<lambda>pc. p_wg (keepalive_prof k run pc))"
  using sd_queue(8)[of m]
  by (cases pc) (auto simp: winding_down_def branch_def onto_def select_ctx_def
      split: option.splits prod.splits dest: sd_queue(7,9) sd_keepalive)

lemma adhoc_winding:
  "winding_down (p_wg (adhoc_pc_prof k run pc)) m (adhoc_step e k run c pc m)
     (\<lambda>pc. p_wg (adhoc_pc_prof k run pc))"
  by (cases pc) (auto simp: winding_down_def branch_def onto_def select_ctx_def cancel_ctx_def
      split: option.splits prod.splits dest!: sd_queue(9) sd_keepalive(6,7))

lemma commit_winding:
  assumes "wf m" "(if q then startQueueCommit now k s m else startKeepaliveCommit now k m) = Some (r, m')"
  shows "m_shuttingDown m' = m_shuttingDown m" "m_shuttingDown m \<Longrightarrow> r \<noteq> CommitStarted n run c"
  using assms startQueueCommit_cases[OF assms(1), of now k s] startKeepaliveCommit_cases[OF assms(1), of now k]
  by (auto simp: eff_def split: if_splits)

lemma refused_winding:
  assumes "wf m" "(if q then queueRefused k s m else keepaliveRefused k m) = Some (r, m')"
  shows "m_shuttingDown m' = m_shuttingDown m" "r \<noteq> CommitStarted n run c"
  using assms queueRefused_eff[OF assms(1), of k s] keepaliveRefused_eff[OF assms(1), of k]
  by (auto simp: eff_def split: if_splits)

lemma mode_done_winding:
  assumes "mode_done ow k ks sr res = Step pc new m''" "\<And>r m'. res = Some (r, m') \<Longrightarrow>
    m_shuttingDown m' = m_shuttingDown m \<and> (m_shuttingDown m \<longrightarrow> (\<forall>n run c. r \<noteq> CommitStarted n run c))"
  shows "m_shuttingDown m'' = m_shuttingDown m \<and> (m_shuttingDown m \<longrightarrow> new = [])"
  using assms by (auto simp: mode_done_def split: option.splits prod.splits commit_result.splits)

lemma mode_winding:
  assumes "wf m"
  shows "winding_down False m (mode_step e ow s ks res pc m) (\<lambda>_. False)"
proof (cases "mode_step e ow s ks res pc m")
  case (Step st new m')
  then obtain k ks' where ks: "ks = k # ks'" by (cases ks) (auto simp: mode_step_def)
  have "m_shuttingDown m' = m_shuttingDown m \<and> (m_shuttingDown m \<longrightarrow> new = [])"
  proof (cases pc)
    case MPrepare
    then show ?thesis
      using Step ks prepareMode_stops[OF assms, of "e_now e" k ow] stops_shuttingDown
      by (fastforce simp: mode_step_def branch_def)
  next
    case (MIdle dl)
    then show ?thesis
      using Step ks idle_check_defined[OF assms, of "e_now e" dl k] by (auto simp: mode_step_def branch_def)
  next
    case (MSleep dl)
    then show ?thesis using Step ks by (auto simp: mode_step_def select_ctx_def split: if_splits)
  next
    case MRefused
    then show ?thesis
      using Step ks refused_winding[OF assms, of "ow = requestOwnerQueue" k s]
        mode_done_winding[of ow k ks' res _ st new m' m] by (simp add: mode_step_def)
  next
    case MCommit
    then show ?thesis
      using Step ks commit_winding[OF assms, of "ow = requestOwnerQueue" "e_now e" k s]
        mode_done_winding[of ow k ks' res _ st new m' m] by (simp add: mode_step_def)
  qed
  then show ?thesis using Step by (auto simp: winding_down_def)
qed (simp_all add: winding_down_def)

lemma change_winding:
  assumes "wf m" "change_ok ch"
  shows "winding_down False m (change_step e ch pc m) (\<lambda>_. False)"
proof (cases "change_step e ch pc m")
  case (Step st new m')
  have "m_shuttingDown m' = m_shuttingDown m \<and> new = []"
  proof (cases pc)
    case CStart
    then show ?thesis
      using Step quiesce_stops[OF assms(1), of "e_now e" "change_id ch"] stops_shuttingDown
      by (fastforce simp: change_step_def branch_def split: change.splits option.splits)
  next
    case (CIdle k dl)
    then show ?thesis
      using Step idle_check_defined[OF assms(1), of "e_now e" dl k] by (auto simp: change_step_def branch_def)
  next
    case (CSleep k dl)
    then show ?thesis using Step by (auto simp: change_step_def select_ctx_def split: if_splits)
  next
    case CCommit
    have "reshape m m1 V \<Longrightarrow> m_shuttingDown m1 = m_shuttingDown m" for m1 V by (simp add: reshape_def)
    moreover have "persist_keeps_id p i" if "ch = ChangeUpdate i t p" for i t p
      using assms(2) that by (simp add: change_ok_def)
    ultimately show ?thesis
      using Step CCommit updateTarget_reshape[OF assms(1)] deleteTarget_reshape[OF assms(1)]
      by (auto simp: change_step_def branch_def split: change.splits option.splits prod.splits)
        (metis option.inject prod.inject)+
  qed (use Step in \<open>simp add: change_step_def\<close>)
  then show ?thesis using Step by (simp add: winding_down_def)
qed (simp_all add: winding_down_def)

lemma winding_map:
  assumes "winding_down wg m out g" "\<And>x. in_progress (f x) \<Longrightarrow> g x"
  shows "winding_down wg m (map_outcome f out) in_progress"
  using assms by (cases out) (auto simp: winding_down_def)

lemma thread_winding:
  assumes "inv w" "i < length (w_threads w)"
  shows "winding_down (in_progress (w_threads w ! i)) (w_mgr w)
    (run_thread e (w_threads w ! i) (w_mgr w)) in_progress"
proof -
  let ?th = "w_threads w ! i" and ?m = "w_mgr w"
  have wf: "wf ?m" and ok: "thread_ok ?th" using assms by (auto simp: inv_def list_all_length ledger_wf)
  show ?thesis
  proof (cases ?th)
    case (QueueWorker k run c pc)
    have "winding_down (p_wg (queue_prof k run pc)) ?m
        (map_outcome (QueueWorker k run c) (queue_step e k run c pc ?m)) in_progress"
      by (rule winding_map[OF queue_winding]) (simp add: in_progress_def)
    then show ?thesis using QueueWorker by (simp add: run_thread_def in_progress_def)
  next
    case (KeepaliveWorker k run c pc)
    have "winding_down (p_wg (keepalive_prof k run pc)) ?m
        (map_outcome (KeepaliveWorker k run c) (keepalive_step e k run c pc ?m)) in_progress"
      by (rule winding_map[OF keepalive_winding]) (simp add: in_progress_def)
    then show ?thesis using KeepaliveWorker by (simp add: run_thread_def in_progress_def)
  next
    case (AdhocCall k run c t pc)
    have "winding_down (p_wg (adhoc_pc_prof k run pc)) ?m
        (map_outcome (AdhocCall k run c t) (adhoc_step e k run c pc ?m)) in_progress"
      by (rule winding_map[OF adhoc_winding]) (simp add: in_progress_def)
    then show ?thesis using AdhocCall by (simp add: run_thread_def in_progress_def)
  next
    case (Notifier sb msg d pc)
    have "winding_down False ?m (notify_step e sb msg d pc ?m) (\<lambda>_. False)"
      using notify_step_sound(2)[of e sb msg d pc ?m]
      by (cases "notify_step e sb msg d pc ?m") (auto simp: winding_down_def)
    then have "winding_down False ?m (map_outcome (\<lambda>(d, pc). Notifier sb msg d pc)
        (notify_step e sb msg d pc ?m)) in_progress"
      by (rule winding_map) (auto simp: in_progress_def)
    then show ?thesis using Notifier by (simp add: run_thread_def in_progress_def)
  next
    case (ModeCall ow sb ks res pc)
    have "winding_down False ?m (map_outcome (\<lambda>(keys, res, pc). ModeCall ow sb keys res pc)
        (mode_step e ow sb ks res pc ?m)) in_progress"
      by (rule winding_map[OF mode_winding[OF wf]]) (auto simp: in_progress_def)
    then show ?thesis using ModeCall by (simp add: run_thread_def in_progress_def)
  next
    case (ChangeCall ch pc)
    have "winding_down False ?m (map_outcome (ChangeCall ch) (change_step e ch pc ?m)) in_progress"
      by (rule winding_map[OF change_winding[OF wf]]) (use ok ChangeCall in \<open>auto simp: in_progress_def\<close>)
    then show ?thesis using ChangeCall by (simp add: run_thread_def in_progress_def)
  qed
qed

lemma shutdown_step:
  assumes "inv w" "m_shuttingDown (w_mgr w)" "step w w'"
  shows "m_shuttingDown (w_mgr w') \<and> cnt in_progress (w_threads w') \<le> cnt in_progress (w_threads w)"
  using assms(3)
proof cases
  case (step_thread i e th new m')
  from thread_winding[OF assms(1) step_thread(2), of e] step_thread(3) assms(2)
  have "m_shuttingDown m'" "in_progress th \<longrightarrow> in_progress (w_threads w ! i)"
    "\<forall>th\<in>set new. \<not> in_progress th" by (simp_all add: winding_down_def)
  then show ?thesis
    using step_thread cnt_update_le[OF step_thread(2), of in_progress th] cnt_zero[of in_progress new] by simp
next
  case (step_start names keys unknown desired s)
  then show ?thesis using assms(2) by (simp add: in_progress_def)
next
  case (step_stop now names res m')
  then show ?thesis
    using StopTask_stops[of "w_mgr w" now names] assms(1,2) stops_shuttingDown
    by (fastforce simp: inv_def dest: ledger_wf)
next
  case (step_adhoc i k run c t m')
  then show ?thesis using assms(2) by (auto simp: reserveAdhoc_def split: option.splits)
next
  case (step_change ch)
  then show ?thesis using assms(2) by (simp add: in_progress_def)
next
  case (step_create persist target res m')
  from CreateTarget_reshape[OF _ step_create(2), of target] assms(1) step_create(3)
  show ?thesis using step_create(1) assms(2) by (auto simp: inv_def reshape_def dest: ledger_wf)
next
  case (step_settings now draw kmin kmax n msg m')
  from UpdateSettings_effect[of "w_mgr w" now draw kmin kmax n msg] assms(1) step_settings(2)
  show ?thesis using step_settings(1) assms(2) by (auto simp: inv_def dest: ledger_wf)
next
  case (step_observe buffer snapshot ob m')
  then show ?thesis using assms(2) by (auto simp: Observe_def Let_def split: bind_splits)
next
  case (step_receive ob ev m')
  then show ?thesis using assms(2) by (auto simp: receiveEvent_def split: option.splits list.splits)
qed (use assms(2) in \<open>simp_all add: SetMessenger_def BeginShutdown_def closeObserver_def\<close>)

lemma shutdown_steps:
  assumes "step\<^sup>*\<^sup>* w w'" "inv w" "m_shuttingDown (w_mgr w)"
  shows "m_shuttingDown (w_mgr w') \<and> cnt in_progress (w_threads w') \<le> cnt in_progress (w_threads w) \<and> inv w'"
  using assms
proof (induction rule: rtranclp_induct)
  case (step y z)
  then have y: "m_shuttingDown (w_mgr y)" "cnt in_progress (w_threads y) \<le> cnt in_progress (w_threads w)" "inv y"
    by auto
  from shutdown_step[OF y(3,1) step.hyps(2)] step_inv[OF y(3) step.hyps(2)] y(2) show ?case by auto
qed simp

end
