(* ===== verification/Demo_Run.thy ===== *)
theory Demo_Run
  imports Scheduler_Props
begin

text \<open>
  A concrete run of the job manager, used by the witnesses of the properties: one target, one process
  allowed, a queue job started on it and followed until its Codex process runs.
\<close>

text \<open>A schedule says which goroutine runs next and in which environment.\<close>

fun exec :: "(nat \<times> env) list \<Rightarrow> world \<Rightarrow> world option" where
  "exec [] w = Some w"
| "exec ((i, e) # sched) w =
     (if i < length (w_threads w) then
        (case run_thread e (w_threads w ! i) (w_mgr w) of
           Step th new m' \<Rightarrow> exec sched \<lparr>w_mgr = m', w_threads = (w_threads w)[i := th] @ new\<rparr>
         | _ \<Rightarrow> None)
      else None)"

lemma exec_steps: "exec sched w = Some w' \<Longrightarrow> step\<^sup>*\<^sup>* w w'"
proof (induction sched w rule: exec.induct)
  case (2 i e sched w)
  then obtain th new m' where s: "i < length (w_threads w)"
    "run_thread e (w_threads w ! i) (w_mgr w) = Step th new m'"
    "exec sched \<lparr>w_mgr = m', w_threads = (w_threads w)[i := th] @ new\<rparr> = Some w'"
    by (auto split: if_splits outcome.splits)
  with 2 have "step\<^sup>*\<^sup>* \<lparr>w_mgr = m', w_threads = (w_threads w)[i := th] @ new\<rparr> w'" by simp
  with step_thread[OF s(1,2)] show ?case by (rule converse_rtranclp_into_rtranclp)
qed simp

definition demo_target :: config_target where
  "demo_target = zero_target\<lparr>t_ID := 1, t_Name := [97], t_Model := asc ''m''\<rparr>"

definition demo_subscriber :: subscriber where
  "demo_subscriber = \<lparr>s_Recipient = asc ''bob'', s_TraceID = [], s_Key = [], s_Messenger = None\<rparr>"

definition demo_env :: env where
  "demo_env = \<lparr>e_now = 5 * second, e_draw = 0, e_pick = False,
     e_result = \<lparr>r_Success = True, r_Response = [], r_ProcessOutput = [], r_ExitCode = 0,
       r_Error = [], r_Duration = 0\<rparr>, e_sent = True\<rparr>"

definition demo_start :: world where
  "demo_start = \<lparr>w_mgr = New (\<lambda>t. []) [demo_target] None 0 0 1 [], w_threads = []\<rparr>"

definition demo_called :: world where
  "demo_called = demo_start\<lparr>w_threads := [ModeCall requestOwnerQueue demo_subscriber [[97]]
     \<lparr>sr_Started = [], sr_Already = [], sr_Unknown = []\<rparr> MPrepare]\<rparr>"

definition demo_running :: world where
  "demo_running = the (exec (map (\<lambda>i. (i, demo_env)) [0, 0, 1, 1, 1]) demo_called)"

lemma demo_name: "normalizeName [97] = [97]"
  by (simp add: normalizeName_def strings_ToLower_def strings_TrimSpace_def trim_by_def trim_right_by_def
      trim_left_by_def unicode_IsSpace_def unicode_ToLower_def)

lemmas demo_world_defs = demo_called_def demo_start_def demo_env_def demo_target_def
  demo_subscriber_def zero_target_def New_def empty_manager_def add_entry_def fresh_job_def
  fresh_keepalive_def fresh_arbiter_def demo_name

lemmas demo_run_defs = Let_def run_thread_def mode_step_def prepareMode_def branch_def onto_def
  targetBusyLocked_def mode_done_def startQueueCommit_def addSubscriberLocked_def with_cancel_def
  broadcastStateLocked_def snapshotLocked_def publishLocked_def targetSnapshotLocked_def
  queueSnapshotLocked_def keepaliveSnapshotLocked_def target_at_def signalTargetLocked_def
  start_worker_def acquireQueueTarget_def acquire_slot_def beginAttempt_def add_started_def

lemma demo_exec:
  "\<exists>w c a t. exec (map (\<lambda>i. (i, demo_env)) [0, 0, 1, 1, 1]) demo_called = Some w \<and>
     w_threads w = [ModeCall requestOwnerQueue demo_subscriber []
       \<lparr>sr_Started = [[97]], sr_Already = [], sr_Unknown = []\<rparr> MPrepare, QueueWorker [97] 1 c (QRun a t)] \<and>
     m_shuttingDown (w_mgr w) = False"
  by (simp add: demo_world_defs demo_run_defs)

lemma demo_running_threads:
  "\<exists>c a t. w_threads demo_running = [ModeCall requestOwnerQueue demo_subscriber []
     \<lparr>sr_Started = [[97]], sr_Already = [], sr_Unknown = []\<rparr> MPrepare, QueueWorker [97] 1 c (QRun a t)]"
  using demo_exec unfolding demo_running_def by auto

lemma demo_initial: "initial demo_start"
  unfolding demo_start_def by (rule initialI) (simp_all add: demo_target_def zero_target_def)

lemma demo_start_reachable: "reachable initial step demo_start"
  by (rule reachable_init) (rule demo_initial)

lemma demo_called_step: "step demo_start demo_called"
proof -
  have "resolveLocked (w_mgr demo_start) [[97]] = ([[97]], [])"
    by (simp add: resolveLocked_def containsAll_def demo_world_defs Let_def)
  from step_start[where desired = requestOwnerQueue, OF this, of demo_subscriber] show ?thesis
    by (simp add: demo_called_def) (simp add: demo_start_def)
qed

lemma demo_running_reachable: "reachable initial step demo_running"
proof -
  from demo_exec have "exec (map (\<lambda>i. (i, demo_env)) [0, 0, 1, 1, 1]) demo_called = Some demo_running"
    unfolding demo_running_def by auto
  then have "step\<^sup>*\<^sup>* demo_called demo_running" by (rule exec_steps)
  with demo_called_step have "step\<^sup>*\<^sup>* demo_start demo_running"
    by (rule converse_rtranclp_into_rtranclp)
  with demo_initial show ?thesis unfolding reachable_def by blast
qed

end
