(* ===== verification/Manager_Theorems.thy ===== *)
theory Manager_Theorems
  imports Demo_Run
begin

text \<open>
  The properties of the job manager (\<open>internal/jobs/manager.go\<close>) that hold for every interleaving
  of its goroutines and callers, each with a witness on the run of theory \<open>Demo_Run\<close>.
\<close>

section \<open>Processes\<close>

text \<open>
  C1: at any moment at most one Codex process runs for a target, whichever of the queue worker, the
  keepalive worker and manual requests started it, and however their goroutines interleave.
\<close>

theorem one_process_per_target:
  assumes "reachable initial step w"
  shows "cnt (runs_process k) (w_threads w) \<le> 1"
proof (rule ccontr)
  assume "\<not> cnt (runs_process k) (w_threads w) \<le> 1"
  then have two: "2 \<le> cnt (runs_process k) (w_threads w)" by simp
  have "cnt (runs_process k) (w_threads w) \<le> cnt (holds_target k) (w_threads w)"
    by (rule cnt_mono) (simp add: runs_process_holds)
  also have "\<dots> = cnt (is_holder k) (map prof_of (w_threads w))"
    by (simp add: cnt_map holds_target_def[abs_def])
  also have "\<dots> \<le> 1"
  proof (cases "cells (w_mgr w) k")
    case None
    then show ?thesis
      using ledger_quiet[OF reachable_ledger[OF assms], of k]
        cnt_weaken_zero[of "\<lambda>p. p_key p = k \<and> (p_count p \<or> p_holds p)" _ "is_holder k"]
      by (simp add: quiet_def is_holder_def)
  next
    case (Some c)
    then show ?thesis using cell_invD(4)[OF ledger_cell[OF reachable_ledger[OF assms] Some]] by simp
  qed
  finally show False using two by simp
qed

theorem one_process_per_target_witness:
  "cnt (runs_process [97]) (w_threads demo_running) \<le> 1 \<and>
   runs_process [97] (w_threads demo_running ! 1)"
  using one_process_per_target[OF demo_running_reachable, of "[97]"] demo_running_threads by auto

text \<open>
  C2: the counters the manager reports are exact. \<open>slotsInUse\<close> is the number of goroutines that own
  a process slot, \<open>currentProcesses\<close> the number of those that have counted a process, \<open>runWG\<close> the
  number of goroutines \<open>Wait\<close> has to wait for, and there are never more processes than slots.
\<close>

theorem counters_exact:
  assumes "reachable initial step w"
  shows "m_slotsInUse (w_mgr w) = cnt (\<lambda>th. p_slot (prof_of th)) (w_threads w) \<and>
    m_currentProcesses (w_mgr w) = cnt (\<lambda>th. p_proc (prof_of th)) (w_threads w) \<and>
    m_runWG (w_mgr w) = cnt in_progress (w_threads w) \<and>
    m_currentProcesses (w_mgr w) \<le> m_slotsInUse (w_mgr w)"
proof -
  have L: "m_slotsInUse (w_mgr w) = cnt (\<lambda>th. p_slot (prof_of th)) (w_threads w)"
    "m_currentProcesses (w_mgr w) = cnt (\<lambda>th. p_proc (prof_of th)) (w_threads w)"
    "m_runWG (w_mgr w) = cnt in_progress (w_threads w)"
    using reachable_ledger[OF assms] by (simp_all add: ledger_def cnt_map in_progress_def[abs_def])
  have "cnt (\<lambda>th. p_proc (prof_of th)) (w_threads w) \<le> cnt (\<lambda>th. p_slot (prof_of th)) (w_threads w)"
    by (rule cnt_mono) (use p_ok_prof_of in \<open>auto simp: p_ok_def\<close>)
  with L show ?thesis by simp
qed

theorem counters_exact_witness:
  "m_slotsInUse (w_mgr demo_running) = 1 \<and> m_currentProcesses (w_mgr demo_running) = 1 \<and>
   m_runWG (w_mgr demo_running) = 1"
  using counters_exact[OF demo_running_reachable] demo_running_threads by (auto simp: in_progress_def)

lemma slot_acquired:
  assumes "run_thread e th m = Step th' new m'" "\<not> p_slot (prof_of th)" "p_slot (prof_of th')"
  shows "int (m_slotsInUse m') \<le> m_maxParallel m'"
proof -
  have a: "acquire_slot m = (AcquireOK, m1) \<Longrightarrow> int (m_slotsInUse m1) \<le> m_maxParallel m1" for m m1
    by (auto simp: acquire_slot_def split: if_splits)
  show ?thesis
  proof (cases th)
    case (QueueWorker k run c pc)
    then show ?thesis using assms a
      by (cases pc) (auto simp: run_thread_def branch_def onto_def select_ctx_def
          split: option.splits prod.splits acquire_result.splits if_splits)
  next
    case (KeepaliveWorker k run c pc)
    then show ?thesis using assms a
      by (cases pc) (auto simp: run_thread_def branch_def onto_def select_ctx_def
          split: option.splits prod.splits acquire_result.splits begin_keepalive_result.splits if_splits)
  next
    case (AdhocCall k run c t pc)
    then show ?thesis using assms a
      by (cases pc) (auto simp: run_thread_def branch_def onto_def select_ctx_def
          split: option.splits prod.splits acquire_result.splits if_splits)
  next
    case (Notifier s msg d pc)
    then show ?thesis using assms(1,3)
      by (cases "notify_step e s msg d pc m") (auto simp: run_thread_def)
  next
    case (ModeCall ow s ks res pc)
    then show ?thesis using assms(1,3)
      by (cases "mode_step e ow s ks res pc m") (auto simp: run_thread_def)
  next
    case (ChangeCall ch pc)
    then show ?thesis using assms(1,3)
      by (cases "change_step e ch pc m") (auto simp: run_thread_def)
  qed
qed

lemma new_threads_slotless:
  assumes "run_thread e th m = Step th' new m'"
  shows "\<forall>t\<in>set new. \<not> p_slot (prof_of t)"
proof -
  have n: "\<forall>t\<in>set (notifySuccess a b d subs m). \<not> p_slot (prof_of t)" for a b d subs
    by (auto simp: notifySuccess_def)
  have w: "\<not> p_slot (prof_of (start_worker ow k run c))" for ow k run c by (simp add: start_worker_def)
  show ?thesis
  proof (cases th)
    case (QueueWorker k run c pc)
    then show ?thesis using assms n by (cases pc) (auto simp: run_thread_def branch_def onto_def
          select_ctx_def split: option.splits prod.splits if_splits)
  next
    case (KeepaliveWorker k run c pc)
    then show ?thesis using assms by (cases pc) (auto simp: run_thread_def branch_def onto_def
          select_ctx_def split: option.splits prod.splits if_splits)
  next
    case (AdhocCall k run c t pc)
    then show ?thesis using assms by (cases pc) (auto simp: run_thread_def branch_def onto_def
          select_ctx_def split: option.splits prod.splits if_splits)
  next
    case (Notifier s msg d pc)
    then show ?thesis using assms by (auto simp: run_thread_def notify_step_def select_ctx_def
          split: npc.splits if_splits)
  next
    case (ModeCall ow s ks res pc)
    then show ?thesis using assms w by (auto simp: run_thread_def mode_step_def mode_done_def branch_def
          select_ctx_def split: list.splits mpc.splits option.splits prod.splits commit_result.splits if_splits)
  next
    case (ChangeCall ch pc)
    then show ?thesis using assms by (auto simp: run_thread_def change_step_def branch_def
          select_ctx_def split: cpc.splits change.splits option.splits prod.splits if_splits)
  qed
qed

lemma thread_step_slots:
  assumes "inv w" "i < length (w_threads w)" "run_thread e (w_threads w ! i) (w_mgr w) = Step th new m'"
    "m_slotsInUse (w_mgr w) < m_slotsInUse m'"
  shows "\<not> p_slot (prof_of (w_threads w ! i)) \<and> p_slot (prof_of th)"
proof -
  let ?ts = "w_threads w"
  from run_thread_sound[OF assms(1,2), of e] assms(3)
  have "ledger (map prof_of (?ts[i := th] @ new)) m'" by (simp add: sound_def)
  then have m': "m_slotsInUse m' = cnt p_slot (map prof_of (?ts[i := th])) + cnt p_slot (map prof_of new)"
    by (simp add: ledger_def)
  have m: "m_slotsInUse (w_mgr w) = cnt p_slot (map prof_of ?ts)" using assms(1) by (simp add: inv_def ledger_def)
  have "cnt p_slot (map prof_of new) = 0" using new_threads_slotless[OF assms(3)] by (simp add: cnt_zero)
  with m m' assms(4) have "cnt p_slot (map prof_of ?ts) < cnt p_slot ((map prof_of ?ts)[i := prof_of th])"
    by (simp add: map_update)
  with cnt_update[of i "map prof_of ?ts" p_slot "prof_of th"] assms(2) show ?thesis
    by (auto split: if_splits)
qed

text \<open>
  C6: a process slot is only ever taken while fewer than \<open>maxParallel\<close> are in use: a step that
  raises \<open>slotsInUse\<close> ends within the limit. (Lowering the limit lets running processes finish.)
\<close>

theorem slot_limit:
  assumes "reachable initial step w" "step w w'" "m_slotsInUse (w_mgr w) < m_slotsInUse (w_mgr w')"
  shows "int (m_slotsInUse (w_mgr w')) \<le> m_maxParallel (w_mgr w')"
proof -
  have I: "inv w" using scheduler.reachable_inv[OF assms(1)] .
  have "\<not> cnt p_slot (map prof_of (w_threads w')) \<le> cnt p_slot (map prof_of (w_threads w))"
    using assms(3) I step_inv[OF I assms(2)] by (simp add: inv_def ledger_def)
  with assms(2) show ?thesis
  proof cases
    case (step_thread i e th new m')
    then show ?thesis
      using thread_step_slots[OF I step_thread(2,3)] slot_acquired[OF step_thread(3)] assms(3) by simp
  qed simp_all
qed

theorem slot_limit_witness:
  "\<exists>w w'. step w w' \<and> m_slotsInUse (w_mgr w) = 0 \<and> m_slotsInUse (w_mgr w') = 1 \<and>
     int (m_slotsInUse (w_mgr w')) \<le> m_maxParallel (w_mgr w')"
proof -
  obtain w1 w2 where w: "exec (map (\<lambda>i. (i, demo_env)) [0, 0, 1]) demo_called = Some w1"
    "exec [(1, demo_env)] w1 = Some w2" "m_slotsInUse (w_mgr w1) = 0" "m_slotsInUse (w_mgr w2) = 1"
    "length (w_threads w1) = 2"
    by (simp add: demo_world_defs demo_run_defs)
  from exec_steps[OF w(1)] demo_called_step demo_initial have r: "reachable initial step w1"
    unfolding reachable_def by (meson converse_rtranclp_into_rtranclp)
  have s: "step w1 w2" using w(2,5) by (auto split: outcome.splits intro: step_thread)
  from slot_limit[OF r s] w(3,4) s show ?thesis by (intro exI[of _ w1] exI[of _ w2]) simp
qed

section \<open>Modes\<close>

text \<open>
  C4: queue mode and keepalive mode exclude each other: no target ever has both a queue worker and a
  keepalive worker that has not finished.
\<close>

theorem modes_exclusive:
  assumes "reachable initial step w"
  shows "cnt (\<lambda>th. is_worker requestOwnerQueue k (prof_of th)) (w_threads w) = 0 \<or>
    cnt (\<lambda>th. is_worker requestOwnerKeepalive k (prof_of th)) (w_threads w) = 0"
proof (cases "cells (w_mgr w) k")
  case None
  then have "cnt (is_worker requestOwnerQueue k) (map prof_of (w_threads w)) = 0"
    using ledger_quiet[OF reachable_ledger[OF assms], of k]
      cnt_weaken_zero[of "\<lambda>p. p_key p = k \<and> (p_count p \<or> p_holds p)" _ "is_worker requestOwnerQueue k"]
    by (simp add: quiet_def is_worker_def)
  then show ?thesis by (simp add: cnt_map)
next
  case (Some c)
  then show ?thesis
    using cell_invD(1-3)[OF ledger_cell[OF reachable_ledger[OF assms] Some]] by (simp add: cnt_map)
qed

theorem modes_exclusive_witness:
  "cnt (\<lambda>th. is_worker requestOwnerQueue [97] (prof_of th)) (w_threads demo_running) = 1 \<and>
   cnt (\<lambda>th. is_worker requestOwnerKeepalive [97] (prof_of th)) (w_threads demo_running) = 0"
  using modes_exclusive[OF demo_running_reachable, of "[97]"] demo_running_threads
  by (auto simp: is_worker_def)

text \<open>
  The keepalive state \<open>waiting_queue\<close>, which the state type, the web client and the status
  messages provide for, is never entered: when a keepalive worker looks at the queue, queue mode has
  already been switched off.
\<close>

lemma waiting_queue_unreachable:
  assumes "reachable initial step w" "m_keepalives (w_mgr w) k = Some ka"
  shows "k_state ka \<noteq> KeepaliveStateWaitingQueue"
proof -
  note L = reachable_ledger[OF assms(1)]
  have "k \<in> dom (m_keepalives (w_mgr w))" using assms(2) by auto
  then have "k \<in> dom (cells (w_mgr w))" using ledger_wf[OF L] cells_dom by (auto simp: wf_def)
  then obtain c where c: "cells (w_mgr w) k = Some c" by blast
  then have "c_kstate c = k_state ka" using assms(2) by (auto simp: cells_Some cell_of_def)
  with cell_invD(12)[OF ledger_cell[OF L c]] show ?thesis by simp
qed

text \<open>
  C7: a job reported as running has a goroutine that works on exactly this run and will report its
  end: the queue worker with the job's run identifier is still before its last section.
\<close>

theorem running_has_worker:
  assumes "reachable initial step w" "m_jobs (w_mgr w) k = Some j" "j_state j = StateRunning"
  shows "\<exists>c pc. QueueWorker k (j_runID j) c pc \<in> set (w_threads w) \<and> p_live (queue_prof k (j_runID j) pc)"
proof -
  note L = reachable_ledger[OF assms(1)]
  have "k \<in> dom (m_jobs (w_mgr w))" using assms(2) by auto
  then have "k \<in> dom (cells (w_mgr w))" using ledger_wf[OF L] cells_dom by (auto simp: wf_def)
  then obtain c where c: "cells (w_mgr w) k = Some c" by blast
  then have "c_state c = StateRunning" "c_run c = j_runID j" using assms(2,3) by (auto simp: cells_Some cell_of_def)
  with cell_invD(6)[OF ledger_cell[OF L c]]
  have "0 < cnt (is_live requestOwnerQueue k (j_runID j)) (map prof_of (w_threads w))" by simp
  then obtain th where th: "th \<in> set (w_threads w)" "is_live requestOwnerQueue k (j_runID j) (prof_of th)"
    using cnt_zero[of "is_live requestOwnerQueue k (j_runID j)" "map prof_of (w_threads w)"] by auto
  have "\<exists>c pc. th = QueueWorker k (j_runID j) c pc"
  proof (cases th)
    case (QueueWorker k' r c pc)
    then show ?thesis using th(2) by (cases pc) (simp_all add: profile_defs)
  next
    case (KeepaliveWorker k' r c pc)
    then show ?thesis using th(2) by (cases pc) (simp_all add: profile_defs)
  next
    case (AdhocCall k' r c t pc)
    then show ?thesis using th(2) by (cases pc) (simp_all add: profile_defs)
  qed (use th(2) in \<open>simp_all add: profile_defs\<close>)
  with th show ?thesis by (metis is_live_def prof_of_simps(1))
qed

theorem running_has_worker_witness:
  "\<exists>j c pc. m_jobs (w_mgr demo_running) [97] = Some j \<and> j_state j = StateRunning \<and>
     QueueWorker [97] (j_runID j) c pc \<in> set (w_threads demo_running)"
proof -
  obtain j where j: "m_jobs (w_mgr demo_running) [97] = Some j" "j_state j = StateRunning"
    unfolding demo_running_def by (simp add: demo_world_defs demo_run_defs)
  with running_has_worker[OF demo_running_reachable j] show ?thesis by blast
qed

section \<open>Absence of panics and deadlocks\<close>

text \<open>
  C5: no goroutine ever dereferences a missing map entry, although targets are created, renamed and
  deleted while the goroutines run.
\<close>

theorem no_panic:
  assumes "reachable initial step w" "i < length (w_threads w)"
  shows "run_thread e (w_threads w ! i) (w_mgr w) \<noteq> Panic"
  using run_thread_sound[OF scheduler.reachable_inv[OF assms(1)] assms(2), of e]
  by (auto simp: sound_def)

theorem no_panic_witness:
  "1 < length (w_threads demo_running) \<and>
   run_thread demo_env (w_threads demo_running ! 1) (w_mgr demo_running) \<noteq> Panic"
proof -
  have "1 < length (w_threads demo_running)" using demo_running_threads by auto
  with no_panic[OF demo_running_reachable this] show ?thesis by blast
qed

text \<open>
  C3: the manager cannot deadlock, and no wake-up is lost. As long as some goroutine is registered in
  the wait group, one of them can take its next step (Codex processes return and timers expire): a
  goroutine waiting on a closed or current channel is never left behind with the resource free.
\<close>

theorem deadlock_free:
  assumes "reachable initial step w" "i < length (w_threads w)" "in_progress (w_threads w ! i)"
  shows "\<exists>j<length (w_threads w). in_progress (w_threads w ! j) \<and> enabled (w_threads w ! j) (w_mgr w)"
proof (cases "p_twait (prof_of (w_threads w ! i))")
  case None
  then show ?thesis using slot_progress[OF scheduler.reachable_inv[OF assms(1)] assms(2,3)] by blast
next
  case (Some n)
  let ?th = "w_threads w ! i" and ?m = "w_mgr w"
  have I: "inv w" using scheduler.reachable_inv[OF assms(1)] .
  have s: "stands (map prof_of (w_threads w)) ?m i (prof_of ?th)"
    using reachable_ledger[OF assms(1)] assms(2) by (simp add: stands_def)
  have "p_count (prof_of ?th)" using p_ok_prof_of[of ?th] Some by (simp add: p_ok_def)
  then obtain c where c: "cells ?m (p_key (prof_of ?th)) = Some c"
    "cell_inv (map prof_of (w_threads w)) (p_key (prof_of ?th)) c"
    using stands_cell[OF s] by blast
  show ?thesis
  proof (cases "c_changed c = n")
    case False
    then show ?thesis
      using target_wait_signalled[OF Some c(1)] enabledI[OF I assms(2)] assms(2,3) by blast
  next
    case True
    then have "c_owner c \<noteq> requestOwnerNone" using stands_twait(2)[OF s Some c(2)] by simp
    then have "cnt (is_holder (p_key (prof_of ?th))) (map prof_of (w_threads w)) \<noteq> 0"
      using cell_invD(4)[OF c(2)] by simp
    then obtain j where j: "j < length (w_threads w)" "p_holds (prof_of (w_threads w ! j))"
      by (auto simp: cnt_zero is_holder_def in_set_conv_nth)
    then have "in_progress (w_threads w ! j)" using p_ok_prof_of[of "w_threads w ! j"]
      by (simp add: p_ok_def in_progress_def)
    from slot_progress[OF I j(1) this] waits_exclusive(1)[OF j(2)] show ?thesis by blast
  qed
qed

theorem deadlock_free_witness:
  "in_progress (w_threads demo_running ! 1) \<and>
   (\<exists>j<length (w_threads demo_running). in_progress (w_threads demo_running ! j) \<and>
      enabled (w_threads demo_running ! j) (w_mgr demo_running))"
proof -
  have "1 < length (w_threads demo_running)" "in_progress (w_threads demo_running ! 1)"
    using demo_running_threads by (auto simp: in_progress_def)
  with deadlock_free[OF demo_running_reachable this] show ?thesis by blast
qed

text \<open>
  C8: after \<open>BeginShutdown\<close> no new work starts. Whatever calls still arrive, the number of goroutines
  that \<open>Wait\<close> waits for never grows again.
\<close>

theorem shutdown_starts_nothing:
  assumes "reachable initial step w" "m_shuttingDown (w_mgr w)" "step\<^sup>*\<^sup>* w w'"
  shows "m_shuttingDown (w_mgr w') \<and> m_runWG (w_mgr w') \<le> m_runWG (w_mgr w)"
proof -
  from shutdown_steps[OF assms(3) scheduler.reachable_inv[OF assms(1)] assms(2)]
  have "m_shuttingDown (w_mgr w')" "cnt in_progress (w_threads w') \<le> cnt in_progress (w_threads w)" "inv w'"
    by auto
  moreover have "m_runWG (w_mgr v) = cnt in_progress (w_threads v)" if "inv v" for v
    using that by (simp add: inv_def ledger_def cnt_map in_progress_def[abs_def])
  ultimately show ?thesis using scheduler.reachable_inv[OF assms(1)] by simp
qed

theorem shutdown_starts_nothing_witness:
  "\<exists>w. reachable initial step w \<and> m_shuttingDown (w_mgr w) \<and> m_runWG (w_mgr w) \<le> 1 \<and>
     m_runWG (w_mgr w) \<le> m_runWG (w_mgr w)"
proof -
  let ?w = "demo_running\<lparr>w_mgr := BeginShutdown (w_mgr demo_running)\<rparr>"
  have r: "reachable initial step ?w" by (rule reachable_step[OF demo_running_reachable step_shutdown])
  have s: "m_shuttingDown (w_mgr ?w)" by (simp add: BeginShutdown_def)
  have "m_runWG (w_mgr ?w) = 1"
    unfolding demo_running_def by (simp add: demo_world_defs demo_run_defs BeginShutdown_def)
  with shutdown_starts_nothing[OF r s, of ?w] r s show ?thesis by (intro exI[of _ ?w]) simp
qed

section \<open>Targets\<close>

text \<open>
  C34: deleting a target succeeds only when no goroutine works on it any more, and then removes
  exactly this target.
\<close>

theorem delete_only_idle:
  assumes "reachable initial step w" "targetKeyByIDLocked (w_mgr w) i = Some k"
    "deleteTargetCommit i persist (w_mgr w) = Some (None, m')"
  shows "(\<forall>th\<in>set (w_threads w). \<not> works_on k th) \<and> m_targets m' = (m_targets (w_mgr w))(k := None)"
proof -
  note L = reachable_ledger[OF assms(1)]
  from deleteTarget_reshape[OF ledger_wf[OF L], of i persist] assms(2,3) obtain c
    where c: "cells (w_mgr w) k = Some c" "\<not> cell_busy c" "m_targets m' = (m_targets (w_mgr w))(k := None)"
    by auto
  from idle_quiet[OF ledger_cell[OF L c(1)] p_ok_map c(2)] c(3) show ?thesis
    by (auto simp: quiet_def cnt_zero works_on_def)
qed

theorem delete_only_idle_witness:
  "\<exists>m'. deleteTargetCommit 1 None (w_mgr demo_start) = Some (None, m') \<and> m_targets m' [97] = None"
proof -
  have k: "targetKeyByIDLocked (w_mgr demo_start) 1 = Some [97]"
    by (simp add: targetKeyByIDLocked_def target_at_def demo_world_defs Let_def)
  obtain m' where m': "deleteTargetCommit 1 None (w_mgr demo_start) = Some (None, m')"
    by (simp add: deleteTargetCommit_def targetKeyByIDLocked_def remove_entry_def demo_world_defs demo_run_defs)
  from delete_only_idle[OF demo_start_reachable k m'] m' show ?thesis by auto
qed

text \<open>
  Updating a target succeeds only when no goroutine works on it. Its job, keepalive and arbiter
  entries move to the new key together, no other target is touched, the targets stay well formed
  (unique keys and identifiers) and are in display order afterwards.
\<close>

lemma update_only_idle:
  assumes "reachable initial step w" "persist_keeps_id persist i"
    "targetKeyByIDLocked (w_mgr w) i = Some old"
    "updateTargetCommit i t persist (w_mgr w) = Some (None, m')" "persist t = Inr t'"
  shows "(\<forall>th\<in>set (w_threads w). \<not> works_on old th) \<and>
    m_targets m' = ((m_targets (w_mgr w))(old := None))(normalizeName (t_Name t') \<mapsto> t') \<and>
    (\<forall>k. k \<noteq> old \<and> k \<noteq> normalizeName (t_Name t') \<longrightarrow> cells m' k = cells (w_mgr w) k) \<and>
    cells m' (normalizeName (t_Name t')) = cells (w_mgr w) old \<and> wf m' \<and> in_display_order m'"
proof -
  note L = reachable_ledger[OF assms(1)]
  from updateTarget_reshape[OF ledger_wf[OF L] assms(2), of t] assms(3-5) obtain c
    where c: "cells (w_mgr w) old = Some c" "\<not> cell_busy c"
      "m_targets m' = ((m_targets (w_mgr w))(old := None))(normalizeName (t_Name t') \<mapsto> t')"
      "reshape (w_mgr w) m' (((cells (w_mgr w))(old := None))(normalizeName (t_Name t') \<mapsto> c))"
      "in_display_order m'" by auto
  from idle_quiet[OF ledger_cell[OF L c(1)] p_ok_map c(2)]
  have "\<forall>th\<in>set (w_threads w). \<not> works_on old th" by (auto simp: quiet_def cnt_zero works_on_def)
  with c show ?thesis by (simp add: reshape_def)
qed

section \<open>Stop requests\<close>

definition stop_active :: "cell \<Rightarrow> bool" where
  "stop_active c \<longleftrightarrow> c_state c = StateRunning \<or> c_workers c > 0 \<or>
     c_kstate c \<noteq> KeepaliveStateStopped \<or> c_kworkers c > 0 \<or> c_owner c = requestOwnerAdhoc"

lemma stops_target_at: "stops m m' \<Longrightarrow> target_at m' = target_at m"
proof -
  assume "stops m m'"
  then have "m_targets m' = m_targets m" by (induction rule: stops.induct) (auto simp: eff_def)
  then show ?thesis by (rule target_at_cong)
qed

lemma stop_targets_effect:
  assumes "stops m m1" "distinct ks" "set ks \<subseteq> set (m_order m)"
  shows "\<exists>res' ch' m2. stop_targets now ks (res, ch, m1) = Some (res', ch', m2) \<and> stops m m2 \<and>
    (\<forall>k. cells m2 k = (if k \<in> set ks then map_option (cell_stopKeepalive \<circ> cell_stopQueue) (cells m1 k)
                        else cells m1 k)) \<and>
    st_Stopped res' = st_Stopped res @
      map (\<lambda>k. t_Name (target_at m k)) (filter (\<lambda>k. \<exists>c. cells m1 k = Some c \<and> stop_active c) ks) \<and>
    st_Inactive res' = st_Inactive res @
      map (\<lambda>k. t_Name (target_at m k)) (filter (\<lambda>k. \<not> (\<exists>c. cells m1 k = Some c \<and> stop_active c)) ks) \<and>
    st_Unknown res' = st_Unknown res"
  using assms
proof (induction ks arbitrary: m1 res ch)
  case (Cons k ks)
  then have "k \<in> set (m_order m1)" using stops_order by auto
  then obtain c where c: "cells m1 k = Some c"
    using cells_dom[OF stops_wf[OF Cons.prems(1)]] by blast
  from stop_target_stops[OF Cons.prems(1) c, of now] obtain m2 where m2:
    "stop_target now k m1 = Some (stop_active c, m2)" "stops m m2"
    "cells m2 = (cells m1)(k \<mapsto> cell_stopKeepalive (cell_stopQueue c))" by (auto simp: stop_active_def)
  let ?n = "t_Name (target_at m k)"
  let ?r = "if stop_active c then res\<lparr>st_Stopped := st_Stopped res @ [?n]\<rparr>
    else res\<lparr>st_Inactive := st_Inactive res @ [?n]\<rparr>"
  have f: "filter (\<lambda>k'. \<exists>c. cells m2 k' = Some c \<and> stop_active c) ks =
      filter (\<lambda>k'. \<exists>c. cells m1 k' = Some c \<and> stop_active c) ks"
    "filter (\<lambda>k'. \<not> (\<exists>c. cells m2 k' = Some c \<and> stop_active c)) ks =
      filter (\<lambda>k'. \<not> (\<exists>c. cells m1 k' = Some c \<and> stop_active c)) ks"
    using Cons.prems(2) m2(3) by (auto intro!: filter_cong)
  have d: "distinct ks" "set ks \<subseteq> set (m_order m)" using Cons.prems(2,3) by auto
  from Cons.IH[OF m2(2) d, of ?r "ch \<or> stop_active c"] obtain res' ch' m3 where IH:
    "stop_targets now ks (?r, ch \<or> stop_active c, m2) = Some (res', ch', m3)" "stops m m3"
    "\<forall>k'. cells m3 k' = (if k' \<in> set ks then map_option (cell_stopKeepalive \<circ> cell_stopQueue) (cells m2 k')
        else cells m2 k')"
    "st_Stopped res' = st_Stopped ?r @
      map (\<lambda>k. t_Name (target_at m k)) (filter (\<lambda>k. \<exists>c. cells m1 k = Some c \<and> stop_active c) ks)"
    "st_Inactive res' = st_Inactive ?r @
      map (\<lambda>k. t_Name (target_at m k)) (filter (\<lambda>k. \<not> (\<exists>c. cells m1 k = Some c \<and> stop_active c)) ks)"
    "st_Unknown res' = st_Unknown ?r" unfolding f by blast
  have "stop_targets now (k # ks) (res, ch, m1) = Some (res', ch', m3)"
    using m2(1) IH(1) stops_target_at[OF Cons.prems(1)] by (cases "stop_active c") auto
  moreover have "cells m3 k' = (if k' \<in> set (k # ks) then map_option (cell_stopKeepalive \<circ> cell_stopQueue) (cells m1 k')
        else cells m1 k')" for k'
    using IH(3) m2(3) c Cons.prems(2) by auto
  ultimately show ?case using IH(2,4-6) c by (cases "stop_active c") auto
qed simp

lemma StopTask_effect:
  assumes wf: "wf m" and "resolveLocked m names = (keys, unknown)"
  shows "\<exists>res m'. StopTask now names m = Some (res, m') \<and>
    (\<forall>k\<in>set keys. \<exists>c. cells m' k = Some c \<and> c_state c \<noteq> StateRunning \<and> c_kstate c = KeepaliveStateStopped) \<and>
    (\<forall>k. k \<notin> set keys \<longrightarrow> cells m' k = cells m k) \<and>
    st_Stopped res = map (\<lambda>k. t_Name (target_at m k))
      (filter (\<lambda>k. \<exists>c. cells m k = Some c \<and> stop_active c) keys) \<and>
    st_Inactive res = map (\<lambda>k. t_Name (target_at m k))
      (filter (\<lambda>k. \<not> (\<exists>c. cells m k = Some c \<and> stop_active c)) keys) \<and>
    st_Unknown res = unknown"
proof -
  note known = resolveLocked_known[OF wf assms(2)]
  from stop_targets_effect[OF stops_refl[OF wf eff_refl[OF wf]] known(2,1), of now
      "\<lparr>st_Stopped = [], st_Inactive = [], st_Unknown = unknown\<rparr>" False]
  obtain res ch m1 where 1: "stop_targets now keys
      (\<lparr>st_Stopped = [], st_Inactive = [], st_Unknown = unknown\<rparr>, False, m) = Some (res, ch, m1)"
    "stops m m1" "\<forall>k. cells m1 k = (if k \<in> set keys
        then map_option (cell_stopKeepalive \<circ> cell_stopQueue) (cells m k) else cells m k)"
    and r: "st_Stopped res = map (\<lambda>k. t_Name (target_at m k))
        (filter (\<lambda>k. \<exists>c. cells m k = Some c \<and> stop_active c) keys)"
      "st_Inactive res = map (\<lambda>k. t_Name (target_at m k))
        (filter (\<lambda>k. \<not> (\<exists>c. cells m k = Some c \<and> stop_active c)) keys)"
      "st_Unknown res = unknown" by auto
  let ?m2 = "if ch then bc m1 else m1"
  have "StopTask now names m = Some (res, ?m2)"
    using assms(2) 1(1) broadcast_wf[OF stops_wf[OF 1(2)]] by (simp add: StopTask_def)
  moreover have "\<exists>c. cells ?m2 k = Some c \<and> c_state c \<noteq> StateRunning \<and> c_kstate c = KeepaliveStateStopped"
    if k: "k \<in> set keys" for k
  proof -
    from k known(1) cells_dom[OF wf] obtain c where "cells m k = Some c" by blast
    with 1(3) k show ?thesis by (auto simp: cell_stopQueue_def cell_stopKeepalive_def)
  qed
  ultimately show ?thesis using 1(3) r by (intro exI[of _ res] exI[of _ ?m2]) auto
qed

text \<open>
  C35: \<open>Stop\<close>, \<open>StopTask\<close> and \<open>StopKeepalive\<close> leave every named target in stopped state in both modes
  and do not touch the others. The answer lists as stopped exactly the named targets on which
  something was running or still unwinding, as inactive the rest, and the names that match no target.
\<close>

theorem stop_stops_named_targets:
  assumes "reachable initial step w" "resolveLocked (w_mgr w) names = (keys, unknown)"
  shows "\<exists>res m'. StopTask now names (w_mgr w) = Some (res, m') \<and>
    (\<forall>k\<in>set keys. \<exists>c. cells m' k = Some c \<and> c_state c \<noteq> StateRunning \<and> c_kstate c = KeepaliveStateStopped) \<and>
    (\<forall>k. k \<notin> set keys \<longrightarrow> cells m' k = cells (w_mgr w) k) \<and>
    st_Stopped res = map (\<lambda>k. t_Name (target_at (w_mgr w) k))
      (filter (\<lambda>k. \<exists>c. cells (w_mgr w) k = Some c \<and> stop_active c) keys) \<and>
    st_Inactive res = map (\<lambda>k. t_Name (target_at (w_mgr w) k))
      (filter (\<lambda>k. \<not> (\<exists>c. cells (w_mgr w) k = Some c \<and> stop_active c)) keys) \<and>
    st_Unknown res = unknown"
  by (rule StopTask_effect[OF ledger_wf[OF reachable_ledger[OF assms(1)]] assms(2)])

theorem stop_stops_named_targets_witness:
  "\<exists>res m'. StopTask 0 [] (w_mgr demo_running) = Some (res, m') \<and> st_Unknown res = [] \<and>
     (\<exists>c. cells m' [97] = Some c \<and> c_state c \<noteq> StateRunning)"
proof -
  have "resolveLocked (w_mgr demo_running) [] = ([[97]], [])"
    unfolding demo_running_def by (simp add: resolveLocked_def demo_world_defs demo_run_defs)
  from stop_stops_named_targets[OF demo_running_reachable this, of 0] show ?thesis by auto
qed

end
