(* ===== verification/Secrets.thy ===== *)
theory Secrets
  imports Prelude
begin

text \<open>
  The secrets of the database (\<open>internal/storage/storage.go\<close>): framing of encrypted values
  (\<open>encrypt\<close>, \<open>decrypt\<close>), the associated data that ties a ciphertext to its row
  (\<open>targetAPIKeyAAD\<close>), and the encoding of password hashes (\<open>hashPassword\<close>, \<open>verifyPassword\<close>).
  AES-GCM and Argon2id are fields of a record the functions take as an argument; what is relied on
  of them appears as hypotheses. Random nonces and salts are arguments. A string stands for its own
  bytes.
\<close>

section \<open>Base64 without padding\<close>

definition b64_char :: "bool \<Rightarrow> nat \<Rightarrow> rune" where
  "b64_char url n =
     (if n < 26 then 65 + n else if n < 52 then 71 + n else if n < 62 then n - 4
      else if n = 62 then (if url then 45 else 43) else (if url then 95 else 47))"

definition b64_value :: "bool \<Rightarrow> rune \<Rightarrow> nat option" where
  "b64_value url c =
     (if 65 \<le> c \<and> c \<le> 90 then Some (c - 65)
      else if 97 \<le> c \<and> c \<le> 122 then Some (c - 71)
      else if 48 \<le> c \<and> c \<le> 57 then Some (c + 4)
      else if c = (if url then 45 else 43) then Some 62
      else if c = (if url then 95 else 47) then Some 63 else None)"

fun b64_encode :: "bool \<Rightarrow> nat list \<Rightarrow> text" where
  "b64_encode url (a # b # c # bs) =
     b64_char url (a div 4) # b64_char url (a mod 4 * 16 + b div 16) #
     b64_char url (b mod 16 * 4 + c div 64) # b64_char url (c mod 64) # b64_encode url bs"
| "b64_encode url [a, b] =
     [b64_char url (a div 4), b64_char url (a mod 4 * 16 + b div 16), b64_char url (b mod 16 * 4)]"
| "b64_encode url [a] = [b64_char url (a div 4), b64_char url (a mod 4 * 16)]"
| "b64_encode url [] = []"

fun b64_bytes :: "nat list \<Rightarrow> nat list option" where
  "b64_bytes (p # q # r # s # vs) =
     map_option (\<lambda>bs. (p * 4 + q div 16) # (q mod 16 * 16 + r div 4) # (r mod 4 * 64 + s) # bs)
       (b64_bytes vs)"
| "b64_bytes [p, q, r] = Some [p * 4 + q div 16, q mod 16 * 16 + r div 4]"
| "b64_bytes [p, q] = Some [p * 4 + q div 16]"
| "b64_bytes [p] = None"
| "b64_bytes [] = Some []"

text \<open>\<open>DecodeString\<close> of a raw encoding: line breaks are skipped.\<close>

definition b64_decode :: "bool \<Rightarrow> text \<Rightarrow> nat list option" where
  "b64_decode url t =
     Option.bind (those (map (b64_value url) (filter (\<lambda>c. c \<noteq> 10 \<and> c \<noteq> 13) t))) b64_bytes"

lemma b64_value_char: "n < 64 \<Longrightarrow> b64_value url (b64_char url n) = Some n"
  by (auto simp: b64_char_def b64_value_def)

lemma b64_char_plain:
  "n < 64 \<Longrightarrow> b64_char url n \<noteq> 10 \<and> b64_char url n \<noteq> 13 \<and> b64_char url n \<noteq> 36"
  by (auto simp: b64_char_def)

fun b64_values :: "nat list \<Rightarrow> nat list" where
  "b64_values (a # b # c # bs) =
     (a div 4) # (a mod 4 * 16 + b div 16) # (b mod 16 * 4 + c div 64) # (c mod 64) # b64_values bs"
| "b64_values [a, b] = [a div 4, a mod 4 * 16 + b div 16, b mod 16 * 4]"
| "b64_values [a] = [a div 4, a mod 4 * 16]"
| "b64_values [] = []"

lemma b64_encode_values: "b64_encode url bs = map (b64_char url) (b64_values bs)"
  by (induction url bs rule: b64_encode.induct) simp_all

lemma b64_values_range: "\<forall>b\<in>set bs. b < 256 \<Longrightarrow> \<forall>v\<in>set (b64_values bs). v < 64"
  by (induction bs rule: b64_values.induct) auto

lemma b64_bytes_values: "\<forall>b\<in>set bs. b < 256 \<Longrightarrow> b64_bytes (b64_values bs) = Some bs"
  by (induction bs rule: b64_values.induct) auto

lemma those_map_value:
  "\<forall>v\<in>set vs. v < 64 \<Longrightarrow> those (map (\<lambda>v. b64_value url (b64_char url v)) vs) = Some vs"
  by (induction vs) (simp_all add: b64_value_char)

lemma b64_decode_encode:
  assumes "\<forall>b\<in>set bs. b < 256"
  shows "b64_decode url (b64_encode url bs) = Some bs"
proof -
  have r: "\<forall>v\<in>set (b64_values bs). v < 64" by (rule b64_values_range[OF assms])
  have "filter (\<lambda>c. c \<noteq> 10 \<and> c \<noteq> 13) (b64_encode url bs) = b64_encode url bs"
    using r b64_char_plain by (auto simp: b64_encode_values filter_id_conv)
  then show ?thesis
    using those_map_value[OF r] b64_bytes_values[OF assms]
    by (simp add: b64_decode_def b64_encode_values comp_def)
qed

lemma b64_no_dollar: "\<forall>b\<in>set bs. b < 256 \<Longrightarrow> 36 \<notin> set (b64_encode url bs)"
  using b64_values_range[of bs] b64_char_plain by (fastforce simp: b64_encode_values)

section \<open>Encrypted values\<close>

record crypto =
  gcm_Seal :: "nat list \<Rightarrow> text \<Rightarrow> text \<Rightarrow> nat list"
  gcm_Open :: "nat list \<Rightarrow> nat list \<Rightarrow> text \<Rightarrow> text option"
  argon2_IDKey :: "text \<Rightarrow> nat list \<Rightarrow> nat \<Rightarrow> nat \<Rightarrow> nat \<Rightarrow> nat \<Rightarrow> nat list"

definition cipherVersion :: nat where "cipherVersion = 1"
definition nonceSize :: nat where "nonceSize = 12"
definition gcmOverhead :: nat where "gcmOverhead = 16"

definition encrypt :: "crypto \<Rightarrow> nat list \<Rightarrow> text \<Rightarrow> text \<Rightarrow> nat list" where
  "encrypt cr nonce plain aad = cipherVersion # nonce @ gcm_Seal cr nonce plain aad"

definition decrypt :: "crypto \<Rightarrow> nat list \<Rightarrow> text \<Rightarrow> text option" where
  "decrypt cr value aad =
     (if length value < 1 + nonceSize + gcmOverhead \<or> hd value \<noteq> cipherVersion then None
      else gcm_Open cr (take nonceSize (drop 1 value)) (drop (1 + nonceSize) value) aad)"

text \<open>
  What is relied on of AES-GCM: the ciphertext is longer than the plaintext by the tag, it opens
  under the same nonce and associated data, and it does not open under other associated data.
\<close>

definition gcm_sound :: "crypto \<Rightarrow> bool" where
  "gcm_sound cr \<longleftrightarrow>
     (\<forall>nonce plain aad. gcmOverhead \<le> length (gcm_Seal cr nonce plain aad) \<and>
        gcm_Open cr nonce (gcm_Seal cr nonce plain aad) aad = Some plain)"

definition gcm_binds :: "crypto \<Rightarrow> bool" where
  "gcm_binds cr \<longleftrightarrow>
     (\<forall>nonce plain aad aad'. aad \<noteq> aad' \<longrightarrow>
        gcm_Open cr nonce (gcm_Seal cr nonce plain aad) aad' = None)"

lemma decrypt_encrypt_open:
  assumes "gcm_sound cr" "length nonce = nonceSize"
  shows "decrypt cr (encrypt cr nonce plain aad) aad' =
    gcm_Open cr nonce (gcm_Seal cr nonce plain aad) aad'"
proof -
  have "gcmOverhead \<le> length (gcm_Seal cr nonce plain aad)"
    using assms(1) unfolding gcm_sound_def by blast
  then show ?thesis
    using assms(2) by (simp add: decrypt_def encrypt_def nonceSize_def)
qed

lemma decrypt_encrypt:
  "gcm_sound cr \<Longrightarrow> length nonce = nonceSize \<Longrightarrow>
   decrypt cr (encrypt cr nonce plain aad) aad = Some plain"
  using decrypt_encrypt_open[of cr nonce plain aad aad] by (simp add: gcm_sound_def)

lemma encrypt_nonempty [simp]: "encrypt cr nonce plain aad \<noteq> []"
  by (simp add: encrypt_def)

text \<open>\<open>targetAPIKeyAAD\<close>: the identifier as eight bytes, most significant first.\<close>

fun be_bytes :: "nat \<Rightarrow> nat \<Rightarrow> nat list" where
  "be_bytes 0 n = []"
| "be_bytes (Suc k) n = be_bytes k (n div 256) @ [n mod 256]"

definition targetAPIKeyAAD :: "int \<Rightarrow> text" where
  "targetAPIKeyAAD i =
     asc ''target:'' @ b64_encode True (be_bytes 8 (nat (i mod 2 ^ 64))) @ asc '':api_key''"

lemma be_bytes_inj:
  "n < 256 ^ k \<Longrightarrow> m < 256 ^ k \<Longrightarrow> be_bytes k n = be_bytes k m \<Longrightarrow> n = m"
proof (induction k arbitrary: n m)
  case (Suc k)
  have "n div 256 < 256 ^ k" "m div 256 < 256 ^ k"
    using Suc.prems(1,2) by (simp_all add: less_mult_imp_div_less mult.commute)
  with Suc.IH[of "n div 256" "m div 256"] Suc.prems(3)
  have "n div 256 = m div 256" "n mod 256 = m mod 256" by simp_all
  then show ?case by (metis div_mult_mod_eq)
qed simp

lemma be_bytes_range: "\<forall>b\<in>set (be_bytes k n). b < 256"
  by (induction k arbitrary: n) auto

lemma targetAPIKeyAAD_inj:
  assumes "0 \<le> i" "i < 2 ^ 63" "0 \<le> j" "j < 2 ^ 63" "targetAPIKeyAAD i = targetAPIKeyAAD j"
  shows "i = j"
proof -
  have "b64_encode True (be_bytes 8 (nat (i mod 2 ^ 64))) =
      b64_encode True (be_bytes 8 (nat (j mod 2 ^ 64)))"
    using assms(5) by (simp add: targetAPIKeyAAD_def)
  then have "be_bytes 8 (nat (i mod 2 ^ 64)) = be_bytes 8 (nat (j mod 2 ^ 64))"
    using b64_decode_encode[of "be_bytes 8 (nat (i mod 2 ^ 64))" True]
      b64_decode_encode[of "be_bytes 8 (nat (j mod 2 ^ 64))" True] be_bytes_range[of 8]
    by (simp only: option.inject) (metis option.inject)
  moreover have "i mod 2 ^ 64 = i" "j mod 2 ^ 64 = j" using assms by simp_all
  moreover have "nat i < 256 ^ 8" "nat j < 256 ^ 8" using assms by auto
  ultimately have "nat i = nat j" using be_bytes_inj[of "nat i" 8 "nat j"] by simp
  with assms show ?thesis by simp
qed

section \<open>Passwords\<close>

text \<open>\<open>strings.Split(s, "$")\<close>\<close>

fun split_on :: "rune \<Rightarrow> text \<Rightarrow> text list" where
  "split_on d [] = [[]]"
| "split_on d (c # cs) =
     (if c = d then [] # split_on d cs
      else (c # hd (split_on d cs)) # tl (split_on d cs))"

lemma split_on_nonempty [simp]: "split_on d t \<noteq> []"
  by (induction t) auto

lemma split_on_plain: "d \<notin> set t \<Longrightarrow> split_on d t = [t]"
  by (induction t) auto

lemma split_on_append: "d \<notin> set t \<Longrightarrow> split_on d (t @ d # u) = t # split_on d u"
  by (induction t) auto

text \<open>
  \<open>fmt.Sscanf\<close> with one literal and one \<open>%d\<close> verb of a given width: the literal, spaces, then at
  least one digit, and a value that fits; the rest of the input is returned.
\<close>

definition scan_uint :: "nat \<Rightarrow> text \<Rightarrow> text \<Rightarrow> (nat \<times> text) option" where
  "scan_uint width lit t =
     (if take (length lit) t \<noteq> lit then None
      else let rest = dropWhile (\<lambda>c. c = 32 \<or> c = 9) (drop (length lit) t);
               ds = takeWhile (\<lambda>c. 48 \<le> c \<and> c \<le> 57) rest in
           if ds = [] \<or> 2 ^ width \<le> dec_value ds then None
           else Some (dec_value ds, drop (length ds) rest))"

definition argon2_Version :: nat where "argon2_Version = 19"

definition hashPassword :: "crypto \<Rightarrow> nat list \<Rightarrow> text \<Rightarrow> text" where
  "hashPassword cr salt password =
     asc ''$argon2id$v='' @ dec argon2_Version @ asc ''$m='' @ dec 32768 @ asc '',t='' @ dec 2 @
     asc '',p='' @ dec 1 @ asc ''$'' @ b64_encode False salt @ asc ''$'' @
     b64_encode False (argon2_IDKey cr password salt 2 32768 1 32)"

datatype hash_error =
  InvalidHash | UnsupportedVersion | InvalidParameters | InvalidSalt | InvalidDigest

definition verifyPassword :: "crypto \<Rightarrow> text \<Rightarrow> text \<Rightarrow> hash_error + bool" where
  "verifyPassword cr password encoded =
     (let parts = split_on 36 encoded in
      if length parts \<noteq> 6 \<or> parts ! 1 \<noteq> asc ''argon2id'' then Inl InvalidHash
      else case scan_uint 32 (asc ''v='') (parts ! 2) of
        None \<Rightarrow> Inl UnsupportedVersion
      | Some (version, _) \<Rightarrow>
        if version \<noteq> argon2_Version then Inl UnsupportedVersion
        else case scan_uint 32 (asc ''m='') (parts ! 3) of
          None \<Rightarrow> Inl InvalidParameters
        | Some (memory, r1) \<Rightarrow> (case scan_uint 32 (asc '',t='') r1 of
            None \<Rightarrow> Inl InvalidParameters
          | Some (iterations, r2) \<Rightarrow> (case scan_uint 8 (asc '',p='') r2 of
              None \<Rightarrow> Inl InvalidParameters
            | Some (parallelism, _) \<Rightarrow> (case b64_decode False (parts ! 4) of
                None \<Rightarrow> Inl InvalidSalt
              | Some salt \<Rightarrow> (case b64_decode False (parts ! 5) of
                  None \<Rightarrow> Inl InvalidDigest
                | Some expected \<Rightarrow> Inr (argon2_IDKey cr password salt iterations memory parallelism
                    (length expected) = expected))))))"

lemma dec_small:
  "dec 19 = [49, 57]" "dec 32768 = [51, 50, 55, 54, 56]" "dec 2 = [50]" "dec 1 = [49]"
  by (simp_all add: dec.simps)

lemma hashPassword_shape:
  "hashPassword cr salt p =
     [] @ 36 # asc ''argon2id'' @ 36 # asc ''v=19'' @ 36 # asc ''m=32768,t=2,p=1'' @ 36 #
     b64_encode False salt @ 36 # b64_encode False (argon2_IDKey cr p salt 2 32768 1 32)"
  by (simp add: hashPassword_def argon2_Version_def dec_small dec_small(4)[simplified])

lemma hashPassword_parts:
  assumes "\<forall>b\<in>set salt. b < 256" "\<forall>b\<in>set (argon2_IDKey cr p salt 2 32768 1 32). b < 256"
  shows "split_on 36 (hashPassword cr salt p) =
    [[], asc ''argon2id'', asc ''v=19'', asc ''m=32768,t=2,p=1'', b64_encode False salt,
     b64_encode False (argon2_IDKey cr p salt 2 32768 1 32)]"
proof -
  have "36 \<notin> set (asc ''argon2id'')" "36 \<notin> set (asc ''v=19'')" "36 \<notin> set (asc ''m=32768,t=2,p=1'')"
    "36 \<notin> set ([] :: text)"
    by simp_all
  note plain = this[THEN split_on_append] split_on_append[OF b64_no_dollar[OF assms(1)]]
    split_on_plain[OF b64_no_dollar[OF assms(2)]]
  show ?thesis unfolding hashPassword_shape plain ..
qed

lemma verifyPassword_hash:
  assumes "\<forall>b\<in>set salt. b < 256" "\<forall>b\<in>set (argon2_IDKey cr p salt 2 32768 1 32). b < 256"
    and "length (argon2_IDKey cr p salt 2 32768 1 32) = 32"
  shows "verifyPassword cr q (hashPassword cr salt p) =
    Inr (argon2_IDKey cr q salt 2 32768 1 32 = argon2_IDKey cr p salt 2 32768 1 32)"
proof -
  have v: "scan_uint 32 (asc ''v='') (asc ''v=19'') = Some (19, [])"
    by (simp add: scan_uint_def dec_value_def Let_def)
  have m: "scan_uint 32 (asc ''m='') (asc ''m=32768,t=2,p=1'') = Some (32768, asc '',t=2,p=1'')"
    by (simp add: scan_uint_def dec_value_def Let_def)
  have t: "scan_uint 32 (asc '',t='') (asc '',t=2,p=1'') = Some (2, asc '',p=1'')"
    by (simp add: scan_uint_def dec_value_def Let_def)
  have par: "scan_uint 8 (asc '',p='') (asc '',p=1'') = Some (1, [])"
    by (simp add: scan_uint_def dec_value_def Let_def)
  show ?thesis
    unfolding verifyPassword_def hashPassword_parts[OF assms(1,2)] Let_def
    using v m t par assms(3)
    by (simp add: b64_decode_encode[OF assms(1)] b64_decode_encode[OF assms(2)] argon2_Version_def
        del: asc_Cons One_nat_def)
qed

section \<open>A concrete instance\<close>

text \<open>An insecure cipher and key derivation that satisfy what is relied on.\<close>

definition plain_crypto :: crypto where
  "plain_crypto = \<lparr>
     gcm_Seal = (\<lambda>nonce plain aad. replicate 16 0 @ length plain # plain @ aad),
     gcm_Open = (\<lambda>nonce value aad.
       let body = tl (drop 16 value); k = hd (drop 16 value) in
       if drop k body = aad then Some (take k body) else None),
     argon2_IDKey = (\<lambda>p salt t m par n. take n (map (\<lambda>c. c mod 256) p @ replicate n 0))\<rparr>"

lemma plain_crypto_sound: "gcm_sound plain_crypto" "gcm_binds plain_crypto"
  by (simp_all add: gcm_sound_def gcm_binds_def plain_crypto_def Let_def gcmOverhead_def)

lemma plain_IDKey:
  "argon2_IDKey plain_crypto p salt t m par n = take n (map (\<lambda>c. c mod 256) p @ replicate n 0)"
  by (simp add: plain_crypto_def)

section \<open>Properties\<close>

text \<open>
  C28: an API key stored for a target is read back unchanged, and the ciphertext of one target's key
  never decrypts in the row of another: the associated data names the row.
\<close>

theorem api_key_bound_to_row:
  assumes "gcm_sound cr" "gcm_binds cr" "length nonce = nonceSize"
    and "0 \<le> i" "i < 2 ^ 63" "0 \<le> j" "j < 2 ^ 63"
  shows "decrypt cr (encrypt cr nonce apiKey (targetAPIKeyAAD i)) (targetAPIKeyAAD j) =
    (if i = j then Some apiKey else None)"
proof (cases "i = j")
  case True
  then show ?thesis using decrypt_encrypt[OF assms(1,3)] by simp
next
  case False
  then have "targetAPIKeyAAD i \<noteq> targetAPIKeyAAD j" using targetAPIKeyAAD_inj assms(4-7) by blast
  then show ?thesis
    using False decrypt_encrypt_open[OF assms(1,3)] assms(2) by (simp add: gcm_binds_def)
qed

theorem api_key_bound_to_row_witness:
  "decrypt plain_crypto (encrypt plain_crypto (replicate 12 7) [107] (targetAPIKeyAAD 1))
     (targetAPIKeyAAD 2) = None"
  using api_key_bound_to_row[of plain_crypto "replicate 12 7" 1 2 "[107]"] plain_crypto_sound
  by (simp add: nonceSize_def)

text \<open>
  The stored form of a password round-trips: a password verifies against the hash made of
  another exactly when both derive the same key, and verification of a stored hash never fails with
  a format error.
\<close>

lemma password_hash_roundtrip:
  assumes "\<forall>b\<in>set salt. b < 256"
    and "\<forall>b\<in>set (argon2_IDKey cr p salt 2 32768 1 32). b < 256"
    and "length (argon2_IDKey cr p salt 2 32768 1 32) = 32"
  shows "verifyPassword cr q (hashPassword cr salt p) =
    Inr (argon2_IDKey cr q salt 2 32768 1 32 = argon2_IDKey cr p salt 2 32768 1 32)"
  by (rule verifyPassword_hash[OF assms])

end
