(* ===== verification/Storage.thy ===== *)
theory Storage
  imports Secrets Config Sanitize "HOL-Library.Product_Lexorder"
begin

text \<open>
  The SQLite store (\<open>internal/storage/storage.go\<close>): its tables as a record, \<open>Load\<close> and every
  operation that writes. A section's JSON text is represented by the record it encodes. The cipher,
  the parsers of \<open>net\<close> and the file system are arguments, as are nonces and salts. A \<open>fault\<close> says
  where the database fails, if it does: before the commit, or when the snapshot is read back after it.
\<close>

section \<open>Results\<close>

definition and_then :: "'e + 'a \<Rightarrow> ('a \<Rightarrow> 'e + 'b) \<Rightarrow> 'e + 'b" where
  "and_then r f = (case r of Inl e \<Rightarrow> Inl e | Inr x \<Rightarrow> f x)"

definition check :: "'e option \<Rightarrow> 'e + unit" where
  "check e = (case e of None \<Rightarrow> Inr () | Some e \<Rightarrow> Inl e)"

lemma and_then_simps [simp]: "and_then (Inl e) f = Inl e" "and_then (Inr x) f = f x"
  by (simp_all add: and_then_def)

lemma and_then_Inr: "and_then r f = Inr y \<longleftrightarrow> (\<exists>x. r = Inr x \<and> f x = Inr y)"
  by (cases r) simp_all

lemma check_Inr [simp]: "check e = Inr u \<longleftrightarrow> e = None"
  by (cases e) (simp_all add: check_def)

lemma check_None [simp]: "check None = Inr ()"
  by (simp add: check_def)

section \<open>Tables\<close>

record persistedCodex =
  pc_Binary :: "text"
  pc_PromptsFile :: "text"
  pc_Prompts :: "text list option"
  pc_RequestTimeoutSecond :: int
  pc_RetryMinSecond :: int
  pc_RetryMaxSecond :: int
  pc_KeepaliveMinSecond :: int
  pc_KeepaliveMaxSecond :: int
  pc_MaxParallel :: int
  pc_SuccessMessage :: "text"
  pc_ReasoningEffort :: "text"
  pc_ConfigOverrides :: "text list"

record persistedOpenILink =
  po_Enabled :: bool
  po_BaseURL :: "text"
  po_AllowedUserIDs :: "text list"
  po_HTTPTimeoutSecond :: int

record persistedTelegram =
  pt_Enabled :: bool
  pt_BaseURL :: "text"
  pt_AllowedUserIDs :: "text list"
  pt_HTTPTimeoutSecond :: int
  pt_PollTimeoutSecond :: int

record persistedWeb =
  pw_ListenAddress :: "text"
  pw_CookieSecure :: bool
  pw_TrustedProxies :: "text list"
  pw_ActivityLimit :: int

record 'a section_row =
  sec_revision :: int
  sec_data :: 'a
  sec_secret :: "nat list option"

record target_row =
  r_id :: int
  r_sort_order :: int
  r_revision :: int
  r_name :: "text"
  r_api_base_url :: "text"
  r_api_key :: "nat list"
  r_model :: "text"
  r_wire_api :: "text"
  r_config_overrides :: "text list"

record db =
  db_codex :: "persistedCodex section_row"
  db_openilink :: "persistedOpenILink section_row"
  db_telegram :: "persistedTelegram section_row"
  db_web :: "persistedWeb section_row"
  db_targets :: "target_row list"
  db_sequence :: int
  db_config_revision :: int
  db_loaded_startup_revision :: int
  db_suggested_username :: "text"
  db_master_key_check :: "nat list option"
  db_administrator :: "(text \<times> text) option"

record snapshot =
  sp_Config :: config
  sp_Revision :: int
  sp_SectionRevisions :: "text \<rightharpoonup> int"
  sp_LoadedStartupRevision :: int
  sp_SetupRequired :: bool
  sp_SuggestedUsername :: "text"

datatype storage_error =
    StoreInvalid config_error
  | UsernameRequired
  | PasswordTooShort
  | ErrAlreadySetup
  | ErrNotFound
  | ErrConflict
  | ErrWrongMasterKey
  | DecryptFailed
  | MetadataMissing
  | PasswordHashInvalid hash_error
  | DatabaseFailed

datatype fault = NoFault | FaultBeforeCommit | FaultAfterCommit

section \<open>Persisted forms\<close>

definition toPersistedCodex :: "codex_config \<Rightarrow> persistedCodex" where
  "toPersistedCodex v = \<lparr>pc_Binary = cx_Binary v, pc_PromptsFile = cx_PromptsFile v,
     pc_Prompts = Some (cx_Prompts v), pc_RequestTimeoutSecond = cx_RequestTimeoutSecond v,
     pc_RetryMinSecond = cx_RetryMinSecond v, pc_RetryMaxSecond = cx_RetryMaxSecond v,
     pc_KeepaliveMinSecond = cx_KeepaliveMinSecond v,
     pc_KeepaliveMaxSecond = cx_KeepaliveMaxSecond v, pc_MaxParallel = cx_MaxParallel v,
     pc_SuccessMessage = cx_SuccessMessage v, pc_ReasoningEffort = cx_ReasoningEffort v,
     pc_ConfigOverrides = cx_ConfigOverrides v\<rparr>"

definition fromPersistedCodex :: "persistedCodex \<Rightarrow> codex_config" where
  "fromPersistedCodex p = \<lparr>cx_Binary = pc_Binary p, cx_PromptsFile = pc_PromptsFile p,
     cx_Prompts = (case pc_Prompts p of None \<Rightarrow> [] | Some ps \<Rightarrow> ps),
     cx_PromptsPersisted = (pc_Prompts p \<noteq> None),
     cx_RequestTimeoutSecond = pc_RequestTimeoutSecond p,
     cx_RetryMinSecond = pc_RetryMinSecond p, cx_RetryMaxSecond = pc_RetryMaxSecond p,
     cx_KeepaliveMinSecond = pc_KeepaliveMinSecond p,
     cx_KeepaliveMaxSecond = pc_KeepaliveMaxSecond p, cx_MaxParallel = pc_MaxParallel p,
     cx_SuccessMessage = pc_SuccessMessage p, cx_ReasoningEffort = pc_ReasoningEffort p,
     cx_ConfigOverrides = pc_ConfigOverrides p, cx_Targets = []\<rparr>"

definition toPersistedOpenILink :: "openilink_config \<Rightarrow> persistedOpenILink" where
  "toPersistedOpenILink v = \<lparr>po_Enabled = oi_Enabled v, po_BaseURL = oi_BaseURL v,
     po_AllowedUserIDs = oi_AllowedUserIDs v, po_HTTPTimeoutSecond = oi_HTTPTimeoutSecond v\<rparr>"

definition fromPersistedOpenILink :: "persistedOpenILink \<Rightarrow> openilink_config" where
  "fromPersistedOpenILink p = \<lparr>oi_Enabled = po_Enabled p, oi_BaseURL = po_BaseURL p,
     oi_Token = [], oi_TokenEnv = [], oi_AllowedUserIDs = po_AllowedUserIDs p,
     oi_HTTPTimeoutSecond = po_HTTPTimeoutSecond p, oi_enabledSet = False\<rparr>"

definition toPersistedTelegram :: "telegram_config \<Rightarrow> persistedTelegram" where
  "toPersistedTelegram v = \<lparr>pt_Enabled = tg_Enabled v, pt_BaseURL = tg_BaseURL v,
     pt_AllowedUserIDs = tg_AllowedUserIDs v, pt_HTTPTimeoutSecond = tg_HTTPTimeoutSecond v,
     pt_PollTimeoutSecond = tg_PollTimeoutSecond v\<rparr>"

definition fromPersistedTelegram :: "persistedTelegram \<Rightarrow> telegram_config" where
  "fromPersistedTelegram p = \<lparr>tg_Enabled = pt_Enabled p, tg_BaseURL = pt_BaseURL p,
     tg_Token = [], tg_TokenEnv = [], tg_AllowedUserIDs = pt_AllowedUserIDs p,
     tg_HTTPTimeoutSecond = pt_HTTPTimeoutSecond p,
     tg_PollTimeoutSecond = pt_PollTimeoutSecond p, tg_enabledSet = False\<rparr>"

definition toPersistedWeb :: "web_config \<Rightarrow> persistedWeb" where
  "toPersistedWeb v = \<lparr>pw_ListenAddress = wb_ListenAddress v, pw_CookieSecure = wb_CookieSecure v,
     pw_TrustedProxies = wb_TrustedProxies v, pw_ActivityLimit = wb_ActivityLimit v\<rparr>"

definition fromPersistedWeb :: "persistedWeb \<Rightarrow> web_config" where
  "fromPersistedWeb p = \<lparr>wb_ListenAddress = pw_ListenAddress p, wb_AdminUsername = [],
     wb_AdminPasswordEnv = [], wb_CookieSecure = pw_CookieSecure p,
     wb_TrustedProxies = pw_TrustedProxies p, wb_ActivityLimit = pw_ActivityLimit p,
     wb_cookieSecureSet = False\<rparr>"

section \<open>The prompt file\<close>

text \<open>
  \<open>bufio.Scanner\<close> over the file: lines without their line feed and one carriage return; a line that
  does not fit the buffer of 64 KiB is an error.
\<close>

definition trim_cr :: "text \<Rightarrow> text" where
  "trim_cr l = (if l \<noteq> [] \<and> last l = 13 then butlast l else l)"

definition scan_lines :: "text \<Rightarrow> text list option" where
  "scan_lines content =
     (let ls = split_on 10 content; ls = (if last ls = [] then butlast ls else ls) in
      if list_ex (\<lambda>l. 65536 \<le> length (concat (map utf8 l))) ls then None else Some (map trim_cr ls))"

definition usable_prompt :: "text \<Rightarrow> bool" where
  "usable_prompt line \<longleftrightarrow>
     (let trimmed = strings_TrimSpace line in trimmed \<noteq> [] \<and> hd trimmed \<noteq> 35)"

definition readPromptFile :: "(text \<Rightarrow> text option) \<Rightarrow> text \<Rightarrow> text list option" where
  "readPromptFile files path =
     (case files (strings_TrimSpace path) of
        None \<Rightarrow> None
      | Some content \<Rightarrow> (case scan_lines content of
          None \<Rightarrow> None
        | Some ls \<Rightarrow>
            let prompts = filter usable_prompt (map trim_cr ls) in
            if prompts = [] then None else Some prompts))"

section \<open>Reading\<close>

definition openilinkAAD :: "text" where "openilinkAAD = asc ''openilink:token''"
definition telegramAAD :: "text" where "telegramAAD = asc ''telegram:token''"

definition read_secret :: "crypto \<Rightarrow> nat list option \<Rightarrow> text \<Rightarrow> storage_error + text" where
  "read_secret cr secret aad =
     (case secret of
        None \<Rightarrow> Inr []
      | Some [] \<Rightarrow> Inr []
      | Some (b # bs) \<Rightarrow> (case decrypt cr (b # bs) aad of None \<Rightarrow> Inl DecryptFailed | Some t \<Rightarrow> Inr t))"

definition target_of_row :: "crypto \<Rightarrow> target_row \<Rightarrow> storage_error + config_target" where
  "target_of_row cr r =
     (case decrypt cr (r_api_key r) (targetAPIKeyAAD (r_id r)) of
        None \<Rightarrow> Inl DecryptFailed
      | Some key \<Rightarrow> Inr \<lparr>t_ID = r_id r, t_SortOrder = r_sort_order r, t_Name = r_name r,
          t_APIBaseURL = r_api_base_url r, t_APIKey = key, t_APIKeyEnv = [], t_Model = r_model r,
          t_WireAPI = r_wire_api r, t_ConfigOverrides = r_config_overrides r\<rparr>)"

fun rows_targets :: "crypto \<Rightarrow> target_row list \<Rightarrow> storage_error + config_target list" where
  "rows_targets cr [] = Inr []"
| "rows_targets cr (r # rs) =
     and_then (target_of_row cr r) (\<lambda>t. and_then (rows_targets cr rs) (\<lambda>ts. Inr (t # ts)))"

text \<open>\<open>ORDER BY sort_order, id\<close>\<close>

definition ordered_rows :: "target_row list \<Rightarrow> target_row list" where
  "ordered_rows rs = sort_key (\<lambda>r. (r_sort_order r, r_id r)) rs"

definition stored_codex :: "(text \<Rightarrow> text option) \<Rightarrow> persistedCodex \<Rightarrow> codex_config" where
  "stored_codex files p =
     (let v = fromPersistedCodex p in
      case pc_Prompts p of
        Some _ \<Rightarrow> v
      | None \<Rightarrow> (case readPromptFile files (cx_PromptsFile v) of
          None \<Rightarrow> v | Some prompts \<Rightarrow> v\<lparr>cx_Prompts := prompts\<rparr>))"

definition stored_openilink :: "text \<Rightarrow> persistedOpenILink \<Rightarrow> openilink_config" where
  "stored_openilink token p =
     (oi_SetEnabledExplicit (po_Enabled p) (fromPersistedOpenILink p))\<lparr>oi_Token := token\<rparr>"

definition stored_telegram :: "text \<Rightarrow> persistedTelegram \<Rightarrow> telegram_config" where
  "stored_telegram token p =
     (tg_SetEnabledExplicit (pt_Enabled p) (fromPersistedTelegram p))\<lparr>tg_Token := token\<rparr>"

definition admin_username :: "db \<Rightarrow> text" where
  "admin_username d =
     (case db_administrator d of None \<Rightarrow> db_suggested_username d | Some (u, _) \<Rightarrow> u)"

definition loadFrom ::
  "crypto \<Rightarrow> go_net \<Rightarrow> (text \<Rightarrow> text option) \<Rightarrow> db \<Rightarrow> storage_error + snapshot" where
  "loadFrom cr net files d =
     and_then (read_secret cr (sec_secret (db_openilink d)) openilinkAAD) (\<lambda>openToken.
     and_then (read_secret cr (sec_secret (db_telegram d)) telegramAAD) (\<lambda>telegramToken.
     and_then (rows_targets cr (ordered_rows (db_targets d))) (\<lambda>targets.
     and_then (check (fail_if (db_suggested_username d = []) MetadataMissing)) (\<lambda>_.
       let cfg = \<lparr>c_OpenILink = stored_openilink openToken (sec_data (db_openilink d)),
             c_Telegram = stored_telegram telegramToken (sec_data (db_telegram d)),
             c_Codex = (stored_codex files (sec_data (db_codex d)))\<lparr>cx_Targets := targets\<rparr>,
             c_Web = (fromPersistedWeb (sec_data (db_web d)))\<lparr>wb_AdminUsername := admin_username d\<rparr>\<rparr> in
       case ValidateAllowEmptyTargets net cfg of
         Some e \<Rightarrow> Inl (StoreInvalid e)
       | None \<Rightarrow> Inr \<lparr>sp_Config = cfg, sp_Revision = db_config_revision d,
           sp_SectionRevisions = [asc ''codex'' \<mapsto> sec_revision (db_codex d),
             asc ''openilink'' \<mapsto> sec_revision (db_openilink d),
             asc ''telegram'' \<mapsto> sec_revision (db_telegram d),
             asc ''web'' \<mapsto> sec_revision (db_web d)],
           sp_LoadedStartupRevision = db_loaded_startup_revision d,
           sp_SetupRequired = (db_administrator d = None),
           sp_SuggestedUsername = db_suggested_username d\<rparr>))))"

section \<open>Writing\<close>

text \<open>
  The end of every operation: \<open>bumpRevisionTx\<close>, the commit and \<open>loadAfterCommit\<close>. Before the commit
  a failure rolls back.
\<close>

definition bumpRevisionTx :: "db \<Rightarrow> db" where
  "bumpRevisionTx d = d\<lparr>db_config_revision := wrap64 (db_config_revision d + 1)\<rparr>"

definition commit ::
  "crypto \<Rightarrow> go_net \<Rightarrow> (text \<Rightarrow> text option) \<Rightarrow> fault \<Rightarrow> db \<Rightarrow> db \<Rightarrow> (storage_error + snapshot) \<times> db" where
  "commit cr net files f d d' =
     (if f = FaultBeforeCommit then (Inl DatabaseFailed, d)
      else let d2 = bumpRevisionTx d' in
        (if f = FaultAfterCommit then Inl DatabaseFailed else loadFrom cr net files d2, d2))"

definition SetupAdmin ::
  "crypto \<Rightarrow> go_net \<Rightarrow> (text \<Rightarrow> text option) \<Rightarrow> fault \<Rightarrow> nat list \<Rightarrow> text \<Rightarrow> text \<Rightarrow> db \<Rightarrow>
   (storage_error + snapshot) \<times> db" where
  "SetupAdmin cr net files f salt username password d =
     (let username = strings_TrimSpace username in
      if username = [] then (Inl UsernameRequired, d)
      else if length password < MinimumAdminPasswordLength then (Inl PasswordTooShort, d)
      else if db_administrator d \<noteq> None then (Inl ErrAlreadySetup, d)
      else commit cr net files f d (d\<lparr>
        db_administrator := Some (username, hashPassword cr salt password),
        db_suggested_username := username\<rparr>))"

text \<open>
  \<open>VerifyAdmin\<close> returns the stored name and whether both the name and the password match; names are
  compared through their Argon2id keys.
\<close>

definition username_key :: "crypto \<Rightarrow> text \<Rightarrow> nat list" where
  "username_key cr u = argon2_IDKey cr u (asc ''codex-queue-username'') 1 8192 1 32"

definition VerifyAdmin :: "crypto \<Rightarrow> text \<Rightarrow> text \<Rightarrow> db \<Rightarrow> storage_error + (text \<times> bool)" where
  "VerifyAdmin cr username password d =
     (case db_administrator d of
        None \<Rightarrow> Inr ([], False)
      | Some (storedUsername, encoded) \<Rightarrow>
          (case verifyPassword cr password encoded of
             Inl e \<Rightarrow> Inl (PasswordHashInvalid e)
           | Inr passwordOK \<Rightarrow> Inr (storedUsername,
               username_key cr (strings_TrimSpace username) = username_key cr storedUsername \<and>
               passwordOK)))"

definition UpdateAccount ::
  "crypto \<Rightarrow> go_net \<Rightarrow> (text \<Rightarrow> text option) \<Rightarrow> fault \<Rightarrow> nat list \<Rightarrow> text \<Rightarrow> text \<Rightarrow> db \<Rightarrow>
   (storage_error + snapshot) \<times> db" where
  "UpdateAccount cr net files f salt username newPassword d =
     (let username = strings_TrimSpace username in
      if username = [] then (Inl UsernameRequired, d)
      else if newPassword \<noteq> [] \<and> length newPassword < MinimumAdminPasswordLength
      then (Inl PasswordTooShort, d)
      else case db_administrator d of
        None \<Rightarrow> (Inl ErrNotFound, d)
      | Some (_, currentHash) \<Rightarrow>
          let newHash = (if newPassword \<noteq> [] then hashPassword cr salt newPassword else currentHash) in
          commit cr net files f d (d\<lparr>db_administrator := Some (username, newHash),
            db_suggested_username := username\<rparr>))"

definition updateSection :: "('a section_row \<Rightarrow> 'a section_row)" where
  "updateSection s = s\<lparr>sec_revision := wrap64 (sec_revision s + 1)\<rparr>"

definition UpdateCodex ::
  "crypto \<Rightarrow> go_net \<Rightarrow> (text \<Rightarrow> text option) \<Rightarrow> fault \<Rightarrow> codex_config \<Rightarrow> db \<Rightarrow>
   (storage_error + snapshot) \<times> db" where
  "UpdateCodex cr net files f v d =
     (let v = v\<lparr>cx_Binary := strings_TrimSpace (cx_Binary v),
           cx_PromptsFile := strings_TrimSpace (cx_PromptsFile v),
           cx_SuccessMessage := strings_TrimSpace (cx_SuccessMessage v),
           cx_ReasoningEffort := strings_TrimSpace (cx_ReasoningEffort v),
           cx_ConfigOverrides := map strings_TrimSpace (cx_ConfigOverrides v),
           cx_Prompts := map strings_TrimSpace (cx_Prompts v),
           cx_PromptsPersisted := True, cx_Targets := []\<rparr> in
      case ValidateCodex net v of
        Some e \<Rightarrow> (Inl (StoreInvalid e), d)
      | None \<Rightarrow> commit cr net files f d
          (d\<lparr>db_codex := (updateSection (db_codex d))\<lparr>sec_data := toPersistedCodex v\<rparr>\<rparr>))"

definition UpdateWeb ::
  "crypto \<Rightarrow> go_net \<Rightarrow> (text \<Rightarrow> text option) \<Rightarrow> fault \<Rightarrow> web_config \<Rightarrow> db \<Rightarrow>
   (storage_error + snapshot) \<times> db" where
  "UpdateWeb cr net files f v d =
     (let v = v\<lparr>wb_ListenAddress := strings_TrimSpace (wb_ListenAddress v),
           wb_TrustedProxies := map strings_TrimSpace (wb_TrustedProxies v)\<rparr> in
      case ValidateWeb net v of
        Some e \<Rightarrow> (Inl (StoreInvalid e), d)
      | None \<Rightarrow> commit cr net files f d
          (d\<lparr>db_web := (updateSection (db_web d))\<lparr>sec_data := toPersistedWeb v\<rparr>\<rparr>))"

definition nullableBytes :: "nat list \<Rightarrow> nat list option" where
  "nullableBytes v = (if v = [] then None else Some v)"

definition seal_token :: "crypto \<Rightarrow> nat list \<Rightarrow> text \<Rightarrow> text \<Rightarrow> nat list option" where
  "seal_token cr nonce token aad =
     nullableBytes (if token \<noteq> [] then encrypt cr nonce token aad else [])"

definition UpdateOpenILink ::
  "crypto \<Rightarrow> go_net \<Rightarrow> (text \<Rightarrow> text option) \<Rightarrow> fault \<Rightarrow> nat list \<Rightarrow> openilink_config \<Rightarrow>
   text option \<Rightarrow> db \<Rightarrow> (storage_error + snapshot) \<times> db" where
  "UpdateOpenILink cr net files f nonce v token d =
     (let v = (oi_SetEnabledExplicit (oi_Enabled v) v)\<lparr>
           oi_BaseURL := trim_right_slash (strings_TrimSpace (oi_BaseURL v)),
           oi_AllowedUserIDs := map strings_TrimSpace (oi_AllowedUserIDs v)\<rparr> in
      case read_secret cr (sec_secret (db_openilink d)) openilinkAAD of
        Inl e \<Rightarrow> (Inl e, d)
      | Inr stored \<Rightarrow>
          let currentToken = (case token of
                None \<Rightarrow> stored
              | Some t \<Rightarrow> if strings_TrimSpace t \<noteq> [] \<or> t = [] then strings_TrimSpace t else stored);
              v = v\<lparr>oi_Token := currentToken, oi_TokenEnv := []\<rparr> in
          (case ValidateOpenILink net v of
             Some e \<Rightarrow> (Inl (StoreInvalid e), d)
           | None \<Rightarrow> commit cr net files f d
               (d\<lparr>db_openilink := (updateSection (db_openilink d))\<lparr>sec_data := toPersistedOpenILink v,
                  sec_secret := seal_token cr nonce currentToken openilinkAAD\<rparr>\<rparr>)))"

definition UpdateTelegram ::
  "crypto \<Rightarrow> go_net \<Rightarrow> (text \<Rightarrow> text option) \<Rightarrow> fault \<Rightarrow> nat list \<Rightarrow> telegram_config \<Rightarrow>
   text option \<Rightarrow> db \<Rightarrow> (storage_error + snapshot) \<times> db" where
  "UpdateTelegram cr net files f nonce v token d =
     (let v = (tg_SetEnabledExplicit (tg_Enabled v) v)\<lparr>
           tg_BaseURL := trim_right_slash (strings_TrimSpace (tg_BaseURL v)),
           tg_AllowedUserIDs := map strings_TrimSpace (tg_AllowedUserIDs v)\<rparr> in
      case read_secret cr (sec_secret (db_telegram d)) telegramAAD of
        Inl e \<Rightarrow> (Inl e, d)
      | Inr stored \<Rightarrow>
          let currentToken = (case token of None \<Rightarrow> stored | Some t \<Rightarrow> strings_TrimSpace t);
              v = v\<lparr>tg_Token := currentToken, tg_TokenEnv := []\<rparr> in
          (case ValidateTelegram net v of
             Some e \<Rightarrow> (Inl (StoreInvalid e), d)
           | None \<Rightarrow> commit cr net files f d
               (d\<lparr>db_telegram := (updateSection (db_telegram d))\<lparr>sec_data := toPersistedTelegram v,
                  sec_secret := seal_token cr nonce currentToken telegramAAD\<rparr>\<rparr>)))"

text \<open>\<open>COLLATE NOCASE\<close> folds the ASCII letters only.\<close>

definition nocase :: "text \<Rightarrow> text" where
  "nocase t = map (\<lambda>c. if 65 \<le> c \<and> c \<le> 90 then c + 32 else c) t"

definition row_of_target :: "crypto \<Rightarrow> nat list \<Rightarrow> int \<Rightarrow> int \<Rightarrow> config_target \<Rightarrow> target_row" where
  "row_of_target cr nonce i revision t =
     \<lparr>r_id = i, r_sort_order = t_SortOrder t, r_revision = revision, r_name = t_Name t,
      r_api_base_url = t_APIBaseURL t,
      r_api_key = encrypt cr nonce (t_APIKey t) (targetAPIKeyAAD i), r_model = t_Model t,
      r_wire_api = t_WireAPI t, r_config_overrides = t_ConfigOverrides t\<rparr>"

definition insertTargetTx ::
  "crypto \<Rightarrow> nat list \<Rightarrow> config_target \<Rightarrow> db \<Rightarrow> storage_error + (config_target \<times> db)" where
  "insertTargetTx cr nonce t d =
     (if nocase (t_Name t) \<in> set (map (nocase \<circ> r_name) (db_targets d)) then Inl ErrConflict
      else let i = db_sequence d + 1 in
        Inr (t\<lparr>t_ID := i\<rparr>, d\<lparr>db_targets := db_targets d @ [row_of_target cr nonce i 1 t],
          db_sequence := i\<rparr>))"

definition max_sort_order :: "target_row list \<Rightarrow> int option" where
  "max_sort_order rs = (if rs = [] then None else Some (Max (r_sort_order ` set rs)))"

definition CreateTarget ::
  "crypto \<Rightarrow> go_net \<Rightarrow> (text \<Rightarrow> text option) \<Rightarrow> fault \<Rightarrow> nat list \<Rightarrow> config_target \<Rightarrow> db \<Rightarrow>
   (storage_error + snapshot \<times> config_target) \<times> db" where
  "CreateTarget cr net files f nonce t d =
     (let t = NormalizeTarget t;
          t = (if t_SortOrder t < 0 then t\<lparr>t_SortOrder := (case max_sort_order (db_targets d) of
                 Some m \<Rightarrow> wrap64 (m + 1) | None \<Rightarrow> 0)\<rparr> else t) in
      case ValidateTarget net t of
        Some e \<Rightarrow> (Inl (StoreInvalid e), d)
      | None \<Rightarrow> (case insertTargetTx cr nonce t d of
          Inl e \<Rightarrow> (Inl e, d)
        | Inr (created, d1) \<Rightarrow>
            map_prod (map_sum id (\<lambda>s. (s, created))) id (commit cr net files f d d1)))"

definition UpdateTarget ::
  "crypto \<Rightarrow> go_net \<Rightarrow> (text \<Rightarrow> text option) \<Rightarrow> fault \<Rightarrow> nat list \<Rightarrow> int \<Rightarrow> config_target \<Rightarrow>
   text option \<Rightarrow> db \<Rightarrow> (storage_error + snapshot \<times> config_target) \<times> db" where
  "UpdateTarget cr net files f nonce i t apiKey d =
     (case find (\<lambda>r. r_id r = i) (db_targets d) of
        None \<Rightarrow> (Inl ErrNotFound, d)
      | Some row \<Rightarrow> (case decrypt cr (r_api_key row) (targetAPIKeyAAD i) of
          None \<Rightarrow> (Inl DecryptFailed, d)
        | Some plain \<Rightarrow>
            let t = (NormalizeTarget t)\<lparr>t_ID := i\<rparr>;
                t = (if t_SortOrder t < 0 then t\<lparr>t_SortOrder := r_sort_order row\<rparr> else t);
                t = t\<lparr>t_APIKey := (case apiKey of
                      Some k \<Rightarrow> if strings_TrimSpace k \<noteq> [] then strings_TrimSpace k else plain
                    | None \<Rightarrow> plain)\<rparr> in
            (case ValidateTarget net t of
               Some e \<Rightarrow> (Inl (StoreInvalid e), d)
             | None \<Rightarrow>
                 if nocase (t_Name t) \<in>
                    set (map (nocase \<circ> r_name) (filter (\<lambda>r. r_id r \<noteq> i) (db_targets d)))
                 then (Inl ErrConflict, d)
                 else map_prod (map_sum id (\<lambda>s. (s, t))) id (commit cr net files f d
                   (d\<lparr>db_targets := map (\<lambda>r. if r_id r = i
                      then row_of_target cr nonce i (wrap64 (r_revision r + 1)) t else r)
                      (db_targets d)\<rparr>)))))"

definition DeleteTarget ::
  "crypto \<Rightarrow> go_net \<Rightarrow> (text \<Rightarrow> text option) \<Rightarrow> fault \<Rightarrow> int \<Rightarrow> db \<Rightarrow>
   (storage_error + snapshot) \<times> db" where
  "DeleteTarget cr net files f i d =
     (if \<not> list_ex (\<lambda>r. r_id r = i) (db_targets d) then (Inl ErrNotFound, d)
      else commit cr net files f d
        (d\<lparr>db_targets := filter (\<lambda>r. r_id r \<noteq> i) (db_targets d)\<rparr>))"

definition MarkStartupLoaded :: "int \<Rightarrow> db \<Rightarrow> db" where
  "MarkStartupLoaded revision d = d\<lparr>db_loaded_startup_revision := revision\<rparr>"

section \<open>The master key\<close>

definition masterKeyCheckPlaintext :: "text" where
  "masterKeyCheckPlaintext = asc ''codex-queue-bot-master-key-check-v1''"
definition masterKeyCheckAAD :: "text" where
  "masterKeyCheckAAD = asc ''meta:master_key_check''"

definition verifyMasterKey :: "crypto \<Rightarrow> db \<Rightarrow> storage_error + bool" where
  "verifyMasterKey cr d =
     (case db_master_key_check d of
        None \<Rightarrow> Inr False
      | Some encrypted \<Rightarrow>
          if decrypt cr encrypted masterKeyCheckAAD = Some masterKeyCheckPlaintext
          then Inr True else Inl ErrWrongMasterKey)"

definition ensureMasterKey :: "crypto \<Rightarrow> nat list \<Rightarrow> db \<Rightarrow> storage_error + db" where
  "ensureMasterKey cr nonce d =
     and_then (verifyMasterKey cr d) (\<lambda>present.
       if present then Inr d
       else Inr (d\<lparr>db_master_key_check :=
         Some (encrypt cr nonce masterKeyCheckPlaintext masterKeyCheckAAD)\<rparr>))"

text \<open>\<open>initialize\<close>, as \<open>Open\<close> calls it for a fresh database: with the default configuration.\<close>

definition initialize :: "crypto \<Rightarrow> nat list \<Rightarrow> db" where
  "initialize cr nonce =
     (let cfg = DefaultDatabaseConfig in
      \<lparr>db_codex = \<lparr>sec_revision = 1,
         sec_data = (toPersistedCodex (c_Codex cfg))\<lparr>pc_Prompts := None\<rparr>, sec_secret = None\<rparr>,
       db_openilink = \<lparr>sec_revision = 1, sec_data = toPersistedOpenILink (c_OpenILink cfg),
         sec_secret = None\<rparr>,
       db_telegram = \<lparr>sec_revision = 1, sec_data = toPersistedTelegram (c_Telegram cfg),
         sec_secret = None\<rparr>,
       db_web = \<lparr>sec_revision = 1, sec_data = toPersistedWeb (c_Web cfg), sec_secret = None\<rparr>,
       db_targets = [], db_sequence = 0, db_config_revision = 1, db_loaded_startup_revision = 0,
       db_suggested_username = wb_AdminUsername (c_Web cfg),
       db_master_key_check = Some (encrypt cr nonce masterKeyCheckPlaintext masterKeyCheckAAD),
       db_administrator = None\<rparr>)"

end
