(* ===== verification/Storage_Props.thy ===== *)
theory Storage_Props
  imports Storage Systems "HOL-Library.Multiset"
begin

text \<open>
  What the store guarantees: a stored configuration can always be loaded again, whatever sequence of
  updates, successful or failing, has been applied to it, and failing updates leave no trace.
\<close>

section \<open>Validation, section by section\<close>

definition openilink_ok :: "go_net \<Rightarrow> openilink_config \<Rightarrow> bool" where
  "openilink_ok net oi \<longleftrightarrow>
     (if IsOpenILinkEnabled oi
      then validateHTTPURL net (asc ''openilink.base_url'') (oi_BaseURL oi) = None \<and>
        strings_TrimSpace (oi_Token oi) \<noteq> [] \<and> 0 < oi_HTTPTimeoutSecond oi
      else True)"

definition telegram_ok :: "go_net \<Rightarrow> telegram_config \<Rightarrow> bool" where
  "telegram_ok net tg \<longleftrightarrow>
     (if IsTelegramEnabled tg
      then validateHTTPURL net (asc ''telegram.base_url'') (tg_BaseURL tg) = None \<and>
        strings_TrimSpace (tg_Token tg) \<noteq> [] \<and> 0 < tg_HTTPTimeoutSecond tg \<and>
        0 < tg_PollTimeoutSecond tg \<and> tg_PollTimeoutSecond tg < tg_HTTPTimeoutSecond tg
      else True)"

definition codex_ok :: "codex_config \<Rightarrow> bool" where
  "codex_ok cx \<longleftrightarrow>
     strings_TrimSpace (cx_Binary cx) \<noteq> [] \<and> valid_timing cx \<and>
     validateOverrides (asc ''codex.config_overrides'') (cx_ConfigOverrides cx) = None"

definition fold_name :: "config_target \<Rightarrow> text" where
  "fold_name t = strings_ToLower (t_Name t)"

definition targets_ok :: "go_net \<Rightarrow> config_target list \<Rightarrow> bool" where
  "targets_ok net ts \<longleftrightarrow> list_all (valid_target net) ts \<and> distinct (map fold_name ts)"

lemma validate_sections:
  "ValidateAllowEmptyTargets net c = None \<longleftrightarrow>
     openilink_ok net (c_OpenILink c) \<and> telegram_ok net (c_Telegram c) \<and> codex_ok (c_Codex c) \<and>
     0 \<le> wb_ActivityLimit (c_Web c) \<and> targets_ok net (cx_Targets (c_Codex c))"
  unfolding ValidateAllowEmptyTargets_def validate_def Let_def openilink_ok_def telegram_ok_def
    codex_ok_def targets_ok_def valid_timing_def minimumRetryIntervalSec_def fold_name_def[abs_def]
  by (auto simp: validateTargets_None simp del: asc_Cons)

lemma codex_ok_targets [simp]: "codex_ok (cx\<lparr>cx_Targets := ts\<rparr>) = codex_ok cx"
  and codex_ok_prompts [simp]: "codex_ok (cx\<lparr>cx_Prompts := ps\<rparr>) = codex_ok cx"
  by (simp_all add: codex_ok_def valid_timing_def)

lemma default_sections:
  "IsOpenILinkEnabled (c_OpenILink DefaultDatabaseConfig) = False"
  "IsTelegramEnabled (c_Telegram DefaultDatabaseConfig) = False"
  "cx_Targets (c_Codex DefaultDatabaseConfig) = []"
  "0 \<le> wb_ActivityLimit (c_Web DefaultDatabaseConfig)"
  by (simp_all add: DefaultDatabaseConfig_def IsOpenILinkEnabled_def IsTelegramEnabled_def
      defaultWebActivityLimit_def)

lemma default_codex_ok: "codex_ok (c_Codex DefaultDatabaseConfig)"
  by (simp add: codex_ok_def valid_timing_def DefaultDatabaseConfig_def config_constants
      validateOverrides_def strings_TrimSpace_def unicode_IsSpace_def trim_by_def trim_left_by_def
      trim_right_by_def)

lemma default_ok:
  "openilink_ok net (c_OpenILink DefaultDatabaseConfig)"
  "telegram_ok net (c_Telegram DefaultDatabaseConfig)"
  by (simp_all add: openilink_ok_def telegram_ok_def default_sections)

lemma ValidateCodex_ok: "ValidateCodex net cx = None \<Longrightarrow> codex_ok cx"
  by (simp add: ValidateCodex_def validate_sections)

lemma ValidateWeb_ok: "ValidateWeb net w = None \<Longrightarrow> 0 \<le> wb_ActivityLimit w"
  by (simp add: ValidateWeb_def validate_sections)

lemma ValidateOpenILink_ok:
  assumes "ValidateOpenILink net oi = None" "oi_enabledSet oi"
  shows "openilink_ok net oi"
proof -
  have "oi\<lparr>oi_enabledSet := True\<rparr> = oi" using assms(2) by (cases oi) simp
  then show ?thesis using assms(1) by (simp add: ValidateOpenILink_def validate_sections)
qed

lemma ValidateTelegram_ok:
  assumes "ValidateTelegram net tg = None" "tg_enabledSet tg"
  shows "telegram_ok net tg"
proof -
  have "tg\<lparr>tg_enabledSet := True\<rparr> = tg" using assms(2) by (cases tg) simp
  then show ?thesis using assms(1) by (simp add: ValidateTelegram_def validate_sections)
qed

lemma ValidateTarget_ok: "ValidateTarget net t = None \<longleftrightarrow> 0 \<le> t_SortOrder t \<and> valid_target net t"
  by (auto simp: ValidateTarget_def validate_sections targets_ok_def default_sections default_ok
      default_codex_ok)

section \<open>Rows\<close>

definition row_target :: "crypto \<Rightarrow> target_row \<Rightarrow> config_target" where
  "row_target cr r =
     \<lparr>t_ID = r_id r, t_SortOrder = r_sort_order r, t_Name = r_name r,
      t_APIBaseURL = r_api_base_url r,
      t_APIKey = the (decrypt cr (r_api_key r) (targetAPIKeyAAD (r_id r))), t_APIKeyEnv = [],
      t_Model = r_model r, t_WireAPI = r_wire_api r, t_ConfigOverrides = r_config_overrides r\<rparr>"

definition row_readable :: "crypto \<Rightarrow> target_row \<Rightarrow> bool" where
  "row_readable cr r \<longleftrightarrow> decrypt cr (r_api_key r) (targetAPIKeyAAD (r_id r)) \<noteq> None"

lemma target_of_row_Inr:
  "target_of_row cr r = (if row_readable cr r then Inr (row_target cr r) else Inl DecryptFailed)"
  by (cases "decrypt cr (r_api_key r) (targetAPIKeyAAD (r_id r))")
    (simp_all add: target_of_row_def row_readable_def row_target_def)

lemma rows_targets_Inr:
  "rows_targets cr rs = Inr ts \<longleftrightarrow> list_all (row_readable cr) rs \<and> ts = map (row_target cr) rs"
  by (induction rs arbitrary: ts) (auto simp: target_of_row_Inr and_then_Inr)

lemma fold_name_row [simp]: "fold_name (row_target cr r) = strings_ToLower (r_name r)"
  by (simp add: fold_name_def row_target_def)

definition row_ok :: "crypto \<Rightarrow> go_net \<Rightarrow> target_row \<Rightarrow> bool" where
  "row_ok cr net r \<longleftrightarrow> row_readable cr r \<and> valid_target net (row_target cr r)"

lemma ordered_rows_perm [simp]: "mset (ordered_rows rs) = mset rs" "set (ordered_rows rs) = set rs"
  by (simp_all add: ordered_rows_def)

lemma distinct_ordered: "distinct (map f (ordered_rows rs)) \<longleftrightarrow> distinct (map f rs)"
  by (rule mset_eq_imp_distinct_iff) simp

lemma row_of_target_ok:
  assumes "gcm_sound cr" "length nonce = nonceSize" "valid_target net t"
  shows "row_ok cr net (row_of_target cr nonce i n t)"
  using decrypt_encrypt[OF assms(1,2)] assms(3)
  by (simp add: row_ok_def row_readable_def row_target_def row_of_target_def valid_target_def)

section \<open>Stored states that load\<close>

definition store_ok :: "crypto \<Rightarrow> go_net \<Rightarrow> db \<Rightarrow> bool" where
  "store_ok cr net d \<longleftrightarrow>
     (\<exists>tok. read_secret cr (sec_secret (db_openilink d)) openilinkAAD = Inr tok \<and>
        openilink_ok net (stored_openilink tok (sec_data (db_openilink d)))) \<and>
     (\<exists>tok. read_secret cr (sec_secret (db_telegram d)) telegramAAD = Inr tok \<and>
        telegram_ok net (stored_telegram tok (sec_data (db_telegram d)))) \<and>
     codex_ok (fromPersistedCodex (sec_data (db_codex d))) \<and>
     0 \<le> pw_ActivityLimit (sec_data (db_web d)) \<and>
     list_all (row_ok cr net) (db_targets d) \<and>
     distinct (map (strings_ToLower \<circ> r_name) (db_targets d)) \<and>
     db_suggested_username d \<noteq> []"

lemma codex_ok_stored [simp]: "codex_ok (stored_codex files p) = codex_ok (fromPersistedCodex p)"
  by (simp add: stored_codex_def Let_def split: option.split)

lemma rows_targets_ok:
  "(\<exists>ts. rows_targets cr (ordered_rows rs) = Inr ts \<and> targets_ok net ts) \<longleftrightarrow>
     list_all (row_ok cr net) rs \<and> distinct (map (strings_ToLower \<circ> r_name) rs)"
  using distinct_ordered[of "strings_ToLower \<circ> r_name" rs]
  by (auto simp: rows_targets_Inr targets_ok_def list_all_iff comp_def row_ok_def)

lemma load_iff: "(\<exists>s. loadFrom cr net files d = Inr s) \<longleftrightarrow> store_ok cr net d"
proof (cases "rows_targets cr (ordered_rows (db_targets d))")
  case (Inl e)
  then have "\<not> (list_all (row_ok cr net) (db_targets d) \<and>
      distinct (map (strings_ToLower \<circ> r_name) (db_targets d)))"
    unfolding rows_targets_ok[symmetric] by simp
  then show ?thesis
    using Inl by (auto simp: loadFrom_def store_ok_def and_then_Inr)
next
  case (Inr ts)
  then have ts: "targets_ok net ts \<longleftrightarrow> list_all (row_ok cr net) (db_targets d) \<and>
      distinct (map (strings_ToLower \<circ> r_name) (db_targets d))"
    unfolding rows_targets_ok[symmetric] by simp
  show ?thesis
    unfolding loadFrom_def store_ok_def and_then_Inr Inr Let_def
    by (auto simp: validate_sections ts fromPersistedWeb_def split: option.splits simp del: asc_Cons)
qed

section \<open>Operations\<close>

datatype store_op =
    OpSetupAdmin "nat list" "text" "text"
  | OpUpdateAccount "nat list" "text" "text"
  | OpUpdateCodex codex_config
  | OpUpdateWeb web_config
  | OpUpdateOpenILink "nat list" openilink_config "text option"
  | OpUpdateTelegram "nat list" telegram_config "text option"
  | OpCreateTarget "nat list" config_target
  | OpUpdateTarget "nat list" int config_target "text option"
  | OpDeleteTarget int

definition run_op ::
  "crypto \<Rightarrow> go_net \<Rightarrow> (text \<Rightarrow> text option) \<Rightarrow> fault \<Rightarrow> store_op \<Rightarrow> db \<Rightarrow>
   (storage_error + snapshot) \<times> db" where
  "run_op cr net files f op d =
     (case op of
        OpSetupAdmin salt u p \<Rightarrow> SetupAdmin cr net files f salt u p d
      | OpUpdateAccount salt u p \<Rightarrow> UpdateAccount cr net files f salt u p d
      | OpUpdateCodex v \<Rightarrow> UpdateCodex cr net files f v d
      | OpUpdateWeb v \<Rightarrow> UpdateWeb cr net files f v d
      | OpUpdateOpenILink nonce v token \<Rightarrow> UpdateOpenILink cr net files f nonce v token d
      | OpUpdateTelegram nonce v token \<Rightarrow> UpdateTelegram cr net files f nonce v token d
      | OpCreateTarget nonce t \<Rightarrow>
          map_prod (map_sum id fst) id (CreateTarget cr net files f nonce t d)
      | OpUpdateTarget nonce i t k \<Rightarrow>
          map_prod (map_sum id fst) id (UpdateTarget cr net files f nonce i t k d)
      | OpDeleteTarget i \<Rightarrow> DeleteTarget cr net files f i d)"

text \<open>
  What the callers ensure: nonces have the size of the cipher, and the job manager has refused a
  name that another target already has up to case (\<open>normalizeName\<close>) before it calls the store.
\<close>

definition name_free :: "db \<Rightarrow> (target_row \<Rightarrow> bool) \<Rightarrow> config_target \<Rightarrow> bool" where
  "name_free d other t \<longleftrightarrow>
     strings_ToLower (strings_TrimSpace (t_Name t)) \<notin>
       set (map (strings_ToLower \<circ> r_name) (filter other (db_targets d)))"

definition op_admitted :: "store_op \<Rightarrow> db \<Rightarrow> bool" where
  "op_admitted op d =
     (case op of
        OpUpdateOpenILink nonce v token \<Rightarrow> length nonce = nonceSize
      | OpUpdateTelegram nonce v token \<Rightarrow> length nonce = nonceSize
      | OpCreateTarget nonce t \<Rightarrow> length nonce = nonceSize \<and> name_free d (\<lambda>r. True) t
      | OpUpdateTarget nonce i t k \<Rightarrow> length nonce = nonceSize \<and> name_free d (\<lambda>r. r_id r \<noteq> i) t
      | _ \<Rightarrow> True)"

lemma store_ok_bump [simp]: "store_ok cr net (bumpRevisionTx d) = store_ok cr net d"
  by (simp add: store_ok_def bumpRevisionTx_def)

lemma commit_ok:
  "store_ok cr net d \<Longrightarrow> store_ok cr net d' \<Longrightarrow> store_ok cr net (snd (commit cr net files f d d'))"
  by (simp add: commit_def Let_def)

lemma read_secret_seal:
  assumes "gcm_sound cr" "length nonce = nonceSize"
  shows "read_secret cr (seal_token cr nonce tok aad) aad = Inr tok"
proof (cases "tok = []")
  case True
  then show ?thesis by (simp add: seal_token_def nullableBytes_def read_secret_def)
next
  case False
  obtain b bs where e: "encrypt cr nonce tok aad = b # bs"
    using encrypt_nonempty[of cr nonce tok aad] by (cases "encrypt cr nonce tok aad") auto
  then have "decrypt cr (b # bs) aad = Some tok" using decrypt_encrypt[OF assms, of tok aad] by simp
  then show ?thesis using False e by (simp add: seal_token_def nullableBytes_def read_secret_def)
qed

lemma stored_openilink_to:
  "oi_enabledSet v \<Longrightarrow> oi_TokenEnv v = [] \<Longrightarrow>
   stored_openilink (oi_Token v) (toPersistedOpenILink v) = v"
  by (cases v) (simp add: stored_openilink_def toPersistedOpenILink_def fromPersistedOpenILink_def
      oi_SetEnabledExplicit_def)

lemma stored_telegram_to:
  "tg_enabledSet v \<Longrightarrow> tg_TokenEnv v = [] \<Longrightarrow>
   stored_telegram (tg_Token v) (toPersistedTelegram v) = v"
  by (cases v) (simp add: stored_telegram_def toPersistedTelegram_def fromPersistedTelegram_def
      tg_SetEnabledExplicit_def)

lemma fromPersistedCodex_to:
  "cx_PromptsPersisted v \<Longrightarrow> cx_Targets v = [] \<Longrightarrow> fromPersistedCodex (toPersistedCodex v) = v"
  by (cases v) (simp add: fromPersistedCodex_def toPersistedCodex_def)

lemma updateSection_fields [simp]:
  "sec_data (updateSection s) = sec_data s" "sec_secret (updateSection s) = sec_secret s"
  by (simp_all add: updateSection_def)

section \<open>Every operation keeps the store loadable\<close>

lemma store_ok_admin:
  "store_ok cr net d \<Longrightarrow> u \<noteq> [] \<Longrightarrow>
   store_ok cr net (d\<lparr>db_administrator := a, db_suggested_username := u\<rparr>)"
  by (simp add: store_ok_def)

lemma SetupAdmin_ok:
  "store_ok cr net d \<Longrightarrow> store_ok cr net (snd (SetupAdmin cr net files f salt u p d))"
  by (auto simp: SetupAdmin_def Let_def intro!: commit_ok store_ok_admin)

lemma UpdateAccount_ok:
  "store_ok cr net d \<Longrightarrow> store_ok cr net (snd (UpdateAccount cr net files f salt u p d))"
  by (auto simp: UpdateAccount_def Let_def intro!: commit_ok store_ok_admin
      split: option.split prod.split)

lemma UpdateCodex_ok:
  assumes "store_ok cr net d"
  shows "store_ok cr net (snd (UpdateCodex cr net files f v d))"
proof -
  have "store_ok cr net (d\<lparr>db_codex := (updateSection (db_codex d))\<lparr>sec_data := toPersistedCodex w\<rparr>\<rparr>)"
    if "ValidateCodex net w = None" "cx_PromptsPersisted w" "cx_Targets w = []" for w
    using assms ValidateCodex_ok[OF that(1)] fromPersistedCodex_to[OF that(2,3)]
    by (simp add: store_ok_def)
  then show ?thesis
    using assms by (auto simp: UpdateCodex_def Let_def intro!: commit_ok split: option.split)
qed

lemma UpdateWeb_ok:
  assumes "store_ok cr net d"
  shows "store_ok cr net (snd (UpdateWeb cr net files f v d))"
proof -
  have "store_ok cr net (d\<lparr>db_web := (updateSection (db_web d))\<lparr>sec_data := toPersistedWeb w\<rparr>\<rparr>)"
    if "ValidateWeb net w = None" for w
    using assms ValidateWeb_ok[OF that] by (simp add: store_ok_def toPersistedWeb_def)
  then show ?thesis
    using assms by (auto simp: UpdateWeb_def Let_def intro!: commit_ok split: option.split)
qed

lemma UpdateOpenILink_ok:
  assumes "store_ok cr net d" "gcm_sound cr" "length nonce = nonceSize"
  shows "store_ok cr net (snd (UpdateOpenILink cr net files f nonce v token d))"
proof -
  have "store_ok cr net (d\<lparr>db_openilink := (updateSection (db_openilink d))
      \<lparr>sec_data := toPersistedOpenILink w, sec_secret := seal_token cr nonce (oi_Token w) openilinkAAD\<rparr>\<rparr>)"
    if "ValidateOpenILink net w = None" "oi_enabledSet w" "oi_TokenEnv w = []" for w
    using assms(1) ValidateOpenILink_ok[OF that(1,2)] read_secret_seal[OF assms(2,3)]
      stored_openilink_to[OF that(2,3)]
    by (simp add: store_ok_def)
  from this[of "(oi_SetEnabledExplicit (oi_Enabled v) v)\<lparr>oi_BaseURL := b, oi_AllowedUserIDs := u,
      oi_Token := t, oi_TokenEnv := []\<rparr>" for b u t]
  show ?thesis
    using assms(1)
    by (auto simp: UpdateOpenILink_def Let_def oi_SetEnabledExplicit_def intro!: commit_ok
        split: option.split sum.split)
qed

lemma UpdateTelegram_ok:
  assumes "store_ok cr net d" "gcm_sound cr" "length nonce = nonceSize"
  shows "store_ok cr net (snd (UpdateTelegram cr net files f nonce v token d))"
proof -
  have "store_ok cr net (d\<lparr>db_telegram := (updateSection (db_telegram d))
      \<lparr>sec_data := toPersistedTelegram w, sec_secret := seal_token cr nonce (tg_Token w) telegramAAD\<rparr>\<rparr>)"
    if "ValidateTelegram net w = None" "tg_enabledSet w" "tg_TokenEnv w = []" for w
    using assms(1) ValidateTelegram_ok[OF that(1,2)] read_secret_seal[OF assms(2,3)]
      stored_telegram_to[OF that(2,3)]
    by (simp add: store_ok_def)
  from this[of "(tg_SetEnabledExplicit (tg_Enabled v) v)\<lparr>tg_BaseURL := b, tg_AllowedUserIDs := u,
      tg_Token := t, tg_TokenEnv := []\<rparr>" for b u t]
  show ?thesis
    using assms(1)
    by (auto simp: UpdateTelegram_def Let_def tg_SetEnabledExplicit_def intro!: commit_ok
        split: option.split sum.split)
qed

lemma NormalizeTarget_name [simp]: "t_Name (NormalizeTarget t) = strings_TrimSpace (t_Name t)"
  by (simp add: NormalizeTarget_def Let_def)

lemma CreateTarget_ok:
  assumes "store_ok cr net d" "gcm_sound cr" "length nonce = nonceSize" "name_free d (\<lambda>r. True) t"
  shows "store_ok cr net (snd (CreateTarget cr net files f nonce t d))"
proof -
  have "store_ok cr net (d\<lparr>db_targets := db_targets d @ [row_of_target cr nonce i 1 w], db_sequence := i\<rparr>)"
    if "ValidateTarget net w = None" "t_Name w = strings_TrimSpace (t_Name t)" for w i
    using assms(1,4) row_of_target_ok[OF assms(2,3), of net w i 1] that
    by (auto simp: store_ok_def ValidateTarget_ok name_free_def row_of_target_def)
  then show ?thesis
    using assms(1)
    by (auto simp: CreateTarget_def insertTargetTx_def Let_def intro!: commit_ok split: option.split)
qed

lemma distinct_map_replace:
  "distinct (map key rs) \<Longrightarrow> distinct (map name rs) \<Longrightarrow>
   new \<notin> set (map name (filter (\<lambda>r. key r \<noteq> i) rs)) \<Longrightarrow>
   distinct (map (\<lambda>r. if key r = i then new else name r) rs)"
  by (induction rs) (auto simp: image_iff split: if_splits)

lemma UpdateTarget_ok:
  assumes "store_ok cr net d" "gcm_sound cr" "length nonce = nonceSize"
    and "name_free d (\<lambda>r. r_id r \<noteq> i) t" "distinct (map r_id (db_targets d))"
  shows "store_ok cr net (snd (UpdateTarget cr net files f nonce i t k d))"
proof -
  have "store_ok cr net (d\<lparr>db_targets := map (\<lambda>r. if r_id r = i
      then row_of_target cr nonce i (wrap64 (r_revision r + 1)) w else r) (db_targets d)\<rparr>)"
    if w: "ValidateTarget net w = None" "t_Name w = strings_TrimSpace (t_Name t)" for w
  proof -
    let ?name = "strings_ToLower \<circ> r_name"
    have "distinct (map (\<lambda>r. if r_id r = i then strings_ToLower (t_Name w) else ?name r) (db_targets d))"
      using assms(1,4,5) w(2) by (intro distinct_map_replace) (simp_all add: store_ok_def name_free_def comp_def)
    moreover have "?name \<circ> (\<lambda>r. if r_id r = i
        then row_of_target cr nonce i (wrap64 (r_revision r + 1)) w else r) =
      (\<lambda>r. if r_id r = i then strings_ToLower (t_Name w) else ?name r)"
      by (auto simp: row_of_target_def)
    ultimately show ?thesis
      using assms(1) row_of_target_ok[OF assms(2,3), of net w i] w(1)
      by (simp add: store_ok_def ValidateTarget_ok list_all_iff) blast
  qed
  then show ?thesis
    using assms(1)
    by (auto simp: UpdateTarget_def Let_def intro!: commit_ok split: option.split)
qed

lemma DeleteTarget_ok:
  assumes "store_ok cr net d"
  shows "store_ok cr net (snd (DeleteTarget cr net files f i d))"
proof -
  have "store_ok cr net (d\<lparr>db_targets := filter (\<lambda>r. r_id r \<noteq> i) (db_targets d)\<rparr>)"
    using assms by (auto simp: store_ok_def list_all_iff distinct_map_filter)
  then show ?thesis using assms by (simp add: DeleteTarget_def commit_ok)
qed

section \<open>Histories of the store\<close>

definition ids_ok :: "db \<Rightarrow> bool" where
  "ids_ok d \<longleftrightarrow> distinct (map r_id (db_targets d)) \<and> (\<forall>r\<in>set (db_targets d). r_id r \<le> db_sequence d)"

definition store_inv :: "crypto \<Rightarrow> go_net \<Rightarrow> db \<Rightarrow> bool" where
  "store_inv cr net d \<longleftrightarrow> store_ok cr net d \<and> ids_ok d"

lemma commit_NoFault:
  "commit cr net files NoFault d d' =
     (loadFrom cr net files (bumpRevisionTx d'), bumpRevisionTx d')"
  by (simp add: commit_def Let_def)

lemma commit_cases:
  "snd (commit cr net files f d d') = d \<or> snd (commit cr net files f d d') = bumpRevisionTx d'"
  by (simp add: commit_def Let_def)

lemma ids_ok_bump [simp]: "ids_ok (bumpRevisionTx d) = ids_ok d"
  by (simp add: ids_ok_def bumpRevisionTx_def)

lemma commit_ids: "ids_ok d \<Longrightarrow> ids_ok d' \<Longrightarrow> ids_ok (snd (commit cr net files f d d'))"
  using commit_cases[of cr net files f d d'] by auto

lemma ids_ok_cong:
  "db_targets d' = db_targets d \<Longrightarrow> db_sequence d' = db_sequence d \<Longrightarrow> ids_ok d' = ids_ok d"
  by (simp add: ids_ok_def)

lemma map_r_id_update:
  "map r_id (map (\<lambda>r. if r_id r = i then row_of_target cr nonce i (n r) t else r) rs) = map r_id rs"
  by (simp add: row_of_target_def)

lemma ids_update:
  assumes "ids_ok d"
  shows "ids_ok (d\<lparr>db_targets := map (\<lambda>r. if r_id r = i then row_of_target cr nonce i (n r) t else r)
    (db_targets d)\<rparr>)"
  using assms unfolding ids_ok_def
  by (auto simp: row_of_target_def comp_def if_distrib cong: if_cong)

lemma ids_insert:
  "ids_ok d \<Longrightarrow> ids_ok (d\<lparr>db_targets := db_targets d @ [row_of_target cr nonce (db_sequence d + 1) n t],
     db_sequence := db_sequence d + 1\<rparr>)"
  by (force simp: ids_ok_def row_of_target_def)

lemma CreateTarget_ids: "ids_ok d \<Longrightarrow> ids_ok (snd (CreateTarget cr net files f nonce t d))"
  by (auto simp: CreateTarget_def insertTargetTx_def Let_def intro!: commit_ids ids_insert
      split: option.split)

lemma UpdateTarget_ids: "ids_ok d \<Longrightarrow> ids_ok (snd (UpdateTarget cr net files f nonce i t k d))"
  by (auto simp: UpdateTarget_def Let_def intro!: commit_ids ids_update split: option.split)

lemma DeleteTarget_ids:
  assumes "ids_ok d"
  shows "ids_ok (snd (DeleteTarget cr net files f i d))"
proof -
  have "ids_ok (d\<lparr>db_targets := filter (\<lambda>r. r_id r \<noteq> i) (db_targets d)\<rparr>)"
    using assms by (simp add: ids_ok_def distinct_map_filter)
  with assms show ?thesis by (simp add: DeleteTarget_def commit_ids)
qed

lemma section_ids:
  assumes "ids_ok d"
  shows "ids_ok (snd (SetupAdmin cr net files f salt u p d))"
    and "ids_ok (snd (UpdateAccount cr net files f salt u p d))"
    and "ids_ok (snd (UpdateCodex cr net files f cx d))"
    and "ids_ok (snd (UpdateWeb cr net files f w d))"
    and "ids_ok (snd (UpdateOpenILink cr net files f nonce oi tok d))"
    and "ids_ok (snd (UpdateTelegram cr net files f nonce tg tok d))"
proof -
  have frame: "ids_ok (d\<lparr>db_administrator := a, db_suggested_username := u\<rparr>)"
    "ids_ok (d\<lparr>db_codex := c\<rparr>)" "ids_ok (d\<lparr>db_web := b\<rparr>)" "ids_ok (d\<lparr>db_openilink := oi\<rparr>)"
    "ids_ok (d\<lparr>db_telegram := tg\<rparr>)" for a u c b oi tg
    using assms by (simp_all add: ids_ok_def)
  show "ids_ok (snd (SetupAdmin cr net files f salt u p d))"
    using assms frame by (simp add: SetupAdmin_def Let_def commit_ids)
  show "ids_ok (snd (UpdateAccount cr net files f salt u p d))"
    using assms frame by (auto simp: UpdateAccount_def Let_def commit_ids split: option.split prod.split)
  show "ids_ok (snd (UpdateCodex cr net files f cx d))"
    using assms frame by (simp add: UpdateCodex_def Let_def commit_ids split: option.split)
  show "ids_ok (snd (UpdateWeb cr net files f w d))"
    using assms frame by (simp add: UpdateWeb_def Let_def commit_ids split: option.split)
  show "ids_ok (snd (UpdateOpenILink cr net files f nonce oi tok d))"
    using assms frame
    by (auto simp: UpdateOpenILink_def Let_def commit_ids split: option.split sum.split)
  show "ids_ok (snd (UpdateTelegram cr net files f nonce tg tok d))"
    using assms frame
    by (auto simp: UpdateTelegram_def Let_def commit_ids split: option.split sum.split)
qed

lemma run_op_inv:
  assumes "gcm_sound cr" "store_inv cr net d" "op_admitted op d"
  shows "store_inv cr net (snd (run_op cr net files f op d))"
proof -
  have ok: "store_ok cr net d" and ids: "ids_ok d" using assms(2) by (simp_all add: store_inv_def)
  have dist: "distinct (map r_id (db_targets d))" using ids by (simp add: ids_ok_def)
  show ?thesis
    using assms(1,3) section_ids[OF ids] CreateTarget_ids[OF ids] UpdateTarget_ids[OF ids]
      DeleteTarget_ids[OF ids] SetupAdmin_ok[OF ok] UpdateAccount_ok[OF ok] UpdateCodex_ok[OF ok]
      UpdateWeb_ok[OF ok] UpdateOpenILink_ok[OF ok] UpdateTelegram_ok[OF ok] CreateTarget_ok[OF ok]
      UpdateTarget_ok[OF ok _ _ _ dist] DeleteTarget_ok[OF ok]
    by (cases op) (simp_all add: run_op_def op_admitted_def store_inv_def)
qed



lemma initialize_inv: "store_inv cr net (initialize cr nonce)"
proof -
  have "codex_ok (fromPersistedCodex ((toPersistedCodex (c_Codex DefaultDatabaseConfig))
      \<lparr>pc_Prompts := None\<rparr>))"
    using default_codex_ok
    by (simp add: codex_ok_def valid_timing_def fromPersistedCodex_def toPersistedCodex_def)
  then show ?thesis
    by (simp add: store_inv_def store_ok_def ids_ok_def initialize_def Let_def read_secret_def
        stored_openilink_def stored_telegram_def toPersistedOpenILink_def toPersistedTelegram_def
        fromPersistedOpenILink_def fromPersistedTelegram_def oi_SetEnabledExplicit_def
        tg_SetEnabledExplicit_def openilink_ok_def telegram_ok_def IsOpenILinkEnabled_def
        IsTelegramEnabled_def DefaultDatabaseConfig_def toPersistedWeb_def defaultWebActivityLimit_def
        defaultWebAdminUsername_def)
qed


section \<open>Properties\<close>

lemma loadFrom_Inr:
  assumes "loadFrom cr net files d = Inr s"
  obtains openToken telegramToken targets where
    "read_secret cr (sec_secret (db_openilink d)) openilinkAAD = Inr openToken"
    "read_secret cr (sec_secret (db_telegram d)) telegramAAD = Inr telegramToken"
    "rows_targets cr (ordered_rows (db_targets d)) = Inr targets"
    "sp_Revision s = db_config_revision d"
    "sp_Config s = \<lparr>c_OpenILink = stored_openilink openToken (sec_data (db_openilink d)),
       c_Telegram = stored_telegram telegramToken (sec_data (db_telegram d)),
       c_Codex = (stored_codex files (sec_data (db_codex d)))\<lparr>cx_Targets := targets\<rparr>,
       c_Web = (fromPersistedWeb (sec_data (db_web d)))\<lparr>wb_AdminUsername := admin_username d\<rparr>\<rparr>"
  using assms unfolding loadFrom_def
  by (auto simp: and_then_Inr Let_def split: option.splits)

lemma load_revision: "loadFrom cr net files d = Inr s \<Longrightarrow> sp_Revision s = db_config_revision d"
  by (erule loadFrom_Inr)

lemma strip_result:
  "map_prod (map_sum id fst) id (map_prod (map_sum id (\<lambda>s. (s, c))) id r) = r"
  by (cases r; cases "fst r") simp_all

lemma run_op_shape:
  "(\<exists>e. run_op cr net files f op d = (Inl e, d)) \<or>
   (\<exists>d'. run_op cr net files f op d = commit cr net files f d d' \<and>
      db_config_revision d' = db_config_revision d)"
proof (cases op)
  case (OpSetupAdmin salt u p)
  then show ?thesis by (auto simp: run_op_def SetupAdmin_def Let_def)
next
  case (OpUpdateAccount salt u p)
  then show ?thesis
    by (auto simp: run_op_def UpdateAccount_def Let_def split: option.split prod.split)
next
  case (OpUpdateCodex v)
  then show ?thesis by (auto simp: run_op_def UpdateCodex_def Let_def split: option.split)
next
  case (OpUpdateWeb v)
  then show ?thesis by (auto simp: run_op_def UpdateWeb_def Let_def split: option.split)
next
  case (OpUpdateOpenILink nonce v token)
  then show ?thesis
    by (auto simp: run_op_def UpdateOpenILink_def Let_def split: option.split sum.split)
next
  case (OpUpdateTelegram nonce v token)
  then show ?thesis
    by (auto simp: run_op_def UpdateTelegram_def Let_def split: option.split sum.split)
next
  case (OpCreateTarget nonce t)
  then show ?thesis
    by (auto simp: run_op_def CreateTarget_def insertTargetTx_def Let_def strip_result
        split: option.split)
next
  case (OpUpdateTarget nonce i t k)
  then show ?thesis
    by (auto simp: run_op_def UpdateTarget_def Let_def strip_result split: option.split)
next
  case (OpDeleteTarget i)
  then show ?thesis by (auto simp: run_op_def DeleteTarget_def)
qed

lemma run_op_result:
  assumes "gcm_sound cr" "store_inv cr net d" "op_admitted op d" "f \<noteq> FaultAfterCommit"
  shows "case run_op cr net files f op d of
      (Inl e, d') \<Rightarrow> d' = d
    | (Inr s, d') \<Rightarrow> sp_Revision s = wrap64 (db_config_revision d + 1) \<and>
        loadFrom cr net files d' = Inr s"
proof (cases "\<exists>e. run_op cr net files f op d = (Inl e, d)")
  case False
  then obtain d' where r: "run_op cr net files f op d = commit cr net files f d d'"
    and rev: "db_config_revision d' = db_config_revision d"
    using run_op_shape[of cr net files f op d] by blast
  obtain s where s: "loadFrom cr net files (snd (commit cr net files f d d')) = Inr s"
    using run_op_inv[OF assms(1-3), of files f] load_iff[of cr net files] by (auto simp: store_inv_def r)
  show ?thesis
  proof (cases f)
    case NoFault
    then have c: "commit cr net files f d d' = (Inr s, bumpRevisionTx d')"
      using s by (simp add: commit_def Let_def)
    have "sp_Revision s = db_config_revision (bumpRevisionTx d')"
      using s unfolding c by (rule_tac load_revision) simp
    then show ?thesis using s rev unfolding r c by (simp add: bumpRevisionTx_def)
  qed (use assms(4) r in \<open>simp_all add: commit_def\<close>)
qed auto



text \<open>
  C30: writes are all or nothing. An operation that reports an error has changed nothing, unless the
  database itself fails between the commit and the reading of the result; one that succeeds has
  moved the configuration revision by exactly one.
\<close>

theorem write_all_or_nothing:
  assumes "gcm_sound cr" "store_inv cr net d" "op_admitted op d" "f \<noteq> FaultAfterCommit"
  shows "case run_op cr net files f op d of
      (Inl e, d') \<Rightarrow> d' = d
    | (Inr s, d') \<Rightarrow> sp_Revision s = wrap64 (db_config_revision d + 1) \<and>
        loadFrom cr net files d' = Inr s"
  using run_op_result[OF assms] .

theorem write_all_or_nothing_witness:
  "case run_op plain_crypto sample_net (\<lambda>_. None) NoFault (OpDeleteTarget 1) (initialize plain_crypto [])
   of (Inl e, d') \<Rightarrow> d' = initialize plain_crypto []
    | (Inr s, d') \<Rightarrow> sp_Revision s = wrap64 (db_config_revision (initialize plain_crypto []) + 1) \<and>
        loadFrom plain_crypto sample_net (\<lambda>_. None) d' = Inr s"
  by (rule write_all_or_nothing[OF plain_crypto_sound(1) initialize_inv])
    (simp_all add: op_admitted_def)

text \<open>
  An OpenILink update is read back as it was written, trimmed and with its token: the stored token
  stays when none is given, is replaced by a given one and removed by an empty one. The Telegram,
  Codex and Web sections are untouched.
\<close>

lemma openilink_update_roundtrip:
  assumes "gcm_sound cr" "length nonce = nonceSize" "loadFrom cr net files d = Inr s0"
    and "UpdateOpenILink cr net files NoFault nonce v token d = (Inr s, d')"
  shows "c_OpenILink (sp_Config s) =
      v\<lparr>oi_enabledSet := True, oi_BaseURL := trim_right_slash (strings_TrimSpace (oi_BaseURL v)),
        oi_AllowedUserIDs := map strings_TrimSpace (oi_AllowedUserIDs v), oi_TokenEnv := [],
        oi_Token := (case token of None \<Rightarrow> oi_Token (c_OpenILink (sp_Config s0))
          | Some t \<Rightarrow> if strings_TrimSpace t \<noteq> [] \<or> t = [] then strings_TrimSpace t
              else oi_Token (c_OpenILink (sp_Config s0)))\<rparr> \<and>
    c_Telegram (sp_Config s) = c_Telegram (sp_Config s0) \<and>
    c_Codex (sp_Config s) = c_Codex (sp_Config s0) \<and> c_Web (sp_Config s) = c_Web (sp_Config s0)"
proof -
  obtain openToken telegramToken targets where old:
    "read_secret cr (sec_secret (db_openilink d)) openilinkAAD = Inr openToken"
    "read_secret cr (sec_secret (db_telegram d)) telegramAAD = Inr telegramToken"
    "rows_targets cr (ordered_rows (db_targets d)) = Inr targets"
    "sp_Config s0 = \<lparr>c_OpenILink = stored_openilink openToken (sec_data (db_openilink d)),
       c_Telegram = stored_telegram telegramToken (sec_data (db_telegram d)),
       c_Codex = (stored_codex files (sec_data (db_codex d)))\<lparr>cx_Targets := targets\<rparr>,
       c_Web = (fromPersistedWeb (sec_data (db_web d)))\<lparr>wb_AdminUsername := admin_username d\<rparr>\<rparr>"
    using assms(3) by (rule loadFrom_Inr)
  define tok where "tok = (case token of None \<Rightarrow> openToken
    | Some t \<Rightarrow> if strings_TrimSpace t \<noteq> [] \<or> t = [] then strings_TrimSpace t else openToken)"
  define w where "w = v\<lparr>oi_enabledSet := True,
    oi_BaseURL := trim_right_slash (strings_TrimSpace (oi_BaseURL v)),
    oi_AllowedUserIDs := map strings_TrimSpace (oi_AllowedUserIDs v), oi_Token := tok, oi_TokenEnv := []\<rparr>"
  define d1 where "d1 = bumpRevisionTx (d\<lparr>db_openilink := (updateSection (db_openilink d))
    \<lparr>sec_data := toPersistedOpenILink w, sec_secret := seal_token cr nonce tok openilinkAAD\<rparr>\<rparr>)"
  have "loadFrom cr net files d1 = Inr s"
  proof -
    have v: "v\<lparr>oi_Enabled := oi_Enabled v\<rparr> = v" by simp
    have "UpdateOpenILink cr net files NoFault nonce v token d =
        (case ValidateOpenILink net w of
           Some e \<Rightarrow> (Inl (StoreInvalid e), d)
         | None \<Rightarrow> (loadFrom cr net files d1, d1))"
      unfolding UpdateOpenILink_def Let_def old(1) oi_SetEnabledExplicit_def v commit_NoFault
        d1_def w_def tok_def
      by simp
    with assms(4) show ?thesis by (auto split: option.splits)
  qed
  then obtain openToken' telegramToken' targets' where new:
    "read_secret cr (sec_secret (db_openilink d1)) openilinkAAD = Inr openToken'"
    "read_secret cr (sec_secret (db_telegram d1)) telegramAAD = Inr telegramToken'"
    "rows_targets cr (ordered_rows (db_targets d1)) = Inr targets'"
    "sp_Config s = \<lparr>c_OpenILink = stored_openilink openToken' (sec_data (db_openilink d1)),
       c_Telegram = stored_telegram telegramToken' (sec_data (db_telegram d1)),
       c_Codex = (stored_codex files (sec_data (db_codex d1)))\<lparr>cx_Targets := targets'\<rparr>,
       c_Web = (fromPersistedWeb (sec_data (db_web d1)))\<lparr>wb_AdminUsername := admin_username d1\<rparr>\<rparr>"
    by (rule loadFrom_Inr)
  have same: "db_telegram d1 = db_telegram d" "db_codex d1 = db_codex d" "db_web d1 = db_web d"
    "db_targets d1 = db_targets d" "admin_username d1 = admin_username d"
    "sec_data (db_openilink d1) = toPersistedOpenILink w"
    "read_secret cr (sec_secret (db_openilink d1)) openilinkAAD = Inr tok"
    using read_secret_seal[OF assms(1,2)]
    by (simp_all add: d1_def bumpRevisionTx_def admin_username_def split: option.split)
  have "stored_openilink tok (toPersistedOpenILink w) = w"
    using stored_openilink_to[of w] by (simp add: w_def)
  moreover have tok0: "oi_Token (c_OpenILink (sp_Config s0)) = openToken"
    by (simp add: old(4) stored_openilink_def)
  ultimately show ?thesis
    unfolding tok0 tok_def[symmetric] using new same old by (simp add: w_def)
qed

end
