(* ===== verification/JS.thy ===== *)
theory JS
  imports Prelude
begin

text \<open>
  The parts of JavaScript the web client (\<open>frontend/src\<close>) relies on. A string is given by its code
  points, as in theory \<open>Prelude\<close>; \<open>utf16\<close> is its sequence of code units, which \<open>length\<close> and the
  \<open>maxLength\<close> attribute count, and \<open>Array.from\<close> goes back from code units to code points.
\<close>

section \<open>Code units and code points\<close>

definition scalar :: "rune \<Rightarrow> bool" where
  "scalar r \<longleftrightarrow> r < 55296 \<or> 57344 \<le> r \<and> r < 1114112"

definition utf16_rune :: "rune \<Rightarrow> nat list" where
  "utf16_rune r = (if r < 65536 then [r]
     else [55296 + (r - 65536) div 1024, 56320 + (r - 65536) mod 1024])"

definition utf16 :: "text \<Rightarrow> nat list" where
  "utf16 t = concat (map utf16_rune t)"

definition high_surrogate :: "nat \<Rightarrow> bool" where
  "high_surrogate u \<longleftrightarrow> 55296 \<le> u \<and> u < 56320"

definition low_surrogate :: "nat \<Rightarrow> bool" where
  "low_surrogate u \<longleftrightarrow> 56320 \<le> u \<and> u < 57344"

text \<open>\<open>Array.from(s)\<close>: surrogate pairs are joined, a lone surrogate stands for itself.\<close>

fun array_from :: "nat list \<Rightarrow> text" where
  "array_from (h # l # us) =
     (if high_surrogate h \<and> low_surrogate l
      then (65536 + (h - 55296) * 1024 + (l - 56320)) # array_from us
      else h # array_from (l # us))"
| "array_from [u] = [u]"
| "array_from [] = []"

lemma array_from_rune: "scalar r \<Longrightarrow> array_from (utf16_rune r @ us) = r # array_from us"
proof (cases "r < 65536")
  case True
  assume "scalar r"
  with True have "\<not> high_surrogate r" by (auto simp: scalar_def high_surrogate_def)
  with True show ?thesis by (cases us) (simp_all add: utf16_rune_def)
next
  case False
  assume "scalar r"
  then have q: "(r - 65536) div 1024 < 1024" and m: "(r - 65536) mod 1024 < 1024"
    using False by (auto simp: scalar_def)
  have "65536 + (r - 65536) div 1024 * 1024 + (r - 65536) mod 1024 = r"
    using False by (simp add: div_mult_mod_eq)
  with False q m show ?thesis
    by (simp add: utf16_rune_def high_surrogate_def low_surrogate_def)
qed

lemma array_from_utf16: "\<forall>r\<in>set t. scalar r \<Longrightarrow> array_from (utf16 t) = t"
  by (induction t) (simp_all add: utf16_def array_from_rune)

definition js_length :: "text \<Rightarrow> nat" where
  "js_length t = length (utf16 t)"

lemma length_le_js_length: "length t \<le> js_length t"
  by (induction t) (simp_all add: js_length_def utf16_def utf16_rune_def)

lemma js_length_le: "js_length t \<le> 2 * length t"
  by (induction t) (simp_all add: js_length_def utf16_def utf16_rune_def)

section \<open>White space\<close>

definition js_IsSpace :: "rune \<Rightarrow> bool" where
  "js_IsSpace r \<longleftrightarrow>
     9 \<le> r \<and> r \<le> 13 \<or> r = 32 \<or> r = 160 \<or> r = 5760 \<or> 8192 \<le> r \<and> r \<le> 8202 \<or>
     r = 8232 \<or> r = 8233 \<or> r = 8239 \<or> r = 8287 \<or> r = 12288 \<or> r = 65279"

definition js_trim :: "text \<Rightarrow> text" where
  "js_trim t = trim_by js_IsSpace t"

lemma js_space_go_space: "js_IsSpace r \<longleftrightarrow> unicode_IsSpace r \<and> r \<noteq> 133 \<or> r = 65279"
  by (auto simp: js_IsSpace_def unicode_IsSpace_def)

section \<open>Lines\<close>

text \<open>\<open>s.split(/\r?\n/)\<close>\<close>

fun split_newlines :: "text \<Rightarrow> text list" where
  "split_newlines [] = [[]]"
| "split_newlines (c # cs) =
     (if c = 10 then [] # split_newlines cs
      else if c = 13 \<and> cs \<noteq> [] \<and> hd cs = 10 then split_newlines cs
      else (c # hd (split_newlines cs)) # tl (split_newlines cs))"

lemma split_newlines_nonempty [simp]: "split_newlines t \<noteq> []"
  by (induction t) auto

lemma split_newlines_line:
  assumes "10 \<notin> set l" "l = [] \<or> last l \<noteq> 13"
  shows "split_newlines l = [l]" "split_newlines (l @ 10 # t) = l # split_newlines t"
proof -
  have "split_newlines l = [l] \<and> split_newlines (l @ 10 # t) = l # split_newlines t"
    using assms
  proof (induction l)
    case (Cons c l)
    then show ?case by (cases l) auto
  qed simp
  then show "split_newlines l = [l]" "split_newlines (l @ 10 # t) = l # split_newlines t" by blast+
qed

section \<open>Numbers\<close>

text \<open>\<open>Math.round(x / 1000)\<close> for a whole number of milliseconds: half rounds up.\<close>

definition round_thousandth :: "int \<Rightarrow> int" where
  "round_thousandth x = (x + 500) div 1000"

end
