(* ===== verification/Json.thy ===== *)
theory Json
  imports JS Sanitize "HOL-Library.Monad_Syntax"
begin

text \<open>
  JSON values as they travel between the web client and the server: access to properties, the text
  \<open>JSON.stringify\<close> produces and its size in bytes. Numbers are whole numbers, which is all the
  interface carries.
\<close>

datatype json =
    JNull
  | JBool bool
  | JNum int
  | JStr "text"
  | JArr "json list"
  | JObj "(string \<times> json) list"

section \<open>Access\<close>

text \<open>A property of an object; of two properties with one name the last counts.\<close>

fun get_prop :: "string \<Rightarrow> json \<Rightarrow> json option" where
  "get_prop k (JObj fs) = map_of (rev fs) k"
| "get_prop k _ = None"

fun as_num :: "json \<Rightarrow> int option" where
  "as_num (JNum n) = Some n"
| "as_num _ = None"

fun as_str :: "json \<Rightarrow> text option" where
  "as_str (JStr t) = Some t"
| "as_str _ = None"

fun as_bool :: "json \<Rightarrow> bool option" where
  "as_bool (JBool b) = Some b"
| "as_bool _ = None"

fun as_arr :: "(json \<Rightarrow> 'a option) \<Rightarrow> json \<Rightarrow> 'a list option" where
  "as_arr f (JArr js) = those (map f js)"
| "as_arr f _ = None"

text \<open>\<open>T | null\<close>\<close>

definition as_nullable :: "(json \<Rightarrow> 'a option) \<Rightarrow> json \<Rightarrow> 'a option option" where
  "as_nullable f j = (if j = JNull then Some None else map_option Some (f j))"

definition field :: "string \<Rightarrow> (json \<Rightarrow> 'a option) \<Rightarrow> json \<Rightarrow> 'a option" where
  "field k f j = Option.bind (get_prop k j) f"

text \<open>\<open>k?: T\<close>\<close>

definition opt_field :: "string \<Rightarrow> (json \<Rightarrow> 'a option) \<Rightarrow> json \<Rightarrow> 'a option option" where
  "opt_field k f j = (case get_prop k j of None \<Rightarrow> Some None | Some v \<Rightarrow> map_option Some (f v))"

definition keys :: "json \<Rightarrow> string list" where
  "keys j = (case j of JObj fs \<Rightarrow> map fst fs | _ \<Rightarrow> [])"

lemma as_arr_map: "(\<And>x. x \<in> set xs \<Longrightarrow> f (g x) = Some (h x)) \<Longrightarrow>
  as_arr f (JArr (map g xs)) = Some (map h xs)"
  by (induction xs) auto

lemma as_arr_strings [simp]: "as_arr as_str (JArr (map JStr ts)) = Some ts"
  using as_arr_map[of ts as_str JStr id] by simp

lemma as_nullable_simps [simp]:
  "as_nullable f JNull = Some None"
  "as_nullable as_str (JStr t) = Some (Some t)"
  by (simp_all add: as_nullable_def)

section \<open>Text\<close>

text \<open>\<open>JSON.stringify\<close> escapes quotes, backslashes and control characters; everything else stands
  for itself.\<close>

definition hex4 :: "nat \<Rightarrow> text" where
  "hex4 n = map (\<lambda>d. if d < 10 then 48 + d else 87 + d)
     [n div 4096 mod 16, n div 256 mod 16, n div 16 mod 16, n mod 16]"

definition escape_char :: "rune \<Rightarrow> text" where
  "escape_char c =
     (if c = 34 then [92, 34] else if c = 92 then [92, 92]
      else if c = 8 then [92, 98] else if c = 12 then [92, 102] else if c = 10 then [92, 110]
      else if c = 13 then [92, 114] else if c = 9 then [92, 116]
      else if c < 32 then [92, 117] @ hex4 c else [c])"

definition quote_text :: "text \<Rightarrow> text" where
  "quote_text t = [34] @ concat (map escape_char t) @ [34]"

definition show_int :: "int \<Rightarrow> text" where
  "show_int n = (if n < 0 then 45 # dec (nat (- n)) else dec (nat n))"

fun stringify :: "json \<Rightarrow> text" where
  "stringify JNull = asc ''null''"
| "stringify (JBool b) = (if b then asc ''true'' else asc ''false'')"
| "stringify (JNum n) = show_int n"
| "stringify (JStr t) = quote_text t"
| "stringify (JArr js) = [91] @ join_with [44] (map stringify js) @ [93]"
| "stringify (JObj fs) =
     [123] @ join_with [44] (map (\<lambda>(k, v). quote_text (asc k) @ [58] @ stringify v) fs) @ [125]"

definition byte_length :: "text \<Rightarrow> nat" where
  "byte_length t = length (concat (map utf8 t))"

lemma byte_length_append [simp]: "byte_length (s @ t) = byte_length s + byte_length t"
  by (simp add: byte_length_def)

lemma byte_length_Cons [simp]: "byte_length (c # t) = length (utf8 c) + byte_length t"
  by (simp add: byte_length_def)

lemma byte_length_Nil [simp]: "byte_length [] = 0"
  by (simp add: byte_length_def)

lemma length_le_byte_length: "length t \<le> byte_length t"
  by (induction t) (auto simp: utf8_def)

lemma byte_length_replicate: "byte_length (replicate n c) = n * length (utf8 c)"
  by (induction n) simp_all

end
