(* ===== verification/Api.thy ===== *)
theory Api
  imports Json
begin

text \<open>
  The client's side of the HTTP interface (\<open>frontend/src/lib/api.ts\<close>): its interfaces as records,
  each with the reading of a JSON value as a value of that interface, the \<open>request\<close> helper on both
  sides of its \<open>await\<close>, and one definition per exported function. The cast \<open>body as T\<close> checks nothing:
  a value that does not have the declared shape reads as \<open>None\<close>.
\<close>

section \<open>Interfaces\<close>

record api_queue =
  q_state :: "text"
  q_attempts :: int
  q_started_at :: "text option"
  q_last_attempt :: "text option"
  q_next_attempt :: "text option"
  q_finished_at :: "text option"
  q_last_error :: "text option"

record api_keepalive =
  ka_state :: "text"
  ka_requests :: int
  ka_started_at :: "text option"
  ka_last_request :: "text option"
  ka_last_success :: "text option"
  ka_last_failure :: "text option"
  ka_next_request :: "text option"
  ka_stopped_at :: "text option"
  ka_last_error :: "text option"

record Target =
  tgt_id :: int
  tgt_name :: "text"
  tgt_model :: "text"
  tgt_api_host :: "text"
  tgt_busy :: bool
  tgt_adhoc_running :: bool
  tgt_queue :: api_queue
  tgt_keepalive :: api_keepalive

record api_connection =
  cn_state :: "text"
  cn_error :: "text option"
  cn_updated_at :: "text option"

record Dashboard =
  d_version :: "text"
  d_generated_at :: "text"
  d_config_revision :: int
  d_restart_required :: bool
  d_restart_fields :: "text list"
  d_openilink :: api_connection
  d_telegram :: api_connection
  d_concurrency :: "int \<times> int"
  d_targets :: "Target list"

record ActionResult =
  ar_changed :: "text list"
  ar_unchanged :: "text list"
  ar_unknown :: "text list"

record AdhocRunResult =
  rr_target_id :: int
  rr_target :: "text"
  rr_success :: bool
  rr_output :: "text"
  rr_process_output :: "text"
  rr_exit_code :: int
  rr_error :: "text option"
  rr_duration_ms :: int

record ConfigurationTarget =
  ct_id :: int
  ct_sort_order :: int
  ct_name :: "text"
  ct_api_base_url :: "text"
  ct_api_key_set :: bool
  ct_model :: "text"
  ct_wire_api :: "text"
  ct_config_overrides :: "text list"
  ct_busy :: bool

record api_codex =
  x_binary :: "text"
  x_prompts_file :: "text"
  x_prompts :: "text list"
  x_request_timeout_seconds :: int
  x_retry_min_seconds :: int
  x_retry_max_seconds :: int
  x_keepalive_min_seconds :: int
  x_keepalive_max_seconds :: int
  x_max_parallel :: int
  x_success_message :: "text"
  x_reasoning_effort :: "text"
  x_config_overrides :: "text list"

record api_openilink =
  o_enabled :: bool
  o_base_url :: "text"
  o_token_set :: bool
  o_allowed_user_ids :: "text list"
  o_http_timeout_seconds :: int

record api_telegram =
  g_enabled :: bool
  g_base_url :: "text"
  g_token_set :: bool
  g_allowed_user_ids :: "text list"
  g_http_timeout_seconds :: int
  g_poll_timeout_seconds :: int

record api_web =
  w_listen_address :: "text"
  w_cookie_secure :: bool
  w_trusted_proxies :: "text list"
  w_activity_limit :: int

record Configuration =
  cf_revision :: int
  cf_loaded_startup_revision :: int
  cf_restart_required :: bool
  cf_restart_fields :: "text list"
  cf_codex :: api_codex
  cf_openilink :: api_openilink
  cf_telegram :: api_telegram
  cf_web :: api_web
  cf_account_username :: "text"
  cf_targets :: "ConfigurationTarget list"

record secret_target =
  st_id :: int
  st_name :: "text"
  st_api_key :: "text"

record ConfigurationSecrets =
  s_openilink_token :: "text"
  s_telegram_token :: "text"
  s_targets :: "secret_target list"

record TargetInput =
  i_sort_order :: "int option"
  i_name :: "text"
  i_api_base_url :: "text"
  i_api_key :: "text"
  i_model :: "text"
  i_wire_api :: "text"
  i_config_overrides :: "text list"

section \<open>Reading a JSON value\<close>

definition read_queue :: "json \<Rightarrow> api_queue option" where
  "read_queue j = do {
     st \<leftarrow> field ''state'' as_str j;
     at \<leftarrow> field ''attempts'' as_num j;
     sa \<leftarrow> field ''started_at'' (as_nullable as_str) j;
     la \<leftarrow> field ''last_attempt'' (as_nullable as_str) j;
     na \<leftarrow> field ''next_attempt'' (as_nullable as_str) j;
     fa \<leftarrow> field ''finished_at'' (as_nullable as_str) j;
     le \<leftarrow> opt_field ''last_error'' as_str j;
     Some \<lparr>q_state = st, q_attempts = at, q_started_at = sa, q_last_attempt = la,
       q_next_attempt = na, q_finished_at = fa, q_last_error = le\<rparr> }"

definition read_keepalive :: "json \<Rightarrow> api_keepalive option" where
  "read_keepalive j = do {
     st \<leftarrow> field ''state'' as_str j;
     n \<leftarrow> field ''requests'' as_num j;
     sa \<leftarrow> field ''started_at'' (as_nullable as_str) j;
     lr \<leftarrow> field ''last_request'' (as_nullable as_str) j;
     ls \<leftarrow> field ''last_success'' (as_nullable as_str) j;
     lf \<leftarrow> field ''last_failure'' (as_nullable as_str) j;
     nr \<leftarrow> field ''next_request'' (as_nullable as_str) j;
     sp \<leftarrow> field ''stopped_at'' (as_nullable as_str) j;
     le \<leftarrow> opt_field ''last_error'' as_str j;
     Some \<lparr>ka_state = st, ka_requests = n, ka_started_at = sa, ka_last_request = lr,
       ka_last_success = ls, ka_last_failure = lf, ka_next_request = nr, ka_stopped_at = sp,
       ka_last_error = le\<rparr> }"

definition read_target :: "json \<Rightarrow> Target option" where
  "read_target j = do {
     i \<leftarrow> field ''id'' as_num j;
     nm \<leftarrow> field ''name'' as_str j;
     md \<leftarrow> field ''model'' as_str j;
     ho \<leftarrow> field ''api_host'' as_str j;
     bu \<leftarrow> field ''busy'' as_bool j;
     ad \<leftarrow> field ''adhoc_running'' as_bool j;
     qu \<leftarrow> field ''queue'' read_queue j;
     ka \<leftarrow> field ''keepalive'' read_keepalive j;
     Some \<lparr>tgt_id = i, tgt_name = nm, tgt_model = md, tgt_api_host = ho, tgt_busy = bu,
       tgt_adhoc_running = ad, tgt_queue = qu, tgt_keepalive = ka\<rparr> }"

definition read_connection :: "json \<Rightarrow> api_connection option" where
  "read_connection j = do {
     st \<leftarrow> field ''state'' as_str j;
     er \<leftarrow> opt_field ''error'' as_str j;
     up \<leftarrow> field ''updated_at'' (as_nullable as_str) j;
     Some \<lparr>cn_state = st, cn_error = er, cn_updated_at = up\<rparr> }"

definition read_concurrency :: "json \<Rightarrow> (int \<times> int) option" where
  "read_concurrency j = do {
     c \<leftarrow> field ''current'' as_num j; m \<leftarrow> field ''max'' as_num j; Some (c, m) }"

definition read_dashboard :: "json \<Rightarrow> Dashboard option" where
  "read_dashboard j = do {
     ve \<leftarrow> field ''version'' as_str j;
     ge \<leftarrow> field ''generated_at'' as_str j;
     re \<leftarrow> field ''config_revision'' as_num j;
     rr \<leftarrow> field ''restart_required'' as_bool j;
     rf \<leftarrow> field ''restart_fields'' (as_arr as_str) j;
     op \<leftarrow> field ''openilink'' read_connection j;
     tg \<leftarrow> field ''telegram'' read_connection j;
     co \<leftarrow> field ''concurrency'' read_concurrency j;
     ts \<leftarrow> field ''targets'' (as_arr read_target) j;
     Some \<lparr>d_version = ve, d_generated_at = ge, d_config_revision = re, d_restart_required = rr,
       d_restart_fields = rf, d_openilink = op, d_telegram = tg, d_concurrency = co,
       d_targets = ts\<rparr> }"

definition read_configuration_target :: "json \<Rightarrow> ConfigurationTarget option" where
  "read_configuration_target j = do {
     i \<leftarrow> field ''id'' as_num j;
     so \<leftarrow> field ''sort_order'' as_num j;
     nm \<leftarrow> field ''name'' as_str j;
     ur \<leftarrow> field ''api_base_url'' as_str j;
     ks \<leftarrow> field ''api_key_set'' as_bool j;
     md \<leftarrow> field ''model'' as_str j;
     wa \<leftarrow> field ''wire_api'' as_str j;
     ov \<leftarrow> field ''config_overrides'' (as_arr as_str) j;
     bu \<leftarrow> field ''busy'' as_bool j;
     Some \<lparr>ct_id = i, ct_sort_order = so, ct_name = nm, ct_api_base_url = ur, ct_api_key_set = ks,
       ct_model = md, ct_wire_api = wa, ct_config_overrides = ov, ct_busy = bu\<rparr> }"

definition read_codex :: "json \<Rightarrow> api_codex option" where
  "read_codex j = do {
     bi \<leftarrow> field ''binary'' as_str j;
     pf \<leftarrow> field ''prompts_file'' as_str j;
     ps \<leftarrow> field ''prompts'' (as_arr as_str) j;
     rt \<leftarrow> field ''request_timeout_seconds'' as_num j;
     ra \<leftarrow> field ''retry_min_seconds'' as_num j;
     rb \<leftarrow> field ''retry_max_seconds'' as_num j;
     ka \<leftarrow> field ''keepalive_min_seconds'' as_num j;
     kb \<leftarrow> field ''keepalive_max_seconds'' as_num j;
     mp \<leftarrow> field ''max_parallel'' as_num j;
     sm \<leftarrow> field ''success_message'' as_str j;
     ef \<leftarrow> field ''reasoning_effort'' as_str j;
     ov \<leftarrow> field ''config_overrides'' (as_arr as_str) j;
     Some \<lparr>x_binary = bi, x_prompts_file = pf, x_prompts = ps, x_request_timeout_seconds = rt,
       x_retry_min_seconds = ra, x_retry_max_seconds = rb, x_keepalive_min_seconds = ka,
       x_keepalive_max_seconds = kb, x_max_parallel = mp, x_success_message = sm,
       x_reasoning_effort = ef, x_config_overrides = ov\<rparr> }"

definition read_openilink :: "json \<Rightarrow> api_openilink option" where
  "read_openilink j = do {
     en \<leftarrow> field ''enabled'' as_bool j;
     ur \<leftarrow> field ''base_url'' as_str j;
     ts \<leftarrow> field ''token_set'' as_bool j;
     us \<leftarrow> field ''allowed_user_ids'' (as_arr as_str) j;
     ht \<leftarrow> field ''http_timeout_seconds'' as_num j;
     Some \<lparr>o_enabled = en, o_base_url = ur, o_token_set = ts, o_allowed_user_ids = us,
       o_http_timeout_seconds = ht\<rparr> }"

definition read_telegram :: "json \<Rightarrow> api_telegram option" where
  "read_telegram j = do {
     en \<leftarrow> field ''enabled'' as_bool j;
     ur \<leftarrow> field ''base_url'' as_str j;
     ts \<leftarrow> field ''token_set'' as_bool j;
     us \<leftarrow> field ''allowed_user_ids'' (as_arr as_str) j;
     ht \<leftarrow> field ''http_timeout_seconds'' as_num j;
     pt \<leftarrow> field ''poll_timeout_seconds'' as_num j;
     Some \<lparr>g_enabled = en, g_base_url = ur, g_token_set = ts, g_allowed_user_ids = us,
       g_http_timeout_seconds = ht, g_poll_timeout_seconds = pt\<rparr> }"

definition read_web :: "json \<Rightarrow> api_web option" where
  "read_web j = do {
     la \<leftarrow> field ''listen_address'' as_str j;
     cs \<leftarrow> field ''cookie_secure'' as_bool j;
     tp \<leftarrow> field ''trusted_proxies'' (as_arr as_str) j;
     al \<leftarrow> field ''activity_limit'' as_num j;
     Some \<lparr>w_listen_address = la, w_cookie_secure = cs, w_trusted_proxies = tp,
       w_activity_limit = al\<rparr> }"

definition read_configuration :: "json \<Rightarrow> Configuration option" where
  "read_configuration j = do {
     re \<leftarrow> field ''revision'' as_num j;
     ls \<leftarrow> field ''loaded_startup_revision'' as_num j;
     rr \<leftarrow> field ''restart_required'' as_bool j;
     rf \<leftarrow> field ''restart_fields'' (as_arr as_str) j;
     cx \<leftarrow> field ''codex'' read_codex j;
     oi \<leftarrow> field ''openilink'' read_openilink j;
     tg \<leftarrow> field ''telegram'' read_telegram j;
     wb \<leftarrow> field ''web'' read_web j;
     ac \<leftarrow> field ''account'' (field ''username'' as_str) j;
     ts \<leftarrow> field ''targets'' (as_arr read_configuration_target) j;
     Some \<lparr>cf_revision = re, cf_loaded_startup_revision = ls, cf_restart_required = rr,
       cf_restart_fields = rf, cf_codex = cx, cf_openilink = oi, cf_telegram = tg, cf_web = wb,
       cf_account_username = ac, cf_targets = ts\<rparr> }"

definition read_secret_target :: "json \<Rightarrow> secret_target option" where
  "read_secret_target j = do {
     i \<leftarrow> field ''id'' as_num j; nm \<leftarrow> field ''name'' as_str j; ak \<leftarrow> field ''api_key'' as_str j;
     Some \<lparr>st_id = i, st_name = nm, st_api_key = ak\<rparr> }"

definition read_secrets :: "json \<Rightarrow> ConfigurationSecrets option" where
  "read_secrets j = do {
     ot \<leftarrow> field ''openilink_token'' as_str j; tt \<leftarrow> field ''telegram_token'' as_str j;
     ts \<leftarrow> field ''targets'' (as_arr read_secret_target) j;
     Some \<lparr>s_openilink_token = ot, s_telegram_token = tt, s_targets = ts\<rparr> }"

section \<open>Requests\<close>

record RequestInit =
  in_method :: "string option"
  in_headers :: "(string \<times> string) list"
  in_body :: "json option"
  in_signal :: "nat option"

record http_request =
  rq_method :: string
  rq_url :: "text"
  rq_credentials :: string
  rq_headers :: "(string \<times> string) list"
  rq_body :: "json option"
  rq_signal :: "nat option"

text \<open>
  What \<open>fetch\<close> and \<open>response.json()\<close> bring: a rejection, or a status and, when the body could be
  read and parsed, its value.
\<close>

datatype js_error =
    JsError "text"
  | DOMException string "text"
  | NotAnError

datatype fetch_result =
    Rejected js_error
  | Response nat "json option"

definition no_init :: RequestInit where
  "no_init = \<lparr>in_method = None, in_headers = [], in_body = None, in_signal = None\<rparr>"

definition request :: "text \<Rightarrow> RequestInit \<Rightarrow> http_request" where
  "request url init =
     \<lparr>rq_method = (case in_method init of None \<Rightarrow> ''GET'' | Some m \<Rightarrow> m), rq_url = url,
      rq_credentials = ''same-origin'', rq_headers = in_headers init, rq_body = in_body init,
      rq_signal = in_signal init\<rparr>"

text \<open>The property \<open>error\<close> of a body, used as a message if it is truthy.\<close>

fun truthy :: "json \<Rightarrow> bool" where
  "truthy JNull = False"
| "truthy (JBool b) = b"
| "truthy (JNum n) = (n \<noteq> 0)"
| "truthy (JStr t) = (t \<noteq> [])"
| "truthy _ = True"

fun js_String :: "json \<Rightarrow> text" where
  "js_String JNull = asc ''null''"
| "js_String (JBool b) = (if b then asc ''true'' else asc ''false'')"
| "js_String (JNum n) = show_int n"
| "js_String (JStr t) = t"
| "js_String (JArr js) = join_with [44] (map (\<lambda>j. if j = JNull then [] else js_String j) js)"
| "js_String (JObj fs) = asc ''[object Object]''"

definition failed_text :: "nat \<Rightarrow> text" where
  "failed_text status = [35831, 27714, 22833, 36133, 32, 40] @ dec status @ [41]"

definition response_ok :: "nat \<Rightarrow> bool" where
  "response_ok status \<longleftrightarrow> 200 \<le> status \<and> status < 300"

definition received :: "fetch_result \<Rightarrow> js_error + json" where
  "received r =
     (case r of
        Rejected e \<Rightarrow> Inl e
      | Response status parsed \<Rightarrow>
          let body = (case parsed of None \<Rightarrow> JObj [] | Some j \<Rightarrow> j) in
          if response_ok status then Inr body
          else if body = JNull
          then Inl (JsError (asc ''Cannot read properties of null (reading 'error')''))
          else (case get_prop ''error'' body of
              None \<Rightarrow> Inl (JsError (failed_text status))
            | Some e \<Rightarrow> Inl (JsError (if truthy e then js_String e else failed_text status))))"

text \<open>\<open>err instanceof Error ? err.message : fallback\<close>\<close>

definition message_of :: "text \<Rightarrow> js_error \<Rightarrow> text" where
  "message_of fallback e =
     (case e of JsError m \<Rightarrow> m | DOMException name m \<Rightarrow> m | NotAnError \<Rightarrow> fallback)"

definition json_content :: "(string \<times> string) list" where
  "json_content = [(''Content-Type'', ''application/json'')]"

definition jsonRequest :: "text \<Rightarrow> string \<Rightarrow> json \<Rightarrow> http_request" where
  "jsonRequest url m body =
     request url \<lparr>in_method = Some m, in_headers = json_content, in_body = Some body, in_signal = None\<rparr>"

section \<open>Bodies\<close>

definition jstrs :: "text list \<Rightarrow> json" where
  "jstrs ts = JArr (map JStr ts)"

definition credentials_json :: "text \<Rightarrow> text \<Rightarrow> json" where
  "credentials_json username password =
     JObj [(''username'', JStr username), (''password'', JStr password)]"

definition codex_json :: "api_codex \<Rightarrow> json" where
  "codex_json v = JObj
     [(''binary'', JStr (x_binary v)), (''prompts_file'', JStr (x_prompts_file v)),
      (''prompts'', jstrs (x_prompts v)),
      (''request_timeout_seconds'', JNum (x_request_timeout_seconds v)),
      (''retry_min_seconds'', JNum (x_retry_min_seconds v)),
      (''retry_max_seconds'', JNum (x_retry_max_seconds v)),
      (''keepalive_min_seconds'', JNum (x_keepalive_min_seconds v)),
      (''keepalive_max_seconds'', JNum (x_keepalive_max_seconds v)),
      (''max_parallel'', JNum (x_max_parallel v)),
      (''success_message'', JStr (x_success_message v)),
      (''reasoning_effort'', JStr (x_reasoning_effort v)),
      (''config_overrides'', jstrs (x_config_overrides v))]"

definition openilink_json :: "api_openilink \<Rightarrow> text \<Rightarrow> bool \<Rightarrow> json" where
  "openilink_json v token clear = JObj
     [(''enabled'', JBool (o_enabled v)), (''base_url'', JStr (o_base_url v)),
      (''token'', JStr token), (''clear_token'', JBool clear),
      (''allowed_user_ids'', jstrs (o_allowed_user_ids v)),
      (''http_timeout_seconds'', JNum (o_http_timeout_seconds v))]"

definition telegram_json :: "api_telegram \<Rightarrow> text \<Rightarrow> bool \<Rightarrow> json" where
  "telegram_json v token clear = JObj
     [(''enabled'', JBool (g_enabled v)), (''base_url'', JStr (g_base_url v)),
      (''token'', JStr token), (''clear_token'', JBool clear),
      (''allowed_user_ids'', jstrs (g_allowed_user_ids v)),
      (''http_timeout_seconds'', JNum (g_http_timeout_seconds v)),
      (''poll_timeout_seconds'', JNum (g_poll_timeout_seconds v))]"

definition web_json :: "api_web \<Rightarrow> json" where
  "web_json v = JObj
     [(''listen_address'', JStr (w_listen_address v)), (''cookie_secure'', JBool (w_cookie_secure v)),
      (''trusted_proxies'', jstrs (w_trusted_proxies v)),
      (''activity_limit'', JNum (w_activity_limit v))]"

text \<open>An \<open>undefined\<close> property is left out by \<open>JSON.stringify\<close>.\<close>

definition target_input_json :: "TargetInput \<Rightarrow> json" where
  "target_input_json v = JObj
     ((case i_sort_order v of None \<Rightarrow> [] | Some n \<Rightarrow> [(''sort_order'', JNum n)]) @
      [(''name'', JStr (i_name v)), (''api_base_url'', JStr (i_api_base_url v)),
       (''api_key'', JStr (i_api_key v)), (''model'', JStr (i_model v)),
       (''wire_api'', JStr (i_wire_api v)), (''config_overrides'', jstrs (i_config_overrides v))])"

section \<open>Functions\<close>

definition api_setupStatus :: http_request where
  "api_setupStatus = request (asc ''/api/v1/setup/status'') no_init"

definition api_setup :: "text \<Rightarrow> text \<Rightarrow> http_request" where
  "api_setup username password =
     jsonRequest (asc ''/api/v1/setup'') ''POST'' (credentials_json username password)"

definition api_session :: http_request where
  "api_session = request (asc ''/api/v1/auth/session'') no_init"

definition api_login :: "text \<Rightarrow> text \<Rightarrow> http_request" where
  "api_login username password =
     jsonRequest (asc ''/api/v1/auth/login'') ''POST'' (credentials_json username password)"

definition api_logout :: http_request where
  "api_logout = request (asc ''/api/v1/auth/logout'') (no_init\<lparr>in_method := Some ''POST''\<rparr>)"

definition api_dashboard :: http_request where
  "api_dashboard = request (asc ''/api/v1/dashboard'') no_init"

definition api_action :: "text \<Rightarrow> text list \<Rightarrow> http_request" where
  "api_action name targets =
     jsonRequest (asc ''/api/v1/actions'') ''POST''
       (JObj [(''action'', JStr name), (''targets'', jstrs targets)])"

definition target_url :: "int \<Rightarrow> text" where
  "target_url i = asc ''/api/v1/targets/'' @ show_int i"

definition api_runAdhoc :: "int \<Rightarrow> text \<Rightarrow> nat option \<Rightarrow> http_request" where
  "api_runAdhoc i prompt signal = request (target_url i @ asc ''/adhoc'')
     \<lparr>in_method = Some ''POST'', in_headers = json_content,
      in_body = Some (JObj [(''prompt'', JStr prompt)]), in_signal = signal\<rparr>"

definition api_getConfiguration :: http_request where
  "api_getConfiguration = request (asc ''/api/v1/config'') no_init"

definition api_getConfigurationSecrets :: http_request where
  "api_getConfigurationSecrets = request (asc ''/api/v1/config/secrets'') no_init"

definition api_updateCodex :: "api_codex \<Rightarrow> http_request" where
  "api_updateCodex v = jsonRequest (asc ''/api/v1/config/codex'') ''PUT'' (codex_json v)"

definition api_updateOpenILink :: "api_openilink \<Rightarrow> text \<Rightarrow> bool \<Rightarrow> http_request" where
  "api_updateOpenILink v token clear =
     jsonRequest (asc ''/api/v1/config/openilink'') ''PUT'' (openilink_json v token clear)"

definition api_updateTelegram :: "api_telegram \<Rightarrow> text \<Rightarrow> bool \<Rightarrow> http_request" where
  "api_updateTelegram v token clear =
     jsonRequest (asc ''/api/v1/config/telegram'') ''PUT'' (telegram_json v token clear)"

definition api_updateWeb :: "api_web \<Rightarrow> http_request" where
  "api_updateWeb v = jsonRequest (asc ''/api/v1/config/web'') ''PUT'' (web_json v)"

definition api_updateAccount :: "text \<Rightarrow> text \<Rightarrow> text \<Rightarrow> http_request" where
  "api_updateAccount username current new =
     jsonRequest (asc ''/api/v1/account'') ''PUT''
       (JObj [(''username'', JStr username), (''current_password'', JStr current),
          (''new_password'', JStr new)])"

definition api_createTarget :: "TargetInput \<Rightarrow> http_request" where
  "api_createTarget v = jsonRequest (asc ''/api/v1/targets'') ''POST'' (target_input_json v)"

definition api_updateTarget :: "int \<Rightarrow> TargetInput \<Rightarrow> http_request" where
  "api_updateTarget i v = jsonRequest (target_url i) ''PUT'' (target_input_json v)"

definition api_deleteTarget :: "int \<Rightarrow> http_request" where
  "api_deleteTarget i = request (target_url i) (no_init\<lparr>in_method := Some ''DELETE''\<rparr>)"

end
