(* ===== verification/Web_Http.thy ===== *)
theory Web_Http
  imports Api Jobs
begin

text \<open>
  The server's side of the HTTP interface (\<open>internal/web/server.go\<close>): decoding of request bodies,
  the route table, and the handlers for actions and manual requests. A body is given by its size and,
  when it is exactly one JSON value, that value.
\<close>

section \<open>Request bodies\<close>

definition maxJSONBody :: nat where "maxJSONBody = 64 * 1024"
definition maxAdhocPromptRunes :: nat where "maxAdhocPromptRunes = 32 * 1024"

text \<open>
  Fields of a Go struct: a missing or null value leaves the zero value, and names match up to case.
  \<open>DisallowUnknownFields\<close> refuses a property that matches no field.
\<close>

definition fold_key :: "string \<Rightarrow> nat list" where
  "fold_key k = strings_ToLower (asc k)"

definition known_fields :: "string list \<Rightarrow> json \<Rightarrow> bool" where
  "known_fields tags j \<longleftrightarrow> list_all (\<lambda>k. list_ex (\<lambda>t. fold_key t = fold_key k) tags) (keys j)"

definition go_prop :: "string \<Rightarrow> json \<Rightarrow> json option" where
  "go_prop k j =
     (case j of
        JObj fs \<Rightarrow> map_option snd (find (\<lambda>(k', v). fold_key k' = fold_key k) (rev fs))
      | _ \<Rightarrow> None)"

definition go_field :: "string \<Rightarrow> 'a \<Rightarrow> (json \<Rightarrow> 'a option) \<Rightarrow> json \<Rightarrow> 'a option" where
  "go_field k zero f j =
     (case go_prop k j of None \<Rightarrow> Some zero | Some v \<Rightarrow> if v = JNull then Some zero else f v)"

definition go_strs :: "json \<Rightarrow> text list option" where
  "go_strs j = as_arr (\<lambda>v. if v = JNull then Some [] else as_str v) j"

definition go_int :: "json \<Rightarrow> int option" where
  "go_int j = Option.bind (as_num j) (\<lambda>n. if - (2 ^ 63) \<le> n \<and> n < 2 ^ 63 then Some n else None)"

definition is_object :: "json \<Rightarrow> bool" where
  "is_object j = (case j of JObj _ \<Rightarrow> True | JNull \<Rightarrow> True | _ \<Rightarrow> False)"

definition decodeJSON :: "string list \<Rightarrow> (json \<Rightarrow> 'a option) \<Rightarrow> nat \<times> json option \<Rightarrow> 'a option" where
  "decodeJSON tags build body =
     (let (size, parsed) = body in
      if size > maxJSONBody then None
      else case parsed of
        None \<Rightarrow> None
      | Some j \<Rightarrow> if is_object j \<and> known_fields tags j then build j else None)"

text \<open>The body the client puts on the wire.\<close>

definition sent_body :: "json \<Rightarrow> nat \<times> json option" where
  "sent_body j = (byte_length (stringify j), Some j)"

section \<open>Routes\<close>

datatype handler =
    HSetupStatus | HSetup | HLogin | HGetSession | HLogout | HDashboard | HActions | HEvents
  | HGetConfig | HGetConfigSecrets | HUpdateCodexConfig | HUpdateOpenILinkConfig
  | HUpdateTelegramConfig | HUpdateWebConfig | HUpdateAccount | HCreateTarget | HRunAdhoc
  | HUpdateTarget | HDeleteTarget

record route =
  rt_method :: string
  rt_path :: "text"
  rt_handler :: handler
  rt_authorized :: bool

definition mk_route :: "bool \<Rightarrow> string \<Rightarrow> string \<Rightarrow> handler \<Rightarrow> route" where
  "mk_route auth m p h =
     \<lparr>rt_method = m, rt_path = asc ''/api/v1'' @ asc p, rt_handler = h, rt_authorized = auth\<rparr>"

definition routes :: "route list" where
  "routes =
     [mk_route False ''GET'' ''/setup/status'' HSetupStatus,
      mk_route False ''POST'' ''/setup'' HSetup,
      mk_route False ''POST'' ''/auth/login'' HLogin,
      mk_route True ''GET'' ''/auth/session'' HGetSession,
      mk_route True ''POST'' ''/auth/logout'' HLogout,
      mk_route True ''GET'' ''/dashboard'' HDashboard,
      mk_route True ''POST'' ''/actions'' HActions,
      mk_route True ''GET'' ''/events'' HEvents,
      mk_route True ''GET'' ''/config'' HGetConfig,
      mk_route True ''GET'' ''/config/secrets'' HGetConfigSecrets,
      mk_route True ''PUT'' ''/config/codex'' HUpdateCodexConfig,
      mk_route True ''PUT'' ''/config/openilink'' HUpdateOpenILinkConfig,
      mk_route True ''PUT'' ''/config/telegram'' HUpdateTelegramConfig,
      mk_route True ''PUT'' ''/config/web'' HUpdateWebConfig,
      mk_route True ''PUT'' ''/account'' HUpdateAccount,
      mk_route True ''POST'' ''/targets'' HCreateTarget,
      mk_route True ''POST'' ''/targets/:id/adhoc'' HRunAdhoc,
      mk_route True ''PUT'' ''/targets/:id'' HUpdateTarget,
      mk_route True ''DELETE'' ''/targets/:id'' HDeleteTarget]"

text \<open>A request path as an instance of a route's path, with a value for \<open>:id\<close>.\<close>

definition instantiate :: "text \<Rightarrow> text \<Rightarrow> text" where
  "instantiate path value = replace_all (asc '':id'') value path"

definition parseTargetID :: "text \<Rightarrow> int option" where
  "parseTargetID param =
     (case strconv_Atoi param of None \<Rightarrow> None | Some i \<Rightarrow> if i \<le> 0 then None else Some i)"

text \<open>The fields of the request structs.\<close>

fun request_tags :: "handler \<Rightarrow> string list" where
  "request_tags HSetup = [''username'', ''password'']"
| "request_tags HLogin = [''username'', ''password'']"
| "request_tags HActions = [''action'', ''targets'']"
| "request_tags HRunAdhoc = [''prompt'']"
| "request_tags HUpdateCodexConfig =
     [''binary'', ''prompts_file'', ''prompts'', ''request_timeout_seconds'', ''retry_min_seconds'',
      ''retry_max_seconds'', ''keepalive_min_seconds'', ''keepalive_max_seconds'', ''max_parallel'',
      ''success_message'', ''reasoning_effort'', ''config_overrides'']"
| "request_tags HUpdateOpenILinkConfig =
     [''enabled'', ''base_url'', ''token'', ''clear_token'', ''allowed_user_ids'',
      ''http_timeout_seconds'']"
| "request_tags HUpdateTelegramConfig =
     [''enabled'', ''base_url'', ''token'', ''clear_token'', ''allowed_user_ids'',
      ''http_timeout_seconds'', ''poll_timeout_seconds'']"
| "request_tags HUpdateWebConfig =
     [''listen_address'', ''cookie_secure'', ''trusted_proxies'', ''activity_limit'']"
| "request_tags HUpdateAccount = [''username'', ''password'', ''new_password'', ''current_password'']"
| "request_tags HCreateTarget =
     [''sort_order'', ''name'', ''api_base_url'', ''api_key'', ''model'', ''wire_api'',
      ''config_overrides'']"
| "request_tags HUpdateTarget =
     [''sort_order'', ''name'', ''api_base_url'', ''api_key'', ''model'', ''wire_api'',
      ''config_overrides'']"
| "request_tags _ = []"

section \<open>Replies\<close>

type_synonym reply = "nat \<times> json"

definition error_json :: "text \<Rightarrow> json" where
  "error_json m = JObj [(''error'', JStr m)]"

definition bad_format :: reply where
  "bad_format = (400, error_json [35831, 27714, 26684, 24335, 19981, 27491, 30830])"

section \<open>Actions\<close>

record actionRequest =
  aq_Action :: "text"
  aq_Targets :: "text list"

definition decode_action :: "json \<Rightarrow> actionRequest option" where
  "decode_action j = do {
     a \<leftarrow> go_field ''action'' [] as_str j;
     ts \<leftarrow> go_field ''targets'' [] go_strs j;
     Some \<lparr>aq_Action = a, aq_Targets = ts\<rparr> }"

text \<open>
  The calls of the manager an action leads to, and the reply made of their results. \<open>Start\<close> and
  \<open>StartKeepalive\<close> run as callers in theory \<open>Scheduler\<close>.
\<close>

datatype manager_call =
    CallStart "text list"
  | CallStartKeepalive "text list"
  | CallStopTask "text list"

definition actions :: "nat \<times> json option \<Rightarrow> reply + manager_call" where
  "actions body =
     (case decodeJSON (request_tags HActions) decode_action body of
        None \<Rightarrow> Inl bad_format
      | Some rq \<Rightarrow>
          let act = strings_TrimSpace (aq_Action rq);
              targets = map strings_TrimSpace (aq_Targets rq) in
          if length targets > 100
          then Inl (400, error_json [30446, 26631, 25968, 37327, 36807, 22810])
          else if [] \<in> set targets
          then Inl (400, error_json [30446, 26631, 21517, 19981, 33021, 20026, 31354])
          else if act = asc ''queue.start'' then Inr (CallStart targets)
          else if act = asc ''keepalive.start'' then Inr (CallStartKeepalive targets)
          else if act \<in> {asc ''task.stop'', asc ''queue.stop'', asc ''keepalive.stop''}
          then Inr (CallStopTask targets)
          else Inl (400, error_json [19981, 25903, 25345, 30340, 25805, 20316]))"

definition action_reply :: "text list \<Rightarrow> text list \<Rightarrow> text list \<Rightarrow> reply" where
  "action_reply changed unchanged unknown =
     (200, JObj [(''changed'', jstrs changed), (''unchanged'', jstrs unchanged),
        (''unknown'', jstrs unknown)])"

definition start_reply :: "startResult \<Rightarrow> reply" where
  "start_reply r = action_reply (sr_Started r) (sr_Already r) (sr_Unknown r)"

definition stop_reply :: "stopResult \<Rightarrow> reply" where
  "stop_reply r = action_reply (st_Stopped r) (st_Inactive r) (st_Unknown r)"

definition read_action_result :: "json \<Rightarrow> ActionResult option" where
  "read_action_result j = do {
     c \<leftarrow> field ''changed'' (as_arr as_str) j;
     u \<leftarrow> field ''unchanged'' (as_arr as_str) j;
     k \<leftarrow> field ''unknown'' (as_arr as_str) j;
     Some \<lparr>ar_changed = c, ar_unchanged = u, ar_unknown = k\<rparr> }"

section \<open>Manual requests\<close>

definition decode_prompt :: "json \<Rightarrow> text option" where
  "decode_prompt j = go_field ''prompt'' [] as_str j"

text \<open>The part of \<open>runAdhoc\<close> before the manager is called: an identifier and a trimmed prompt.\<close>

definition runAdhoc_request :: "text \<Rightarrow> nat \<times> json option \<Rightarrow> reply + (int \<times> text)" where
  "runAdhoc_request param body =
     (case parseTargetID param of
        None \<Rightarrow> Inl (400, error_json
          [116, 97, 114, 103, 101, 116, 32, 73, 68, 32, 19981, 27491, 30830])
      | Some i \<Rightarrow>
          (case decodeJSON (request_tags HRunAdhoc) decode_prompt body of
             None \<Rightarrow> Inl bad_format
           | Some p \<Rightarrow>
               let prompt = strings_TrimSpace p in
               if prompt = []
               then Inl (400, error_json [80, 114, 111, 109, 112, 116, 32, 19981, 33021, 20026, 31354])
               else if length prompt > maxAdhocPromptRunes
               then Inl (400, error_json [80, 114, 111, 109, 112, 116, 32, 36807, 38271])
               else Inr (i, prompt)))"

definition adhoc_error_reply :: "manager_error \<Rightarrow> reply" where
  "adhoc_error_reply e =
     (case e of
        ErrTargetNotFound \<Rightarrow>
          (404, error_json [116, 97, 114, 103, 101, 116, 32, 19981, 23384, 22312])
      | ErrTargetBusy \<Rightarrow>
          (409, error_json [116, 97, 114, 103, 101, 116, 32, 24403, 21069, 26377, 20219, 21153, 36816,
             34892, 65292, 35831, 20808, 20572, 27490, 21518, 20877, 25191, 34892, 25163, 21160,
             35831, 27714])
      | ErrShuttingDown \<Rightarrow>
          (503, error_json [26381, 21153, 27491, 22312, 20572, 27490, 65292, 26080, 27861, 25191, 34892,
             25163, 21160, 35831, 27714])
      | ErrAdhocUnavailable \<Rightarrow>
          (503, error_json [25163, 21160, 35831, 27714, 26242, 19981, 21487, 29992])
      | _ \<Rightarrow> (500, error_json [25163, 21160, 35831, 27714, 21551, 21160, 22833, 36133]))"

text \<open>\<open>Duration.Milliseconds\<close> truncates towards zero; durations here are not negative.\<close>

definition adhoc_reply :: "config_target \<Rightarrow> codex_result \<Rightarrow> reply" where
  "adhoc_reply t r =
     (200, JObj
       ([(''target_id'', JNum (t_ID t)), (''target'', JStr (t_Name t)),
         (''success'', JBool (r_Success r)), (''output'', JStr (r_Response r)),
         (''process_output'', JStr (r_ProcessOutput r)), (''exit_code'', JNum (r_ExitCode r))] @
        (if r_Error r = [] then [] else [(''error'', JStr (r_Error r))]) @
        [(''duration_ms'', JNum (r_Duration r div 1000000))]))"

definition read_adhoc_result :: "json \<Rightarrow> AdhocRunResult option" where
  "read_adhoc_result j = do {
     i \<leftarrow> field ''target_id'' as_num j;
     t \<leftarrow> field ''target'' as_str j;
     s \<leftarrow> field ''success'' as_bool j;
     ou \<leftarrow> field ''output'' as_str j;
     po \<leftarrow> field ''process_output'' as_str j;
     ec \<leftarrow> field ''exit_code'' as_num j;
     er \<leftarrow> opt_field ''error'' as_str j;
     ms \<leftarrow> field ''duration_ms'' as_num j;
     Some \<lparr>rr_target_id = i, rr_target = t, rr_success = s, rr_output = ou, rr_process_output = po,
       rr_exit_code = ec, rr_error = er, rr_duration_ms = ms\<rparr> }"

end
