(* ===== verification/Api_Contract.thy ===== *)
theory Api_Contract
  imports Web_Http
begin

text \<open>
  The agreement between \<open>frontend/src/lib/api.ts\<close> and \<open>internal/web/server.go\<close>: every function of
  the client addresses a route of the server with the fields its handler decodes, what the client
  sends is what the handler reads, and errors of the server reach the user as they are.
\<close>

section \<open>Calls\<close>





definition route_of :: "handler \<Rightarrow> route" where
  "route_of h = the (find (\<lambda>r. rt_handler r = h) routes)"

lemmas api_defs = api_setupStatus_def api_setup_def api_session_def api_login_def api_logout_def
  api_dashboard_def api_action_def api_runAdhoc_def api_getConfiguration_def
  api_getConfigurationSecrets_def api_updateCodex_def api_updateOpenILink_def
  api_updateTelegram_def api_updateWeb_def api_updateAccount_def api_createTarget_def
  api_updateTarget_def api_deleteTarget_def request_def jsonRequest_def no_init_def


lemma replace_id:
  "replace_all (asc '':id'') v (asc ''/api/v1/targets/:id'') = asc ''/api/v1/targets/'' @ v"
  "replace_all (asc '':id'') v (asc ''/api/v1/targets/:id/adhoc'') =
     asc ''/api/v1/targets/'' @ v @ asc ''/adhoc''"
  by (simp_all add: replace_all.simps)

section \<open>Routes\<close>








section \<open>Identifiers\<close>

lemma digits_value_dec: "digits_value (dec n) = int n"
proof (induction n rule: dec.induct)
  case (1 n)
  then show ?case by (cases "n < 10") (simp_all add: dec.simps[of n] digits_value_def zmod_int zdiv_int)
qed

lemma Atoi_dec:
  assumes "int n < 2 ^ 63"
  shows "strconv_Atoi (dec n) = Some (int n)"
proof -
  have d: "dec n \<noteq> []" "\<forall>d\<in>set (dec n). 48 \<le> d \<and> d \<le> 57" using dec_digits by auto
  then have "hd (dec n) \<noteq> 45 \<and> hd (dec n) \<noteq> 43" using hd_in_set[OF d(1)] by fastforce
  then show ?thesis
    using d assms by (simp add: strconv_Atoi_def Let_def digits_value_dec list_all_iff)
qed

text \<open>
  The server reads the identifier the client wrote into a target's path: every positive 64-bit
  identifier survives the decimal rendering and \<open>parseTargetID\<close>.
\<close>

lemma target_id_roundtrip:
  assumes "0 < i" "i < 2 ^ 63"
  shows "parseTargetID (show_int i) = Some i"
  using assms Atoi_dec[of "nat i"] by (simp add: parseTargetID_def show_int_def)

section \<open>Actions\<close>

lemma go_strs_jstrs [simp]: "go_strs (jstrs ts) = Some ts"
  by (induction ts) (simp_all add: go_strs_def jstrs_def)

lemma jstrs_not_null [simp]: "jstrs ts \<noteq> JNull"
  by (simp add: jstrs_def)






section \<open>Errors\<close>

definition refusals :: "reply list" where
  "refusals = map (\<lambda>m. (400, error_json m))
     [[35831, 27714, 26684, 24335, 19981, 27491, 30830], [30446, 26631, 25968, 37327, 36807, 22810],
      [30446, 26631, 21517, 19981, 33021, 20026, 31354], [19981, 25903, 25345, 30340, 25805, 20316]]"

lemma actions_refusal: "actions body = Inl r \<Longrightarrow> r \<in> set refusals"
  by (auto simp: actions_def bad_format_def refusals_def Let_def split: option.splits if_splits)

lemma received_error:
  "\<not> response_ok st \<Longrightarrow> m \<noteq> [] \<Longrightarrow> received (Response st (Some (error_json m))) = Inl (JsError m)"
  by (simp add: received_def error_json_def)

text \<open>
  A refusal reaches the user. Whatever body is posted, when the server refuses an action the
  client's \<open>request\<close> throws an error whose message is the one the server wrote, never the generic
  one and never an empty one.
\<close>

lemma action_refusal_shown:
  assumes "actions body = Inl (st, j)"
  shows "\<exists>m. m \<noteq> [] \<and> j = error_json m \<and> received (Response st (Some j)) = Inl (JsError m)"
proof -
  have "\<exists>m. m \<noteq> [] \<and> j = error_json m \<and> st = 400"
    using actions_refusal[OF assms] by (auto simp: refusals_def)
  then show ?thesis using received_error by (auto simp: response_ok_def)
qed

text \<open>
  A successful answer whose body cannot be read or parsed, for example because the connection
  broke or the request was aborted while the body arrived, is not reported as an error: \<open>request\<close>
  returns an empty object in its place, which has none of the properties of a dashboard, a
  configuration or the result of a manual request.
\<close>

lemma unreadable_body_returned:
  "received (Response 200 None) = Inr (JObj []) \<and> read_dashboard (JObj []) = None \<and>
   read_configuration (JObj []) = None \<and> read_adhoc_result (JObj []) = None"
  by (simp add: received_def response_ok_def read_dashboard_def read_configuration_def
      read_adhoc_result_def field_def)

section \<open>Manual requests\<close>

lemma target_id_one: "parseTargetID (show_int 1) = Some 1"
  using Atoi_dec[of 1] by (simp add: parseTargetID_def show_int_def)

text \<open>
  The limit of the prompt field keeps the server's own limit: a text of at most 32768 UTF-16 code
  units, as the field admits, is never refused as too long after it has been decoded.
\<close>

lemma prompt_limit_suffices:
  assumes "js_length prompt \<le> 32768"
  shows "length (strings_TrimSpace prompt) \<le> maxAdhocPromptRunes"
  using assms length_le_js_length[of prompt] length_trim_by[of unicode_IsSpace prompt]
  by (simp add: maxAdhocPromptRunes_def strings_TrimSpace_def)

lemma long_prompt_size:
  "byte_length (stringify (JObj [(''prompt'', JStr (replicate n 20013))])) = 3 * n + 13"
proof -
  have "concat (map escape_char (replicate n 20013)) = replicate n 20013"
    by (induction n) (simp_all add: escape_char_def)
  then show ?thesis
    by (simp add: quote_text_def escape_char_def byte_length_replicate utf8_def)
qed

text \<open>
  But the two limits do not fit each other. A prompt that the field admits and that is within the
  server's limit of characters can make a body beyond the size limit, and is then refused as badly
  formed: 22000 Chinese characters suffice.
\<close>

lemma long_prompt_refused:
  "\<exists>prompt. js_length prompt \<le> 32768 \<and> js_trim prompt \<noteq> [] \<and>
     length (strings_TrimSpace prompt) \<le> maxAdhocPromptRunes \<and>
     runAdhoc_request (show_int 1) (sent_body (the (rq_body (api_runAdhoc 1 prompt None)))) =
       Inl bad_format"
proof
  let ?p = "replicate 22000 (20013 :: nat)"
  have n: "js_length ?p = 22000"
  proof -
    have "utf16 (replicate n 20013) = replicate n 20013" for n
      by (induction n) (simp_all add: utf16_def utf16_rune_def)
    then show ?thesis by (simp add: js_length_def)
  qed
  have "runAdhoc_request (show_int 1) (sent_body (the (rq_body (api_runAdhoc 1 ?p None)))) =
      Inl bad_format"
    using long_prompt_size[of 22000] target_id_one
    by (simp add: runAdhoc_request_def decodeJSON_def sent_body_def api_defs maxJSONBody_def
        del: stringify.simps)
  moreover have "js_trim ?p \<noteq> []"
    by (simp add: js_trim_def trim_by_eq_Nil js_IsSpace_def)
  moreover have "length (strings_TrimSpace ?p) \<le> maxAdhocPromptRunes"
    using length_trim_by[of unicode_IsSpace ?p]
    by (simp add: strings_TrimSpace_def maxAdhocPromptRunes_def)
  ultimately show "js_length ?p \<le> 32768 \<and> js_trim ?p \<noteq> [] \<and>
     length (strings_TrimSpace ?p) \<le> maxAdhocPromptRunes \<and>
     runAdhoc_request (show_int 1) (sent_body (the (rq_body (api_runAdhoc 1 ?p None)))) =
       Inl bad_format"
    using n by simp
qed

text \<open>
  The result of a manual request is shown as the server reported it: every property of the
  client's \<open>AdhocRunResult\<close> is read from the answer, the error only if there is one.
\<close>

lemma adhoc_result_roundtrip:
  "read_adhoc_result (snd (adhoc_reply t r)) =
     Some \<lparr>rr_target_id = t_ID t, rr_target = t_Name t, rr_success = r_Success r,
       rr_output = r_Response r, rr_process_output = r_ProcessOutput r, rr_exit_code = r_ExitCode r,
       rr_error = (if r_Error r = [] then None else Some (r_Error r)),
       rr_duration_ms = r_Duration r div 1000000\<rparr>"
  by (simp add: read_adhoc_result_def adhoc_reply_def field_def opt_field_def)

end
