(* ===== verification/Hub.thy ===== *)
theory Hub
  imports Sanitize
begin

text \<open>
  The OpenILink adapter (\<open>internal/hub/client.go\<close>): connection status, the window of remembered
  event identifiers that makes redelivered events harmless, decoding of incoming events, and the
  back-off between connection attempts.
\<close>

section \<open>Status\<close>

datatype hub_status =
  StatusDisabled | StatusConnecting | StatusConnected | StatusReconnecting | StatusUnauthorized

fun hub_status_text :: "hub_status \<Rightarrow> text" where
  "hub_status_text StatusDisabled = asc ''disabled''"
| "hub_status_text StatusConnecting = asc ''connecting''"
| "hub_status_text StatusConnected = asc ''connected''"
| "hub_status_text StatusReconnecting = asc ''reconnecting''"
| "hub_status_text StatusUnauthorized = asc ''unauthorized''"

record status_snapshot =
  ss_State :: hub_status
  ss_Error :: "text"
  ss_UpdatedAt :: gotime

definition Set_status :: "hub_status \<Rightarrow> text \<Rightarrow> int \<Rightarrow> status_snapshot" where
  "Set_status state errorText now =
     (let t = strings_TrimSpace errorText;
          t = (if length t > 600 then take 600 t @ [8230] else t) in
      \<lparr>ss_State = state, ss_Error = t, ss_UpdatedAt = Some now\<rparr>)"

section \<open>Remembered events\<close>

definition maxRememberedEvent :: nat where "maxRememberedEvent = 2048"

record seen_events =
  seen_set :: "text set"
  seen_order :: "text list"

definition no_events :: seen_events where
  "no_events = \<lparr>seen_set = {}, seen_order = []\<rparr>"

definition rememberEvent :: "text \<Rightarrow> seen_events \<Rightarrow> bool \<times> seen_events" where
  "rememberEvent e s =
     (if e \<in> seen_set s then (False, s)
      else let order = seen_order s @ [e]; known = insert e (seen_set s) in
        (True, if length order > maxRememberedEvent
               then \<lparr>seen_set = known - {hd order}, seen_order = tl order\<rparr>
               else \<lparr>seen_set = known, seen_order = order\<rparr>))"

text \<open>A whole sequence of deliveries: which of them are passed on.\<close>

fun deliver :: "text list \<Rightarrow> seen_events \<Rightarrow> bool list \<times> seen_events" where
  "deliver [] s = ([], s)"
| "deliver (e # es) s =
     (let (fresh, s1) = rememberEvent e s; (rest, s2) = deliver es s1 in (fresh # rest, s2))"

definition seen_inv :: "seen_events \<Rightarrow> bool" where
  "seen_inv s \<longleftrightarrow> seen_set s = set (seen_order s) \<and> distinct (seen_order s) \<and>
     length (seen_order s) \<le> maxRememberedEvent"

definition push_event :: "text \<Rightarrow> text list \<Rightarrow> text list" where
  "push_event e es =
     (if maxRememberedEvent < length (es @ [e]) then tl (es @ [e]) else es @ [e])"

lemma set_tl_distinct: "xs \<noteq> [] \<Longrightarrow> distinct xs \<Longrightarrow> set xs - {hd xs} = set (tl xs)"
  by (cases xs) auto

lemma rememberEvent_window:
  assumes "seen_inv s"
  shows "rememberEvent e s =
    (if e \<in> set (seen_order s) then (False, s)
     else (True, \<lparr>seen_set = set (push_event e (seen_order s)),
                  seen_order = push_event e (seen_order s)\<rparr>))"
proof -
  have "e \<notin> set (seen_order s) \<Longrightarrow>
      insert e (set (seen_order s)) - {hd (seen_order s @ [e])} = set (tl (seen_order s @ [e]))"
    using set_tl_distinct[of "seen_order s @ [e]"] assms by (simp add: seen_inv_def)
  then show ?thesis
    using assms by (simp add: rememberEvent_def push_event_def seen_inv_def Let_def)
qed

lemma push_event_inv:
  "distinct es \<Longrightarrow> length es \<le> maxRememberedEvent \<Longrightarrow> e \<notin> set es \<Longrightarrow>
   distinct (push_event e es) \<and> length (push_event e es) \<le> maxRememberedEvent"
  using distinct_tl[of "es @ [e]"] by (simp add: push_event_def maxRememberedEvent_def)

lemma rememberEvent_inv: "seen_inv s \<Longrightarrow> seen_inv (snd (rememberEvent e s))"
  using push_event_inv[of "seen_order s" e] rememberEvent_window[of s e] by (simp add: seen_inv_def)

lemma deliver_append:
  "deliver (es @ fs) s =
     (fst (deliver es s) @ fst (deliver fs (snd (deliver es s))),
      snd (deliver fs (snd (deliver es s))))"
  by (induction es arbitrary: s) (simp_all add: split_beta Let_def)

lemma no_events_inv: "seen_inv no_events"
  by (simp add: seen_inv_def no_events_def)

text \<open>
  An event stays in the window while fewer than the size of the window have followed it: its
  distance from the end of the order grows by at most one with every delivery.
\<close>

definition within :: "nat \<Rightarrow> text \<Rightarrow> text list \<Rightarrow> bool" where
  "within n e es \<longleftrightarrow> e \<in> set (drop (length es - n) es)"

lemma within_last: "maxRememberedEvent \<noteq> 0 \<Longrightarrow> within 1 e (push_event e es)"
proof -
  have "es \<noteq> [] \<Longrightarrow> drop (length es - Suc 0) (tl es @ [e]) = [e]" by (cases es) auto
  moreover have "drop (length es) (es @ [e]) = [e]" by simp
  ultimately show ?thesis
    by (cases es) (auto simp: within_def push_event_def maxRememberedEvent_def)
qed

lemma within_push:
  assumes "within n e es" "n < maxRememberedEvent" "length es \<le> maxRememberedEvent"
  shows "within (Suc n) e (push_event f es)"
proof (cases "maxRememberedEvent < length (es @ [f])")
  case True
  then obtain x xs where es: "es = x # xs" using assms(2) by (cases es) auto
  have "e \<in> set (drop (length es - n) es)" using assms(1) by (simp add: within_def)
  moreover have "length es - n = Suc (length xs - n)" using True assms(2,3) es by auto
  ultimately have "e \<in> set (drop (length xs - n) xs)" using es by simp
  then show ?thesis using True es by (simp add: push_event_def within_def)
next
  case False
  then show ?thesis using assms(1) by (auto simp: push_event_def within_def)
qed

lemma within_mem: "within n e es \<Longrightarrow> e \<in> set es"
  by (auto simp: within_def dest: in_set_dropD)

lemma deliver_within:
  assumes "seen_inv s" "within n e (seen_order s)" "n + length es < maxRememberedEvent"
  shows "e \<in> set (seen_order (snd (deliver es s))) \<and> seen_inv (snd (deliver es s))"
  using assms
proof (induction es arbitrary: s n)
  case Nil
  then show ?case by (simp add: within_mem)
next
  case (Cons f es)
  let ?s = "snd (rememberEvent f s)"
  have "within (Suc n) e (seen_order ?s)"
  proof (cases "f \<in> set (seen_order s)")
    case True
    then have "seen_order ?s = seen_order s" using rememberEvent_window[OF Cons.prems(1)] by simp
    then show ?thesis
      using Cons.prems(2) set_drop_subset_set_drop[OF diff_le_mono2, of n "Suc n"]
      unfolding within_def by (metis le_SucI order_refl subsetD)
  next
    case False
    then have "seen_order ?s = push_event f (seen_order s)"
      using rememberEvent_window[OF Cons.prems(1)] by simp
    then show ?thesis
      using within_push[OF Cons.prems(2)] Cons.prems(1,3) by (simp add: seen_inv_def)
  qed
  with Cons.IH[of ?s "Suc n"] rememberEvent_inv[OF Cons.prems(1), of f] Cons.prems(3)
  show ?case by (simp add: split_beta Let_def)
qed

section \<open>Incoming events\<close>

record event_data =
  ed_Content :: "text"
  ed_Command :: "text"
  ed_Text :: "text"
  ed_SenderID :: "text"
  ed_SenderRole :: "text"

record ws_envelope =
  we_TraceID :: "text"
  we_EventType :: "text"
  we_EventID :: "text"
  we_Data :: "event_data option"

record incoming =
  in_EventID :: "text"
  in_TraceID :: "text"
  in_SenderID :: "text"
  in_ReplyTo :: "text"
  in_Text :: "text"

definition decodeIncoming :: "ws_envelope \<Rightarrow> incoming option" where
  "decodeIncoming w =
     (if we_EventType w \<noteq> asc ''message.text'' \<and> we_EventType w \<noteq> asc ''command'' then None
      else case we_Data w of
        None \<Rightarrow> None
      | Some d \<Rightarrow>
          if ed_SenderID d = [] \<or> ed_SenderRole d \<noteq> [] \<and> ed_SenderRole d \<noteq> asc ''user'' then None
          else
            let command = strings_TrimSpace (ed_Command d); args = strings_TrimSpace (ed_Text d);
                isCommand = (we_EventType w = asc ''command'');
                t = (if isCommand then asc ''/'' @ command @ (if args \<noteq> [] then asc '' '' @ args else [])
                     else strings_TrimSpace (ed_Content d)) in
            if isCommand \<and> command = [] \<or> t = [] then None
            else Some \<lparr>in_EventID = we_EventID w, in_TraceID = we_TraceID w,
              in_SenderID = ed_SenderID d, in_ReplyTo = [], in_Text = t\<rparr>)"

section \<open>Back-off\<close>

text \<open>\<open>withJitter\<close>; \<open>r\<close> is the random number, below half the duration plus one.\<close>

definition withJitter :: "int \<Rightarrow> duration \<Rightarrow> duration" where
  "withJitter r d = (if d \<le> 0 then 0 else d + r mod (d div 2 + 1))"

definition next_backoff :: "duration \<Rightarrow> duration" where
  "next_backoff b = (if b * 2 < 30 * second then b * 2 else 30 * second)"

definition hub_safeText :: "text \<Rightarrow> text \<Rightarrow> text" where
  "hub_safeText token value = redact (redact_urls value) [token, url_QueryEscape token]"

section \<open>Properties\<close>

text \<open>
  An event that the Hub delivers again is passed on only once, as long as fewer than 2047 other
  deliveries lie between the two, whether or not those are new; and the memory of identifiers never
  grows beyond 2048.
\<close>

lemma event_passed_once:
  assumes "seen_inv s" "fst (rememberEvent e s)" "length es < maxRememberedEvent - 1"
  shows "fst (deliver (e # es @ [e]) s) =
      True # fst (deliver es (snd (rememberEvent e s))) @ [False] \<and>
    length (seen_order (snd (deliver (e # es @ [e]) s))) \<le> maxRememberedEvent"
proof -
  let ?s = "snd (rememberEvent e s)"
  have inv: "seen_inv ?s" by (rule rememberEvent_inv[OF assms(1)])
  have "seen_order ?s = push_event e (seen_order s)"
    using assms(2) rememberEvent_window[OF assms(1), of e] by (auto split: if_splits)
  then have "within 1 e (seen_order ?s)"
    using within_last by (simp add: maxRememberedEvent_def)
  from deliver_within[OF inv this, of es] assms(3)
  have seen: "e \<in> set (seen_order (snd (deliver es ?s)))" and last: "seen_inv (snd (deliver es ?s))"
    by auto
  have "rememberEvent e (snd (deliver es ?s)) = (False, snd (deliver es ?s))"
    using rememberEvent_window[OF last, of e] seen by simp
  then show ?thesis
    using assms(2) last by (simp add: split_beta Let_def deliver_append seen_inv_def)
qed

end
