(* ===== verification/Widgets.thy ===== *)
theory Widgets
  imports Api Hub
begin

text \<open>
  What the pages of the web client share: the formatting functions of \<open>frontend/src/lib/utils.ts\<close>
  and, from \<open>frontend/src/App.tsx\<close>, the labels and variants of states, the restart banner and
  \<open>splitLines\<close>, which turns the text of a multi-line field into a list.
\<close>

section \<open>Truthiness of optional strings\<close>

text \<open>A \<open>string | null | undefined\<close>: \<open>None\<close> for both absent values; the empty string is falsy too.\<close>

definition present :: "text option \<Rightarrow> text option" where
  "present v = (case v of None \<Rightarrow> None | Some t \<Rightarrow> if t = [] then None else Some t)"

text \<open>\<open>s.includes(pattern)\<close>\<close>

fun js_includes :: "text \<Rightarrow> text \<Rightarrow> bool" where
  "js_includes pattern [] = (pattern = [])"
| "js_includes pattern (c # cs) =
     (strip_prefix pattern (c # cs) \<noteq> None \<or> js_includes pattern cs)"

section \<open>Times\<close>

definition dash_text :: "text" where "dash_text = [8212]"

text \<open>
  \<open>formatTime\<close>. The locale's formatting of a date is a parameter; it throws a \<open>RangeError\<close> on an
  invalid date.
\<close>

definition formatTime :: "(text \<Rightarrow> js_error + text) \<Rightarrow> text option \<Rightarrow> js_error + text" where
  "formatTime intl_format v =
     (case present v of None \<Rightarrow> Inr dash_text | Some t \<Rightarrow> intl_format t)"

definition soon_text :: "text" where "soon_text = [39532, 19978]"

text \<open>The words for seconds, minutes and hours, each with the length of the unit in milliseconds.\<close>

datatype time_unit = Seconds | Minutes | Hours

fun unit_suffix :: "time_unit \<Rightarrow> text" where
  "unit_suffix Seconds = [32, 31186, 21518]"
| "unit_suffix Minutes = [32, 20998, 38047, 21518]"
| "unit_suffix Hours = [32, 23567, 26102, 21518]"

fun unit_ms :: "time_unit \<Rightarrow> int" where
  "unit_ms Seconds = 1000"
| "unit_ms Minutes = 60000"
| "unit_ms Hours = 3600000"

text \<open>
  \<open>countdown\<close>: \<open>getTime\<close> gives the milliseconds of the date the text denotes, \<open>None\<close> standing for the
  \<open>NaN\<close> of an invalid date, on which every comparison fails.
\<close>

definition countdown :: "(text \<Rightarrow> int option) \<Rightarrow> int \<Rightarrow> text option \<Rightarrow> text" where
  "countdown getTime now v =
     (case present v of
        None \<Rightarrow> dash_text
      | Some t \<Rightarrow>
          (case getTime t of
             None \<Rightarrow> asc ''NaN'' @ unit_suffix Hours
           | Some ms \<Rightarrow>
               let seconds = max 0 (round_thousandth (ms - now)) in
               if seconds \<le> 0 then soon_text
               else if seconds < 60 then show_int seconds @ unit_suffix Seconds
               else let minutes = seconds div 60 in
                 if minutes < 60 then show_int minutes @ unit_suffix Minutes
                 else show_int (minutes div 60) @ unit_suffix Hours))"

section \<open>Labels and variants of states\<close>

definition status_labels :: "(text \<times> text) list" where
  "status_labels =
     [(asc ''idle'', [26410, 21551, 21160]), (asc ''running'', [25490, 38431, 20013]),
      (asc ''succeeded'', [24050, 25104, 21151]), (asc ''stopped'', [24050, 20572, 27490]),
      (asc ''requesting'', [35831, 27714, 20013]), (asc ''waiting_queue'', [31561, 24453, 25490, 38431]),
      (asc ''waiting_next'', [31561, 24453, 19979, 27425]), (asc ''disabled'', [26410, 21551, 29992]),
      (asc ''connecting'', [36830, 25509, 20013]), (asc ''connected'', [24050, 36830, 25509]),
      (asc ''reconnecting'', [37325, 36830, 20013]), (asc ''unauthorized'', [37492, 26435, 22833, 36133]),
      (asc ''closed'', [24050, 26029, 24320])]"

definition statusLabel :: "text \<Rightarrow> text" where
  "statusLabel state =
     (case present (map_of status_labels state) of None \<Rightarrow> state | Some l \<Rightarrow> l)"

datatype variant = VDefault | VSecondary | VOutline | VDestructive | VGhost

definition stateVariant :: "text \<Rightarrow> variant" where
  "stateVariant state =
     (if state \<in> set [asc ''running'', asc ''requesting'', asc ''connected''] then VDefault
      else if state = asc ''succeeded'' then VSecondary
      else if state = asc ''unauthorized'' then VDestructive
      else VOutline)"

datatype Connection = Connecting | Connected | Reconnecting | Closed

fun connection_text :: "Connection \<Rightarrow> text" where
  "connection_text Connecting = asc ''connecting''"
| "connection_text Connected = asc ''connected''"
| "connection_text Reconnecting = asc ''reconnecting''"
| "connection_text Closed = asc ''closed''"

definition connectionTone :: "Connection \<Rightarrow> text" where
  "connectionTone c =
     (if c = Connected then asc ''healthy'' else if c = Closed then asc ''offline''
      else asc ''warning'')"

text \<open>The text of \<open>RestartBanner\<close>, absent when no field waits for a restart.\<close>

definition RestartBanner :: "text list \<Rightarrow> text option" where
  "RestartBanner waiting = (if waiting = [] then None else Some (join_with [12289] waiting))"

section \<open>Lines of a multi-line field\<close>

definition splitLines :: "text \<Rightarrow> text list" where
  "splitLines value = filter (\<lambda>l. l \<noteq> []) (map js_trim (split_newlines value))"

text \<open>\<open>items.join("\n")\<close>, the text a multi-line field shows.\<close>

definition join_lines :: "text list \<Rightarrow> text" where
  "join_lines ls = join_with [10] ls"

section \<open>Lemmas\<close>

lemma present_simps [simp]:
  "present None = None" "present (Some []) = None" "t \<noteq> [] \<Longrightarrow> present (Some t) = Some t"
  by (simp_all add: present_def)

text \<open>A line that a multi-line field keeps: not empty, trimmed, without line breaks.\<close>

definition clean_line :: "text \<Rightarrow> bool" where
  "clean_line l \<longleftrightarrow> l \<noteq> [] \<and> js_trim l = l \<and> 10 \<notin> set l"

lemma js_trim_idem [simp]: "js_trim (js_trim t) = js_trim t"
  by (simp add: js_trim_def)

lemma clean_line_last: "clean_line l \<Longrightarrow> last l \<noteq> 13"
  using trim_by_trimmed[of js_IsSpace l]
  by (auto simp: clean_line_def js_trim_def trimmed_by_def js_IsSpace_def)

lemma split_newlines_no_newline: "l \<in> set (split_newlines t) \<Longrightarrow> 10 \<notin> set l"
proof (induction t arbitrary: l rule: split_newlines.induct)
  case (2 c cs)
  have tl: "\<And>x. x \<in> set (tl (split_newlines cs)) \<Longrightarrow> x \<in> set (split_newlines cs)"
    by (simp add: list.set_sel(2))
  have hd: "hd (split_newlines cs) \<in> set (split_newlines cs)" by simp
  show ?case
    using "2.prems" "2.IH"(1,2) "2.IH"(3)[OF _ _ hd] "2.IH"(3)[OF _ _ tl]
    by (auto split: if_splits)
qed simp

lemma splitLines_clean: "l \<in> set (splitLines t) \<Longrightarrow> clean_line l"
proof -
  assume "l \<in> set (splitLines t)"
  then obtain r where "r \<in> set (split_newlines t)" "l = js_trim r" "l \<noteq> []"
    by (auto simp: splitLines_def)
  then show ?thesis
    using split_newlines_no_newline[of r t] set_trim_by[of js_IsSpace r]
    by (auto simp: clean_line_def js_trim_def)
qed

lemma split_newlines_clean:
  assumes "clean_line l"
  shows "split_newlines l = [l]" "split_newlines (l @ 10 # t) = l # split_newlines t"
  using split_newlines_line[of l] clean_line_last[OF assms] assms by (auto simp: clean_line_def)

text \<open>Appending a text behind the last line.\<close>

lemma splitLines_append:
  assumes "\<forall>l\<in>set ls. clean_line l" "clean_line m"
  shows "splitLines (join_lines (ls @ [m @ t])) = ls @ splitLines (m @ t)"
  using assms(1)
proof (induction ls)
  case Nil
  then show ?case by (simp add: join_lines_def)
next
  case (Cons l ls)
  have "join_lines ((l # ls) @ [m @ t]) = l @ 10 # join_lines (ls @ [m @ t])"
    by (cases ls) (simp_all add: join_lines_def join_with_Cons)
  with Cons show ?case
    using split_newlines_clean(2)[of l "join_lines (ls @ [m @ t])"]
    by (simp add: splitLines_def clean_line_def)
qed

lemma splitLines_one: "clean_line m \<Longrightarrow> splitLines m = [m]"
  using split_newlines_clean(1) by (simp add: splitLines_def clean_line_def)

lemma splitLines_join: "\<forall>l\<in>set ls. clean_line l \<Longrightarrow> splitLines (join_lines ls) = ls"
proof (induction ls rule: rev_induct)
  case Nil
  then show ?case by (simp add: splitLines_def join_lines_def js_trim_def trim_by_def trim_left_by_def)
next
  case (snoc m ls)
  then show ?case using splitLines_append[of ls m "[]"] splitLines_one[of m] by simp
qed

lemma js_trim_snoc_space:
  assumes "js_IsSpace c"
  shows "js_trim (m @ [c]) = js_trim m"
proof (cases "\<forall>x\<in>set m. js_IsSpace x")
  case True
  then have "trim_by js_IsSpace m = []" "trim_by js_IsSpace (m @ [c]) = []" using assms by auto
  then show ?thesis unfolding js_trim_def by (rule trans[OF _ sym, rotated])
next
  case False
  then show ?thesis
    using assms by (auto simp: js_trim_def trim_by_def trim_left_by_def dropWhile_append)
qed

lemma splitLines_trailing:
  assumes "clean_line m" "c = 10 \<or> js_IsSpace c \<and> c \<noteq> 13"
  shows "splitLines (m @ [c]) = [m]"
proof (cases "c = 10")
  case True
  then show ?thesis
    using split_newlines_clean(2)[OF assms(1), of "[]"] assms(1)
    by (simp add: splitLines_def clean_line_def js_trim_def trim_by_def trim_left_by_def)
next
  case False
  with assms have "split_newlines (m @ [c]) = [m @ [c]]"
    using split_newlines_line(1)[of "m @ [c]"] by (auto simp: clean_line_def)
  with assms False show ?thesis by (simp add: splitLines_def js_trim_snoc_space clean_line_def)
qed

lemma show_int_nonneg: "0 \<le> n \<Longrightarrow> show_int n = dec (nat n)"
  by (simp add: show_int_def)

section \<open>Properties\<close>

text \<open>
  What a countdown shows is right to within the unit it shows: for a date in the future it names
  a count of at least one (and below sixty for seconds and minutes) such that the time left, rounded
  to seconds, lies between that many units and one unit more.
\<close>

lemma countdown_bounds:
  assumes "v \<noteq> []" "getTime v = Some ms" "500 \<le> ms - now"
  shows "\<exists>n u. countdown getTime now (Some v) = show_int n @ unit_suffix u \<and> 1 \<le> n \<and>
    (u = Hours \<or> n < 60) \<and> n * unit_ms u \<le> ms - now + 500 \<and> ms - now + 500 < (n + 1) * unit_ms u"
proof -
  let ?s = "(ms - now + 500) div 1000"
  have one: "1 \<le> ?s" using assms(3) by simp
  then have eq: "countdown getTime now (Some v) =
    (if ?s < 60 then show_int ?s @ unit_suffix Seconds
     else if ?s div 60 < 60 then show_int (?s div 60) @ unit_suffix Minutes
     else show_int (?s div 60 div 60) @ unit_suffix Hours)"
    using assms(1,2) by (simp add: countdown_def round_thousandth_def Let_def max_def)
  consider "?s < 60" | "60 \<le> ?s" "?s div 60 < 60" | "60 \<le> ?s" "60 \<le> ?s div 60" by linarith
  then show ?thesis
  proof cases
    case 1
    then show ?thesis using one unfolding eq
      by (intro exI[of _ ?s] exI[of _ Seconds]) (simp; linarith)
  next
    case 2
    then show ?thesis unfolding eq
      by (intro exI[of _ "?s div 60"] exI[of _ Minutes]) (simp; linarith)
  next
    case 3
    then show ?thesis unfolding eq
      by (intro exI[of _ "?s div 60 div 60"] exI[of _ Hours]) (simp; linarith)
  qed
qed

text \<open>
  The lines of a multi-line field survive being shown and read again, and whatever the user
  enters is read as a list of such lines.
\<close>

lemma lines_roundtrip:
  "splitLines (join_lines (splitLines t)) = splitLines t \<and> list_all clean_line (splitLines t)"
  using splitLines_join[of "splitLines t"] splitLines_clean[of _ t] by (simp add: list_all_iff)

end
