(* ===== verification/Dashboard_Page.thy ===== *)
theory Dashboard_Page
  imports Widgets Web_Http Systems
begin

text \<open>
  The dashboard of the web client (\<open>DashboardPage\<close> and \<open>TargetRow\<close> of \<open>frontend/src/App.tsx\<close>,
  \<open>AlertDialog\<close> of \<open>frontend/src/components/ui/alert-dialog.tsx\<close>). \<open>data\<close> is the JSON value last
  received, which the page reads as a \<open>Dashboard\<close>. The step relation lets the user's events, the
  responses and the server-sent events come in any order; what a control does is a step only while the
  control is shown and enabled.
\<close>

section \<open>A row\<close>

definition queueBusy :: "Target \<Rightarrow> bool" where
  "queueBusy t \<longleftrightarrow> q_state (tgt_queue t) = asc ''running''"

definition keepaliveBusy :: "Target \<Rightarrow> bool" where
  "keepaliveBusy t \<longleftrightarrow> ka_state (tgt_keepalive t) \<noteq> asc ''stopped''"

definition row_active :: "Target \<Rightarrow> bool" where
  "row_active t \<longleftrightarrow> queueBusy t \<or> keepaliveBusy t \<or> tgt_adhoc_running t"

text \<open>The texts of a row; a time that cannot be formatted makes the whole row throw.\<close>

record row_texts =
  tr_title :: "text"
  tr_adhoc_badge :: bool
  tr_subtitle :: "text"
  tr_queue_badge :: "variant \<times> text"
  tr_queue_meta :: "text \<times> text"
  tr_queue_detail :: "text"
  tr_queue_error :: "text option"
  tr_keepalive_badge :: "variant \<times> text"
  tr_keepalive_meta :: "text \<times> text"
  tr_keepalive_detail :: "text"
  tr_keepalive_error :: "text option"

definition both_times :: "(text \<Rightarrow> js_error + text) \<Rightarrow> text \<Rightarrow> text option \<Rightarrow> text \<Rightarrow> text option \<Rightarrow> js_error + text" where
  "both_times intl before a between b =
     (case formatTime intl a of
        Inl e \<Rightarrow> Inl e
      | Inr x \<Rightarrow> (case formatTime intl b of
          Inl e \<Rightarrow> Inl e
        | Inr y \<Rightarrow> Inr (before @ x @ [32, 183, 32] @ between @ y)))"

definition TargetRow ::
  "(text \<Rightarrow> js_error + text) \<Rightarrow> (text \<Rightarrow> int option) \<Rightarrow> int \<Rightarrow> Target \<Rightarrow> js_error + row_texts" where
  "TargetRow intl getTime now t =
     (case both_times intl [26368, 36817, 32] (q_last_attempt (tgt_queue t)) [23436, 25104, 32]
        (q_finished_at (tgt_queue t)) of
        Inl e \<Rightarrow> Inl e
      | Inr qd \<Rightarrow>
          (case both_times intl [25104, 21151, 32] (ka_last_success (tgt_keepalive t)) [22833, 36133, 32]
             (ka_last_failure (tgt_keepalive t)) of
             Inl e \<Rightarrow> Inl e
           | Inr kd \<Rightarrow> Inr \<lparr>
               tr_title = tgt_name t, tr_adhoc_badge = tgt_adhoc_running t,
               tr_subtitle = tgt_model t @ [32, 183, 32] @ tgt_api_host t,
               tr_queue_badge = (stateVariant (q_state (tgt_queue t)), statusLabel (q_state (tgt_queue t))),
               tr_queue_meta =
                 ([23581, 35797, 32] @ show_int (q_attempts (tgt_queue t)) @ [32, 27425],
                  if queueBusy t then [22833, 36133, 21518, 31435, 21363, 32487, 32493] else [24403, 21069, 26410, 25490, 38431]),
               tr_queue_detail = qd, tr_queue_error = present (q_last_error (tgt_queue t)),
               tr_keepalive_badge =
                 (stateVariant (ka_state (tgt_keepalive t)), statusLabel (ka_state (tgt_keepalive t))),
               tr_keepalive_meta =
                 ([35831, 27714, 32] @ show_int (ka_requests (tgt_keepalive t)) @ [32, 27425],
                  [19979, 27425, 32] @ countdown getTime now (ka_next_request (tgt_keepalive t))),
               tr_keepalive_detail = kd, tr_keepalive_error = present (ka_last_error (tgt_keepalive t))\<rparr>))"

text \<open>The buttons of a row and whether they are enabled.\<close>

datatype row_button = RowStartQueue | RowStartKeepalive | RowAdhoc | RowStop

fun row_enabled :: "row_button \<Rightarrow> Target \<Rightarrow> bool" where
  "row_enabled RowStartQueue t = (\<not> tgt_adhoc_running t)"
| "row_enabled RowStartKeepalive t = (\<not> tgt_adhoc_running t)"
| "row_enabled RowAdhoc t = (\<not> (tgt_busy t \<or> tgt_id t \<le> 0))"
| "row_enabled RowStop t = row_active t"

section \<open>The page\<close>

record DashboardPage =
  dp_data :: "json option"
  dp_connection :: Connection
  dp_selected :: "text list"
  dp_notice :: "text"
  dp_busy :: bool
  dp_confirmStop :: bool
  dp_adhocTarget :: "Target option"

definition dash_mounted :: DashboardPage where
  "dash_mounted = \<lparr>dp_data = None, dp_connection = Connecting, dp_selected = [], dp_notice = [],
     dp_busy = False, dp_confirmStop = False, dp_adhocTarget = None\<rparr>"

text \<open>
  What is rendered: nothing but a spinner while there is no data; data that does not have the shape
  of a \<open>Dashboard\<close> makes rendering throw, which unmounts the application.
\<close>

definition dash_view :: "DashboardPage \<Rightarrow> Dashboard option" where
  "dash_view p = Option.bind (dp_data p) read_dashboard"

definition dash_broken :: "DashboardPage \<Rightarrow> bool" where
  "dash_broken p \<longleftrightarrow> dp_data p \<noteq> None \<and> dash_view p = None"

definition target_names :: "Dashboard \<Rightarrow> text list" where
  "target_names v = map tgt_name (d_targets v)"

text \<open>\<open>setData\<close> and the effect on \<open>data?.targets\<close> that follows it; a falsy value is no data.\<close>

definition prune_selected :: "DashboardPage \<Rightarrow> DashboardPage" where
  "prune_selected p =
     (case dash_view p of None \<Rightarrow> p
      | Some v \<Rightarrow> p\<lparr>dp_selected := filter (\<lambda>n. list_ex (\<lambda>t. tgt_name t = n) (d_targets v)) (dp_selected p)\<rparr>)"

definition setData :: "json \<Rightarrow> DashboardPage \<Rightarrow> DashboardPage" where
  "setData j p = prune_selected (p\<lparr>dp_data := if truthy j then Some j else None\<rparr>)"

definition not_logged_in :: "text" where "not_logged_in = [26410, 30331, 24405]"

definition is_logged_out :: "js_error \<Rightarrow> bool" where
  "is_logged_out e \<longleftrightarrow> e \<noteq> NotAnError \<and> js_includes not_logged_in (message_of [] e)"

text \<open>\<open>load\<close> after its \<open>await\<close>; the second component says that \<open>onLogout\<close> is called.\<close>

definition load_settled :: "fetch_result \<Rightarrow> DashboardPage \<Rightarrow> DashboardPage \<times> bool" where
  "load_settled r p =
     (case received r of
        Inr j \<Rightarrow> (setData j p, False)
      | Inl e \<Rightarrow> if is_logged_out e then (p, True)
          else (p\<lparr>dp_notice := message_of [21152, 36733, 22833, 36133] e\<rparr>, False))"

section \<open>Server-sent events\<close>

text \<open>\<open>{ ...previous, ...next }\<close>\<close>

definition object_props :: "json \<Rightarrow> (string \<times> json) list" where
  "object_props j = (case j of JObj fs \<Rightarrow> fs | _ \<Rightarrow> [])"

definition spread :: "json \<Rightarrow> json \<Rightarrow> json" where
  "spread a b = JObj (object_props a @ object_props b)"

text \<open>
  The listeners; \<open>None\<close> is a payload that \<open>JSON.parse\<close> refuses, after which the listener does
  nothing more.
\<close>

definition on_snapshot :: "json option \<Rightarrow> DashboardPage \<Rightarrow> DashboardPage" where
  "on_snapshot payload p =
     (case payload of None \<Rightarrow> p | Some j \<Rightarrow> (setData j p)\<lparr>dp_connection := Connected\<rparr>)"

definition on_state :: "json option \<Rightarrow> DashboardPage \<Rightarrow> DashboardPage" where
  "on_state payload p =
     (case payload of
        None \<Rightarrow> p
      | Some next \<Rightarrow>
          (setData (case dp_data p of None \<Rightarrow> next | Some previous \<Rightarrow> spread previous next) p)
            \<lparr>dp_connection := Connected\<rparr>)"

definition on_error :: "DashboardPage \<Rightarrow> DashboardPage" where
  "on_error p = p\<lparr>dp_connection := Reconnecting\<rparr>"

section \<open>Actions\<close>

definition runAction :: "text \<Rightarrow> text list \<Rightarrow> DashboardPage \<Rightarrow> DashboardPage \<times> http_request" where
  "runAction name targets p = (p\<lparr>dp_busy := True, dp_notice := []\<rparr>, api_action name targets)"

definition action_notice :: "ActionResult \<Rightarrow> text" where
  "action_notice r = join_with [32, 183, 32]
     [[24050, 21464, 26356, 32] @ dec (length (ar_changed r)),
      [26410, 21464, 26356, 32] @ dec (length (ar_unchanged r)),
      [26410, 30693, 32] @ dec (length (ar_unknown r))]"

definition action_failed :: "text" where "action_failed = [25805, 20316, 22833, 36133]"

text \<open>
  After the response: on success the dashboard is loaded again, and the page stays busy until that
  has settled.
\<close>

definition action_settled :: "fetch_result \<Rightarrow> DashboardPage \<Rightarrow> DashboardPage \<times> http_request option" where
  "action_settled r p =
     (case received r of
        Inl e \<Rightarrow> (p\<lparr>dp_notice := message_of action_failed e, dp_busy := False\<rparr>, None)
      | Inr j \<Rightarrow>
          (case read_action_result j of
             None \<Rightarrow> (p\<lparr>dp_notice := asc ''Cannot read properties of undefined (reading 'length')'',
                 dp_busy := False\<rparr>, None)
           | Some a \<Rightarrow> (p\<lparr>dp_notice := action_notice a\<rparr>, Some api_dashboard)))"

definition reload_settled :: "fetch_result \<Rightarrow> DashboardPage \<Rightarrow> DashboardPage \<times> bool" where
  "reload_settled r p = (let (q, out) = load_settled r p in (q\<lparr>dp_busy := False\<rparr>, out))"

section \<open>Selection\<close>

definition selectedAll :: "DashboardPage \<Rightarrow> bool" where
  "selectedAll p = (case dash_view p of None \<Rightarrow> False
     | Some v \<Rightarrow> 0 < length (d_targets v) \<and> length (dp_selected p) = length (d_targets v))"

definition selectAll :: "DashboardPage \<Rightarrow> DashboardPage" where
  "selectAll p = p\<lparr>dp_selected :=
     if selectedAll p then [] else case dash_view p of None \<Rightarrow> [] | Some v \<Rightarrow> target_names v\<rparr>"

definition toggle_row :: "text \<Rightarrow> DashboardPage \<Rightarrow> DashboardPage" where
  "toggle_row name p = p\<lparr>dp_selected :=
     if name \<in> set (dp_selected p) then filter (\<lambda>n. n \<noteq> name) (dp_selected p)
     else dp_selected p @ [name]\<rparr>"

section \<open>Events of the user\<close>

datatype dash_event =
    ClickRefresh
  | ClickSelectAll
  | ClickSelected "text"
  | OpenStopAll
  | CancelStopAll
  | ConfirmStopAll
  | ToggleRow "text"
  | ClickRow row_button Target
  | CloseAdhoc

definition toolbar_actions :: "text list" where
  "toolbar_actions = [asc ''queue.start'', asc ''keepalive.start'', asc ''task.stop'']"

definition dash_enabled :: "dash_event \<Rightarrow> DashboardPage \<Rightarrow> bool" where
  "dash_enabled e p =
     (case dash_view p of
        None \<Rightarrow> False
      | Some v \<Rightarrow>
          (case e of
             ClickRefresh \<Rightarrow> True
           | ClickSelectAll \<Rightarrow> d_targets v \<noteq> []
           | ClickSelected name \<Rightarrow> d_targets v \<noteq> [] \<and> name \<in> set toolbar_actions \<and>
               \<not> (dp_selected p = [] \<or> dp_busy p)
           | OpenStopAll \<Rightarrow> d_targets v \<noteq> [] \<and> \<not> dp_busy p
           | CancelStopAll \<Rightarrow> d_targets v \<noteq> [] \<and> dp_confirmStop p
           | ConfirmStopAll \<Rightarrow> d_targets v \<noteq> [] \<and> dp_confirmStop p
           | ToggleRow name \<Rightarrow> name \<in> set (target_names v)
           | ClickRow b t \<Rightarrow> t \<in> set (d_targets v) \<and> row_enabled b t
           | CloseAdhoc \<Rightarrow> dp_adhocTarget p \<noteq> None))"

fun row_action :: "row_button \<Rightarrow> text option" where
  "row_action RowStartQueue = Some (asc ''queue.start'')"
| "row_action RowStartKeepalive = Some (asc ''keepalive.start'')"
| "row_action RowStop = Some (asc ''task.stop'')"
| "row_action RowAdhoc = None"

text \<open>Which response is awaited: of a load, of an action, or of the load that follows an action.\<close>

datatype dash_wait = WaitLoad | WaitAction | WaitReload

definition acting :: "text \<Rightarrow> text list \<Rightarrow> DashboardPage \<Rightarrow> DashboardPage \<times> (dash_wait \<times> http_request) option" where
  "acting name targets p = (let (q, r) = runAction name targets p in (q, Some (WaitAction, r)))"

text \<open>The confirming button of \<open>AlertDialog\<close>: \<open>onConfirm()\<close>, then \<open>onOpenChange(false)\<close>.\<close>

definition alert_confirm :: "('s \<Rightarrow> 's \<times> 'r) \<Rightarrow> (bool \<Rightarrow> 's \<Rightarrow> 's) \<Rightarrow> 's \<Rightarrow> 's \<times> 'r" where
  "alert_confirm onConfirm onOpenChange s = (let (q, r) = onConfirm s in (onOpenChange False q, r))"

definition setConfirmStop :: "bool \<Rightarrow> DashboardPage \<Rightarrow> DashboardPage" where
  "setConfirmStop b p = p\<lparr>dp_confirmStop := b\<rparr>"

definition dash_handle ::
  "dash_event \<Rightarrow> DashboardPage \<Rightarrow> DashboardPage \<times> (dash_wait \<times> http_request) option" where
  "dash_handle e p =
     (case e of
        ClickRefresh \<Rightarrow> (p, Some (WaitLoad, api_dashboard))
      | ClickSelectAll \<Rightarrow> (selectAll p, None)
      | ClickSelected name \<Rightarrow> acting name (dp_selected p) p
      | OpenStopAll \<Rightarrow> (setConfirmStop True p, None)
      | CancelStopAll \<Rightarrow> (setConfirmStop False p, None)
      | ConfirmStopAll \<Rightarrow> alert_confirm (acting (asc ''task.stop'') []) setConfirmStop p
      | ToggleRow name \<Rightarrow> (toggle_row name p, None)
      | ClickRow b t \<Rightarrow>
          (case row_action b of
             Some name \<Rightarrow> acting name [tgt_name t] p
           | None \<Rightarrow> (p\<lparr>dp_adhocTarget := Some t\<rparr>, None))
      | CloseAdhoc \<Rightarrow> (p\<lparr>dp_adhocTarget := None\<rparr>, None))"

section \<open>Runs\<close>

record dash_world =
  dw_page :: DashboardPage
  dw_waits :: "dash_wait list"
  dw_logout :: bool

text \<open>
  What the server sends: target names are unique in every dashboard, and the payload of a
  server-sent event is a whole dashboard.
\<close>

definition names_unique :: "json \<Rightarrow> bool" where
  "names_unique j = (case read_dashboard j of None \<Rightarrow> True | Some v \<Rightarrow> distinct (target_names v))"

definition served :: "fetch_result \<Rightarrow> bool" where
  "served r = (case received r of Inl _ \<Rightarrow> True | Inr j \<Rightarrow> names_unique j)"

definition pushed :: "json \<Rightarrow> bool" where
  "pushed j \<longleftrightarrow> read_dashboard j \<noteq> None \<and> names_unique j"

definition settle :: "dash_wait \<Rightarrow> dash_world \<Rightarrow> DashboardPage \<Rightarrow> dash_wait list \<Rightarrow> bool \<Rightarrow> dash_world" where
  "settle k w p ks out =
     \<lparr>dw_page = p, dw_waits = ks @ remove1 k (dw_waits w), dw_logout = (dw_logout w \<or> out)\<rparr>"

inductive dash_step :: "dash_world \<Rightarrow> dash_world \<Rightarrow> bool" where
  user: "dash_enabled e (dw_page w) \<Longrightarrow> dash_handle e (dw_page w) = (p, q) \<Longrightarrow>
    dash_step w (w\<lparr>dw_page := p,
      dw_waits := (case q of None \<Rightarrow> [] | Some (k, r) \<Rightarrow> [k]) @ dw_waits w\<rparr>)"
| loaded: "\<not> dash_broken (dw_page w) \<Longrightarrow> WaitLoad \<in> set (dw_waits w) \<Longrightarrow> served r \<Longrightarrow>
    load_settled r (dw_page w) = (p, out) \<Longrightarrow> dash_step w (settle WaitLoad w p [] out)"
| acted: "\<not> dash_broken (dw_page w) \<Longrightarrow> WaitAction \<in> set (dw_waits w) \<Longrightarrow>
    action_settled r (dw_page w) = (p, q) \<Longrightarrow>
    dash_step w (settle WaitAction w p (if q = None then [] else [WaitReload]) False)"
| reloaded: "\<not> dash_broken (dw_page w) \<Longrightarrow> WaitReload \<in> set (dw_waits w) \<Longrightarrow> served r \<Longrightarrow>
    reload_settled r (dw_page w) = (p, out) \<Longrightarrow> dash_step w (settle WaitReload w p [] out)"
| snapshot: "\<not> dash_broken (dw_page w) \<Longrightarrow> pushed j \<Longrightarrow>
    dash_step w (w\<lparr>dw_page := on_snapshot (Some j) (dw_page w)\<rparr>)"
| state: "\<not> dash_broken (dw_page w) \<Longrightarrow> pushed j \<Longrightarrow>
    dash_step w (w\<lparr>dw_page := on_state (Some j) (dw_page w)\<rparr>)"
| expired: "dash_step w (w\<lparr>dw_logout := True\<rparr>)"
| disconnected: "dash_step w (w\<lparr>dw_page := on_error (dw_page w)\<rparr>)"

definition dash_initial :: "dash_world \<Rightarrow> bool" where
  "dash_initial w \<longleftrightarrow> w = \<lparr>dw_page = dash_mounted, dw_waits = [WaitLoad], dw_logout = False\<rparr>"

definition dash_inv :: "dash_world \<Rightarrow> bool" where
  "dash_inv w \<longleftrightarrow>
     distinct (dp_selected (dw_page w)) \<and>
     (\<forall>v. dash_view (dw_page w) = Some v \<longrightarrow>
        distinct (target_names v) \<and> set (dp_selected (dw_page w)) \<subseteq> set (target_names v)) \<and>
     (dp_busy (dw_page w) \<longrightarrow> WaitAction \<in> set (dw_waits w) \<or> WaitReload \<in> set (dw_waits w))"

section \<open>Lemmas\<close>

text \<open>Merging a whole dashboard over an earlier one gives the whole dashboard.\<close>

lemma get_prop_spread:
  "get_prop k (spread a b) =
     (case get_prop k b of Some v \<Rightarrow> Some v | None \<Rightarrow> get_prop k (JObj (object_props a)))"
  by (cases b) (simp_all add: spread_def object_props_def map_add_def split: option.split)

lemma field_spread: "field k f b = Some x \<Longrightarrow> field k f (spread a b) = Some x"
  by (auto simp: field_def get_prop_spread split: bind_splits)

lemma read_dashboard_spread:
  assumes "read_dashboard b = Some v"
  shows "read_dashboard (spread a b) = Some v"
  using assms unfolding read_dashboard_def
  by (auto simp: field_spread split: bind_splits)

lemma prune_frame [simp]:
  "dp_data (prune_selected p) = dp_data p" "dp_busy (prune_selected p) = dp_busy p"
  "dash_view (prune_selected p) = dash_view p"
  by (simp_all add: prune_selected_def dash_view_def split: option.split)

lemma prune_distinct: "distinct (dp_selected p) \<Longrightarrow> distinct (dp_selected (prune_selected p))"
  by (simp add: prune_selected_def split: option.split)

lemma prune_subset:
  "dash_view p = Some v \<Longrightarrow> set (dp_selected (prune_selected p)) \<subseteq> set (target_names v)"
  by (auto simp: prune_selected_def target_names_def list_ex_iff)

lemma setData_view: "dash_view (setData j p) = (if truthy j then read_dashboard j else None)"
  by (simp add: setData_def dash_view_def)

lemma setData_busy [simp]: "dp_busy (setData j p) = dp_busy p"
  by (simp add: setData_def)

text \<open>The selection is fit for the data: the part of the invariant that concerns the page only.\<close>

definition selection_ok :: "DashboardPage \<Rightarrow> bool" where
  "selection_ok p \<longleftrightarrow> distinct (dp_selected p) \<and>
     (\<forall>v. dash_view p = Some v \<longrightarrow>
        distinct (target_names v) \<and> set (dp_selected p) \<subseteq> set (target_names v))"

lemma setData_selection:
  assumes "distinct (dp_selected p)" "truthy j \<Longrightarrow> names_unique j"
  shows "selection_ok (setData j p)"
proof -
  have "distinct (dp_selected (setData j p))"
    using assms(1) by (simp add: setData_def prune_distinct)
  moreover have "distinct (target_names v)" if "dash_view (setData j p) = Some v" for v
    using that assms(2) by (simp add: setData_view names_unique_def split: if_splits)
  moreover have "set (dp_selected (setData j p)) \<subseteq> set (target_names v)"
    if "dash_view (setData j p) = Some v" for v
    using that prune_subset by (simp add: setData_def)
  ultimately show ?thesis by (simp add: selection_ok_def)
qed

lemma selection_update [simp]:
  "selection_ok (p\<lparr>dp_notice := n\<rparr>) = selection_ok p" "selection_ok (p\<lparr>dp_busy := b\<rparr>) = selection_ok p"
  "selection_ok (p\<lparr>dp_connection := c\<rparr>) = selection_ok p"
  "selection_ok (p\<lparr>dp_confirmStop := f\<rparr>) = selection_ok p"
  "selection_ok (p\<lparr>dp_adhocTarget := t\<rparr>) = selection_ok p"
  by (simp_all add: selection_ok_def dash_view_def)

lemma load_selection:
  assumes "selection_ok p" "served r"
  shows "selection_ok (fst (load_settled r p))"
  using assms setData_selection
  by (auto simp: load_settled_def served_def selection_ok_def[of p] split: sum.split)

lemma on_state_selection:
  assumes "selection_ok p" "pushed j"
  shows "selection_ok (on_state (Some j) p)"
proof -
  have "names_unique (case dp_data p of None \<Rightarrow> j | Some previous \<Rightarrow> spread previous j)"
    using assms(2) read_dashboard_spread
    by (fastforce simp: pushed_def names_unique_def split: option.splits)
  then show ?thesis
    using assms(1) setData_selection by (simp add: on_state_def selection_ok_def[of p])
qed

lemma on_snapshot_selection: "selection_ok p \<Longrightarrow> pushed j \<Longrightarrow> selection_ok (on_snapshot (Some j) p)"
  using setData_selection by (simp add: on_snapshot_def pushed_def selection_ok_def[of p])

lemma handle_selection:
  assumes "selection_ok p" "dash_enabled e p"
  shows "selection_ok (fst (dash_handle e p))"
proof (cases e)
  case ClickSelectAll
  then show ?thesis
    using assms
    by (auto simp: dash_handle_def selectAll_def selection_ok_def dash_view_def split: option.splits)
next
  case (ToggleRow name)
  then show ?thesis
    using assms
    by (auto simp: dash_handle_def toggle_row_def selection_ok_def dash_view_def dash_enabled_def
      split: option.splits)
next
  case (ClickRow b t)
  with assms(1) show ?thesis
    by (cases b) (simp_all add: dash_handle_def acting_def runAction_def)
qed (use assms(1) in \<open>simp_all add: dash_handle_def acting_def runAction_def alert_confirm_def setConfirmStop_def\<close>)

lemma handle_busy:
  "dash_handle e p = (p', q) \<Longrightarrow> dp_busy p' \<longrightarrow> dp_busy p \<or> (\<exists>r. q = Some (WaitAction, r))"
  by (cases e)
    (auto simp: dash_handle_def acting_def runAction_def selectAll_def toggle_row_def alert_confirm_def
      setConfirmStop_def
      split: option.splits)

lemma load_busy [simp]: "dp_busy (fst (load_settled r p)) = dp_busy p"
  by (simp add: load_settled_def split: sum.split)

lemma dash_inv_alt:
  "dash_inv w \<longleftrightarrow> selection_ok (dw_page w) \<and>
     (dp_busy (dw_page w) \<longrightarrow> WaitAction \<in> set (dw_waits w) \<or> WaitReload \<in> set (dw_waits w))"
  by (auto simp: dash_inv_def selection_ok_def)

lemma remove1_other: "x \<in> set xs \<Longrightarrow> x \<noteq> k \<Longrightarrow> x \<in> set (remove1 k xs)"
  by (simp add: in_set_remove1)

lemma dash_step_inv:
  assumes "dash_step w w'" "dash_inv w"
  shows "dash_inv w'"
  using assms
proof induction
  case (user e w p q)
  then show ?case
    using handle_selection[of "dw_page w" e] handle_busy[OF user(2)]
    by (auto simp: dash_inv_alt split: option.splits)
next
  case (loaded w r p out)
  then show ?case
    using load_selection[of "dw_page w" r] load_busy[of r "dw_page w"]
    by (auto simp: dash_inv_alt settle_def in_set_remove1)
next
  case (acted w r p q)
  then show ?case
    by (auto simp: dash_inv_alt settle_def action_settled_def in_set_remove1
      split: sum.splits option.splits if_splits)
next
  case (reloaded w r p out)
  then show ?case
    using load_selection[of "dw_page w" r]
    by (auto simp: dash_inv_alt settle_def reload_settled_def split_beta Let_def)
next
  case (snapshot w j)
  then show ?case
    using on_snapshot_selection by (simp add: dash_inv_alt) (simp add: on_snapshot_def)
next
  case (state w j)
  then show ?case
    using on_state_selection by (simp add: dash_inv_alt) (simp add: on_state_def)
next
  case (expired w)
  then show ?case by (simp add: dash_inv_alt)
next
  case (disconnected w)
  then show ?case by (simp add: dash_inv_alt on_error_def)
qed

lemma dash_initial_inv: "dash_initial w \<Longrightarrow> dash_inv w"
  by (simp add: dash_initial_def dash_inv_alt dash_mounted_def selection_ok_def dash_view_def)

interpretation dashboard: invariant_system dash_initial dash_step dash_inv
  by unfold_locales (auto intro: dash_initial_inv dash_step_inv)

lemma read_dashboard_truthy: "read_dashboard j = Some v \<Longrightarrow> truthy j"
  by (cases j) (simp_all add: read_dashboard_def field_def)

lemma spread_truthy [simp]: "truthy (spread a b)"
  by (simp add: spread_def)

text \<open>
  A \<open>state\<close> event, which the page merges over the data it has, leaves it showing exactly the dashboard
  that the event carries.
\<close>

lemma on_state_view:
  assumes "read_dashboard j = Some v"
  shows "dash_view (on_state (Some j) p) = Some v"
proof -
  have "dash_view (q\<lparr>dp_connection := c\<rparr>) = dash_view q" for c q by (simp add: dash_view_def)
  then show ?thesis
    using assms read_dashboard_truthy[OF assms] read_dashboard_spread[OF assms]
    by (simp add: on_state_def setData_view split: option.split)
qed

section \<open>A run\<close>

definition conn_json :: "string \<Rightarrow> json" where
  "conn_json st = JObj [(''state'', JStr (asc st)), (''updated_at'', JNull)]"

definition idle_target_json :: "int \<Rightarrow> string \<Rightarrow> json" where
  "idle_target_json i nm = JObj
     [(''id'', JNum i), (''name'', JStr (asc nm)), (''model'', JStr (asc ''m'')), (''api_host'', JStr (asc ''h'')),
      (''busy'', JBool False), (''adhoc_running'', JBool False),
      (''queue'', JObj [(''state'', JStr (asc ''idle'')), (''attempts'', JNum 0), (''started_at'', JNull),
        (''last_attempt'', JNull), (''next_attempt'', JNull), (''finished_at'', JNull)]),
      (''keepalive'', JObj [(''state'', JStr (asc ''stopped'')), (''requests'', JNum 0), (''started_at'', JNull),
        (''last_request'', JNull), (''last_success'', JNull), (''last_failure'', JNull),
        (''next_request'', JNull), (''stopped_at'', JNull)])]"

definition dashboard_json :: "json list \<Rightarrow> json" where
  "dashboard_json ts = JObj
     [(''version'', JStr (asc ''dev'')), (''generated_at'', JStr (asc ''t'')), (''config_revision'', JNum 1),
      (''restart_required'', JBool False), (''restart_fields'', JArr []), (''openilink'', conn_json ''disabled''),
      (''telegram'', conn_json ''disabled''), (''concurrency'', JObj [(''current'', JNum 0), (''max'', JNum 3)]),
      (''targets'', JArr ts)]"

definition idle_target :: "int \<Rightarrow> string \<Rightarrow> Target" where
  "idle_target i nm = the (read_target (idle_target_json i nm))"

lemma read_idle: "read_target (idle_target_json i nm) = Some (idle_target i nm)"
  by (simp add: idle_target_def read_target_def field_def idle_target_json_def read_queue_def
    read_keepalive_def opt_field_def)

lemma idle_target_name: "tgt_name (idle_target i nm) = asc nm"
  by (simp add: idle_target_def read_target_def field_def idle_target_json_def read_queue_def
    read_keepalive_def opt_field_def)

definition sample_view :: "Target list \<Rightarrow> Dashboard" where
  "sample_view ts = \<lparr>d_version = asc ''dev'', d_generated_at = asc ''t'', d_config_revision = 1,
     d_restart_required = False, d_restart_fields = [],
     d_openilink = \<lparr>cn_state = asc ''disabled'', cn_error = None, cn_updated_at = None\<rparr>,
     d_telegram = \<lparr>cn_state = asc ''disabled'', cn_error = None, cn_updated_at = None\<rparr>,
     d_concurrency = (0, 3), d_targets = ts\<rparr>"

lemma read_sample:
  "as_arr read_target (JArr js) = Some ts \<Longrightarrow> read_dashboard (dashboard_json js) = Some (sample_view ts)"
  by (simp add: read_dashboard_def dashboard_json_def field_def conn_json_def read_connection_def
    opt_field_def read_concurrency_def sample_view_def)

definition two_json :: json where
  "two_json = dashboard_json [idle_target_json 1 ''alpha'', idle_target_json 2 ''beta'']"

definition two_view :: Dashboard where
  "two_view = sample_view [idle_target 1 ''alpha'', idle_target 2 ''beta'']"

lemma read_two: "read_dashboard two_json = Some two_view"
  unfolding two_json_def two_view_def by (rule read_sample) (simp add: read_idle)

definition loaded_page :: DashboardPage where
  "loaded_page = dash_mounted\<lparr>dp_data := Some two_json, dp_connection := Connected\<rparr>"

definition selected_page :: DashboardPage where
  "selected_page = loaded_page\<lparr>dp_selected := target_names two_view\<rparr>"

lemma loaded_view [simp]: "dash_view loaded_page = Some two_view" "dash_view selected_page = Some two_view"
  by (simp_all add: dash_view_def loaded_page_def selected_page_def read_two)

lemma two_names: "target_names two_view = [asc ''alpha'', asc ''beta'']"
  by (simp add: target_names_def two_view_def sample_view_def idle_target_name)

lemma two_targets: "d_targets two_view = [idle_target 1 ''alpha'', idle_target 2 ''beta'']"
  by (simp add: two_view_def sample_view_def)

lemma selected_reachable:
  "reachable dash_initial dash_step \<lparr>dw_page = selected_page, dw_waits = [WaitLoad], dw_logout = False\<rparr>"
proof -
  let ?w = "\<lparr>dw_page = dash_mounted, dw_waits = [WaitLoad], dw_logout = False\<rparr>"
  have "pushed two_json" by (simp add: pushed_def names_unique_def read_two two_names)
  moreover have "on_snapshot (Some two_json) dash_mounted = loaded_page"
    using read_two read_dashboard_truthy[OF read_two]
    by (simp add: on_snapshot_def setData_def prune_selected_def dash_view_def loaded_page_def dash_mounted_def)
  ultimately have "dash_step ?w (?w\<lparr>dw_page := loaded_page\<rparr>)"
    using dash_step.snapshot[of ?w two_json] by (simp add: dash_broken_def dash_mounted_def)
  then have r: "reachable dash_initial dash_step (?w\<lparr>dw_page := loaded_page\<rparr>)"
    using reachable_step[OF reachable_init] by (metis dash_initial_def)
  have "dash_enabled ClickSelectAll loaded_page"
    by (simp add: dash_enabled_def two_targets)
  moreover have "dash_handle ClickSelectAll loaded_page = (selected_page, None)"
    by (simp add: dash_handle_def selectAll_def selectedAll_def selected_page_def two_targets)
      (simp add: loaded_page_def dash_mounted_def)
  ultimately have "dash_step (?w\<lparr>dw_page := loaded_page\<rparr>) (?w\<lparr>dw_page := selected_page\<rparr>)"
    using dash_step.user[of ClickSelectAll "?w\<lparr>dw_page := loaded_page\<rparr>" selected_page None] by simp
  from reachable_step[OF r this] show ?thesis by simp
qed

lemma start_enabled: "dash_enabled (ClickSelected (asc ''queue.start'')) selected_page"
proof -
  have "dp_selected selected_page \<noteq> [] \<and> \<not> dp_busy selected_page"
    by (simp add: selected_page_def two_names loaded_page_def dash_mounted_def)
  then show ?thesis by (simp add: dash_enabled_def two_targets toolbar_actions_def)
qed

lemma start_handled:
  "dash_handle (ClickSelected (asc ''queue.start'')) selected_page =
    (selected_page\<lparr>dp_busy := True, dp_notice := []\<rparr>,
     Some (WaitAction, api_action (asc ''queue.start'') [asc ''alpha'', asc ''beta'']))"
  by (simp add: dash_handle_def acting_def runAction_def selected_page_def two_names)

lemma busy_reachable:
  "reachable dash_initial dash_step \<lparr>dw_page = selected_page\<lparr>dp_busy := True, dp_notice := []\<rparr>,
     dw_waits = [WaitAction, WaitLoad], dw_logout = False\<rparr>"
  using reachable_step[OF selected_reachable dash_step.user] start_enabled start_handled by fastforce

section \<open>Properties\<close>

text \<open>
  C15: an action for all targets, which the server reads into an empty list, is only ever sent by
  confirming "stop all", and then it is a stop. Every other action names, without repetition, one
  or more targets that the page currently shows.
\<close>

theorem all_targets_only_confirmed:
  assumes "reachable dash_initial dash_step w" "dash_enabled e (dw_page w)"
    and "dash_handle e (dw_page w) = (p, Some (WaitAction, r))"
  shows "\<exists>name ts. r = api_action name ts \<and>
    (ts = [] \<and> e = ConfirmStopAll \<and> name = asc ''task.stop'' \<or>
     ts \<noteq> [] \<and> distinct ts \<and> (\<exists>v. dash_view (dw_page w) = Some v \<and> set ts \<subseteq> set (target_names v)))"
proof -
  have sel: "selection_ok (dw_page w)"
    using dashboard.reachable_inv[OF assms(1)] by (simp add: dash_inv_alt)
  note [simp] = dash_handle_def dash_enabled_def acting_def runAction_def alert_confirm_def
  show ?thesis
  proof (cases e)
    case (ClickSelected name)
    with assms(2,3) sel show ?thesis
      by (auto simp: selection_ok_def split: option.splits
        intro!: exI[of _ name] exI[of _ "dp_selected (dw_page w)"])
  next
    case ConfirmStopAll
    with assms(3) have "r = api_action (asc ''task.stop'') []" by auto
    with ConfirmStopAll show ?thesis by blast
  next
    case (ClickRow b t)
    with assms(2,3) show ?thesis
      by (auto simp: target_names_def split: option.splits intro!: exI[of _ "[tgt_name t]"])
  qed (use assms(3) in auto)
qed

theorem all_targets_only_confirmed_witness:
  "\<exists>name ts. api_action (asc ''queue.start'') [asc ''alpha'', asc ''beta''] = api_action name ts \<and>
    (ts = [] \<and> ClickSelected (asc ''queue.start'') = ConfirmStopAll \<and> name = asc ''task.stop'' \<or>
     ts \<noteq> [] \<and> distinct ts \<and> (\<exists>v. dash_view selected_page = Some v \<and> set ts \<subseteq> set (target_names v)))"
proof -
  show ?thesis
    using all_targets_only_confirmed[OF selected_reachable, of "ClickSelected (asc ''queue.start'')"]
      start_enabled start_handled by simp
qed

text \<open>
  "Select all" is shown as done exactly when the selection is the set of the targets shown,
  although the page only compares two lengths.
\<close>

lemma selectedAll_exact:
  assumes "reachable dash_initial dash_step w" "dash_view (dw_page w) = Some v"
  shows "selectedAll (dw_page w) \<longleftrightarrow>
    d_targets v \<noteq> [] \<and> set (dp_selected (dw_page w)) = set (target_names v)"
proof -
  let ?s = "dp_selected (dw_page w)"
  have "distinct ?s" "set ?s \<subseteq> set (target_names v)" "distinct (target_names v)"
    using dashboard.reachable_inv[OF assms(1)] assms(2) by (auto simp: dash_inv_def)
  then have "length ?s = length (target_names v) \<longleftrightarrow> set ?s = set (target_names v)"
    by (metis List.finite_set card_subset_eq distinct_card)
  then show ?thesis using assms(2) by (simp add: selectedAll_def target_names_def)
qed

text \<open>
  The toolbar never stays disabled: whenever the page is busy, the response to an action, or to
  the load that follows it, is still outstanding, and a response to the action either reloads or ends
  the busy state, as does every response to that load.
\<close>

lemma busy_ends:
  assumes "reachable dash_initial dash_step w" "dp_busy (dw_page w)"
  shows "(WaitAction \<in> set (dw_waits w) \<or> WaitReload \<in> set (dw_waits w)) \<and>
    \<not> dp_busy (fst (reload_settled r (dw_page w))) \<and>
    (dp_busy (fst (action_settled r (dw_page w))) \<longleftrightarrow> snd (action_settled r (dw_page w)) = Some api_dashboard)"
  using dashboard.reachable_inv[OF assms(1)] assms(2)
  by (auto simp: dash_inv_def reload_settled_def action_settled_def split_beta Let_def
    split: sum.split option.split)

end
