(* ===== verification/Web_Models.thy ===== *)
theory Web_Models
  imports Web_Http Widgets Storage Jobs_View
begin

text \<open>
  What the server shows of its state: the dashboard (\<open>internal/web/models.go\<close>), the configuration
  and the secrets (\<open>internal/web/config_api.go\<close>) as the JSON values they are encoded to. How
  \<open>encoding/json\<close> writes a time is the parameter \<open>fmt\<close>; a slice that is never \<open>nil\<close> in the code is a
  list here. The lemmas read these values back the way the web client does.
\<close>

section \<open>State of the server\<close>

record web_server =
  ws_version :: "text"
  ws_hasStore :: bool
  ws_startup :: config
  ws_config :: snapshot

definition restartFields :: "web_server \<Rightarrow> config \<Rightarrow> text list" where
  "restartFields s current =
     (if \<not> ws_hasStore s then []
      else let c = c_Web current; u = c_Web (ws_startup s) in
        (if wb_ListenAddress c \<noteq> wb_ListenAddress u then [asc ''web.listen_address''] else []) @
        (if wb_CookieSecure c \<noteq> wb_CookieSecure u then [asc ''web.cookie_secure''] else []) @
        (if wb_TrustedProxies c \<noteq> wb_TrustedProxies u then [asc ''web.trusted_proxies''] else []))"

section \<open>The dashboard\<close>

fun qstate_text :: "qstate \<Rightarrow> text" where
  "qstate_text StateIdle = asc ''idle''"
| "qstate_text StateRunning = asc ''running''"
| "qstate_text StateSucceeded = asc ''succeeded''"
| "qstate_text StateStopped = asc ''stopped''"

fun kstate_text :: "kstate \<Rightarrow> text" where
  "kstate_text KeepaliveStateRequesting = asc ''requesting''"
| "kstate_text KeepaliveStateWaitingQueue = asc ''waiting_queue''"
| "kstate_text KeepaliveStateWaitingNext = asc ''waiting_next''"
| "kstate_text KeepaliveStateStopped = asc ''stopped''"

definition timePointer :: "(int \<Rightarrow> text) \<Rightarrow> gotime \<Rightarrow> json" where
  "timePointer fmt t = (case t of None \<Rightarrow> JNull | Some n \<Rightarrow> JStr (fmt n))"

text \<open>A field with \<open>omitempty\<close>.\<close>

definition omitempty :: "string \<Rightarrow> text \<Rightarrow> (string \<times> json) list" where
  "omitempty k t = (if t = [] then [] else [(k, JStr t)])"

definition queueResponse :: "(int \<Rightarrow> text) \<Rightarrow> queueSnapshot \<Rightarrow> json" where
  "queueResponse fmt q = JObj
     ([(''state'', JStr (qstate_text (qs_State q))), (''attempts'', JNum (int (qs_Attempts q))),
       (''started_at'', timePointer fmt (qs_StartedAt q)), (''last_attempt'', timePointer fmt (qs_LastAttempt q)),
       (''next_attempt'', timePointer fmt (qs_NextAttempt q)), (''finished_at'', timePointer fmt (qs_FinishedAt q))]
      @ omitempty ''last_error'' (qs_LastError q))"

definition keepaliveResponse :: "(int \<Rightarrow> text) \<Rightarrow> keepaliveSnapshot \<Rightarrow> json" where
  "keepaliveResponse fmt k = JObj
     ([(''state'', JStr (kstate_text (ks_State k))), (''requests'', JNum (int (ks_Requests k))),
       (''started_at'', timePointer fmt (ks_StartedAt k)), (''last_request'', timePointer fmt (ks_LastRequest k)),
       (''last_success'', timePointer fmt (ks_LastSuccess k)), (''last_failure'', timePointer fmt (ks_LastFailure k)),
       (''next_request'', timePointer fmt (ks_NextRequest k)), (''stopped_at'', timePointer fmt (ks_StoppedAt k))]
      @ omitempty ''last_error'' (ks_LastError k))"

definition targetResponse :: "(int \<Rightarrow> text) \<Rightarrow> targetSnapshot \<Rightarrow> json" where
  "targetResponse fmt t = JObj
     [(''id'', JNum (ts_ID t)), (''name'', JStr (ts_Name t)), (''model'', JStr (ts_Model t)),
      (''api_host'', JStr (ts_APIHost t)), (''busy'', JBool (ts_Busy t)),
      (''adhoc_running'', JBool (ts_AdhocRunning t)), (''queue'', queueResponse fmt (ts_Queue t)),
      (''keepalive'', keepaliveResponse fmt (ts_Keepalive t))]"

definition openILinkResponse :: "(int \<Rightarrow> text) \<Rightarrow> status_snapshot \<Rightarrow> json" where
  "openILinkResponse fmt s = JObj
     ([(''state'', JStr (hub_status_text (ss_State s)))] @ omitempty ''error'' (ss_Error s) @
      [(''updated_at'', timePointer fmt (ss_UpdatedAt s))])"

text \<open>\<open>statePayload\<close>; \<open>dashboardPayload\<close> copies it field by field.\<close>

definition statePayload ::
  "(int \<Rightarrow> text) \<Rightarrow> int \<Rightarrow> web_server \<Rightarrow> managerSnapshot \<Rightarrow> status_snapshot \<Rightarrow> status_snapshot \<Rightarrow> json" where
  "statePayload fmt now s ms openILinkStatus telegramStatus =
     (let restart = restartFields s (sp_Config (ws_config s)) in JObj
     [(''version'', JStr (ws_version s)), (''generated_at'', JStr (fmt now)),
      (''config_revision'', JNum (sp_Revision (ws_config s))),
      (''restart_required'', JBool (0 < length restart)), (''restart_fields'', jstrs restart),
      (''openilink'', openILinkResponse fmt openILinkStatus), (''telegram'', openILinkResponse fmt telegramStatus),
      (''concurrency'', JObj [(''current'', JNum (int (ms_CurrentProcesses ms))), (''max'', JNum (ms_MaxParallel ms))]),
      (''targets'', JArr (map (targetResponse fmt) (ms_Targets ms)))])"

section \<open>The configuration\<close>

definition codexConfigurationResponse :: "codex_config \<Rightarrow> json" where
  "codexConfigurationResponse v = JObj
     [(''binary'', JStr (cx_Binary v)), (''prompts_file'', JStr (cx_PromptsFile v)),
      (''prompts'', jstrs (cx_Prompts v)),
      (''request_timeout_seconds'', JNum (cx_RequestTimeoutSecond v)),
      (''retry_min_seconds'', JNum (cx_RetryMinSecond v)), (''retry_max_seconds'', JNum (cx_RetryMaxSecond v)),
      (''keepalive_min_seconds'', JNum (cx_KeepaliveMinSecond v)),
      (''keepalive_max_seconds'', JNum (cx_KeepaliveMaxSecond v)),
      (''max_parallel'', JNum (cx_MaxParallel v)), (''success_message'', JStr (cx_SuccessMessage v)),
      (''reasoning_effort'', JStr (cx_ReasoningEffort v)), (''config_overrides'', jstrs (cx_ConfigOverrides v))]"

definition openILinkConfiguration :: "openilink_config \<Rightarrow> json" where
  "openILinkConfiguration v = JObj
     [(''enabled'', JBool (oi_Enabled v)), (''base_url'', JStr (oi_BaseURL v)),
      (''token_set'', JBool (oi_Token v \<noteq> [])), (''allowed_user_ids'', jstrs (oi_AllowedUserIDs v)),
      (''http_timeout_seconds'', JNum (oi_HTTPTimeoutSecond v))]"

definition telegramConfiguration :: "telegram_config \<Rightarrow> json" where
  "telegramConfiguration v = JObj
     [(''enabled'', JBool (tg_Enabled v)), (''base_url'', JStr (tg_BaseURL v)),
      (''token_set'', JBool (tg_Token v \<noteq> [])), (''allowed_user_ids'', jstrs (tg_AllowedUserIDs v)),
      (''http_timeout_seconds'', JNum (tg_HTTPTimeoutSecond v)),
      (''poll_timeout_seconds'', JNum (tg_PollTimeoutSecond v))]"

definition webConfigurationResponse :: "web_config \<Rightarrow> json" where
  "webConfigurationResponse v = JObj
     [(''listen_address'', JStr (wb_ListenAddress v)), (''cookie_secure'', JBool (wb_CookieSecure v)),
      (''trusted_proxies'', jstrs (wb_TrustedProxies v)), (''activity_limit'', JNum (wb_ActivityLimit v))]"

definition targetConfiguration :: "(int \<Rightarrow> bool) \<Rightarrow> config_target \<Rightarrow> json" where
  "targetConfiguration busy t = JObj
     [(''id'', JNum (t_ID t)), (''sort_order'', JNum (t_SortOrder t)), (''name'', JStr (t_Name t)),
      (''api_base_url'', JStr (t_APIBaseURL t)), (''api_key_set'', JBool (t_APIKey t \<noteq> [])),
      (''model'', JStr (t_Model t)), (''wire_api'', JStr (t_WireAPI t)),
      (''config_overrides'', jstrs (t_ConfigOverrides t)), (''busy'', JBool (busy (t_ID t)))]"

text \<open>The map from identifiers to \<open>Busy\<close>, filled in the order of the targets.\<close>

definition busy_map :: "managerSnapshot \<Rightarrow> int \<Rightarrow> bool" where
  "busy_map ms i =
     (case map_of (rev (map (\<lambda>t. (ts_ID t, ts_Busy t)) (ms_Targets ms))) i of None \<Rightarrow> False | Some b \<Rightarrow> b)"

definition configurationPayload :: "web_server \<Rightarrow> managerSnapshot \<Rightarrow> snapshot \<Rightarrow> json" where
  "configurationPayload s ms snap =
     (let restart = restartFields s (sp_Config snap); cfg = sp_Config snap in JObj
     [(''revision'', JNum (sp_Revision snap)), (''loaded_startup_revision'', JNum (sp_LoadedStartupRevision snap)),
      (''restart_required'', JBool (0 < length restart)), (''restart_fields'', jstrs restart),
      (''codex'', codexConfigurationResponse (c_Codex cfg)), (''openilink'', openILinkConfiguration (c_OpenILink cfg)),
      (''telegram'', telegramConfiguration (c_Telegram cfg)), (''web'', webConfigurationResponse (c_Web cfg)),
      (''account'', JObj [(''username'', JStr (wb_AdminUsername (c_Web cfg)))]),
      (''targets'', JArr (map (targetConfiguration (busy_map ms)) (cx_Targets (c_Codex cfg))))])"

definition targetSecretResponse :: "config_target \<Rightarrow> json" where
  "targetSecretResponse t =
     JObj [(''id'', JNum (t_ID t)), (''name'', JStr (t_Name t)), (''api_key'', JStr (t_APIKey t))]"

definition configurationSecretsPayload :: "snapshot \<Rightarrow> json" where
  "configurationSecretsPayload snap =
     (let cfg = sp_Config snap in JObj
     [(''openilink_token'', JStr (oi_Token (c_OpenILink cfg))), (''telegram_token'', JStr (tg_Token (c_Telegram cfg))),
      (''targets'', JArr (map targetSecretResponse (cx_Targets (c_Codex cfg))))])"

section \<open>What the client reads\<close>

definition shown_error :: "text \<Rightarrow> text option" where
  "shown_error t = (if t = [] then None else Some t)"

definition queue_view :: "(int \<Rightarrow> text) \<Rightarrow> queueSnapshot \<Rightarrow> api_queue" where
  "queue_view fmt q = \<lparr>q_state = qstate_text (qs_State q), q_attempts = int (qs_Attempts q),
     q_started_at = map_option fmt (qs_StartedAt q), q_last_attempt = map_option fmt (qs_LastAttempt q),
     q_next_attempt = map_option fmt (qs_NextAttempt q), q_finished_at = map_option fmt (qs_FinishedAt q),
     q_last_error = shown_error (qs_LastError q)\<rparr>"

definition keepalive_view :: "(int \<Rightarrow> text) \<Rightarrow> keepaliveSnapshot \<Rightarrow> api_keepalive" where
  "keepalive_view fmt k = \<lparr>ka_state = kstate_text (ks_State k), ka_requests = int (ks_Requests k),
     ka_started_at = map_option fmt (ks_StartedAt k), ka_last_request = map_option fmt (ks_LastRequest k),
     ka_last_success = map_option fmt (ks_LastSuccess k), ka_last_failure = map_option fmt (ks_LastFailure k),
     ka_next_request = map_option fmt (ks_NextRequest k), ka_stopped_at = map_option fmt (ks_StoppedAt k),
     ka_last_error = shown_error (ks_LastError k)\<rparr>"

definition target_view :: "(int \<Rightarrow> text) \<Rightarrow> targetSnapshot \<Rightarrow> Target" where
  "target_view fmt t = \<lparr>tgt_id = ts_ID t, tgt_name = ts_Name t, tgt_model = ts_Model t,
     tgt_api_host = ts_APIHost t, tgt_busy = ts_Busy t, tgt_adhoc_running = ts_AdhocRunning t,
     tgt_queue = queue_view fmt (ts_Queue t), tgt_keepalive = keepalive_view fmt (ts_Keepalive t)\<rparr>"

definition connection_view :: "(int \<Rightarrow> text) \<Rightarrow> status_snapshot \<Rightarrow> api_connection" where
  "connection_view fmt s = \<lparr>cn_state = hub_status_text (ss_State s), cn_error = shown_error (ss_Error s),
     cn_updated_at = map_option fmt (ss_UpdatedAt s)\<rparr>"

definition dashboard_view ::
  "(int \<Rightarrow> text) \<Rightarrow> int \<Rightarrow> web_server \<Rightarrow> managerSnapshot \<Rightarrow> status_snapshot \<Rightarrow> status_snapshot \<Rightarrow> Dashboard" where
  "dashboard_view fmt now s ms oi tg =
     (let restart = restartFields s (sp_Config (ws_config s)) in
      \<lparr>d_version = ws_version s, d_generated_at = fmt now, d_config_revision = sp_Revision (ws_config s),
       d_restart_required = (restart \<noteq> []), d_restart_fields = restart,
       d_openilink = connection_view fmt oi, d_telegram = connection_view fmt tg,
       d_concurrency = (int (ms_CurrentProcesses ms), ms_MaxParallel ms),
       d_targets = map (target_view fmt) (ms_Targets ms)\<rparr>)"

lemma nullable_time: "as_nullable as_str (timePointer fmt t) = Some (map_option fmt t)"
  by (cases t) (simp_all add: timePointer_def)

lemma as_jstrs [simp]: "as_arr as_str (jstrs ts) = Some ts"
  using as_arr_strings by (simp add: jstrs_def del: as_arr.simps)

lemma read_queueResponse: "read_queue (queueResponse fmt q) = Some (queue_view fmt q)"
  by (simp add: read_queue_def queueResponse_def field_def opt_field_def omitempty_def nullable_time
    queue_view_def shown_error_def)

lemma read_keepaliveResponse: "read_keepalive (keepaliveResponse fmt k) = Some (keepalive_view fmt k)"
  by (simp add: read_keepalive_def keepaliveResponse_def field_def opt_field_def omitempty_def nullable_time
    keepalive_view_def shown_error_def)

lemma read_targetResponse: "read_target (targetResponse fmt t) = Some (target_view fmt t)"
  by (simp add: read_target_def targetResponse_def field_def target_view_def read_queueResponse
    read_keepaliveResponse)

lemma read_openILinkResponse: "read_connection (openILinkResponse fmt s) = Some (connection_view fmt s)"
  by (simp add: read_connection_def openILinkResponse_def field_def opt_field_def omitempty_def
    nullable_time connection_view_def shown_error_def)

lemma read_statePayload:
  "read_dashboard (statePayload fmt now s ms oi tg) = Some (dashboard_view fmt now s ms oi tg)"
proof -
  have "as_arr read_target (JArr (map (targetResponse fmt) (ms_Targets ms))) =
      Some (map (target_view fmt) (ms_Targets ms))"
    by (rule as_arr_map) (simp add: read_targetResponse)
  then show ?thesis
    by (simp add: read_dashboard_def statePayload_def dashboard_view_def Let_def field_def
      read_openILinkResponse read_concurrency_def del: as_arr.simps)
qed

definition config_target_view :: "(int \<Rightarrow> bool) \<Rightarrow> config_target \<Rightarrow> ConfigurationTarget" where
  "config_target_view busy t = \<lparr>ct_id = t_ID t, ct_sort_order = t_SortOrder t, ct_name = t_Name t,
     ct_api_base_url = t_APIBaseURL t, ct_api_key_set = (t_APIKey t \<noteq> []), ct_model = t_Model t,
     ct_wire_api = t_WireAPI t, ct_config_overrides = t_ConfigOverrides t, ct_busy = busy (t_ID t)\<rparr>"

definition codex_view :: "codex_config \<Rightarrow> api_codex" where
  "codex_view v = \<lparr>x_binary = cx_Binary v, x_prompts_file = cx_PromptsFile v, x_prompts = cx_Prompts v,
     x_request_timeout_seconds = cx_RequestTimeoutSecond v, x_retry_min_seconds = cx_RetryMinSecond v,
     x_retry_max_seconds = cx_RetryMaxSecond v, x_keepalive_min_seconds = cx_KeepaliveMinSecond v,
     x_keepalive_max_seconds = cx_KeepaliveMaxSecond v, x_max_parallel = cx_MaxParallel v,
     x_success_message = cx_SuccessMessage v, x_reasoning_effort = cx_ReasoningEffort v,
     x_config_overrides = cx_ConfigOverrides v\<rparr>"

definition openilink_view :: "openilink_config \<Rightarrow> api_openilink" where
  "openilink_view v = \<lparr>o_enabled = oi_Enabled v, o_base_url = oi_BaseURL v, o_token_set = (oi_Token v \<noteq> []),
     o_allowed_user_ids = oi_AllowedUserIDs v, o_http_timeout_seconds = oi_HTTPTimeoutSecond v\<rparr>"

definition telegram_view :: "telegram_config \<Rightarrow> api_telegram" where
  "telegram_view v = \<lparr>g_enabled = tg_Enabled v, g_base_url = tg_BaseURL v, g_token_set = (tg_Token v \<noteq> []),
     g_allowed_user_ids = tg_AllowedUserIDs v, g_http_timeout_seconds = tg_HTTPTimeoutSecond v,
     g_poll_timeout_seconds = tg_PollTimeoutSecond v\<rparr>"

definition web_view :: "web_config \<Rightarrow> api_web" where
  "web_view v = \<lparr>w_listen_address = wb_ListenAddress v, w_cookie_secure = wb_CookieSecure v,
     w_trusted_proxies = wb_TrustedProxies v, w_activity_limit = wb_ActivityLimit v\<rparr>"

definition configuration_view :: "web_server \<Rightarrow> managerSnapshot \<Rightarrow> snapshot \<Rightarrow> Configuration" where
  "configuration_view s ms snap =
     (let restart = restartFields s (sp_Config snap); cfg = sp_Config snap in
      \<lparr>cf_revision = sp_Revision snap, cf_loaded_startup_revision = sp_LoadedStartupRevision snap,
       cf_restart_required = (restart \<noteq> []), cf_restart_fields = restart,
       cf_codex = codex_view (c_Codex cfg), cf_openilink = openilink_view (c_OpenILink cfg),
       cf_telegram = telegram_view (c_Telegram cfg), cf_web = web_view (c_Web cfg),
       cf_account_username = wb_AdminUsername (c_Web cfg),
       cf_targets = map (config_target_view (busy_map ms)) (cx_Targets (c_Codex cfg))\<rparr>)"

lemma read_sections:
  "read_codex (codexConfigurationResponse x) = Some (codex_view x)"
  "read_openilink (openILinkConfiguration y) = Some (openilink_view y)"
  "read_telegram (telegramConfiguration z) = Some (telegram_view z)"
  "read_web (webConfigurationResponse w) = Some (web_view w)"
  "read_configuration_target (targetConfiguration b t) = Some (config_target_view b t)"
  by (simp_all add: read_codex_def codexConfigurationResponse_def codex_view_def read_openilink_def
    openILinkConfiguration_def openilink_view_def read_telegram_def telegramConfiguration_def
    telegram_view_def read_web_def webConfigurationResponse_def web_view_def read_configuration_target_def
    targetConfiguration_def config_target_view_def field_def)

lemma read_configurationPayload:
  "read_configuration (configurationPayload s ms snap) = Some (configuration_view s ms snap)"
proof -
  have "as_arr read_configuration_target (JArr (map (targetConfiguration b) ts)) =
      Some (map (config_target_view b) ts)" for b ts
    by (rule as_arr_map) (simp add: read_sections)
  then show ?thesis
    by (simp add: read_configuration_def configurationPayload_def configuration_view_def Let_def field_def
      read_sections del: as_arr.simps)
qed

definition secrets_view :: "snapshot \<Rightarrow> ConfigurationSecrets" where
  "secrets_view snap =
     (let cfg = sp_Config snap in
      \<lparr>s_openilink_token = oi_Token (c_OpenILink cfg), s_telegram_token = tg_Token (c_Telegram cfg),
       s_targets = map (\<lambda>t. \<lparr>st_id = t_ID t, st_name = t_Name t, st_api_key = t_APIKey t\<rparr>)
         (cx_Targets (c_Codex cfg))\<rparr>)"

lemma read_configurationSecretsPayload:
  "read_secrets (configurationSecretsPayload snap) = Some (secrets_view snap)"
proof -
  have "as_arr read_secret_target (JArr (map targetSecretResponse ts)) =
      Some (map (\<lambda>t. \<lparr>st_id = t_ID t, st_name = t_Name t, st_api_key = t_APIKey t\<rparr>) ts)" for ts
    by (rule as_arr_map) (simp add: read_secret_target_def targetSecretResponse_def field_def)
  then show ?thesis
    by (simp add: read_secrets_def configurationSecretsPayload_def secrets_view_def Let_def field_def
      del: as_arr.simps)
qed

section \<open>Secrets\<close>

text \<open>Every secret of a configuration replaced by a fixed text, an absent one left absent.\<close>

definition masked :: "text \<Rightarrow> text" where
  "masked t = (if t = [] then [] else [42])"

definition mask_secrets :: "config \<Rightarrow> config" where
  "mask_secrets c = c\<lparr>
     c_OpenILink := (c_OpenILink c)\<lparr>oi_Token := masked (oi_Token (c_OpenILink c))\<rparr>,
     c_Telegram := (c_Telegram c)\<lparr>tg_Token := masked (tg_Token (c_Telegram c))\<rparr>,
     c_Codex := (c_Codex c)\<lparr>cx_Targets :=
       map (\<lambda>t. t\<lparr>t_APIKey := masked (t_APIKey t)\<rparr>) (cx_Targets (c_Codex c))\<rparr>\<rparr>"

lemma masked_Nil [simp]: "masked t = [] \<longleftrightarrow> t = []"
  by (simp add: masked_def)

section \<open>Properties\<close>

text \<open>
  C27: the configuration payload reveals of the tokens and keys only whether they are set: it is the
  same for the configuration with every secret replaced by one fixed text, and the client reads it as
  the sections and targets of the stored configuration.
\<close>

theorem configuration_hides_secrets:
  "configurationPayload s ms snap = configurationPayload s ms (snap\<lparr>sp_Config := mask_secrets (sp_Config snap)\<rparr>) \<and>
   read_configuration (configurationPayload s ms snap) = Some (configuration_view s ms snap)"
proof -
  have "restartFields s (mask_secrets (sp_Config snap)) = restartFields s (sp_Config snap)"
    by (simp add: restartFields_def mask_secrets_def)
  moreover have "targetConfiguration b (t\<lparr>t_APIKey := masked (t_APIKey t)\<rparr>) = targetConfiguration b t" for b t
    by (simp add: targetConfiguration_def)
  ultimately show ?thesis
    by (simp add: read_configurationPayload)
      (simp add: configurationPayload_def Let_def mask_secrets_def openILinkConfiguration_def
        telegramConfiguration_def codexConfigurationResponse_def comp_def)
qed

end
