(* ===== verification/Console.thy ===== *)
theory Console
  imports Dashboard_Page Web_Models Manager_Theorems Storage_Props
begin

text \<open>
  The dashboard against the manager behind it: what the page shows is the manager's state, a control
  that the page offers is one the manager honours on that state, and where the two disagree.
\<close>

section \<open>Lemmas\<close>

text \<open>The snapshot of one target, in terms of its cell.\<close>

lemma snapshot_cell:
  assumes "cells m k = Some c"
  shows "\<exists>t. targetSnapshotLocked m k = Some t \<and> ts_ID t = t_ID (target_at m k) \<and>
    ts_Name t = t_Name (target_at m k) \<and> ts_Busy t = cell_busy c \<and>
    ts_AdhocRunning t = (c_owner c = requestOwnerAdhoc) \<and> qs_State (ts_Queue t) = c_state c \<and>
    ks_State (ts_Keepalive t) = c_kstate c"
  using assms
  by (auto simp: targetSnapshotLocked_def queueSnapshotLocked_def keepaliveSnapshotLocked_def
    targetBusyLocked_def cells_Some cell_of_def cell_busy_def Let_def)




lemma names_of_rows:
  assumes "wf m" "snapshotLocked m = Some ms"
  shows "target_names (dashboard_view fmt now s ms oi tg) = map (\<lambda>k. t_Name (target_at m k)) (m_order m)"
proof -
  have "ts_Name (the (targetSnapshotLocked m k)) = t_Name (target_at m k)" if "k \<in> set (m_order m)" for k
    using that cells_dom[OF assms(1)] snapshot_cell[of m k] by fastforce
  then show ?thesis
    using assms
    by (auto simp: snapshot_wf target_names_def dashboard_view_def target_view_def Let_def)
qed

lemma target_known:
  assumes "wf m" "k \<in> set (m_order m)"
  obtains t where "m_targets m k = Some t" "normalizeName (t_Name (target_at m k)) = k"
proof -
  from assms have "k \<in> dom (m_targets m)" by (simp add: wf_def)
  then obtain t where "m_targets m k = Some t" by blast
  with assms(1) that show thesis by (simp add: wf_def target_at_def)
qed

lemma target_names_distinct:
  assumes "wf m"
  shows "distinct (map (\<lambda>k. t_Name (target_at m k)) (m_order m))"
proof -
  have n: "normalizeName (t_Name (target_at m k)) = k" if "k \<in> set (m_order m)" for k
    using target_known[OF assms that] by blast
  have "inj_on (\<lambda>k. t_Name (target_at m k)) (set (m_order m))"
    by (rule inj_on_inverseI[of _ normalizeName]) (rule n)
  then show ?thesis using assms by (simp add: distinct_map wf_def)
qed





text \<open>A server for the witnesses.\<close>

definition demo_server :: web_server where
  "demo_server = \<lparr>ws_version = asc ''dev'', ws_hasStore = True, ws_startup = sample_config,
     ws_config = \<lparr>sp_Config = sample_config, sp_Revision = 1, sp_SectionRevisions = (\<lambda>_. None),
       sp_LoadedStartupRevision = 1, sp_SetupRequired = False, sp_SuggestedUsername = asc ''admin''\<rparr>\<rparr>"

definition demo_status :: status_snapshot where
  "demo_status = Set_status StatusConnected [] 0"

section \<open>Properties\<close>

text \<open>
  C9: the dashboard shows the manager. In every reachable state of the concurrent manager there is a
  snapshot; its payload is one the page's own invariants rest on (a whole dashboard with unique
  names); and a page that receives it as a \<open>state\<close> event, whatever it showed before, shows exactly
  the manager's targets, in the manager's order.
\<close>

theorem dashboard_shows_manager:
  assumes "reachable initial step w"
  shows "\<exists>ms. snapshotLocked (w_mgr w) = Some ms \<and> pushed (statePayload fmt now s ms oi tg) \<and>
    dash_view (on_state (Some (statePayload fmt now s ms oi tg)) p) = Some (dashboard_view fmt now s ms oi tg) \<and>
    target_names (dashboard_view fmt now s ms oi tg) =
      map (\<lambda>k. t_Name (target_at (w_mgr w) k)) (m_order (w_mgr w))"
proof -
  have wf: "wf (w_mgr w)" using ledger_wf[OF reachable_ledger[OF assms]] .
  then obtain ms where ms: "snapshotLocked (w_mgr w) = Some ms" by (simp add: snapshot_wf)
  note names = names_of_rows[OF wf ms, of fmt now s oi tg]
  have "pushed (statePayload fmt now s ms oi tg)"
    using target_names_distinct[OF wf] names by (simp add: pushed_def names_unique_def read_statePayload)
  with ms names on_state_view[OF read_statePayload] show ?thesis by blast
qed

theorem dashboard_shows_manager_witness:
  "\<exists>ms. snapshotLocked (w_mgr demo_running) = Some ms \<and>
     pushed (statePayload (\<lambda>_. [49]) 0 demo_server ms demo_status demo_status)"
  using dashboard_shows_manager[OF demo_running_reachable, of "\<lambda>_. [49]" 0 demo_server demo_status
    demo_status dash_mounted] by blast




text \<open>
  A target may be named \<open>*\<close>: validation accepts the name, but every command and every row button
  for it addresses all targets, because \<open>containsAll\<close> takes the name for the wildcard.
\<close>

lemma wildcard_name_accepted:
  "ValidateTarget sample_net (sample_target\<lparr>t_Name := asc ''*''\<rparr>) = None \<and>
   resolveLocked m [asc ''*''] = (m_order m, [])"
proof
  show "ValidateTarget sample_net (sample_target\<lparr>t_Name := asc ''*''\<rparr>) = None"
    by (simp add: ValidateTarget_ok sample_defs valid_target_def validateHTTPURL_def name_separator_def
      strings_TrimSpace_def strings_ToLower_def unicode_IsSpace_def unicode_ToLower_def
      trim_by_def trim_left_by_def trim_right_by_def)
  show "resolveLocked m [asc ''*''] = (m_order m, [])"
    by (simp add: resolveLocked_def containsAll_def normalizeName_def strings_TrimSpace_def strings_ToLower_def
      unicode_IsSpace_def unicode_ToLower_def trim_by_def trim_left_by_def trim_right_by_def)
qed

end
