(* ===== verification/Auth_Pages.thy ===== *)
theory Auth_Pages
  imports Widgets Systems Storage
begin

text \<open>
  The entrance of the web client (\<open>frontend/src/App.tsx\<close>): \<open>SetupPage\<close>, \<open>LoginPage\<close>,
  \<open>AuthenticatedApp\<close> and \<open>App\<close>. A page is the record of its state; an event handler that awaits a
  response is split at the \<open>await\<close> into the part before it, which yields the request, and the part
  after it, which gets the response. The step relation at the end lets the events of the user and the
  responses come in any order; a form is only submitted while its button is enabled, since a
  disabled submit button also blocks submission by the enter key.
\<close>

section \<open>The administrator's setup\<close>

definition minimumAdminPasswordLength :: nat where "minimumAdminPasswordLength = 5"

text \<open>\<open>Auth\<close>; the user name is \<open>None\<close> where the response had none.\<close>

record Auth =
  a_username :: "text option"

record SetupPage =
  sp_username :: "text"
  sp_password :: "text"
  sp_confirm :: "text"
  sp_busy :: bool
  sp_error :: "text"

definition or_admin :: "text \<Rightarrow> text" where
  "or_admin t = (if t = [] then asc ''admin'' else t)"

definition setup_mounted :: "text \<Rightarrow> SetupPage" where
  "setup_mounted suggested = \<lparr>sp_username = or_admin suggested, sp_password = [], sp_confirm = [],
     sp_busy = False, sp_error = []\<rparr>"

definition setup_enabled :: "SetupPage \<Rightarrow> bool" where
  "setup_enabled p \<longleftrightarrow>
     \<not> (sp_busy p \<or> sp_username p = [] \<or> sp_password p = [] \<or> sp_confirm p = [])"

definition short_password :: "text" where "short_password = [23494, 30721, 33267, 23569, 38656, 35201, 32, 53, 32, 20010, 23383, 31526]"
definition passwords_differ :: "text" where "passwords_differ = [20004, 27425, 36755, 20837, 30340, 23494, 30721, 19981, 19968, 33268]"

definition password_too_short :: "text \<Rightarrow> bool" where
  "password_too_short password \<longleftrightarrow>
     length (array_from (utf16 password)) < minimumAdminPasswordLength"

definition setup_submit :: "SetupPage \<Rightarrow> SetupPage \<times> http_request option" where
  "setup_submit p =
     (if password_too_short (sp_password p) then (p\<lparr>sp_error := short_password\<rparr>, None)
      else if sp_password p \<noteq> sp_confirm p then (p\<lparr>sp_error := passwords_differ\<rparr>, None)
      else (p\<lparr>sp_busy := True, sp_error := []\<rparr>, Some (api_setup (sp_username p) (sp_password p))))"

text \<open>\<open>result.username\<close> of a body: reading a property of \<open>null\<close> throws.\<close>

definition result_username :: "js_error + json \<Rightarrow> js_error + text option" where
  "result_username r =
     (case r of
        Inl e \<Rightarrow> Inl e
      | Inr JNull \<Rightarrow> Inl (JsError (asc ''Cannot read properties of null (reading 'username')''))
      | Inr body \<Rightarrow> Inr (field ''username'' as_str body))"

definition setup_failed :: "text" where "setup_failed = [21021, 22987, 21270, 22833, 36133]"

definition setup_settled :: "fetch_result \<Rightarrow> SetupPage \<Rightarrow> SetupPage \<times> Auth option" where
  "setup_settled r p =
     (case result_username (received r) of
        Inl e \<Rightarrow> (p\<lparr>sp_error := message_of setup_failed e, sp_busy := False\<rparr>, None)
      | Inr u \<Rightarrow> (p\<lparr>sp_busy := False\<rparr>, Some \<lparr>a_username = u\<rparr>))"

section \<open>Login\<close>

record LoginPage =
  lp_username :: "text"
  lp_password :: "text"
  lp_busy :: bool
  lp_error :: "text"

definition login_mounted :: LoginPage where
  "login_mounted = \<lparr>lp_username = asc ''admin'', lp_password = [], lp_busy = False, lp_error = []\<rparr>"

definition login_enabled :: "LoginPage \<Rightarrow> bool" where
  "login_enabled p \<longleftrightarrow> \<not> (lp_busy p \<or> lp_username p = [] \<or> lp_password p = [])"

definition login_submit :: "LoginPage \<Rightarrow> LoginPage \<times> http_request option" where
  "login_submit p =
     (p\<lparr>lp_busy := True, lp_error := []\<rparr>, Some (api_login (lp_username p) (lp_password p)))"

definition login_failed :: "text" where "login_failed = [30331, 24405, 22833, 36133]"

definition login_settled :: "fetch_result \<Rightarrow> LoginPage \<Rightarrow> LoginPage \<times> Auth option" where
  "login_settled r p =
     (case result_username (received r) of
        Inl e \<Rightarrow> (p\<lparr>lp_error := message_of login_failed e, lp_busy := False\<rparr>, None)
      | Inr u \<Rightarrow> (p\<lparr>lp_busy := False\<rparr>, Some \<lparr>a_username = u\<rparr>))"

section \<open>The application\<close>

record App =
  booting :: bool
  setupRequired :: bool
  suggestedUsername :: "text"
  auth :: "Auth option"

definition app_mounted :: App where
  "app_mounted = \<lparr>booting = True, setupRequired = False, suggestedUsername = asc ''admin'', auth = None\<rparr>"

text \<open>
  The response to \<open>setupStatus()\<close>: without a body to read the chain ends in its \<open>catch\<close>; where no
  setup is required the session is asked for, and \<open>booting\<close> ends only after that.
\<close>

definition app_status :: "fetch_result \<Rightarrow> App \<Rightarrow> App \<times> http_request option" where
  "app_status r a =
     (case received r of
        Inl _ \<Rightarrow> (a\<lparr>booting := False\<rparr>, None)
      | Inr JNull \<Rightarrow> (a\<lparr>booting := False\<rparr>, None)
      | Inr status \<Rightarrow>
          let required = (case get_prop ''required'' status of None \<Rightarrow> False | Some v \<Rightarrow> truthy v);
              suggested = (case get_prop ''suggested_username'' status of
                  None \<Rightarrow> asc ''admin''
                | Some v \<Rightarrow> if truthy v then js_String v else asc ''admin'');
              a = a\<lparr>setupRequired := required, suggestedUsername := suggested\<rparr> in
          if required then (a\<lparr>booting := False\<rparr>, None) else (a, Some api_session))"

definition app_session :: "fetch_result \<Rightarrow> App \<Rightarrow> App" where
  "app_session r a =
     (case result_username (received r) of
        Inl _ \<Rightarrow> a\<lparr>booting := False\<rparr>
      | Inr u \<Rightarrow> a\<lparr>auth := Some \<lparr>a_username = u\<rparr>, booting := False\<rparr>)"

text \<open>
  \<open>doLogout\<close> up to its \<open>await\<close>, and after it, whatever the response. The callback sees the identity
  of the rendering it was made in, \<open>closure_auth\<close>, which may be an earlier one than \<open>auth a\<close>.
\<close>

definition doLogout :: "Auth option \<Rightarrow> App \<Rightarrow> App \<times> http_request option" where
  "doLogout closure_auth a =
     (if closure_auth \<noteq> None then (a, Some api_logout) else (a\<lparr>auth := None\<rparr>, None))"

definition logout_settled :: "App \<Rightarrow> App" where
  "logout_settled a = a\<lparr>auth := None\<rparr>"

definition setup_complete :: "Auth \<Rightarrow> App \<Rightarrow> App" where
  "setup_complete next a = a\<lparr>setupRequired := False, auth := Some next\<rparr>"

datatype app_view = LoadingShell | ShowSetup "text" | ShowLogin | ShowConsole Auth

definition app_render :: "App \<Rightarrow> app_view" where
  "app_render a =
     (if booting a then LoadingShell
      else case auth a of
        None \<Rightarrow> if setupRequired a then ShowSetup (suggestedUsername a) else ShowLogin
      | Some u \<Rightarrow> ShowConsole u)"

text \<open>\<open>AuthenticatedApp\<close>: which of the two pages is shown.\<close>

datatype console_view = DashboardView | ConfigView

definition console_mounted :: console_view where "console_mounted = DashboardView"

section \<open>Runs\<close>

text \<open>
  Responses that are awaited. \<open>aw_granted\<close> is a history variable: a response of the server has
  confirmed an identity since the last logout. \<open>aw_shown\<close> holds the identities for which the console
  has been shown: the pages of an earlier console may still call their \<open>onLogout\<close>, from a response
  that comes late.
\<close>

datatype app_wait = WaitStatus | WaitSession | WaitSetup | WaitLogin | WaitLogout

record app_world =
  aw_app :: App
  aw_setup :: SetupPage
  aw_login :: LoginPage
  aw_waits :: "app_wait list"
  aw_granted :: bool
  aw_shown :: "Auth set"

text \<open>A page that comes into view is mounted afresh.\<close>

definition remount :: "app_view \<Rightarrow> app_world \<Rightarrow> app_world" where
  "remount old w =
     (case app_render (aw_app w) of
        ShowSetup s \<Rightarrow> (case old of ShowSetup _ \<Rightarrow> w | _ \<Rightarrow> w\<lparr>aw_setup := setup_mounted s\<rparr>)
      | ShowLogin \<Rightarrow> if old = ShowLogin then w else w\<lparr>aw_login := login_mounted\<rparr>
      | _ \<Rightarrow> w)"

definition add_wait :: "app_wait \<Rightarrow> http_request option \<Rightarrow> app_world \<Rightarrow> app_world" where
  "add_wait k r w = (if r = None then w else w\<lparr>aw_waits := k # aw_waits w\<rparr>)"

definition end_wait :: "app_wait \<Rightarrow> app_world \<Rightarrow> app_world" where
  "end_wait k w = w\<lparr>aw_waits := remove1 k (aw_waits w)\<rparr>"

definition grant :: "(Auth \<Rightarrow> App \<Rightarrow> App) \<Rightarrow> Auth option \<Rightarrow> app_world \<Rightarrow> app_world" where
  "grant f a w = (case a of None \<Rightarrow> w
     | Some u \<Rightarrow> w\<lparr>aw_app := f u (aw_app w), aw_granted := True, aw_shown := insert u (aw_shown w)\<rparr>)"

inductive app_step :: "app_world \<Rightarrow> app_world \<Rightarrow> bool" where
  status: "WaitStatus \<in> set (aw_waits w) \<Longrightarrow> app_status r (aw_app w) = (a, q) \<Longrightarrow>
    w' = add_wait WaitSession q (end_wait WaitStatus w\<lparr>aw_app := a\<rparr>) \<Longrightarrow>
    app_step w (remount LoadingShell w')"
| session: "WaitSession \<in> set (aw_waits w) \<Longrightarrow> a = app_session r (aw_app w) \<Longrightarrow>
    w' = (end_wait WaitSession w)\<lparr>aw_app := a, aw_granted := (auth a \<noteq> None),
      aw_shown := aw_shown w \<union> set_option (auth a)\<rparr> \<Longrightarrow>
    app_step w (remount LoadingShell w')"
| setup_edit: "app_render (aw_app w) = ShowSetup s \<Longrightarrow>
    app_step w (w\<lparr>aw_setup := (aw_setup w)\<lparr>sp_username := u, sp_password := p, sp_confirm := c\<rparr>\<rparr>)"
| setup_submit: "app_render (aw_app w) = ShowSetup s \<Longrightarrow> setup_enabled (aw_setup w) \<Longrightarrow>
    setup_submit (aw_setup w) = (p, q) \<Longrightarrow>
    app_step w (add_wait WaitSetup q (w\<lparr>aw_setup := p\<rparr>))"
| setup_settled: "WaitSetup \<in> set (aw_waits w) \<Longrightarrow> setup_settled r (aw_setup w) = (p, a) \<Longrightarrow>
    w' = grant setup_complete a (end_wait WaitSetup w\<lparr>aw_setup := p\<rparr>) \<Longrightarrow>
    app_step w (remount (app_render (aw_app w)) w')"
| login_edit: "app_render (aw_app w) = ShowLogin \<Longrightarrow>
    app_step w (w\<lparr>aw_login := (aw_login w)\<lparr>lp_username := u, lp_password := p\<rparr>\<rparr>)"
| login_submit: "app_render (aw_app w) = ShowLogin \<Longrightarrow> login_enabled (aw_login w) \<Longrightarrow>
    login_submit (aw_login w) = (p, q) \<Longrightarrow>
    app_step w (add_wait WaitLogin q (w\<lparr>aw_login := p\<rparr>))"
| login_settled: "WaitLogin \<in> set (aw_waits w) \<Longrightarrow> login_settled r (aw_login w) = (p, a) \<Longrightarrow>
    w' = grant (\<lambda>u x. x\<lparr>auth := Some u\<rparr>) a (end_wait WaitLogin w\<lparr>aw_login := p\<rparr>) \<Longrightarrow>
    app_step w (remount (app_render (aw_app w)) w')"
| logout: "u \<in> aw_shown w \<Longrightarrow> doLogout (Some u) (aw_app w) = (a, q) \<Longrightarrow>
    app_step w (add_wait WaitLogout q (w\<lparr>aw_app := a\<rparr>))"
| logout_settled: "WaitLogout \<in> set (aw_waits w) \<Longrightarrow>
    w' = (end_wait WaitLogout w)\<lparr>aw_app := logout_settled (aw_app w), aw_granted := False\<rparr> \<Longrightarrow>
    app_step w (remount (app_render (aw_app w)) w')"

inductive_cases app_stepE: "app_step w w'"

definition app_initial :: "app_world \<Rightarrow> bool" where
  "app_initial w \<longleftrightarrow> aw_app w = app_mounted \<and> aw_waits w = [WaitStatus] \<and> \<not> aw_granted w \<and> aw_shown w = {}"

text \<open>
  The invariant: exactly one response of the start-up chain is awaited while booting; a page is busy
  exactly while its one request is under way; the console is shown only with a confirmed identity.
\<close>

definition waiting :: "app_wait \<Rightarrow> app_world \<Rightarrow> nat" where
  "waiting k w = count_list (aw_waits w) k"


section \<open>Lemmas\<close>

lemma waiting_add_wait [simp]:
  "waiting k (add_wait j r w) = (if j = k \<and> r \<noteq> None then Suc (waiting k w) else waiting k w)"
  by (simp add: waiting_def add_wait_def)

lemma waiting_end_wait [simp]:
  "waiting k (end_wait j w) = (if j = k then waiting k w - 1 else waiting k w)"
  by (simp add: waiting_def end_wait_def count_list_remove1)


lemma waiting_remount [simp]: "waiting k (remount v w) = waiting k w"
  by (simp add: waiting_def remount_def split: app_view.split)

lemma waiting_update [simp]:
  "waiting k (w\<lparr>aw_app := a\<rparr>) = waiting k w" "waiting k (w\<lparr>aw_setup := p\<rparr>) = waiting k w"
  "waiting k (w\<lparr>aw_login := l\<rparr>) = waiting k w" "waiting k (w\<lparr>aw_granted := g\<rparr>) = waiting k w"
  "waiting k (w\<lparr>aw_shown := s\<rparr>) = waiting k w"
  by (simp_all add: waiting_def)

lemma waiting_grant [simp]: "waiting k (grant f a w) = waiting k w"
  by (simp add: grant_def split: option.split)

text \<open>What the auxiliary functions keep of the other fields.\<close>

lemma world_frame [simp]:
  "aw_app (add_wait k q w) = aw_app w" "aw_app (end_wait k w) = aw_app w" "aw_app (remount v w) = aw_app w"
  "aw_setup (add_wait k q w) = aw_setup w" "aw_setup (end_wait k w) = aw_setup w"
  "aw_login (add_wait k q w) = aw_login w" "aw_login (end_wait k w) = aw_login w"
  "aw_granted (add_wait k q w) = aw_granted w" "aw_granted (end_wait k w) = aw_granted w"
  "aw_granted (remount v w) = aw_granted w"
  "aw_shown (add_wait k q w) = aw_shown w" "aw_shown (end_wait k w) = aw_shown w"
  "aw_shown (remount v w) = aw_shown w"
  by (simp_all add: add_wait_def end_wait_def remount_def split: app_view.split)

definition is_setup :: "app_view \<Rightarrow> bool" where
  "is_setup v \<longleftrightarrow> (\<exists>s. v = ShowSetup s)"

lemma is_setup_simps [simp]:
  "is_setup (ShowSetup s)" "\<not> is_setup LoadingShell" "\<not> is_setup ShowLogin" "\<not> is_setup (ShowConsole u)"
  by (simp_all add: is_setup_def)

lemma remount_busy [simp]:
  "lp_busy (aw_login (remount old w)) \<longleftrightarrow>
     \<not> (app_render (aw_app w) = ShowLogin \<and> old \<noteq> ShowLogin) \<and> lp_busy (aw_login w)"
  "sp_busy (aw_setup (remount old w)) \<longleftrightarrow>
     \<not> (is_setup (app_render (aw_app w)) \<and> \<not> is_setup old) \<and> sp_busy (aw_setup w)"
  by (auto simp: remount_def setup_mounted_def login_mounted_def split: app_view.split)


lemma app_session_booting [simp]: "\<not> booting (app_session r a)"
  by (simp add: app_session_def split: sum.split)



lemma grant_frame [simp]:
  "aw_login (grant f u w) = aw_login w" "aw_setup (grant f u w) = aw_setup w"
  "aw_waits (grant f u w) = aw_waits w"
  "aw_granted (grant f u w) = (u \<noteq> None \<or> aw_granted w)"
  "aw_app (grant f u w) = (case u of None \<Rightarrow> aw_app w | Some v \<Rightarrow> f v (aw_app w))"
  by (simp_all add: grant_def split: option.split)

lemma grant_shown [simp]: "aw_shown (grant f u w) = aw_shown w \<union> set_option u"
  by (simp add: grant_def split: option.split)



lemma render_setup: "app_render a = ShowSetup s \<Longrightarrow> is_setup (app_render a)"
  by simp




section \<open>A run\<close>

text \<open>
  Two logouts are under way at once (for instance one from the button and one from an expired event
  stream); the first one ends and the user logs in again.
\<close>

definition ok_user :: fetch_result where
  "ok_user = Response 200 (Some (JObj [(''username'', JStr (asc ''ann''))]))"

definition ann :: Auth where "ann = \<lparr>a_username = Some (asc ''ann'')\<rparr>"

definition app_start :: app_world where
  "app_start = \<lparr>aw_app = app_mounted, aw_setup = setup_mounted [], aw_login = login_mounted,
     aw_waits = [WaitStatus], aw_granted = False, aw_shown = {}\<rparr>"

definition ready_app :: "Auth option \<Rightarrow> App" where
  "ready_app u = \<lparr>booting = False, setupRequired = False, suggestedUsername = asc ''admin'', auth = u\<rparr>"

definition filled_login :: "bool \<Rightarrow> LoginPage" where
  "filled_login b = \<lparr>lp_username = asc ''ann'', lp_password = asc ''secret'', lp_busy = b, lp_error = []\<rparr>"

definition run_world :: "Auth option \<Rightarrow> LoginPage \<Rightarrow> app_wait list \<Rightarrow> app_world" where
  "run_world u l ws = \<lparr>aw_app = ready_app u, aw_setup = setup_mounted [], aw_login = l, aw_waits = ws,
     aw_granted = (u \<noteq> None), aw_shown = {ann}\<rparr>"

lemma ok_user_received: "result_username (received ok_user) = Inr (Some (asc ''ann''))"
  by (simp add: result_username_def received_def ok_user_def response_ok_def field_def)

lemma render_ready [simp]:
  "app_render (ready_app None) = ShowLogin" "app_render (ready_app (Some u)) = ShowConsole u"
  by (simp_all add: app_render_def ready_app_def)

lemma run_status: "app_step app_start (app_start\<lparr>aw_waits := [WaitSession]\<rparr>)"
proof -
  let ?r = "Response 200 (Some (JObj [(''required'', JBool False)]))"
  have s: "app_status ?r (aw_app app_start) = (app_mounted, Some api_session)"
    by (simp add: app_status_def received_def response_ok_def app_start_def app_mounted_def Let_def)
  have "WaitStatus \<in> set (aw_waits app_start)" by (simp add: app_start_def)
  from app_step.status[OF this s refl] show ?thesis
    by (simp add: app_start_def remount_def app_render_def app_mounted_def add_wait_def end_wait_def)
qed

lemma run_session:
  "app_step (app_start\<lparr>aw_waits := [WaitSession]\<rparr>) (run_world (Some ann) login_mounted [])"
proof -
  have "WaitSession \<in> set (aw_waits (app_start\<lparr>aw_waits := [WaitSession]\<rparr>))" by simp
  from app_step.session[OF this refl refl, of ok_user] show ?thesis
    by (simp add: app_start_def run_world_def app_session_def ok_user_received remount_def end_wait_def
      app_render_def app_mounted_def ready_app_def ann_def)
qed

lemma run_logout: "app_step (run_world u l ws) (run_world u l (WaitLogout # ws))"
proof -
  have "ann \<in> aw_shown (run_world u l ws)" by (simp add: run_world_def)
  moreover have "doLogout (Some ann) (aw_app (run_world u l ws)) = (ready_app u, Some api_logout)"
    by (simp add: doLogout_def run_world_def)
  ultimately show ?thesis
    using app_step.logout[of ann "run_world u l ws"] by (simp add: run_world_def add_wait_def)
qed

lemma run_logout_settled:
  "app_step (run_world (Some u) l (WaitLogout # ws)) (run_world None login_mounted ws)"
proof -
  have "WaitLogout \<in> set (aw_waits (run_world (Some u) l (WaitLogout # ws)))" by (simp add: run_world_def)
  from app_step.logout_settled[OF this refl] show ?thesis
    by (simp add: run_world_def remount_def end_wait_def logout_settled_def ready_app_def app_render_def)
qed

lemma run_edit: "app_step (run_world None login_mounted ws) (run_world None (filled_login False) ws)"
  using app_step.login_edit[of "run_world None login_mounted ws" "asc ''secret''" "asc ''ann''"]
  by (simp add: run_world_def login_mounted_def filled_login_def)

lemma run_submit:
  "app_step (run_world None (filled_login False) ws) (run_world None (filled_login True) (WaitLogin # ws))"
  using app_step.login_submit[of "run_world None (filled_login False) ws", OF _ _ surjective_pairing]
  by (simp add: run_world_def login_enabled_def login_submit_def filled_login_def add_wait_def)

lemma run_login:
  "app_step (run_world None (filled_login True) (WaitLogin # ws))
     (run_world (Some ann) (filled_login False) ws)"
proof -
  have "WaitLogin \<in> set (aw_waits (run_world None (filled_login True) (WaitLogin # ws)))"
    by (simp add: run_world_def)
  from app_step.login_settled[OF this _ refl, of ok_user "filled_login False" "Some ann"] show ?thesis
    by (simp add: run_world_def login_settled_def ok_user_received filled_login_def ann_def grant_def
      remount_def end_wait_def ready_app_def app_render_def)
qed

lemma app_start_initial: "app_initial app_start"
  by (simp add: app_initial_def app_start_def)

lemma run_submitted:
  "reachable app_initial app_step (run_world None (filled_login True) [WaitLogin, WaitLogout])"
proof -
  have "reachable app_initial app_step app_start"
    by (rule reachable_init, rule app_start_initial)
  from reachable_step[OF this run_status]
  have "reachable app_initial app_step (app_start\<lparr>aw_waits := [WaitSession]\<rparr>)" .
  from reachable_step[OF this run_session]
  have "reachable app_initial app_step (run_world (Some ann) login_mounted [])" .
  from reachable_step[OF reachable_step[OF this run_logout] run_logout]
  have "reachable app_initial app_step (run_world (Some ann) login_mounted [WaitLogout, WaitLogout])" .
  from reachable_step[OF reachable_step[OF this run_logout_settled] run_edit]
  have "reachable app_initial app_step (run_world None (filled_login False) [WaitLogout])" .
  from reachable_step[OF this run_submit] show ?thesis .
qed

lemma commit_changes:
  assumes "db_administrator d = None"
  shows "commit cr net files f d (d\<lparr>db_administrator := Some x, db_suggested_username := u\<rparr>) \<noteq>
    (Inl PasswordTooShort, d)"
proof
  assume eq: "commit cr net files f d (d\<lparr>db_administrator := Some x, db_suggested_username := u\<rparr>) =
    (Inl PasswordTooShort, d)"
  then have "f \<noteq> FaultBeforeCommit" by (auto simp: commit_def)
  then have "db_administrator (snd (commit cr net files f d
      (d\<lparr>db_administrator := Some x, db_suggested_username := u\<rparr>))) = Some x"
    by (simp add: commit_def bumpRevisionTx_def Let_def)
  with assms show False unfolding eq by simp
qed

text \<open>A password of four characters, two of them outside the basic plane.\<close>

definition emoji_form :: SetupPage where
  "emoji_form = \<lparr>sp_username = asc ''ann'', sp_password = [128512, 128512, 97, 98],
     sp_confirm = [128512, 128512, 97, 98], sp_busy = False, sp_error = []\<rparr>"

section \<open>Properties\<close>



text \<open>
  A logout that is answered late discards a login made in the meantime: there is a reachable
  state with the login form shown and the answer to a logout still outstanding, from which the user
  logs in, and the answer of the earlier logout then takes the console away although the server
  has confirmed the new identity.
\<close>

lemma late_logout_discards_login:
  "\<exists>w1 w2 w3. reachable app_initial app_step w1 \<and> app_render (aw_app w1) = ShowLogin \<and>
     WaitLogout \<in> set (aw_waits w1) \<and> app_step w1 w2 \<and> waiting WaitLogout w2 = waiting WaitLogout w1 \<and>
     app_render (aw_app w2) = ShowConsole ann \<and> aw_granted w2 \<and>
     app_step w2 w3 \<and> app_render (aw_app w3) = ShowLogin"
proof (intro exI conjI)
  show "reachable app_initial app_step (run_world None (filled_login True) [WaitLogin, WaitLogout])"
    by (rule run_submitted)
  show "app_step (run_world None (filled_login True) [WaitLogin, WaitLogout])
      (run_world (Some ann) (filled_login False) [WaitLogout])" by (rule run_login)
  show "app_step (run_world (Some ann) (filled_login False) [WaitLogout]) (run_world None login_mounted [])"
    by (rule run_logout_settled)
qed (simp_all add: run_world_def waiting_def)

text \<open>
  The client and the store measure passwords alike. A password is refused as too short by the
  setup form, which counts the elements of \<open>Array.from(password)\<close>, exactly if \<open>SetupAdmin\<close> refuses it
  as too short, and then nothing is sent.
\<close>

lemma password_rule_agrees:
  assumes "\<forall>c\<in>set (sp_password p). scalar c" "strings_TrimSpace (sp_username p) \<noteq> []"
  shows "setup_submit p = (p\<lparr>sp_error := short_password\<rparr>, None) \<longleftrightarrow>
    SetupAdmin cr net files f salt (sp_username p) (sp_password p) d = (Inl PasswordTooShort, d)"
proof -
  have short: "password_too_short (sp_password p) \<longleftrightarrow> length (sp_password p) < MinimumAdminPasswordLength"
    using array_from_utf16[OF assms(1)]
    by (simp add: password_too_short_def minimumAdminPasswordLength_def MinimumAdminPasswordLength_def)
  have "short_password \<noteq> passwords_differ" by (simp add: short_password_def passwords_differ_def)
  then have "setup_submit p = (p\<lparr>sp_error := short_password\<rparr>, None) \<longleftrightarrow> password_too_short (sp_password p)"
    by (auto simp: setup_submit_def dest: arg_cong[of _ _ sp_error])
  moreover have "SetupAdmin cr net files f salt (sp_username p) (sp_password p) d = (Inl PasswordTooShort, d)
    \<longleftrightarrow> length (sp_password p) < MinimumAdminPasswordLength"
    using assms(2) commit_changes[of d] by (cases "db_administrator d") (auto simp: SetupAdmin_def Let_def)
  ultimately show ?thesis using short by simp
qed

end
