(* ===== verification/Config_Page.thy ===== *)
theory Config_Page
  imports Auth_Pages Console
begin

text \<open>
  The configuration pages of the web client (\<open>SecretInput\<close>, \<open>TargetEditor\<close> and \<open>ConfigurationPage\<close> of
  \<open>frontend/src/App.tsx\<close>): their state, every handler on both sides of its \<open>await\<close>, and the runs in
  which the user's events and the responses come in any order. A callback sees the values of the
  rendering it was made in; where such a value is used after an \<open>await\<close> it is carried along with the
  awaited response.
\<close>

section \<open>Secret fields\<close>

record SecretInput =
  si_visible :: bool
  si_loading :: bool

definition secret_mounted :: SecretInput where
  "secret_mounted = \<lparr>si_visible = False, si_loading = False\<rparr>"

text \<open>\<open>toggle\<close>: the second component says that \<open>onReveal\<close> is called and awaited.\<close>

definition secret_toggle :: "bool \<Rightarrow> text \<Rightarrow> SecretInput \<Rightarrow> SecretInput \<times> bool" where
  "secret_toggle has_reveal value s =
     (if si_visible s then (s\<lparr>si_visible := False\<rparr>, False)
      else if has_reveal \<and> value = [] then (s\<lparr>si_loading := True\<rparr>, True)
      else (s\<lparr>si_visible := True\<rparr>, False))"

text \<open>After \<open>onReveal\<close>: the field stays hidden when revealing has failed.\<close>

definition secret_revealed :: "bool \<Rightarrow> SecretInput \<Rightarrow> SecretInput" where
  "secret_revealed ok s = s\<lparr>si_loading := False, si_visible := (ok \<or> si_visible s)\<rparr>"

definition secret_enabled :: "bool \<Rightarrow> SecretInput \<Rightarrow> bool" where
  "secret_enabled disabled s \<longleftrightarrow> \<not> (si_loading s \<or> disabled)"

section \<open>The target editor\<close>

record TargetEditor =
  te_initial :: "ConfigurationTarget option"
  te_value :: TargetInput
  te_overrides :: "text"
  te_error :: "text"
  te_secret :: SecretInput

definition emptyTarget :: TargetInput where
  "emptyTarget = \<lparr>i_sort_order = None, i_name = [], i_api_base_url = [], i_api_key = [], i_model = [],
     i_wire_api = asc ''responses'', i_config_overrides = []\<rparr>"

definition input_of_target :: "ConfigurationTarget \<Rightarrow> TargetInput" where
  "input_of_target t = \<lparr>i_sort_order = Some (ct_sort_order t), i_name = ct_name t,
     i_api_base_url = ct_api_base_url t, i_api_key = [], i_model = ct_model t,
     i_wire_api = ct_wire_api t, i_config_overrides = ct_config_overrides t\<rparr>"

definition editor_mounted :: "ConfigurationTarget option \<Rightarrow> TargetEditor" where
  "editor_mounted original = \<lparr>te_initial = original,
     te_value = (case original of None \<Rightarrow> emptyTarget | Some t \<Rightarrow> input_of_target t),
     te_overrides = join_lines (case original of None \<Rightarrow> [] | Some t \<Rightarrow> ct_config_overrides t),
     te_error = [], te_secret = secret_mounted\<rparr>"

definition key_required :: "text" where "key_required = [21019, 24314, 32, 116, 97, 114, 103, 101, 116, 32, 26102, 24517, 39035, 25552, 20379, 32, 65, 80, 73, 32, 75, 101, 121]"

text \<open>\<open>submit\<close>: the value handed to \<open>onSave\<close>, if it is called.\<close>

definition editor_submit :: "TargetEditor \<Rightarrow> TargetEditor \<times> TargetInput option" where
  "editor_submit e =
     (if te_initial e = None \<and> js_trim (i_api_key (te_value e)) = []
      then (e\<lparr>te_error := key_required\<rparr>, None)
      else (e\<lparr>te_error := []\<rparr>, Some ((te_value e)\<lparr>i_config_overrides := splitLines (te_overrides e)\<rparr>)))"

section \<open>The page\<close>

datatype ConfigSection = SecTargets | SecTasks | SecOpenilink | SecRuntime | SecAccount

record account_form =
  af_username :: "text"
  af_current :: "text"
  af_password :: "text"
  af_confirm :: "text"

text \<open>
  \<open>cp_editor\<close> stands for \<open>editing\<close> and the state of the editor that is mounted with it; \<open>cp_broken\<close>
  says that a body without the shape of a \<open>Configuration\<close> was stored, which makes rendering throw.
\<close>

record ConfigurationPage =
  cp_data :: "Configuration option"
  cp_broken :: bool
  cp_section :: ConfigSection
  cp_notice :: "text"
  cp_error :: "text"
  cp_busy :: bool
  cp_editor :: "TargetEditor option"
  cp_token :: "text"
  cp_clearToken :: bool
  cp_telegramToken :: "text"
  cp_clearTelegramToken :: bool
  cp_secrets :: "ConfigurationSecrets option"
  cp_secretsBusy :: bool
  cp_account :: account_form
  cp_openSecret :: SecretInput
  cp_telegramSecret :: SecretInput

definition config_mounted :: "text \<Rightarrow> ConfigurationPage" where
  "config_mounted username = \<lparr>cp_data = None, cp_broken = False, cp_section = SecTargets, cp_notice = [],
     cp_error = [], cp_busy = False, cp_editor = None, cp_token = [], cp_clearToken = False,
     cp_telegramToken = [], cp_clearTelegramToken = False, cp_secrets = None, cp_secretsBusy = False,
     cp_account = \<lparr>af_username = username, af_current = [], af_password = [], af_confirm = []\<rparr>,
     cp_openSecret = secret_mounted, cp_telegramSecret = secret_mounted\<rparr>"

text \<open>\<open>setData\<close> with a parsed body.\<close>

definition setConfiguration :: "json \<Rightarrow> ConfigurationPage \<Rightarrow> ConfigurationPage" where
  "setConfiguration j p =
     (if \<not> truthy j then p\<lparr>cp_data := None\<rparr>
      else case read_configuration j of
        None \<Rightarrow> p\<lparr>cp_broken := True\<rparr>
      | Some c \<Rightarrow> p\<lparr>cp_data := Some c\<rparr>)"

definition load_config_failed :: "text" where "load_config_failed = [21152, 36733, 37197, 32622, 22833, 36133]"

definition config_loaded :: "fetch_result \<Rightarrow> ConfigurationPage \<Rightarrow> ConfigurationPage" where
  "config_loaded r p =
     (case received r of
        Inl e \<Rightarrow> p\<lparr>cp_error := message_of load_config_failed e\<rparr>
      | Inr j \<Rightarrow>
          let q = setConfiguration j p in
          if j = JNull then q\<lparr>cp_error := asc ''Cannot read properties of null (reading 'account')''\<rparr>
          else case read_configuration j of
            None \<Rightarrow> q
          | Some c \<Rightarrow> q\<lparr>cp_account := (cp_account p)\<lparr>af_username := cf_account_username c\<rparr>\<rparr>)"

definition applyResult :: "json \<Rightarrow> text \<Rightarrow> ConfigurationPage \<Rightarrow> ConfigurationPage" where
  "applyResult result message p = (setConfiguration result p)\<lparr>cp_notice := message, cp_error := []\<rparr>"

subsection \<open>Saving\<close>

datatype save_kind = SaveCodex | SaveWeb | SaveOpenILink | SaveTelegram | SaveDelete

fun save_message :: "save_kind \<Rightarrow> text" where
  "save_message SaveCodex = [67, 111, 100, 101, 120, 32, 37197, 32622, 24050, 20445, 23384]"
| "save_message SaveWeb = [87, 101, 98, 32, 37197, 32622, 24050, 20445, 23384]"
| "save_message SaveOpenILink = [79, 112, 101, 110, 73, 76, 105, 110, 107, 32, 37197, 32622, 24050, 20445, 23384, 24182, 28909, 37325, 36733]"
| "save_message SaveTelegram = [84, 101, 108, 101, 103, 114, 97, 109, 32, 37197, 32622, 24050, 20445, 23384, 24182, 28909, 37325, 36733]"
| "save_message SaveDelete = [116, 97, 114, 103, 101, 116, 32, 24050, 21024, 38500]"

definition runSave :: "ConfigurationPage \<Rightarrow> ConfigurationPage" where
  "runSave p = p\<lparr>cp_busy := True, cp_notice := [], cp_error := []\<rparr>"

text \<open>What the operation itself does between its response and \<open>applyResult\<close>.\<close>

definition after_operation :: "save_kind \<Rightarrow> ConfigurationPage \<Rightarrow> ConfigurationPage" where
  "after_operation k p =
     (case k of
        SaveOpenILink \<Rightarrow> p\<lparr>cp_token := [], cp_clearToken := False, cp_secrets := None\<rparr>
      | SaveTelegram \<Rightarrow> p\<lparr>cp_telegramToken := [], cp_clearTelegramToken := False, cp_secrets := None\<rparr>
      | _ \<Rightarrow> p)"

definition save_failed :: "text" where "save_failed = [20445, 23384, 22833, 36133]"

definition save_settled :: "save_kind \<Rightarrow> fetch_result \<Rightarrow> ConfigurationPage \<Rightarrow> ConfigurationPage" where
  "save_settled k r p =
     (case received r of
        Inl e \<Rightarrow> p\<lparr>cp_error := message_of save_failed e, cp_busy := False\<rparr>
      | Inr j \<Rightarrow> (applyResult j (save_message k) (after_operation k p))\<lparr>cp_busy := False\<rparr>)"

definition keepalive_order :: "text" where "keepalive_order = [20445, 27963, 26368, 23567, 31186, 25968, 19981, 33021, 22823, 20110, 26368, 22823, 31186, 25968]"

definition saveCodex :: "Configuration \<Rightarrow> ConfigurationPage \<Rightarrow> ConfigurationPage \<times> http_request option" where
  "saveCodex data p =
     (if x_keepalive_min_seconds (cf_codex data) > x_keepalive_max_seconds (cf_codex data)
      then (p\<lparr>cp_error := keepalive_order\<rparr>, None)
      else (runSave p, Some (api_updateCodex (cf_codex data))))"

definition saveOpenILink :: "Configuration \<Rightarrow> ConfigurationPage \<Rightarrow> ConfigurationPage \<times> http_request option" where
  "saveOpenILink data p =
     (runSave p, Some (api_updateOpenILink (cf_openilink data) (cp_token p) (cp_clearToken p)))"

definition saveTelegram :: "Configuration \<Rightarrow> ConfigurationPage \<Rightarrow> ConfigurationPage \<times> http_request option" where
  "saveTelegram data p =
     (runSave p, Some (api_updateTelegram (cf_telegram data) (cp_telegramToken p) (cp_clearTelegramToken p)))"

definition saveWeb :: "Configuration \<Rightarrow> ConfigurationPage \<Rightarrow> ConfigurationPage \<times> http_request option" where
  "saveWeb data p = (runSave p, Some (api_updateWeb (cf_web data)))"

subsection \<open>Targets\<close>

text \<open>\<open>saveTarget\<close>; whether a target is created is decided by \<open>editing\<close> at the time of the call.\<close>

definition saveTarget :: "TargetInput \<Rightarrow> ConfigurationTarget option \<Rightarrow> ConfigurationPage \<Rightarrow> ConfigurationPage \<times> http_request" where
  "saveTarget value editing p =
     (p\<lparr>cp_busy := True, cp_error := []\<rparr>,
      case editing of None \<Rightarrow> api_createTarget value | Some t \<Rightarrow> api_updateTarget (ct_id t) value)"

definition target_added :: "text" where "target_added = [116, 97, 114, 103, 101, 116, 32, 24050, 28155, 21152, 24182, 31435, 21363, 29983, 25928]"
definition target_updated :: "text" where "target_updated = [116, 97, 114, 103, 101, 116, 32, 24050, 26356, 26032, 24182, 31435, 21363, 29983, 25928]"
definition target_failed :: "text" where "target_failed = [20445, 23384, 32, 116, 97, 114, 103, 101, 116, 32, 22833, 36133]"

definition target_settled :: "bool \<Rightarrow> fetch_result \<Rightarrow> ConfigurationPage \<Rightarrow> ConfigurationPage" where
  "target_settled created r p =
     (case received r of
        Inl e \<Rightarrow> p\<lparr>cp_error := message_of target_failed e, cp_busy := False\<rparr>
      | Inr j \<Rightarrow> (applyResult j (if created then target_added else target_updated) p)
          \<lparr>cp_secrets := None, cp_editor := None, cp_busy := False\<rparr>)"

subsection \<open>Account\<close>

definition short_new_password :: "text" where "short_new_password = [26032, 23494, 30721, 33267, 23569, 38656, 35201, 32, 53, 32, 20010, 23383, 31526]"
definition new_passwords_differ :: "text" where "new_passwords_differ = [20004, 27425, 36755, 20837, 30340, 26032, 23494, 30721, 19981, 19968, 33268]"

definition saveAccount :: "ConfigurationPage \<Rightarrow> ConfigurationPage \<times> http_request option" where
  "saveAccount p =
     (let a = cp_account p in
      if af_password a \<noteq> [] \<and> password_too_short (af_password a)
      then (p\<lparr>cp_error := short_new_password\<rparr>, None)
      else if af_password a \<noteq> af_confirm a then (p\<lparr>cp_error := new_passwords_differ\<rparr>, None)
      else (p\<lparr>cp_busy := True, cp_error := []\<rparr>,
        Some (api_updateAccount (af_username a) (af_current a) (af_password a))))"

definition account_failed :: "text" where "account_failed = [36134, 21495, 20445, 23384, 22833, 36133]"

text \<open>After the response; on success \<open>onLogout\<close> is called.\<close>

definition account_settled :: "fetch_result \<Rightarrow> ConfigurationPage \<Rightarrow> ConfigurationPage \<times> bool" where
  "account_settled r p =
     (case received r of
        Inl e \<Rightarrow> (p\<lparr>cp_error := message_of account_failed e, cp_busy := False\<rparr>, False)
      | Inr _ \<Rightarrow> (p\<lparr>cp_busy := False\<rparr>, True))"

subsection \<open>Revealing secrets\<close>

text \<open>
  Which secret is asked for. For an API key the value of the editor's form at the time of the click
  is carried along: the \<open>onChange\<close> that is called with the key spreads that value.
\<close>

datatype reveal_kind = RevealOpenILink | RevealTelegram | RevealTarget int TargetInput

text \<open>\<open>revealTargetAPIKey\<close>, \<open>revealOpenILinkToken\<close>, \<open>revealTelegramToken\<close> on the secrets obtained.\<close>

fun revealed_value :: "reveal_kind \<Rightarrow> ConfigurationSecrets \<Rightarrow> text option" where
  "revealed_value RevealOpenILink s = Some (s_openilink_token s)"
| "revealed_value RevealTelegram s = Some (s_telegram_token s)"
| "revealed_value (RevealTarget i v) s = map_option st_api_key (find (\<lambda>t. st_id t = i) (s_targets s))"

definition map_editor :: "(TargetEditor \<Rightarrow> TargetEditor) \<Rightarrow> ConfigurationPage \<Rightarrow> ConfigurationPage" where
  "map_editor f p = p\<lparr>cp_editor := map_option f (cp_editor p)\<rparr>"

definition map_secret :: "reveal_kind \<Rightarrow> (SecretInput \<Rightarrow> SecretInput) \<Rightarrow> ConfigurationPage \<Rightarrow> ConfigurationPage" where
  "map_secret k f p =
     (case k of
        RevealOpenILink \<Rightarrow> p\<lparr>cp_openSecret := f (cp_openSecret p)\<rparr>
      | RevealTelegram \<Rightarrow> p\<lparr>cp_telegramSecret := f (cp_telegramSecret p)\<rparr>
      | RevealTarget i v \<Rightarrow> map_editor (\<lambda>e. e\<lparr>te_secret := f (te_secret e)\<rparr>) p)"

text \<open>\<open>onChange(revealed)\<close>\<close>

definition put_secret :: "reveal_kind \<Rightarrow> text \<Rightarrow> ConfigurationPage \<Rightarrow> ConfigurationPage" where
  "put_secret k t p =
     (case k of
        RevealOpenILink \<Rightarrow> p\<lparr>cp_token := t\<rparr>
      | RevealTelegram \<Rightarrow> p\<lparr>cp_telegramToken := t\<rparr>
      | RevealTarget i v \<Rightarrow> map_editor (\<lambda>e. e\<lparr>te_value := v\<lparr>i_api_key := t\<rparr>\<rparr>) p)"

definition show_secret :: "reveal_kind \<Rightarrow> ConfigurationSecrets \<Rightarrow> ConfigurationPage \<Rightarrow> ConfigurationPage" where
  "show_secret k s p =
     map_secret k (secret_revealed True)
       (case revealed_value k s of None \<Rightarrow> p | Some t \<Rightarrow> put_secret k t p)"

fun reveal_failed :: "reveal_kind \<Rightarrow> text" where
  "reveal_failed RevealOpenILink = [35835, 21462, 32, 79, 112, 101, 110, 73, 76, 105, 110, 107, 32, 84, 111, 107, 101, 110, 32, 22833, 36133]"
| "reveal_failed RevealTelegram = [35835, 21462, 32, 84, 101, 108, 101, 103, 114, 97, 109, 32, 84, 111, 107, 101, 110, 32, 22833, 36133]"
| "reveal_failed (RevealTarget i v) = [35835, 21462, 32, 65, 80, 73, 32, 75, 101, 121, 32, 22833, 36133]"

text \<open>
  \<open>toggle\<close> of a secret field with its \<open>onReveal\<close>: \<open>revealSecrets\<close> answers from the secrets already
  held, or asks for them.
\<close>

definition toggle_secret ::
  "reveal_kind \<Rightarrow> bool \<Rightarrow> text \<Rightarrow> SecretInput \<Rightarrow> ConfigurationPage \<Rightarrow> ConfigurationPage \<times> http_request option" where
  "toggle_secret k has_reveal value s p =
     (let (s', ask) = secret_toggle has_reveal value s; p = map_secret k (\<lambda>_. s') p in
      if \<not> ask then (p, None)
      else case cp_secrets p of
        Some secrets \<Rightarrow> (show_secret k secrets p, None)
      | None \<Rightarrow> (p\<lparr>cp_secretsBusy := True\<rparr>, Some api_getConfigurationSecrets))"

definition secrets_settled :: "reveal_kind \<Rightarrow> fetch_result \<Rightarrow> ConfigurationPage \<Rightarrow> ConfigurationPage \<times> bool" where
  "secrets_settled k r p =
     (let p = p\<lparr>cp_secretsBusy := False\<rparr> in
      case received r of
        Inl e \<Rightarrow> (map_secret k (secret_revealed False) (p\<lparr>cp_error := message_of (reveal_failed k) e\<rparr>),
          is_logged_out e)
      | Inr j \<Rightarrow>
          (case read_secrets j of
             None \<Rightarrow> (map_secret k (secret_revealed False) (p\<lparr>cp_error :=
                 asc ''Cannot read properties of undefined (reading 'find')''\<rparr>), False)
           | Some s \<Rightarrow> (show_secret k s (p\<lparr>cp_secrets := Some s\<rparr>), False)))"

subsection \<open>Fields\<close>

definition codexField :: "(api_codex \<Rightarrow> api_codex) \<Rightarrow> Configuration \<Rightarrow> ConfigurationPage \<Rightarrow> ConfigurationPage" where
  "codexField f data p = p\<lparr>cp_data := Some (data\<lparr>cf_codex := f (cf_codex data)\<rparr>)\<rparr>"

definition webField :: "(api_web \<Rightarrow> api_web) \<Rightarrow> Configuration \<Rightarrow> ConfigurationPage \<Rightarrow> ConfigurationPage" where
  "webField f data p = p\<lparr>cp_data := Some (data\<lparr>cf_web := f (cf_web data)\<rparr>)\<rparr>"

definition openField :: "(api_openilink \<Rightarrow> api_openilink) \<Rightarrow> Configuration \<Rightarrow> ConfigurationPage \<Rightarrow> ConfigurationPage" where
  "openField f data p = p\<lparr>cp_data := Some (data\<lparr>cf_openilink := f (cf_openilink data)\<rparr>)\<rparr>"

definition telegramField :: "(api_telegram \<Rightarrow> api_telegram) \<Rightarrow> Configuration \<Rightarrow> ConfigurationPage \<Rightarrow> ConfigurationPage" where
  "telegramField f data p = p\<lparr>cp_data := Some (data\<lparr>cf_telegram := f (cf_telegram data)\<rparr>)\<rparr>"

text \<open>The two check boxes "enabled" also take back the wish to clear the token.\<close>

definition openEnabled :: "bool \<Rightarrow> Configuration \<Rightarrow> ConfigurationPage \<Rightarrow> ConfigurationPage" where
  "openEnabled b data p =
     (let q = openField (\<lambda>c. c\<lparr>o_enabled := b\<rparr>) data p in if b then q\<lparr>cp_clearToken := False\<rparr> else q)"

definition telegramEnabled :: "bool \<Rightarrow> Configuration \<Rightarrow> ConfigurationPage \<Rightarrow> ConfigurationPage" where
  "telegramEnabled b data p =
     (let q = telegramField (\<lambda>g. g\<lparr>g_enabled := b\<rparr>) data p in if b then q\<lparr>cp_clearTelegramToken := False\<rparr> else q)"

text \<open>The multi-line fields: the text they show, and what a change of that text stores.\<close>

datatype lines_field = CodexOverrides | CodexPrompts | OpenUsers | TelegramUsers | WebProxies

fun lines_shown :: "lines_field \<Rightarrow> Configuration \<Rightarrow> text" where
  "lines_shown CodexOverrides d = join_lines (x_config_overrides (cf_codex d))"
| "lines_shown CodexPrompts d = join_lines (x_prompts (cf_codex d))"
| "lines_shown OpenUsers d = join_lines (o_allowed_user_ids (cf_openilink d))"
| "lines_shown TelegramUsers d = join_lines (g_allowed_user_ids (cf_telegram d))"
| "lines_shown WebProxies d = join_lines (w_trusted_proxies (cf_web d))"

fun lines_changed :: "lines_field \<Rightarrow> text \<Rightarrow> Configuration \<Rightarrow> ConfigurationPage \<Rightarrow> ConfigurationPage" where
  "lines_changed CodexOverrides t d = codexField (\<lambda>x. x\<lparr>x_config_overrides := splitLines t\<rparr>) d"
| "lines_changed CodexPrompts t d = codexField (\<lambda>x. x\<lparr>x_prompts := splitLines t\<rparr>) d"
| "lines_changed OpenUsers t d = openField (\<lambda>c. c\<lparr>o_allowed_user_ids := splitLines t\<rparr>) d"
| "lines_changed TelegramUsers t d = telegramField (\<lambda>g. g\<lparr>g_allowed_user_ids := splitLines t\<rparr>) d"
| "lines_changed WebProxies t d = webField (\<lambda>w. w\<lparr>w_trusted_proxies := splitLines t\<rparr>) d"

text \<open>\<open>ConfigNavigation\<close>: a change of section closes the editor and unmounts the secret fields.\<close>

definition goSection :: "ConfigSection \<Rightarrow> ConfigurationPage \<Rightarrow> ConfigurationPage" where
  "goSection sec p = p\<lparr>cp_section := sec, cp_editor := None, cp_notice := [], cp_error := [],
     cp_openSecret := (if sec = SecOpenilink \<and> cp_section p = SecOpenilink then cp_openSecret p else secret_mounted),
     cp_telegramSecret := (if sec = SecOpenilink \<and> cp_section p = SecOpenilink then cp_telegramSecret p else secret_mounted)\<rparr>"

section \<open>Events of the user\<close>

datatype cfg_event =
    GoSection ConfigSection
  | BeginNew
  | BeginEdit ConfigurationTarget
  | CancelEdit
  | EditorValue TargetInput
  | EditorOverrides "text"
  | SubmitEditor
  | ConfirmDelete ConfigurationTarget
  | CodexField "api_codex \<Rightarrow> api_codex"
  | WebField "api_web \<Rightarrow> api_web"
  | OpenField "api_openilink \<Rightarrow> api_openilink"
  | TelegramField "api_telegram \<Rightarrow> api_telegram"
  | LinesField lines_field "text"
  | TickOpenEnabled bool
  | TickTelegramEnabled bool
  | TickClear bool
  | TickTelegramClear bool
  | TypeToken "text"
  | TypeTelegramToken "text"
  | ClickSave save_kind
  | AccountForm account_form
  | ClickAccount
  | ToggleSecret reveal_kind

text \<open>
  Where a control is shown and enabled. Text fields may be edited at any time; the buttons that save
  are disabled while the page is busy.
\<close>

definition cfg_enabled :: "cfg_event \<Rightarrow> ConfigurationPage \<Rightarrow> bool" where
  "cfg_enabled e p =
     (case cp_data p of
        None \<Rightarrow> False
      | Some d \<Rightarrow> \<not> cp_broken p \<and>
          (case e of
             GoSection sec \<Rightarrow> True
           | BeginNew \<Rightarrow> cp_section p = SecTargets \<and> cp_editor p = None
           | BeginEdit t \<Rightarrow> cp_section p = SecTargets \<and> cp_editor p = None \<and> t \<in> set (cf_targets d)
           | CancelEdit \<Rightarrow> cp_editor p \<noteq> None
           | EditorValue v \<Rightarrow> cp_editor p \<noteq> None
           | EditorOverrides t \<Rightarrow> cp_editor p \<noteq> None
           | SubmitEditor \<Rightarrow> cp_editor p \<noteq> None \<and> \<not> cp_busy p
           | ConfirmDelete t \<Rightarrow> cp_section p = SecTargets \<and> t \<in> set (cf_targets d) \<and> \<not> cp_busy p
           | CodexField f \<Rightarrow> cp_section p = SecTasks \<or> cp_section p = SecRuntime
           | WebField f \<Rightarrow> cp_section p = SecRuntime
           | OpenField f \<Rightarrow> cp_section p = SecOpenilink
           | TelegramField f \<Rightarrow> cp_section p = SecOpenilink
           | LinesField k t \<Rightarrow> cp_section p =
               (case k of CodexOverrides \<Rightarrow> SecTasks | CodexPrompts \<Rightarrow> SecRuntime | WebProxies \<Rightarrow> SecRuntime
                | _ \<Rightarrow> SecOpenilink)
           | TickOpenEnabled b \<Rightarrow> cp_section p = SecOpenilink
           | TickTelegramEnabled b \<Rightarrow> cp_section p = SecOpenilink
           | TickClear b \<Rightarrow> cp_section p = SecOpenilink \<and> \<not> o_enabled (cf_openilink d)
           | TickTelegramClear b \<Rightarrow> cp_section p = SecOpenilink \<and> \<not> g_enabled (cf_telegram d)
           | TypeToken t \<Rightarrow> cp_section p = SecOpenilink \<and> secret_enabled (cp_secretsBusy p) (cp_openSecret p)
           | TypeTelegramToken t \<Rightarrow>
               cp_section p = SecOpenilink \<and> secret_enabled (cp_secretsBusy p) (cp_telegramSecret p)
           | ClickSave k \<Rightarrow> \<not> cp_busy p \<and> k \<noteq> SaveDelete \<and>
               (cp_section p = SecOpenilink \<and> (k = SaveOpenILink \<or> k = SaveTelegram) \<or>
                cp_section p = SecRuntime \<and> (k = SaveCodex \<or> k = SaveWeb) \<or>
                cp_section p = SecTasks \<and> k = SaveCodex)
           | AccountForm a \<Rightarrow> cp_section p = SecAccount
           | ClickAccount \<Rightarrow> cp_section p = SecAccount \<and> \<not> cp_busy p
           | ToggleSecret k \<Rightarrow>
               (case k of
                  RevealOpenILink \<Rightarrow> cp_section p = SecOpenilink \<and>
                    secret_enabled (cp_secretsBusy p) (cp_openSecret p)
                | RevealTelegram \<Rightarrow> cp_section p = SecOpenilink \<and>
                    secret_enabled (cp_secretsBusy p) (cp_telegramSecret p)
                | RevealTarget i v \<Rightarrow>
                    (case cp_editor p of None \<Rightarrow> False
                     | Some ed \<Rightarrow> secret_enabled (cp_busy p) (te_secret ed) \<and> v = te_value ed \<and>
                         (case te_initial ed of None \<Rightarrow> True | Some t \<Rightarrow> i = ct_id t)))))"

text \<open>Which response is awaited.\<close>

datatype cfg_wait =
    WaitConfig
  | WaitSave save_kind
  | WaitTarget bool
  | WaitAccount
  | WaitSecrets reveal_kind

definition waiting_for :: "cfg_wait \<Rightarrow> ConfigurationPage \<times> http_request option \<Rightarrow> ConfigurationPage \<times> (cfg_wait \<times> http_request) option" where
  "waiting_for k = apsnd (map_option (Pair k))"

definition click_save :: "save_kind \<Rightarrow> Configuration \<Rightarrow> ConfigurationPage \<Rightarrow> ConfigurationPage \<times> http_request option" where
  "click_save k d p =
     (case k of
        SaveCodex \<Rightarrow> saveCodex d p
      | SaveWeb \<Rightarrow> saveWeb d p
      | SaveOpenILink \<Rightarrow> saveOpenILink d p
      | SaveTelegram \<Rightarrow> saveTelegram d p
      | SaveDelete \<Rightarrow> (p, None))"

definition submit_editor :: "ConfigurationPage \<Rightarrow> ConfigurationPage \<times> (cfg_wait \<times> http_request) option" where
  "submit_editor p =
     (case cp_editor p of
        None \<Rightarrow> (p, None)
      | Some ed \<Rightarrow>
          let (ed', out) = editor_submit ed; p = p\<lparr>cp_editor := Some ed'\<rparr> in
          (case out of
             None \<Rightarrow> (p, None)
           | Some v \<Rightarrow> let (q, r) = saveTarget v (te_initial ed) p in
               (q, Some (WaitTarget (te_initial ed = None), r))))"

definition secret_click :: "reveal_kind \<Rightarrow> Configuration \<Rightarrow> ConfigurationPage \<Rightarrow> ConfigurationPage \<times> http_request option" where
  "secret_click k d p =
     (case k of
        RevealOpenILink \<Rightarrow> toggle_secret k (o_token_set (cf_openilink d)) (cp_token p) (cp_openSecret p) p
      | RevealTelegram \<Rightarrow> toggle_secret k (g_token_set (cf_telegram d)) (cp_telegramToken p) (cp_telegramSecret p) p
      | RevealTarget i v \<Rightarrow>
          (case cp_editor p of None \<Rightarrow> (p, None)
           | Some ed \<Rightarrow> toggle_secret k (te_initial ed \<noteq> None) (i_api_key (te_value ed)) (te_secret ed) p))"

definition cfg_handle ::
  "cfg_event \<Rightarrow> Configuration \<Rightarrow> ConfigurationPage \<Rightarrow> ConfigurationPage \<times> (cfg_wait \<times> http_request) option" where
  "cfg_handle e d p =
     (case e of
        GoSection sec \<Rightarrow> (goSection sec p, None)
      | BeginNew \<Rightarrow> (p\<lparr>cp_editor := Some (editor_mounted None)\<rparr>, None)
      | BeginEdit t \<Rightarrow> (p\<lparr>cp_editor := Some (editor_mounted (Some t))\<rparr>, None)
      | CancelEdit \<Rightarrow> (p\<lparr>cp_editor := None\<rparr>, None)
      | EditorValue v \<Rightarrow> (map_editor (\<lambda>ed. ed\<lparr>te_value := v\<rparr>) p, None)
      | EditorOverrides t \<Rightarrow> (map_editor (\<lambda>ed. ed\<lparr>te_overrides := t\<rparr>) p, None)
      | SubmitEditor \<Rightarrow> submit_editor p
      | ConfirmDelete t \<Rightarrow> (runSave p, Some (WaitSave SaveDelete, api_deleteTarget (ct_id t)))
      | CodexField f \<Rightarrow> (codexField f d p, None)
      | WebField f \<Rightarrow> (webField f d p, None)
      | OpenField f \<Rightarrow> (openField f d p, None)
      | TelegramField f \<Rightarrow> (telegramField f d p, None)
      | LinesField k t \<Rightarrow> (lines_changed k t d p, None)
      | TickOpenEnabled b \<Rightarrow> (openEnabled b d p, None)
      | TickTelegramEnabled b \<Rightarrow> (telegramEnabled b d p, None)
      | TickClear b \<Rightarrow> (p\<lparr>cp_clearToken := b\<rparr>, None)
      | TickTelegramClear b \<Rightarrow> (p\<lparr>cp_clearTelegramToken := b\<rparr>, None)
      | TypeToken t \<Rightarrow> (p\<lparr>cp_token := t\<rparr>, None)
      | TypeTelegramToken t \<Rightarrow> (p\<lparr>cp_telegramToken := t\<rparr>, None)
      | ClickSave k \<Rightarrow> waiting_for (WaitSave k) (click_save k d p)
      | AccountForm a \<Rightarrow> (p\<lparr>cp_account := a\<rparr>, None)
      | ClickAccount \<Rightarrow> waiting_for WaitAccount (saveAccount p)
      | ToggleSecret k \<Rightarrow> waiting_for (WaitSecrets k) (secret_click k d p))"

definition cfg_settled :: "cfg_wait \<Rightarrow> fetch_result \<Rightarrow> ConfigurationPage \<Rightarrow> ConfigurationPage \<times> bool" where
  "cfg_settled k r p =
     (case k of
        WaitConfig \<Rightarrow> (config_loaded r p, False)
      | WaitSave kind \<Rightarrow> (save_settled kind r p, False)
      | WaitTarget created \<Rightarrow> (target_settled created r p, False)
      | WaitAccount \<Rightarrow> account_settled r p
      | WaitSecrets kind \<Rightarrow> secrets_settled kind r p)"

section \<open>Runs\<close>

record cfg_world =
  cw_page :: ConfigurationPage
  cw_waits :: "cfg_wait list"
  cw_logout :: bool

fun awaited :: "(cfg_wait \<times> http_request) option \<Rightarrow> cfg_wait list" where
  "awaited None = []"
| "awaited (Some (k, r)) = [k]"

inductive cfg_step :: "cfg_world \<Rightarrow> cfg_world \<Rightarrow> bool" where
  user: "cp_data (cw_page w) = Some d \<Longrightarrow> cfg_enabled e (cw_page w) \<Longrightarrow>
    cfg_handle e d (cw_page w) = (p, q) \<Longrightarrow>
    cfg_step w (w\<lparr>cw_page := p, cw_waits := awaited q @ cw_waits w\<rparr>)"
| settled: "\<not> cp_broken (cw_page w) \<Longrightarrow> k \<in> set (cw_waits w) \<Longrightarrow>
    cfg_settled k r (cw_page w) = (p, out) \<Longrightarrow>
    cfg_step w \<lparr>cw_page = p, cw_waits = remove1 k (cw_waits w), cw_logout = (cw_logout w \<or> out)\<rparr>"

definition cfg_initial :: "text \<Rightarrow> cfg_world \<Rightarrow> bool" where
  "cfg_initial username w \<longleftrightarrow>
     w = \<lparr>cw_page = config_mounted username, cw_waits = [WaitConfig], cw_logout = False\<rparr>"



section \<open>Lemmas\<close>

lemma setConfiguration_busy [simp]: "cp_busy (setConfiguration j p) = cp_busy p"
  by (simp add: setConfiguration_def split: option.split)

lemma map_secret_busy [simp]: "cp_busy (map_secret k f p) = cp_busy p"
  by (simp add: map_secret_def map_editor_def split: reveal_kind.split)

lemma put_secret_busy [simp]: "cp_busy (put_secret k t p) = cp_busy p"
  by (simp add: put_secret_def map_editor_def split: reveal_kind.split)

lemma show_secret_busy [simp]: "cp_busy (show_secret k s p) = cp_busy p"
  by (simp add: show_secret_def split: option.split)



lemma fields_busy [simp]:
  "cp_busy (codexField f d p) = cp_busy p" "cp_busy (webField g d p) = cp_busy p"
  "cp_busy (openField h d p) = cp_busy p" "cp_busy (telegramField i d p) = cp_busy p"
  "cp_busy (openEnabled b d p) = cp_busy p" "cp_busy (telegramEnabled b d p) = cp_busy p"
  "cp_busy (map_editor j p) = cp_busy p" "cp_busy (goSection sec p) = cp_busy p"
  by (simp_all add: codexField_def webField_def openField_def telegramField_def openEnabled_def
    telegramEnabled_def map_editor_def goSection_def Let_def)

lemma lines_changed_busy [simp]: "cp_busy (lines_changed k t d p) = cp_busy p"
  by (cases k) simp_all












text \<open>The list behind a multi-line field.\<close>

fun lines_of :: "lines_field \<Rightarrow> Configuration \<Rightarrow> text list" where
  "lines_of CodexOverrides d = x_config_overrides (cf_codex d)"
| "lines_of CodexPrompts d = x_prompts (cf_codex d)"
| "lines_of OpenUsers d = o_allowed_user_ids (cf_openilink d)"
| "lines_of TelegramUsers d = g_allowed_user_ids (cf_telegram d)"
| "lines_of WebProxies d = w_trusted_proxies (cf_web d)"

lemma lines_shown_of: "lines_shown k d = join_lines (lines_of k d)"
  by (cases k) simp_all

lemma lines_changed_data:
  "\<exists>d'. cp_data (lines_changed k t d p) = Some d' \<and> lines_of k d' = splitLines t"
  by (cases k) (simp_all add: codexField_def openField_def telegramField_def webField_def)

lemma join_lines_snoc: "ls \<noteq> [] \<Longrightarrow> join_lines ls @ t = join_lines (butlast ls @ [last ls @ t])"
proof (induction ls)
  case (Cons l ls)
  then show ?case
    by (cases ls) (simp_all add: join_lines_def join_with_Cons)
qed simp

section \<open>A run\<close>

text \<open>
  OpenILink is enabled on the server. The user takes the tick from "enabled", ticks "clear the
  token", and then saves the other card of the same section.
\<close>

definition linked_snapshot :: snapshot where
  "linked_snapshot = (ws_config demo_server)\<lparr>sp_Config := sample_config\<lparr>c_OpenILink :=
     (c_OpenILink sample_config)\<lparr>oi_Enabled := True, oi_enabledSet := True, oi_Token := asc ''secret''\<rparr>\<rparr>\<rparr>"

definition no_targets :: managerSnapshot where
  "no_targets = \<lparr>ms_Targets = [], ms_CurrentProcesses = 0, ms_MaxParallel = 1\<rparr>"

definition linked :: Configuration where
  "linked = configuration_view demo_server no_targets linked_snapshot"

definition linked_response :: fetch_result where
  "linked_response = Response 200 (Some (configurationPayload demo_server no_targets linked_snapshot))"

lemma linked_received: "received linked_response = Inr (configurationPayload demo_server no_targets linked_snapshot)"
  by (simp add: linked_response_def received_def response_ok_def)

lemma linked_stored: "setConfiguration (configurationPayload demo_server no_targets linked_snapshot) p = p\<lparr>cp_data := Some linked\<rparr>"
proof -
  have "truthy (configurationPayload demo_server no_targets linked_snapshot)"
    by (simp add: configurationPayload_def Let_def)
  then show ?thesis by (simp add: setConfiguration_def read_configurationPayload linked_def)
qed

lemma linked_enabled: "o_enabled (cf_openilink linked)"
  by (simp add: linked_def configuration_view_def openilink_view_def linked_snapshot_def Let_def)

definition page_linked :: "Configuration \<Rightarrow> bool \<Rightarrow> bool \<Rightarrow> text \<Rightarrow> ConfigurationPage" where
  "page_linked d clear busy notice = (config_mounted (asc ''admin''))\<lparr>cp_data := Some d, cp_section := SecOpenilink,
     cp_account := \<lparr>af_username = cf_account_username linked, af_current = [], af_password = [], af_confirm = []\<rparr>,
     cp_clearToken := clear, cp_busy := busy, cp_notice := notice\<rparr>"

definition unlinked :: Configuration where
  "unlinked = linked\<lparr>cf_openilink := (cf_openilink linked)\<lparr>o_enabled := False\<rparr>\<rparr>"

definition cfg_at :: "ConfigurationPage \<Rightarrow> cfg_wait list \<Rightarrow> cfg_world" where
  "cfg_at p ks = \<lparr>cw_page = p, cw_waits = ks, cw_logout = False\<rparr>"

lemmas page_defs = page_linked_def config_mounted_def

lemma cfg_user:
  assumes "reachable (cfg_initial u) cfg_step (cfg_at p ks)" "cp_data p = Some d" "cfg_enabled e p"
    "cfg_handle e d p = (p', q)" "awaited q = new"
  shows "reachable (cfg_initial u) cfg_step (cfg_at p' (new @ ks))"
  using reachable_step[OF assms(1) cfg_step.user[of "cfg_at p ks" d e p' q]] assms(2-5)
  by (simp add: cfg_at_def)

lemma cfg_response:
  assumes "reachable (cfg_initial u) cfg_step (cfg_at p ks)" "\<not> cp_broken p" "k \<in> set ks"
    "cfg_settled k r p = (p', False)"
  shows "reachable (cfg_initial u) cfg_step (cfg_at p' (remove1 k ks))"
  using reachable_step[OF assms(1) cfg_step.settled[of "cfg_at p ks" k r p' False]] assms(2-4)
  by (simp add: cfg_at_def)

lemma linked_section:
  "reachable (cfg_initial (asc ''admin'')) cfg_step (cfg_at (page_linked linked False False []) [])"
proof -
  let ?p = "(config_mounted (asc ''admin''))\<lparr>cp_data := Some linked,
    cp_account := \<lparr>af_username = cf_account_username linked, af_current = [], af_password = [], af_confirm = []\<rparr>\<rparr>"
  have "reachable (cfg_initial (asc ''admin'')) cfg_step (cfg_at (config_mounted (asc ''admin'')) [WaitConfig])"
    by (rule reachable_init) (simp add: cfg_initial_def cfg_at_def)
  moreover have "configurationPayload demo_server no_targets linked_snapshot \<noteq> JNull"
    by (simp add: configurationPayload_def Let_def)
  then have "cfg_settled WaitConfig linked_response (config_mounted (asc ''admin'')) = (?p, False)"
    by (simp add: cfg_settled_def config_loaded_def linked_received linked_stored Let_def
      read_configurationPayload flip: linked_def) (simp add: config_mounted_def)
  ultimately have "reachable (cfg_initial (asc ''admin'')) cfg_step (cfg_at ?p [])"
    using cfg_response[of _ _ _ WaitConfig linked_response ?p] by (fastforce simp: config_mounted_def)
  from cfg_user[OF this, where e = "GoSection SecOpenilink" and q = None]
  show ?thesis by (simp add: cfg_enabled_def cfg_handle_def goSection_def page_defs)
qed

lemma linked_unticked:
  "reachable (cfg_initial (asc ''admin'')) cfg_step (cfg_at (page_linked unlinked True False []) [])"
proof -
  have "reachable (cfg_initial (asc ''admin'')) cfg_step (cfg_at (page_linked unlinked False False []) [])"
    using cfg_user[OF linked_section, where e = "TickOpenEnabled False" and d = linked and q = None]
    by (simp add: cfg_enabled_def cfg_handle_def openEnabled_def openField_def unlinked_def page_defs)
  from cfg_user[OF this, where e = "TickClear True" and d = unlinked and q = None]
  show ?thesis by (simp add: cfg_enabled_def cfg_handle_def unlinked_def page_defs)
qed

lemma linked_saving:
  "reachable (cfg_initial (asc ''admin'')) cfg_step (cfg_at (page_linked unlinked True True []) [WaitSave SaveTelegram])"
  using cfg_user[OF linked_unticked, where e = "ClickSave SaveTelegram" and d = unlinked and
    q = "Some (WaitSave SaveTelegram, api_updateTelegram (cf_telegram unlinked) [] False)"]
  by (simp add: cfg_enabled_def cfg_handle_def click_save_def saveTelegram_def runSave_def waiting_for_def
    page_defs)

lemma linked_saved:
  "reachable (cfg_initial (asc ''admin'')) cfg_step
     (cfg_at (page_linked linked True False (save_message SaveTelegram)) [])"
  using cfg_response[OF linked_saving, of "WaitSave SaveTelegram" linked_response
    "page_linked linked True False (save_message SaveTelegram)"]
  by (simp add: cfg_settled_def save_settled_def linked_received applyResult_def linked_stored
    after_operation_def page_defs)

section \<open>Properties\<close>



text \<open>
  Saving one card discards the unsaved edits of the others, and can leave the page in a state its
  own controls exclude: OpenILink shown as enabled and "clear the token" ticked and locked, so that
  saving OpenILink sends a request with both, which the server refuses.
\<close>

lemma clear_token_locked:
  "\<exists>w d. reachable (cfg_initial (asc ''admin'')) cfg_step w \<and> cp_data (cw_page w) = Some d \<and>
     cp_clearToken (cw_page w) \<and> o_enabled (cf_openilink d) \<and> \<not> cfg_enabled (TickClear False) (cw_page w) \<and>
     cfg_enabled (ClickSave SaveOpenILink) (cw_page w) \<and>
     snd (cfg_handle (ClickSave SaveOpenILink) d (cw_page w)) =
       Some (WaitSave SaveOpenILink, api_updateOpenILink (cf_openilink d) [] True)"
proof (intro exI conjI)
  show "reachable (cfg_initial (asc ''admin'')) cfg_step
     (cfg_at (page_linked linked True False (save_message SaveTelegram)) [])" by (rule linked_saved)
  show "cp_data (cw_page (cfg_at (page_linked linked True False (save_message SaveTelegram)) [])) = Some linked"
    by (simp add: cfg_at_def page_defs)
  show "o_enabled (cf_openilink linked)" by (rule linked_enabled)
qed (simp_all add: cfg_at_def cfg_enabled_def linked_enabled cfg_handle_def click_save_def saveOpenILink_def
  waiting_for_def page_defs)

text \<open>
  In the five multi-line fields of the configuration pages a line break or a space typed at the
  end is lost at once: the page stores the trimmed lines without the empty ones and shows them again,
  so the text is what it was before the key was pressed.
\<close>

lemma typed_separator_lost:
  assumes "lines_of k d \<noteq> []" "\<forall>l\<in>set (lines_of k d). clean_line l"
    and "c = 10 \<or> c = 32"
  shows "\<exists>d'. cp_data (lines_changed k (lines_shown k d @ [c]) d p) = Some d' \<and>
    lines_shown k d' = lines_shown k d"
proof -
  let ?ls = "lines_of k d"
  have clean: "\<forall>l\<in>set (butlast ?ls). clean_line l" "clean_line (last ?ls)"
    using assms(1,2) by (auto dest: in_set_butlastD)
  have "splitLines (join_lines ?ls @ [c]) = butlast ?ls @ [last ?ls]"
    using splitLines_append[OF clean, of "[c]"] splitLines_trailing[OF clean(2), of c] assms(3)
    by (auto simp: join_lines_snoc[OF assms(1)] js_IsSpace_def)
  then have "splitLines (join_lines ?ls @ [c]) = ?ls" using assms(1) by simp
  then show ?thesis
    using lines_changed_data[of k "join_lines ?ls @ [c]" d p] by (auto simp: lines_shown_of)
qed

text \<open>
  Edits made in the target editor while its API key is being revealed are overwritten: the form then
  holds the values it had when the key was asked for, with the key.
\<close>

lemma reveal_discards_edits:
  assumes "received r = Inr j" "read_secrets j = Some s" "find (\<lambda>t. st_id t = i) (s_targets s) = Some t"
    and "cp_editor p = Some ed"
  shows "\<exists>ed'. cp_editor (fst (secrets_settled (RevealTarget i v) r p)) = Some ed' \<and>
    te_value ed' = v\<lparr>i_api_key := st_api_key t\<rparr>"
  using assms
  by (simp add: secrets_settled_def show_secret_def put_secret_def map_secret_def map_editor_def Let_def)

end
