(* ===== verification/Navigation.thy ===== *)
theory Navigation
  imports Config_Page Auth_Pages
begin

text \<open>
  The frame of the console (\<open>ConsoleSidebar\<close>, \<open>ConsoleHeader\<close>, \<open>ConsoleLayout\<close> and \<open>ConfigNavigation\<close> of
  \<open>frontend/src/App.tsx\<close>): what it shows and offers for the page that is open, and what a secret field
  shows. Tags, icons and class names are left out, except the one that marks the open page.
\<close>

section \<open>Navigation\<close>

text \<open>A button of a navigation: where it leads, its label, whether it is marked, \<open>aria-current\<close>.\<close>

record 'a nav_button =
  nb_to :: 'a
  nb_label :: "text"
  nb_active :: bool
  nb_current :: "text option"

definition view_button :: "console_view \<Rightarrow> console_view \<Rightarrow> text \<Rightarrow> console_view nav_button" where
  "view_button view to label =
     \<lparr>nb_to = to, nb_label = label, nb_active = (view = to),
      nb_current = (if view = to then Some (asc ''page'') else None)\<rparr>"

definition ConsoleSidebar :: "console_view \<Rightarrow> console_view nav_button list" where
  "ConsoleSidebar view = [view_button view DashboardView [36816, 34892, 29366, 24577], view_button view ConfigView [37197, 32622]]"

definition section_items :: "(ConfigSection \<times> text) list" where
  "section_items =
     [(SecTargets, asc ''Targets''), (SecTasks, [20219, 21153, 19982, 20445, 27963]), (SecOpenilink, [28040, 24687, 20837, 21475]),
      (SecRuntime, [87, 101, 98, 32, 47, 32, 36816, 34892, 25991, 20214]), (SecAccount, [31649, 29702, 21592, 36134, 21495])]"

definition ConfigNavigation :: "ConfigSection \<Rightarrow> ConfigSection nav_button list" where
  "ConfigNavigation sec = map (\<lambda>(key, label).
     \<lparr>nb_to = key, nb_label = label, nb_active = (sec = key), nb_current = None\<rparr>) section_items"

section \<open>The frame\<close>

record console_header =
  ch_area :: "text"
  ch_title :: "text"
  ch_subtitle :: "text"
  ch_user :: "text"

definition ConsoleHeader :: "text \<Rightarrow> console_view \<Rightarrow> console_header" where
  "ConsoleHeader username view =
     \<lparr>ch_area = (if view = DashboardView then asc ''MONITOR'' else asc ''SETTINGS''),
      ch_title = (if view = DashboardView then [36816, 34892, 25511, 21046, 21488] else [37197, 32622, 31649, 29702]),
      ch_subtitle = (if view = DashboardView then [23454, 26102, 30417, 25511, 20219, 21153, 12289, 36830, 25509, 19982, 30446, 26631, 29366, 24577]
        else [31649, 29702, 36816, 34892, 21442, 25968, 12289, 28040, 24687, 20837, 21475, 19982, 31649, 29702, 21592, 36134, 21495]),
      ch_user = username\<rparr>"

text \<open>The layout around the content of the page; clicking a button of the sidebar calls \<open>setView\<close>.\<close>

record 'a console_layout =
  cl_sidebar :: "console_view nav_button list"
  cl_header :: console_header
  cl_content :: 'a

definition ConsoleLayout :: "text \<Rightarrow> console_view \<Rightarrow> 'a \<Rightarrow> 'a console_layout" where
  "ConsoleLayout username view content =
     \<lparr>cl_sidebar = ConsoleSidebar view, cl_header = ConsoleHeader username view, cl_content = content\<rparr>"

section \<open>Secret fields\<close>

text \<open>The parts of \<open>SecretInput\<close> that depend on its state: type of the input and label of its button.\<close>

record secret_view =
  sv_type :: "text"
  sv_button :: "text"
  sv_disabled :: bool

definition secret_label :: "text option \<Rightarrow> text option \<Rightarrow> text" where
  "secret_label fieldName ariaLabel =
     (case fieldName of
        Some (c # cs) \<Rightarrow> c # cs
      | _ \<Rightarrow> (case ariaLabel of Some (c # cs) \<Rightarrow> c # cs | _ \<Rightarrow> [23494, 38053]))"

definition secret_shown :: "text option \<Rightarrow> text option \<Rightarrow> bool \<Rightarrow> SecretInput \<Rightarrow> secret_view" where
  "secret_shown fieldName ariaLabel disabled s =
     \<lparr>sv_type = (if si_visible s then asc ''text'' else asc ''password''),
      sv_button = (if si_visible s then [38544, 34255] else [26174, 31034]) @ secret_label fieldName ariaLabel,
      sv_disabled = (si_loading s \<or> disabled)\<rparr>"

section \<open>What is marked is what is open\<close>

text \<open>
  Both navigations offer every page once and mark exactly the page that is open, also after one of
  their buttons has been used.
\<close>

lemma sidebar_marks_view:
  "distinct (map nb_to (ConsoleSidebar view))" "set (map nb_to (ConsoleSidebar view)) = UNIV"
  "map nb_to (filter nb_active (ConsoleSidebar view)) = [view]"
  "list_all (\<lambda>b. nb_active b = (nb_current b \<noteq> None)) (ConsoleSidebar view)"
  by (cases view; auto simp: ConsoleSidebar_def view_button_def intro: console_view.exhaust)+

lemma section_navigation_marks:
  "distinct (map nb_to (ConfigNavigation sec))" "set (map nb_to (ConfigNavigation sec)) = UNIV"
  "map nb_to (filter nb_active (ConfigNavigation sec)) = [sec]"
  by (cases sec; auto simp: ConfigNavigation_def section_items_def intro: ConfigSection.exhaust)+

lemma section_button_opens:
  assumes "b \<in> set (ConfigNavigation (cp_section p))"
  shows "map nb_to (filter nb_active (ConfigNavigation (cp_section (goSection (nb_to b) p)))) = [nb_to b]"
  by (simp add: goSection_def section_navigation_marks)

text \<open>A secret field that was opened hides its text; leaving its page hides the text again.\<close>

lemma secret_hidden_first: "sv_type (secret_shown f a disabled secret_mounted) = asc ''password''"
  by (simp add: secret_shown_def secret_mounted_def)

lemma leaving_hides_secrets:
  assumes "sec \<noteq> SecOpenilink"
  shows "sv_type (secret_shown f a x (cp_openSecret (goSection sec p))) = asc ''password''"
    "sv_type (secret_shown f a x (cp_telegramSecret (goSection sec p))) = asc ''password''"
  using assms secret_hidden_first by (simp_all add: goSection_def)

text \<open>A secret field is editable exactly while its button can be used.\<close>

lemma secret_disabled_iff: "sv_disabled (secret_shown f a disabled s) \<longleftrightarrow> \<not> secret_enabled disabled s"
  by (simp add: secret_shown_def secret_enabled_def)

end
