(* ===== verification/Adhoc_Dialog.thy ===== *)
theory Adhoc_Dialog
  imports Web_Http Widgets Systems
begin

text \<open>
  The dialog for a manual request (\<open>frontend/src/components/adhoc-run-dialog.tsx\<close>). The dialog stays
  mounted while the dashboard is shown; its props \<open>target\<close> and \<open>open\<close> are \<open>dl_target\<close>. Abort
  controllers are numbered; a controller that is aborted makes its request reject, and the rejection
  is handled before the next event of the user.
\<close>

section \<open>State and handlers\<close>

record AdhocRunDialog =
  dl_target :: "Target option"
  dl_prompt :: "text"
  dl_result :: "AdhocRunResult option"
  dl_error :: "text"
  dl_busy :: bool
  dl_controller :: "nat option"

definition dialog_mounted :: AdhocRunDialog where
  "dialog_mounted = \<lparr>dl_target = None, dl_prompt = [], dl_result = None, dl_error = [], dl_busy = False,
     dl_controller = None\<rparr>"

text \<open>Each handler also yields the controller that it aborts.\<close>

text \<open>The effect on \<open>[open, target?.id]\<close>, when the dialog opens.\<close>

definition dialog_opened :: "Target \<Rightarrow> AdhocRunDialog \<Rightarrow> AdhocRunDialog \<times> nat option" where
  "dialog_opened t d =
     (d\<lparr>dl_target := Some t, dl_prompt := [], dl_result := None, dl_error := [], dl_busy := False,
        dl_controller := None\<rparr>, dl_controller d)"

definition changeOpen :: "AdhocRunDialog \<Rightarrow> AdhocRunDialog \<times> nat option" where
  "changeOpen d = (d\<lparr>dl_target := None\<rparr>, dl_controller d)"

text \<open>The clean-up when the dashboard goes away with the dialog: the controller that is aborted.\<close>

definition dialog_unmounted :: "AdhocRunDialog \<Rightarrow> nat option" where
  "dialog_unmounted d = dl_controller d"

definition prompt_empty :: "text" where "prompt_empty = [80, 114, 111, 109, 112, 116, 32, 19981, 33021, 20026, 31354]"
definition request_cancelled :: "text" where "request_cancelled = [35831, 27714, 24050, 21462, 28040]"
definition adhoc_failed :: "text" where "adhoc_failed = [25163, 21160, 35831, 27714, 22833, 36133]"

definition prompt_limit :: nat where "prompt_limit = 32768"

text \<open>\<open>submit\<close> with a fresh controller \<open>c\<close>.\<close>

definition dialog_submit :: "nat \<Rightarrow> Target \<Rightarrow> AdhocRunDialog \<Rightarrow> AdhocRunDialog \<times> http_request option" where
  "dialog_submit c t d =
     (if js_trim (dl_prompt d) = [] then (d\<lparr>dl_error := prompt_empty\<rparr>, None)
      else (d\<lparr>dl_controller := Some c, dl_busy := True, dl_error := [], dl_result := None\<rparr>,
        Some (api_runAdhoc (tgt_id t) (dl_prompt d) (Some c))))"

definition is_abort :: "js_error \<Rightarrow> bool" where
  "is_abort e = (case e of DOMException name m \<Rightarrow> name = ''AbortError'' | _ \<Rightarrow> False)"

text \<open>
  After the response to the request of controller \<open>c\<close>; a body that is not a result is stored all the
  same, which the page cannot show: it is left out here as no result.
\<close>

definition dialog_settled :: "nat \<Rightarrow> fetch_result \<Rightarrow> AdhocRunDialog \<Rightarrow> AdhocRunDialog" where
  "dialog_settled c r d =
     (let d1 = (case received r of
          Inr j \<Rightarrow> d\<lparr>dl_result := read_adhoc_result j\<rparr>
        | Inl e \<Rightarrow> d\<lparr>dl_error := if is_abort e then request_cancelled else message_of adhoc_failed e\<rparr>) in
      d1\<lparr>dl_controller := (if dl_controller d1 = Some c then None else dl_controller d1), dl_busy := False\<rparr>)"

text \<open>What the result section shows.\<close>

record adhoc_output =
  ao_badge :: "variant \<times> text"
  ao_exit_code :: "text"
  ao_output :: "text"
  ao_error :: "text option"
  ao_process :: "text option"

definition adhoc_shown :: "AdhocRunResult \<Rightarrow> adhoc_output" where
  "adhoc_shown r = \<lparr>
     ao_badge = (if rr_success r then (VSecondary, [25104, 21151]) else (VDestructive, [22833, 36133])),
     ao_exit_code = show_int (rr_exit_code r),
     ao_output = (if rr_output r = [] then [65288, 26080, 26368, 32456, 36755, 20986, 65289] else rr_output r),
     ao_error = present (rr_error r), ao_process = present (Some (rr_process_output r))\<rparr>"

section \<open>Runs\<close>

text \<open>
  \<open>dw_pending\<close>: the controllers whose request has not settled, each with the target it was made for;
  \<open>dw_next\<close>: the next controller. \<open>dw_result_for\<close> is a history variable, the target of the request
  whose result is held.
\<close>

record dialog_world =
  dw_dialog :: AdhocRunDialog
  dw_pending :: "(nat \<times> int) list"
  dw_aborted :: "nat set"
  dw_next :: nat
  dw_result_for :: "int option"

definition quiet :: "dialog_world \<Rightarrow> bool" where
  "quiet w \<longleftrightarrow> (\<forall>x\<in>set (dw_pending w). fst x \<notin> dw_aborted w)"

inductive dialog_step :: "dialog_world \<Rightarrow> dialog_world \<Rightarrow> bool" where
  opens: "quiet w \<Longrightarrow> dl_target (dw_dialog w) = None \<Longrightarrow> dialog_opened t (dw_dialog w) = (d, a) \<Longrightarrow>
    dialog_step w (w\<lparr>dw_dialog := d, dw_aborted := dw_aborted w \<union> set_option a, dw_result_for := None\<rparr>)"
| closes: "quiet w \<Longrightarrow> dl_target (dw_dialog w) = Some t \<Longrightarrow> changeOpen (dw_dialog w) = (d, a) \<Longrightarrow>
    dialog_step w (w\<lparr>dw_dialog := d, dw_aborted := dw_aborted w \<union> set_option a\<rparr>)"
| types: "quiet w \<Longrightarrow> dl_target (dw_dialog w) = Some t \<Longrightarrow> \<not> dl_busy (dw_dialog w) \<Longrightarrow>
    js_length p \<le> prompt_limit \<Longrightarrow> dialog_step w (w\<lparr>dw_dialog := (dw_dialog w)\<lparr>dl_prompt := p\<rparr>\<rparr>)"
| submits: "quiet w \<Longrightarrow> dl_target (dw_dialog w) = Some t \<Longrightarrow> \<not> dl_busy (dw_dialog w) \<Longrightarrow>
    js_trim (dl_prompt (dw_dialog w)) \<noteq> [] \<Longrightarrow> dialog_submit (dw_next w) t (dw_dialog w) = (d, Some q) \<Longrightarrow>
    dialog_step w (w\<lparr>dw_dialog := d, dw_pending := (dw_next w, tgt_id t) # dw_pending w,
      dw_next := Suc (dw_next w), dw_result_for := None\<rparr>)"
| aborts: "quiet w \<Longrightarrow> dl_target (dw_dialog w) = Some t \<Longrightarrow> dl_busy (dw_dialog w) \<Longrightarrow>
    dialog_step w (w\<lparr>dw_aborted := dw_aborted w \<union> set_option (dl_controller (dw_dialog w))\<rparr>)"
| settles: "(c, i) \<in> set (dw_pending w) \<Longrightarrow> d = dialog_settled c r (dw_dialog w) \<Longrightarrow>
    dialog_step w (w\<lparr>dw_dialog := d, dw_pending := remove1 (c, i) (dw_pending w),
      dw_result_for := (case received r of Inr j \<Rightarrow> Some i | Inl e \<Rightarrow> dw_result_for w)\<rparr>)"

definition dialog_initial :: "dialog_world \<Rightarrow> bool" where
  "dialog_initial w \<longleftrightarrow> w = \<lparr>dw_dialog = dialog_mounted, dw_pending = [], dw_aborted = {}, dw_next = 0,
     dw_result_for = None\<rparr>"

text \<open>
  The invariant: at most one request is under way; while it is, its controller is the one the dialog
  can abort; once the dialog is closed it is aborted; and what is shown belongs to the target shown.
\<close>

definition dialog_inv :: "dialog_world \<Rightarrow> bool" where
  "dialog_inv w \<longleftrightarrow>
     (case dw_pending w of
        [] \<Rightarrow> \<not> dl_busy (dw_dialog w) \<and> dl_controller (dw_dialog w) = None
      | [(c, i)] \<Rightarrow> dl_busy (dw_dialog w) \<and> dl_controller (dw_dialog w) = Some c \<and>
          dl_result (dw_dialog w) = None \<and>
          (case dl_target (dw_dialog w) of None \<Rightarrow> c \<in> dw_aborted w | Some t \<Rightarrow> i = tgt_id t)
      | _ \<Rightarrow> False) \<and>
     (\<forall>t. dl_target (dw_dialog w) = Some t \<longrightarrow> dl_result (dw_dialog w) \<noteq> None \<longrightarrow>
        dw_result_for w = Some (tgt_id t))"

lemma dialog_inv_cases:
  assumes "dialog_inv w"
  obtains "dw_pending w = []"
  | c i where "dw_pending w = [(c, i)]" "dl_busy (dw_dialog w)" "dl_controller (dw_dialog w) = Some c"
      "case dl_target (dw_dialog w) of None \<Rightarrow> c \<in> dw_aborted w | Some t \<Rightarrow> i = tgt_id t"
proof (cases "dw_pending w")
  case (Cons x xs)
  with assms have "xs = []" by (cases x; cases xs) (auto simp: dialog_inv_def)
  with Cons assms that(2) show thesis by (cases x) (auto simp: dialog_inv_def)
qed (rule that(1))

lemma dialog_step_inv:
  assumes "dialog_step w w'" "dialog_inv w"
  shows "dialog_inv w'"
  using assms
proof induction
  case (opens w t d a)
  then show ?case
    by (auto simp: dialog_inv_def dialog_opened_def quiet_def split: list.splits prod.splits option.splits)
next
  case (closes w t d a)
  then show ?case
    by (auto simp: dialog_inv_def changeOpen_def split: list.splits prod.splits)
next
  case (types w t p)
  then show ?case by (auto simp: dialog_inv_def split: list.splits prod.splits)
next
  case (submits w t d q)
  have "dw_pending w = []"
    by (rule dialog_inv_cases[OF submits(6)]) (use submits(3) in auto)
  with submits show ?case by (auto simp: dialog_inv_def dialog_submit_def split: if_splits)
next
  case (aborts w t)
  then show ?case by (auto simp: dialog_inv_def split: list.splits prod.splits option.splits)
next
  case (settles c i w d r)
  have p: "dw_pending w = [(c, i)]"
    by (rule dialog_inv_cases[OF settles(3)]) (use settles(1) in auto)
  with settles(3) have "dl_controller (dw_dialog w) = Some c" "dl_result (dw_dialog w) = None"
    "\<And>t. dl_target (dw_dialog w) = Some t \<Longrightarrow> i = tgt_id t" by (auto simp: dialog_inv_def)
  with p settles(2) show ?case
    by (auto simp: dialog_inv_def dialog_settled_def Let_def split: sum.splits)
qed

lemma dialog_initial_inv: "dialog_initial w \<Longrightarrow> dialog_inv w"
  by (simp add: dialog_initial_def dialog_inv_def dialog_mounted_def)

interpretation dialog: invariant_system dialog_initial dialog_step dialog_inv
  by unfold_locales (auto intro: dialog_initial_inv dialog_step_inv)

section \<open>A run\<close>

definition dialog_target :: Target where
  "dialog_target = \<lparr>tgt_id = 7, tgt_name = asc ''a'', tgt_model = asc ''m'', tgt_api_host = asc ''h'',
     tgt_busy = False, tgt_adhoc_running = False,
     tgt_queue = \<lparr>q_state = asc ''idle'', q_attempts = 0, q_started_at = None, q_last_attempt = None,
       q_next_attempt = None, q_finished_at = None, q_last_error = None\<rparr>,
     tgt_keepalive = \<lparr>ka_state = asc ''stopped'', ka_requests = 0, ka_started_at = None, ka_last_request = None,
       ka_last_success = None, ka_last_failure = None, ka_next_request = None, ka_stopped_at = None,
       ka_last_error = None\<rparr>\<rparr>"

definition open_dialog :: "text \<Rightarrow> AdhocRunDialog" where
  "open_dialog p = dialog_mounted\<lparr>dl_target := Some dialog_target, dl_prompt := p\<rparr>"

definition dialog_at :: "AdhocRunDialog \<Rightarrow> (nat \<times> int) list \<Rightarrow> nat \<Rightarrow> dialog_world" where
  "dialog_at d ps n = \<lparr>dw_dialog = d, dw_pending = ps, dw_aborted = {}, dw_next = n, dw_result_for = None\<rparr>"

lemma submitted_reachable:
  "reachable dialog_initial dialog_step
     (dialog_at ((open_dialog [104])\<lparr>dl_controller := Some 0, dl_busy := True\<rparr>) [(0, 7)] 1)"
proof -
  have q: "quiet (dialog_at d [] n)" for d n by (simp add: quiet_def dialog_at_def)
  have "reachable dialog_initial dialog_step (dialog_at dialog_mounted [] 0)"
    by (rule reachable_init) (simp add: dialog_initial_def dialog_at_def)
  from reachable_step[OF this dialog_step.opens[OF q, of _ _ dialog_target]]
  have "reachable dialog_initial dialog_step (dialog_at (open_dialog []) [] 0)"
    by (simp add: dialog_at_def dialog_opened_def open_dialog_def dialog_mounted_def)
  from reachable_step[OF this dialog_step.types[OF q, of _ _ dialog_target "[104]"]]
  have "reachable dialog_initial dialog_step (dialog_at (open_dialog [104]) [] 0)"
    by (simp add: dialog_at_def open_dialog_def dialog_mounted_def prompt_limit_def js_length_def utf16_def
      utf16_rune_def)
  from reachable_step[OF this dialog_step.submits[OF q, of _ _ dialog_target]]
  show ?thesis
    by (simp add: dialog_at_def open_dialog_def dialog_mounted_def dialog_submit_def js_trim_def js_IsSpace_def
      dialog_target_def)
qed

section \<open>Properties\<close>

text \<open>
  C19: at most one manual request of the dialog is under way; while the dialog is open the request can
  be aborted and is for the target shown, once it is closed the request has been aborted; leaving the
  page aborts it in any case; and a result that is shown is the answer to a request for the target shown.
\<close>

theorem dialog_one_request:
  assumes "reachable dialog_initial dialog_step w"
  shows "length (dw_pending w) \<le> 1 \<and>
    ((c, i) \<in> set (dw_pending w) \<longrightarrow> dl_controller (dw_dialog w) = Some c \<and>
       dialog_unmounted (dw_dialog w) = Some c \<and>
       (case dl_target (dw_dialog w) of None \<Rightarrow> c \<in> dw_aborted w | Some t \<Rightarrow> i = tgt_id t)) \<and>
    (dl_target (dw_dialog w) = Some t \<and> dl_result (dw_dialog w) \<noteq> None \<longrightarrow> dw_result_for w = Some (tgt_id t))"
  by (rule dialog_inv_cases[OF dialog.reachable_inv[OF assms]])
    (use dialog.reachable_inv[OF assms] in \<open>auto simp: dialog_inv_def dialog_unmounted_def\<close>)

theorem dialog_one_request_witness:
  "(0, 7) \<in> set (dw_pending (dialog_at ((open_dialog [104])\<lparr>dl_controller := Some 0, dl_busy := True\<rparr>) [(0, 7)] 1)) \<and>
   tgt_id dialog_target = 7"
  using dialog_one_request[OF submitted_reachable, of 0 7]
  by (simp add: dialog_at_def open_dialog_def)

end
