(* ===== verification/Web_Sessions.thy ===== *)
theory Web_Sessions
  imports Storage_Props
begin

text \<open>
  Sessions of the web server (\<open>internal/web/server.go\<close>, \<open>internal/web/sse.go\<close> and the account handler
  of \<open>internal/web/config_api.go\<close>): the table of sessions with the channel that is closed whenever it
  changes (the channels are numbered), each handler's sections under the lock, and the runs in
  which logins, logouts, account changes and event streams interleave. The middleware checks the session
  before the handler runs, a login verifies the password and enters its session in separate sections,
  an account change writes the store before it revokes the sessions, and an event stream takes the
  channel of changes and looks its session up in separate sections: each of these is a step of its own.
\<close>

section \<open>The table\<close>

record session =
  se_Username :: "text"
  se_ExpiresAt :: int

record session_table =
  st_sessions :: "text \<rightharpoonup> session"
  st_changed :: nat

definition signalSessionsChangedLocked :: "session_table \<Rightarrow> session_table" where
  "signalSessionsChangedLocked s = s\<lparr>st_changed := Suc (st_changed s)\<rparr>"

text \<open>\<open>ExpiresAt.After(now)\<close>\<close>

definition alive :: "int \<Rightarrow> session \<Rightarrow> bool" where
  "alive now c \<longleftrightarrow> now < se_ExpiresAt c"

definition purgeExpiredSessionsLocked :: "int \<Rightarrow> session_table \<Rightarrow> session_table" where
  "purgeExpiredSessionsLocked now s = s\<lparr>st_sessions := (\<lambda>i. case st_sessions s i of
     None \<Rightarrow> None | Some c \<Rightarrow> if alive now c then Some c else None)\<rparr>"

text \<open>\<open>requireSession\<close>: the session and its identifier, or a refusal; an expired session is removed.\<close>

definition requireSession ::
  "int \<Rightarrow> text option \<Rightarrow> session_table \<Rightarrow> (text \<times> session) option \<times> session_table" where
  "requireSession now cookie s =
     (case cookie of
        None \<Rightarrow> (None, s)
      | Some i \<Rightarrow>
          if i = [] then (None, s)
          else case st_sessions s i of
            None \<Rightarrow> (None, s)
          | Some c \<Rightarrow>
              if \<not> alive now c then (None, s\<lparr>st_sessions := (st_sessions s)(i := None)\<rparr>)
              else (Some (i, c), s))"

definition establishSession ::
  "duration \<Rightarrow> int \<Rightarrow> text \<Rightarrow> text \<Rightarrow> session_table \<Rightarrow> session \<times> session_table" where
  "establishSession ttl now token username s =
     (let c = \<lparr>se_Username = username, se_ExpiresAt = now + ttl\<rparr> in
      (c, signalSessionsChangedLocked (purgeExpiredSessionsLocked now
        (s\<lparr>st_sessions := (st_sessions s)(token \<mapsto> c)\<rparr>))))"

definition dropSession :: "text \<Rightarrow> session_table \<Rightarrow> session_table" where
  "dropSession i s = signalSessionsChangedLocked (s\<lparr>st_sessions := (st_sessions s)(i := None)\<rparr>)"

text \<open>The section of \<open>login\<close> that removes the session of a cookie sent along; \<open>logout\<close> drops the current one.\<close>

definition rotateSession :: "text option \<Rightarrow> session_table \<Rightarrow> session_table" where
  "rotateSession cookie s =
     (case cookie of None \<Rightarrow> s | Some i \<Rightarrow> if i = [] then s else dropSession i s)"

text \<open>The sessions that an operation has removed.\<close>

definition removed :: "session_table \<Rightarrow> session_table \<Rightarrow> text set" where
  "removed s t = dom (st_sessions s) - dom (st_sessions t)"

definition revokeSessions :: "session_table \<Rightarrow> session_table" where
  "revokeSessions s = signalSessionsChangedLocked (s\<lparr>st_sessions := (\<lambda>_. None)\<rparr>)"

definition sessionExists :: "int \<Rightarrow> text \<Rightarrow> session_table \<Rightarrow> bool" where
  "sessionExists now i s = (case st_sessions s i of None \<Rightarrow> False | Some c \<Rightarrow> alive now c)"

section \<open>Account changes\<close>

record accountUpdateRequest =
  aq_Username :: "text"
  aq_Password :: "text"
  aq_NewPassword :: "text"
  aq_CurrentPassword :: "text"

datatype account_outcome =
    AccountRefused nat
  | AccountStoreError storage_error
  | AccountChanged snapshot

text \<open>
  \<open>updateAccount\<close> after decoding, for a session of \<open>sessionUser\<close>, up to the store's answer: refusals with
  their status, or the store's error or snapshot. The current administrator's name is that of the
  configuration the server holds. A changed account revokes the sessions afterwards.
\<close>

definition updateAccount ::
  "crypto \<Rightarrow> go_net \<Rightarrow> (text \<Rightarrow> text option) \<Rightarrow> fault \<Rightarrow> nat list \<Rightarrow> text \<Rightarrow> text \<Rightarrow> accountUpdateRequest \<Rightarrow>
   db \<Rightarrow> account_outcome \<times> db" where
  "updateAccount cr net files f salt sessionUser adminUsername rq d =
     (let username = (if strings_TrimSpace (aq_Username rq) = [] then adminUsername
            else strings_TrimSpace (aq_Username rq));
          newPassword = (if aq_NewPassword rq = [] then aq_Password rq else aq_NewPassword rq) in
      if aq_NewPassword rq \<noteq> [] \<and> aq_Password rq \<noteq> [] \<and> aq_NewPassword rq \<noteq> aq_Password rq
      then (AccountRefused 400, d)
      else if newPassword \<noteq> [] \<and> length newPassword < MinimumAdminPasswordLength
      then (AccountRefused 400, d)
      else case (if aq_CurrentPassword rq = [] then Inr True
            else map_sum id snd (VerifyAdmin cr sessionUser (aq_CurrentPassword rq) d)) of
        Inl e \<Rightarrow> (AccountStoreError e, d)
      | Inr ok \<Rightarrow>
          if \<not> ok then (AccountRefused 401, d)
          else if username = adminUsername \<and> newPassword = [] then (AccountRefused 400, d)
          else (case UpdateAccount cr net files f salt username newPassword d of
              (Inl e, d') \<Rightarrow> (AccountStoreError e, d')
            | (Inr snap, d') \<Rightarrow> (AccountChanged snap, d')))"

section \<open>Event streams\<close>

text \<open>
  A stream listens to the channel it took last. \<open>es_looking\<close> holds between taking a new channel and
  looking the session up. \<open>es_checked\<close> is a history variable: the session was in the table when the
  stream took its first channel, or at its last look-up.
\<close>

record event_stream =
  es_id :: "text"
  es_listening :: nat
  es_looking :: bool
  es_checked :: bool
  es_open :: bool

definition stream_subscribed :: "text \<Rightarrow> session_table \<Rightarrow> event_stream" where
  "stream_subscribed i s = \<lparr>es_id = i, es_listening = st_changed s, es_looking = False,
     es_checked = (st_sessions s i \<noteq> None), es_open = True\<rparr>"

definition stream_notified :: "session_table \<Rightarrow> event_stream \<Rightarrow> event_stream" where
  "stream_notified s e = e\<lparr>es_listening := st_changed s, es_looking := True\<rparr>"

definition stream_looked_up :: "int \<Rightarrow> session_table \<Rightarrow> event_stream \<Rightarrow> event_stream" where
  "stream_looked_up now s e = e\<lparr>es_looking := False, es_checked := sessionExists now (es_id e) s,
     es_open := sessionExists now (es_id e) s\<rparr>"

section \<open>Runs\<close>

text \<open>
  The server between two sections: the requests that have passed \<open>requireSession\<close>, the logins past the
  verification, the account changes that have still to revoke the sessions, the streams. The history
  variable \<open>sw_revoked\<close> holds the identifiers of the sessions that a login, a logout or an account
  change has removed. Identifiers are random and never drawn twice.
\<close>

datatype login_pc = LoginVerified "text" | LoginRotated "text" | LoginDone

record session_world =
  sw_table :: session_table
  sw_db :: db
  sw_admin :: "text"
  sw_requests :: "(text \<times> session) list"
  sw_logins :: "login_pc list"
  sw_revoking :: nat
  sw_streams :: "event_stream list"
  sw_revoked :: "text set"

definition set_table :: "session_table \<Rightarrow> session_world \<Rightarrow> session_world" where
  "set_table t w = w\<lparr>sw_table := t, sw_revoked := sw_revoked w \<union> removed (sw_table w) t\<rparr>"

definition set_stream :: "nat \<Rightarrow> (event_stream \<Rightarrow> event_stream) \<Rightarrow> session_world \<Rightarrow> session_world" where
  "set_stream n f w = w\<lparr>sw_streams := (sw_streams w)[n := f (sw_streams w ! n)]\<rparr>"

text \<open>What an account change leaves: a changed configuration is current, and the revocation follows.\<close>

definition account_done :: "account_outcome \<Rightarrow> db \<Rightarrow> session_world \<Rightarrow> session_world" where
  "account_done r d w = (case r of
      AccountChanged snap \<Rightarrow> w\<lparr>sw_db := d, sw_admin := wb_AdminUsername (c_Web (sp_Config snap)),
        sw_revoking := Suc (sw_revoking w)\<rparr>
    | _ \<Rightarrow> w\<lparr>sw_db := d\<rparr>)"

inductive session_step :: "crypto \<Rightarrow> duration \<Rightarrow> session_world \<Rightarrow> session_world \<Rightarrow> bool" for cr ttl where
  verify: "VerifyAdmin cr username password (sw_db w) = Inr (u, True) \<Longrightarrow>
    session_step cr ttl w (w\<lparr>sw_logins := LoginVerified u # sw_logins w\<rparr>)"
| rotate: "n < length (sw_logins w) \<Longrightarrow> sw_logins w ! n = LoginVerified u \<Longrightarrow>
    session_step cr ttl w ((set_table (rotateSession cookie (sw_table w)) w)
      \<lparr>sw_logins := (sw_logins w)[n := LoginRotated u]\<rparr>)"
| establish: "n < length (sw_logins w) \<Longrightarrow> sw_logins w ! n = LoginRotated u \<Longrightarrow>
    st_sessions (sw_table w) token = None \<Longrightarrow> token \<notin> sw_revoked w \<Longrightarrow>
    establishSession ttl now token u (sw_table w) = (c, t) \<Longrightarrow>
    session_step cr ttl w (w\<lparr>sw_table := t, sw_logins := (sw_logins w)[n := LoginDone]\<rparr>)"
| admitted: "requireSession now cookie (sw_table w) = (Some ic, t) \<Longrightarrow>
    session_step cr ttl w (w\<lparr>sw_table := t, sw_requests := ic # sw_requests w\<rparr>)"
| refused: "requireSession now cookie (sw_table w) = (None, t) \<Longrightarrow> session_step cr ttl w (w\<lparr>sw_table := t\<rparr>)"
| logout: "(i, c) \<in> set (sw_requests w) \<Longrightarrow>
    session_step cr ttl w ((set_table (dropSession i (sw_table w)) w)
      \<lparr>sw_requests := remove1 (i, c) (sw_requests w)\<rparr>)"
| account: "(i, c) \<in> set (sw_requests w) \<Longrightarrow>
    updateAccount cr net files f salt (se_Username c) (sw_admin w) rq (sw_db w) = (r, d) \<Longrightarrow>
    session_step cr ttl w (account_done r d (w\<lparr>sw_requests := remove1 (i, c) (sw_requests w)\<rparr>))"
| revoke: "0 < sw_revoking w \<Longrightarrow>
    session_step cr ttl w ((set_table (revokeSessions (sw_table w)) w)\<lparr>sw_revoking := sw_revoking w - 1\<rparr>)"
| subscribed: "(i, c) \<in> set (sw_requests w) \<Longrightarrow>
    session_step cr ttl w (w\<lparr>sw_streams := stream_subscribed i (sw_table w) # sw_streams w,
      sw_requests := remove1 (i, c) (sw_requests w)\<rparr>)"
| notified: "n < length (sw_streams w) \<Longrightarrow> \<not> es_looking (sw_streams w ! n) \<Longrightarrow>
    es_listening (sw_streams w ! n) \<noteq> st_changed (sw_table w) \<Longrightarrow>
    session_step cr ttl w (set_stream n (stream_notified (sw_table w)) w)"
| looked_up: "n < length (sw_streams w) \<Longrightarrow> es_looking (sw_streams w ! n) \<Longrightarrow>
    session_step cr ttl w (set_stream n (stream_looked_up now (sw_table w)) w)"
| gone: "n < length (sw_streams w) \<Longrightarrow>
    session_step cr ttl w (set_stream n (\<lambda>e. e\<lparr>es_open := False\<rparr>) w)"

definition session_start :: "db \<Rightarrow> text \<Rightarrow> session_world" where
  "session_start d admin = \<lparr>sw_table = \<lparr>st_sessions = (\<lambda>_. None), st_changed = 0\<rparr>, sw_db = d,
     sw_admin = admin, sw_requests = [], sw_logins = [], sw_revoking = 0, sw_streams = [], sw_revoked = {}\<rparr>"

text \<open>
  The invariant: a revoked session is not in the table; a stream listens to a channel that exists; and a
  stream that has seen its session and is waiting for the next change has not lost it.
\<close>

definition stream_ok :: "session_table \<Rightarrow> text set \<Rightarrow> event_stream \<Rightarrow> bool" where
  "stream_ok t revoked e \<longleftrightarrow> es_listening e \<le> st_changed t \<and>
     (es_checked e \<and> \<not> es_looking e \<and> es_listening e = st_changed t \<longrightarrow> es_id e \<notin> revoked)"

definition session_inv :: "session_world \<Rightarrow> bool" where
  "session_inv w \<longleftrightarrow> (\<forall>i\<in>sw_revoked w. st_sessions (sw_table w) i = None) \<and>
     list_all (stream_ok (sw_table w) (sw_revoked w)) (sw_streams w)"

section \<open>Lemmas\<close>

text \<open>A change of the table removes sessions only together with a signal.\<close>

definition table_step :: "session_table \<Rightarrow> session_table \<Rightarrow> bool" where
  "table_step s t \<longleftrightarrow> dom (st_sessions t) \<subseteq> dom (st_sessions s) \<and>
     (st_changed t = Suc (st_changed s) \<or> t = s)"

lemma dropSession_step: "table_step s (dropSession i s)"
  by (auto simp: table_step_def dropSession_def signalSessionsChangedLocked_def)

lemma rotateSession_step: "table_step s (rotateSession cookie s)"
  using dropSession_step by (simp add: rotateSession_def table_step_def split: option.split)

lemma revokeSessions_step: "table_step s (revokeSessions s)"
  by (simp add: table_step_def revokeSessions_def signalSessionsChangedLocked_def dom_def)

lemmas table_steps = dropSession_step rotateSession_step revokeSessions_step

lemma requireSession_table:
  "requireSession now cookie s = (r, t) \<Longrightarrow> st_changed t = st_changed s \<and>
     (\<forall>i. st_sessions s i = None \<longrightarrow> st_sessions t i = None)"
  by (auto simp: requireSession_def split: option.splits if_splits)

lemma stream_ok_later: "stream_ok s r e \<Longrightarrow> st_changed s < st_changed t \<Longrightarrow> stream_ok t r' e"
  by (auto simp: stream_ok_def)

lemma stream_ok_changed: "st_changed t = st_changed s \<Longrightarrow> stream_ok t r e = stream_ok s r e"
  by (simp add: stream_ok_def)

lemma session_inv_irrelevant [simp]:
  "session_inv (w\<lparr>sw_logins := l\<rparr>) = session_inv w" "session_inv (w\<lparr>sw_db := d\<rparr>) = session_inv w"
  "session_inv (w\<lparr>sw_admin := a\<rparr>) = session_inv w" "session_inv (w\<lparr>sw_requests := q\<rparr>) = session_inv w"
  "session_inv (w\<lparr>sw_revoking := k\<rparr>) = session_inv w"
  by (simp_all add: session_inv_def)

lemma account_done_inv [simp]: "session_inv (account_done r d w) = session_inv w"
  by (simp add: account_done_def split: account_outcome.split)

lemma set_table_inv:
  assumes "session_inv w" "table_step (sw_table w) t"
  shows "session_inv (set_table t w)"
proof (cases "t = sw_table w")
  case True
  then show ?thesis using assms(1) by (simp add: session_inv_def set_table_def removed_def)
next
  case False
  with assms(2) have c: "st_changed t = Suc (st_changed (sw_table w))"
    and d: "dom (st_sessions t) \<subseteq> dom (st_sessions (sw_table w))" by (auto simp: table_step_def)
  have "st_sessions t i = None" if "i \<in> sw_revoked w \<union> removed (sw_table w) t" for i
    using that assms(1) d by (auto simp: session_inv_def removed_def)
  then show ?thesis
    using assms(1) c by (auto simp: session_inv_def set_table_def list_all_iff intro: stream_ok_later)
qed

lemma establishSession_table:
  assumes "establishSession ttl now token u s = (c, t)"
  shows "st_changed t = Suc (st_changed s)" "i \<noteq> token \<Longrightarrow> st_sessions s i = None \<Longrightarrow> st_sessions t i = None"
    "0 < ttl \<Longrightarrow> st_sessions t token = Some c" "se_Username c = u"
  using assms by (auto simp: establishSession_def signalSessionsChangedLocked_def alive_def
      purgeExpiredSessionsLocked_def Let_def)

lemma establishSession_empty:
  assumes "\<And>i. st_sessions s i = None" "0 < ttl"
  shows "establishSession ttl now token u s =
    (\<lparr>se_Username = u, se_ExpiresAt = now + ttl\<rparr>,
     \<lparr>st_sessions = [token \<mapsto> \<lparr>se_Username = u, se_ExpiresAt = now + ttl\<rparr>], st_changed = Suc (st_changed s)\<rparr>)"
proof -
  let ?c = "\<lparr>se_Username = u, se_ExpiresAt = now + ttl\<rparr>"
  have "(\<lambda>i. case ((st_sessions s)(token \<mapsto> ?c)) i of None \<Rightarrow> None
      | Some c \<Rightarrow> if alive now c then Some c else None) = [token \<mapsto> ?c]"
    using assms by (auto simp: fun_eq_iff alive_def)
  then show ?thesis
    by (cases s) (simp add: establishSession_def Let_def signalSessionsChangedLocked_def
        purgeExpiredSessionsLocked_def)
qed

lemma list_all_update: "list_all P xs \<Longrightarrow> P x \<Longrightarrow> list_all P (xs[n := x])"
  by (auto simp: list_all_iff dest: set_update_subset_insert[THEN subsetD])

lemma set_stream_inv:
  assumes "session_inv w" "n < length (sw_streams w)"
    and "stream_ok (sw_table w) (sw_revoked w) (sw_streams w ! n) \<Longrightarrow>
      stream_ok (sw_table w) (sw_revoked w) (f (sw_streams w ! n))"
  shows "session_inv (set_stream n f w)"
proof -
  have "stream_ok (sw_table w) (sw_revoked w) (sw_streams w ! n)"
    using assms(1,2) by (simp add: session_inv_def list_all_length)
  with assms show ?thesis by (simp add: session_inv_def set_stream_def list_all_update)
qed

lemma session_step_inv:
  assumes "session_step cr ttl w w'" "session_inv w"
  shows "session_inv w'"
  using assms
proof induction
  case (establish n w u token now c t)
  note t = establishSession_table[OF establish(5)]
  have "st_sessions t i = None" if "i \<in> sw_revoked w" for i
    using that establish(4,6) t(2)[of i] by (auto simp: session_inv_def)
  then show ?case
    using establish(6) t(1) by (auto simp: session_inv_def list_all_iff intro: stream_ok_later)
next
  case (admitted now cookie w ic t)
  then show ?case
    using requireSession_table[OF admitted(1)] stream_ok_changed[of t "sw_table w"]
    by (simp add: session_inv_def list_all_iff)
next
  case (refused now cookie w t)
  then show ?case
    using requireSession_table[OF refused(1)] stream_ok_changed[of t "sw_table w"]
    by (simp add: session_inv_def list_all_iff)
next
  case (subscribed i c w)
  then show ?case by (auto simp: session_inv_def stream_subscribed_def stream_ok_def)
next
  case (notified n w)
  then show ?case by (intro set_stream_inv) (auto simp: stream_notified_def stream_ok_def)
next
  case (looked_up n w now)
  then show ?case
    by (intro set_stream_inv)
      (auto simp: stream_looked_up_def stream_ok_def sessionExists_def session_inv_def split: option.splits)
next
  case (gone n w)
  then show ?case by (intro set_stream_inv) (auto simp: stream_ok_def)
qed (simp_all add: set_table_inv table_steps)

lemma session_start_inv: "session_inv (session_start d admin)"
  by (simp add: session_start_def session_inv_def)

interpretation sessions: invariant_system "\<lambda>w. w = session_start d admin" "session_step cr ttl" session_inv
  for d admin cr ttl
  by unfold_locales (auto intro: session_start_inv session_step_inv)

section \<open>A sample run\<close>

definition account_db :: db where
  "account_db = (initialize plain_crypto [])\<lparr>
     db_administrator := Some (asc ''admin'', hashPassword plain_crypto [2, 3, 5] (asc ''old-password'')),
     db_suggested_username := asc ''admin''\<rparr>"

lemma account_db_ok: "store_ok plain_crypto net account_db"
  using initialize_inv[of plain_crypto net "[]"]
  by (simp add: account_db_def store_ok_admin store_inv_def)

lemma account_db_admin [simp]: "db_administrator account_db =
    Some (asc ''admin'', hashPassword plain_crypto [2, 3, 5] (asc ''old-password''))"
  by (simp add: account_db_def)

lemma plain_verify:
  "verifyPassword plain_crypto q (hashPassword plain_crypto [2, 3, 5] p) =
     Inr (argon2_IDKey plain_crypto q [2, 3, 5] 2 32768 1 32 = argon2_IDKey plain_crypto p [2, 3, 5] 2 32768 1 32)"
  by (rule verifyPassword_hash) (auto simp: plain_IDKey dest!: in_set_takeD)

lemma trim_admin [simp]: "strings_TrimSpace (asc ''admin'') = asc ''admin''"
  by (simp add: strings_TrimSpace_def unicode_IsSpace_def trim_by_def trim_left_by_def trim_right_by_def)

lemma account_db_login:
  "VerifyAdmin plain_crypto (asc ''admin'') (asc ''old-password'') account_db = Inr (asc ''admin'', True)"
  by (simp add: VerifyAdmin_def plain_verify del: asc_Cons)

text \<open>The administrator has logged in.\<close>

definition sample_session :: session where
  "sample_session = \<lparr>se_Username = asc ''admin'', se_ExpiresAt = 3600\<rparr>"

definition sample_world :: session_world where
  "sample_world = (session_start account_db (asc ''admin''))\<lparr>
     sw_table := \<lparr>st_sessions = [[7] \<mapsto> sample_session], st_changed = 1\<rparr>, sw_logins := [LoginDone]\<rparr>"

abbreviation sample_reachable :: "session_world \<Rightarrow> bool" where
  "sample_reachable \<equiv> reachable (\<lambda>w. w = session_start account_db (asc ''admin''))
     (session_step plain_crypto 3600)"

lemma sample_world_reachable: "sample_reachable sample_world"
proof -
  let ?w0 = "session_start account_db (asc ''admin'')"
  let ?w1 = "?w0\<lparr>sw_logins := [LoginVerified (asc ''admin'')]\<rparr>"
  let ?w2 = "?w0\<lparr>sw_logins := [LoginRotated (asc ''admin'')]\<rparr>"
  have "session_step plain_crypto 3600 ?w0 ?w1"
    using session_step.verify[of plain_crypto "asc ''admin''" "asc ''old-password''" ?w0 "asc ''admin''"]
      account_db_login by (simp add: session_start_def del: asc_Cons)
  moreover have "session_step plain_crypto 3600 ?w1 ?w2"
    using session_step.rotate[of 0 ?w1 "asc ''admin''" plain_crypto 3600 None]
    by (simp add: session_start_def rotateSession_def set_table_def removed_def del: asc_Cons)
  moreover have "session_step plain_crypto 3600 ?w2 sample_world"
    using session_step.establish[of 0 ?w2 "asc ''admin''" "[7]" 3600 0 _ _ plain_crypto,
        OF _ _ _ _ establishSession_empty]
    by (simp add: session_start_def sample_world_def sample_session_def del: asc_Cons)
  ultimately show ?thesis
    unfolding reachable_def by (meson converse_rtranclp_into_rtranclp rtranclp.rtrancl_refl)
qed

text \<open>A change of the password, made without the current one.\<close>

definition password_change :: accountUpdateRequest where
  "password_change = \<lparr>aq_Username = [], aq_Password = [], aq_NewPassword = asc ''new-password'',
     aq_CurrentPassword = []\<rparr>"

definition changed_db :: db where
  "changed_db = bumpRevisionTx (account_db\<lparr>
     db_administrator := Some (asc ''admin'', hashPassword plain_crypto [2, 3, 5] (asc ''new-password'')),
     db_suggested_username := asc ''admin''\<rparr>)"

lemma password_change_accepted:
  "\<exists>snap. updateAccount plain_crypto sample_net (\<lambda>_. None) NoFault [2, 3, 5] u (asc ''admin'')
     password_change account_db = (AccountChanged snap, changed_db)"
proof -
  have p: "asc ''new-password'' \<noteq> []" "asc ''admin'' \<noteq> []" "\<not> length (asc ''new-password'') < 5" by simp_all
  then have u: "UpdateAccount plain_crypto sample_net (\<lambda>_. None) NoFault [2, 3, 5] (asc ''admin'')
      (asc ''new-password'') account_db = (loadFrom plain_crypto sample_net (\<lambda>_. None) changed_db, changed_db)"
    by (simp add: UpdateAccount_def Let_def commit_NoFault MinimumAdminPasswordLength_def changed_db_def del: asc_Cons)
  have "store_ok plain_crypto sample_net changed_db"
    using UpdateAccount_ok[OF account_db_ok[of sample_net], of "\<lambda>_. None" NoFault "[2, 3, 5]" "asc ''admin''"
      "asc ''new-password''"] unfolding u by simp
  then obtain snap where "loadFrom plain_crypto sample_net (\<lambda>_. None) changed_db = Inr snap"
    using load_iff by blast
  with u p show ?thesis
    by (simp add: updateAccount_def password_change_def Let_def strings_TrimSpace_def trim_by_def
        trim_left_by_def trim_right_by_def MinimumAdminPasswordLength_def del: asc_Cons)
qed

lemma old_password_replaced:
  "VerifyAdmin plain_crypto (asc ''admin'') (asc ''old-password'') changed_db = Inr (asc ''admin'', False)"
  by (simp add: VerifyAdmin_def changed_db_def bumpRevisionTx_def plain_verify plain_IDKey)

lemma sample_admitted:
  assumes "sample_reachable w" "sw_table w = sw_table sample_world"
  shows "sample_reachable (w\<lparr>sw_requests := ([7], sample_session) # sw_requests w\<rparr>)"
proof -
  have "requireSession 0 (Some [7]) (sw_table w) = (Some ([7], sample_session), sw_table w)"
    using assms(2) by (simp add: sample_world_def requireSession_def alive_def sample_session_def)
  from session_step.admitted[OF this] show ?thesis
    using reachable_step[OF assms(1)] by simp
qed

lemma sample_handled:
  assumes "sample_reachable w" "sw_requests w = ([7], c) # q"
  shows "sample_reachable ((set_table (dropSession [7] (sw_table w)) w)\<lparr>sw_requests := q\<rparr>)"
    "sample_reachable (w\<lparr>sw_streams := stream_subscribed [7] (sw_table w) # sw_streams w, sw_requests := q\<rparr>)"
  using session_step.logout[of "[7]" c w] session_step.subscribed[of "[7]" c w] assms
  by (auto intro: reachable_step)

text \<open>Two requests of the session pass the middleware.\<close>

lemma sample_two: "sample_reachable (sample_world\<lparr>sw_requests := [([7], sample_session), ([7], sample_session)]\<rparr>)"
  using sample_admitted[OF sample_admitted[OF sample_world_reachable]]
  by (simp add: sample_world_def session_start_def)

section \<open>Properties\<close>

text \<open>
  C33: revoked sessions lose their event streams. When a stream whose session was still in the table at
  its last look is open although the session has been revoked (by a login over its cookie, a logout or an
  account change), a notification or a look-up is outstanding, and that look-up finds no session,
  which ends the stream.
\<close>

theorem revoked_stream_ends:
  assumes "reachable (\<lambda>w. w = session_start d admin) (session_step cr ttl) w"
    and "e \<in> set (sw_streams w)" "es_checked e" "es_id e \<in> sw_revoked w"
  shows "(es_looking e \<or> es_listening e \<noteq> st_changed (sw_table w)) \<and>
    \<not> es_open (stream_looked_up now (sw_table w) e)"
proof -
  have I: "session_inv w" using sessions.reachable_inv[OF assms(1)] .
  then have "stream_ok (sw_table w) (sw_revoked w) e" using assms(2) by (simp add: session_inv_def list_all_iff)
  then have "es_looking e \<or> es_listening e \<noteq> st_changed (sw_table w)"
    using assms(3,4) by (auto simp: stream_ok_def)
  moreover have "\<not> es_open (stream_looked_up now (sw_table w) e)"
    using I assms(4) by (simp add: session_inv_def stream_looked_up_def sessionExists_def)
  ultimately show ?thesis ..
qed

theorem revoked_stream_ends_witness:
  "\<not> es_open (stream_looked_up 0 (dropSession [7] (sw_table sample_world))
     (stream_subscribed [7] (sw_table sample_world)))"
proof -
  let ?w1 = "sample_world\<lparr>sw_streams := [stream_subscribed [7] (sw_table sample_world)],
    sw_requests := [([7], sample_session)]\<rparr>"
  let ?w2 = "(set_table (dropSession [7] (sw_table sample_world)) ?w1)\<lparr>sw_requests := []\<rparr>"
  have "sample_reachable ?w1"
    using sample_handled(2)[OF sample_two] by (simp add: sample_world_def session_start_def)
  from sample_handled(1)[OF this] have "sample_reachable ?w2" by simp
  from revoked_stream_ends[OF this, of "stream_subscribed [7] (sw_table sample_world)" 0]
  show ?thesis
    by (simp add: set_table_def sample_world_def stream_subscribed_def removed_def dropSession_def
        signalSessionsChangedLocked_def)
qed

text \<open>
  The gap before the first channel: a logout that falls between the middleware's check and
  \<open>sessionChanges()\<close> leaves the stream open and waiting for a later change, although its session is gone.
\<close>

lemma early_revocation_missed:
  "\<exists>w e. sample_reachable w \<and> e \<in> set (sw_streams w) \<and> es_open e \<and> es_id e \<in> sw_revoked w \<and>
     \<not> es_looking e \<and> es_listening e = st_changed (sw_table w)"
proof -
  let ?w1 = "(set_table (dropSession [7] (sw_table sample_world)) sample_world)
    \<lparr>sw_requests := [([7], sample_session)]\<rparr>"
  let ?e = "stream_subscribed [7] (sw_table ?w1)"
  let ?w2 = "?w1\<lparr>sw_streams := [?e], sw_requests := []\<rparr>"
  have "sample_reachable ?w1"
    using sample_handled(1)[OF sample_two] by (simp add: set_table_def)
  from sample_handled(2)[OF this] have "sample_reachable ?w2"
    by (simp add: set_table_def sample_world_def session_start_def)
  moreover have "es_open ?e \<and> es_id ?e \<in> sw_revoked ?w2 \<and> \<not> es_looking ?e \<and>
      es_listening ?e = st_changed (sw_table ?w2)"
    by (simp add: set_table_def sample_world_def stream_subscribed_def removed_def dropSession_def
        signalSessionsChangedLocked_def)
  ultimately show ?thesis by (intro exI[of _ ?w2] exI[of _ ?e]) simp
qed

lemma revokeSessions_empty [simp]: "st_sessions (revokeSessions s) i = None"
  by (simp add: revokeSessions_def signalSessionsChangedLocked_def)

text \<open>
  An account change does not reach the logins it overtakes. A login whose password has been verified
  before the change, and that enters its session after the revocation, leaves a session in the table that
  is the only one left and has been opened with the replaced credentials.
\<close>

lemma verified_login_survives_revocation:
  assumes "n < length (sw_logins w)" "sw_logins w ! n = LoginVerified u" "(i, c) \<in> set (sw_requests w)"
    and "updateAccount cr net files f salt (se_Username c) (sw_admin w) rq (sw_db w) = (AccountChanged snap, d)"
    and "st_sessions (sw_table w) token = None" "token \<notin> sw_revoked w" "0 < ttl"
  shows "\<exists>w'. (session_step cr ttl)\<^sup>*\<^sup>* w w' \<and> sw_db w' = d \<and> sw_revoking w' = sw_revoking w \<and>
    st_sessions (sw_table w') = [token \<mapsto> \<lparr>se_Username = u, se_ExpiresAt = now + ttl\<rparr>]"
proof -
  let ?w1 = "account_done (AccountChanged snap) d (w\<lparr>sw_requests := remove1 (i, c) (sw_requests w)\<rparr>)"
  let ?w2 = "(set_table (revokeSessions (sw_table ?w1)) ?w1)\<lparr>sw_revoking := sw_revoking ?w1 - 1\<rparr>"
  let ?w3 = "(set_table (rotateSession None (sw_table ?w2)) ?w2)\<lparr>sw_logins := (sw_logins ?w2)[n := LoginRotated u]\<rparr>"
  let ?e = "establishSession ttl now token u (sw_table ?w3)"
  let ?w4 = "?w3\<lparr>sw_table := snd ?e, sw_logins := (sw_logins ?w3)[n := LoginDone]\<rparr>"
  have t3: "sw_table ?w3 = revokeSessions (sw_table w)"
    by (simp add: account_done_def set_table_def rotateSession_def)
  have "session_step cr ttl w ?w1" using session_step.account[OF assms(3,4)] .
  moreover have "session_step cr ttl ?w1 ?w2" by (rule session_step.revoke) (simp add: account_done_def)
  moreover have "session_step cr ttl ?w2 ?w3"
    by (rule session_step.rotate) (simp_all add: assms(1,2) account_done_def set_table_def)
  moreover have "session_step cr ttl ?w3 ?w4"
    using assms(1,2,5,6) by (intro session_step.establish[of n _ u token ttl now "fst ?e"])
      (auto simp: t3, auto simp: account_done_def set_table_def rotateSession_def removed_def)
  ultimately have "(session_step cr ttl)\<^sup>*\<^sup>* w ?w4"
    by (meson converse_rtranclp_into_rtranclp rtranclp.rtrancl_refl)
  moreover have "sw_db ?w4 = d \<and> sw_revoking ?w4 = sw_revoking w \<and>
      st_sessions (sw_table ?w4) = [token \<mapsto> \<lparr>se_Username = u, se_ExpiresAt = now + ttl\<rparr>]"
    using establishSession_empty[OF revokeSessions_empty assms(7), of now token u "sw_table w"]
    unfolding t3 by (simp add: account_done_def set_table_def)
  ultimately show ?thesis by blast
qed

end
