(* ===== verification/Web_Config.thy ===== *)
theory Web_Config
  imports Web_Models Web_Sessions Jobs_Targets
begin

text \<open>
  The handlers that change the configuration (\<open>internal/web/config_api.go\<close>): decoding of the request,
  the checks, the call of the store or of the job manager with the store as its callback, and the
  configuration that the server holds afterwards. They hold \<open>configWriteMu\<close> from the first check that
  depends on the configuration to their reply, so each is one step; the job manager goes on meanwhile.
  The messages of errors of \<open>internal/config\<close> and of the store are left as the values that carry them.
\<close>

section \<open>Requests\<close>

record codexConfigRequest =
  cq_Binary :: "text"
  cq_PromptsFile :: "text"
  cq_Prompts :: "text list"
  cq_RequestTimeoutSecond :: int
  cq_RetryMinSecond :: int
  cq_RetryMaxSecond :: int
  cq_KeepaliveMinSecond :: int
  cq_KeepaliveMaxSecond :: int
  cq_MaxParallel :: int
  cq_SuccessMessage :: "text"
  cq_ReasoningEffort :: "text"
  cq_ConfigOverrides :: "text list"

record openILinkConfigRequest =
  oq_Enabled :: bool
  oq_BaseURL :: "text"
  oq_Token :: "text"
  oq_ClearToken :: bool
  oq_AllowedUserIDs :: "text list"
  oq_HTTPTimeoutSecond :: int

record telegramConfigRequest =
  gq_Enabled :: bool
  gq_BaseURL :: "text"
  gq_Token :: "text"
  gq_ClearToken :: bool
  gq_AllowedUserIDs :: "text list"
  gq_HTTPTimeoutSecond :: int
  gq_PollTimeoutSecond :: int

record webConfigRequest =
  wq_ListenAddress :: "text"
  wq_CookieSecure :: bool
  wq_TrustedProxies :: "text list"
  wq_ActivityLimit :: int

record targetConfigRequest =
  tq_SortOrder :: "int option"
  tq_Name :: "text"
  tq_APIBaseURL :: "text"
  tq_APIKey :: "text"
  tq_Model :: "text"
  tq_WireAPI :: "text"
  tq_ConfigOverrides :: "text list"

definition decode_codex :: "json \<Rightarrow> codexConfigRequest option" where
  "decode_codex j = do {
     b \<leftarrow> go_field ''binary'' [] as_str j;
     pf \<leftarrow> go_field ''prompts_file'' [] as_str j;
     ps \<leftarrow> go_field ''prompts'' [] go_strs j;
     rt \<leftarrow> go_field ''request_timeout_seconds'' 0 go_int j;
     r1 \<leftarrow> go_field ''retry_min_seconds'' 0 go_int j;
     r2 \<leftarrow> go_field ''retry_max_seconds'' 0 go_int j;
     k1 \<leftarrow> go_field ''keepalive_min_seconds'' 0 go_int j;
     k2 \<leftarrow> go_field ''keepalive_max_seconds'' 0 go_int j;
     mp \<leftarrow> go_field ''max_parallel'' 0 go_int j;
     sm \<leftarrow> go_field ''success_message'' [] as_str j;
     re \<leftarrow> go_field ''reasoning_effort'' [] as_str j;
     co \<leftarrow> go_field ''config_overrides'' [] go_strs j;
     Some \<lparr>cq_Binary = b, cq_PromptsFile = pf, cq_Prompts = ps, cq_RequestTimeoutSecond = rt,
       cq_RetryMinSecond = r1, cq_RetryMaxSecond = r2, cq_KeepaliveMinSecond = k1,
       cq_KeepaliveMaxSecond = k2, cq_MaxParallel = mp, cq_SuccessMessage = sm,
       cq_ReasoningEffort = re, cq_ConfigOverrides = co\<rparr> }"

definition decode_openilink :: "json \<Rightarrow> openILinkConfigRequest option" where
  "decode_openilink j = do {
     e \<leftarrow> go_field ''enabled'' False as_bool j;
     b \<leftarrow> go_field ''base_url'' [] as_str j;
     t \<leftarrow> go_field ''token'' [] as_str j;
     c \<leftarrow> go_field ''clear_token'' False as_bool j;
     a \<leftarrow> go_field ''allowed_user_ids'' [] go_strs j;
     h \<leftarrow> go_field ''http_timeout_seconds'' 0 go_int j;
     Some \<lparr>oq_Enabled = e, oq_BaseURL = b, oq_Token = t, oq_ClearToken = c, oq_AllowedUserIDs = a,
       oq_HTTPTimeoutSecond = h\<rparr> }"

definition decode_telegram :: "json \<Rightarrow> telegramConfigRequest option" where
  "decode_telegram j = do {
     e \<leftarrow> go_field ''enabled'' False as_bool j;
     b \<leftarrow> go_field ''base_url'' [] as_str j;
     t \<leftarrow> go_field ''token'' [] as_str j;
     c \<leftarrow> go_field ''clear_token'' False as_bool j;
     a \<leftarrow> go_field ''allowed_user_ids'' [] go_strs j;
     h \<leftarrow> go_field ''http_timeout_seconds'' 0 go_int j;
     p \<leftarrow> go_field ''poll_timeout_seconds'' 0 go_int j;
     Some \<lparr>gq_Enabled = e, gq_BaseURL = b, gq_Token = t, gq_ClearToken = c, gq_AllowedUserIDs = a,
       gq_HTTPTimeoutSecond = h, gq_PollTimeoutSecond = p\<rparr> }"

definition decode_web :: "json \<Rightarrow> webConfigRequest option" where
  "decode_web j = do {
     l \<leftarrow> go_field ''listen_address'' [] as_str j;
     c \<leftarrow> go_field ''cookie_secure'' False as_bool j;
     t \<leftarrow> go_field ''trusted_proxies'' [] go_strs j;
     a \<leftarrow> go_field ''activity_limit'' 0 go_int j;
     Some \<lparr>wq_ListenAddress = l, wq_CookieSecure = c, wq_TrustedProxies = t, wq_ActivityLimit = a\<rparr> }"

definition decode_target :: "json \<Rightarrow> targetConfigRequest option" where
  "decode_target j = do {
     so \<leftarrow> go_field ''sort_order'' None (map_option Some \<circ> go_int) j;
     n \<leftarrow> go_field ''name'' [] as_str j;
     b \<leftarrow> go_field ''api_base_url'' [] as_str j;
     k \<leftarrow> go_field ''api_key'' [] as_str j;
     m \<leftarrow> go_field ''model'' [] as_str j;
     w \<leftarrow> go_field ''wire_api'' [] as_str j;
     co \<leftarrow> go_field ''config_overrides'' [] go_strs j;
     Some \<lparr>tq_SortOrder = so, tq_Name = n, tq_APIBaseURL = b, tq_APIKey = k, tq_Model = m,
       tq_WireAPI = w, tq_ConfigOverrides = co\<rparr> }"

definition cleanStrings :: "text list \<Rightarrow> text list" where
  "cleanStrings values = filter (\<lambda>v. v \<noteq> []) (map strings_TrimSpace values)"

section \<open>State, environment and replies\<close>

record config_server =
  cs_web :: web_server
  cs_db :: db
  cs_mgr :: manager

text \<open>What a request meets: faults of the database, the nonce drawn, the clock and random numbers.\<close>

record config_env =
  ce_fault :: fault
  ce_nonce :: "nat list"
  ce_now :: int
  ce_draw :: "key \<Rightarrow> int"

text \<open>
  Replies: a status with a value; the status 400 with the message of a refused value; and an error of
  the store, which \<open>writeConfigurationError\<close> turns into 400 or 500 by the words of its message.
\<close>

datatype config_reply =
    Replied reply
  | InvalidValue config_error
  | StoreFailed storage_error

definition setConfiguration :: "snapshot \<Rightarrow> config_server \<Rightarrow> config_server" where
  "setConfiguration snap s = s\<lparr>cs_web := (cs_web s)\<lparr>ws_config := snap\<rparr>\<rparr>"

definition applyRuntimeConfiguration :: "config_env \<Rightarrow> snapshot \<Rightarrow> manager \<Rightarrow> manager option" where
  "applyRuntimeConfiguration e snap m =
     (let cfg = sp_Config snap in
      UpdateSettings (ce_now e) (ce_draw e) (KeepaliveMin cfg) (KeepaliveMax cfg)
        (cx_MaxParallel (c_Codex cfg)) (cx_SuccessMessage (c_Codex cfg)) m)"

definition writeConfigurationError :: "storage_error \<Rightarrow> config_reply" where
  "writeConfigurationError err =
     (if err = ErrNotFound then Replied (404, error_json [37197, 32622, 19981, 23384, 22312])
      else if err = ErrConflict then Replied (400, error_json [37197, 32622, 19982, 29616, 26377, 25968, 25454, 20914, 31361])
      else StoreFailed err)"

definition target_missing :: config_reply where
  "target_missing = Replied (404, error_json [116, 97, 114, 103, 101, 116, 32, 19981, 23384, 22312])"

definition target_conflict :: config_reply where
  "target_conflict = Replied (400, error_json [116, 97, 114, 103, 101, 116, 32, 21517, 31216, 24517, 39035, 20445, 25345, 22823, 23567, 20889, 19981, 25935, 24863, 21807, 19968])"

text \<open>\<open>writeTargetError\<close>, for an error of the manager and for one of the store passed on by it.\<close>

definition writeTargetError :: "storage_error option \<Rightarrow> manager_error \<Rightarrow> config_reply" where
  "writeTargetError stored err =
     (case stored of
        Some ErrNotFound \<Rightarrow> target_missing
      | Some ErrConflict \<Rightarrow> target_conflict
      | Some e \<Rightarrow> writeConfigurationError e
      | None \<Rightarrow>
          if err = ErrTargetBusy
          then Replied (409, error_json [116, 97, 114, 103, 101, 116, 32, 20219, 21153, 26410, 33021, 22312, 32, 49, 48, 32, 31186, 20869, 20572, 27490, 65292, 26410, 20445, 23384, 20462, 25913])
          else if err = ErrTargetNotFound then target_missing
          else if err = ErrTargetConflict then target_conflict
          else StoreFailed DatabaseFailed)"

definition saved :: "nat \<Rightarrow> snapshot \<Rightarrow> config_server \<Rightarrow> (config_reply \<times> config_server) option" where
  "saved status snap s = do {
     let s1 = setConfiguration snap s;
     ms \<leftarrow> snapshotLocked (cs_mgr s1);
     Some (Replied (status, configurationPayload (cs_web s1) ms snap), s1) }"

text \<open>The end of the section handlers; \<open>apply\<close> says whether the runtime settings follow.\<close>

definition section_saved ::
  "config_env \<Rightarrow> bool \<Rightarrow> (storage_error + snapshot) \<times> db \<Rightarrow> config_server \<Rightarrow> (config_reply \<times> config_server) option" where
  "section_saved e apply r s =
     (case r of
        (Inl err, d) \<Rightarrow> Some (writeConfigurationError err, s\<lparr>cs_db := d\<rparr>)
      | (Inr snap, d) \<Rightarrow> do {
          m \<leftarrow> (if apply then applyRuntimeConfiguration e snap (cs_mgr s) else Some (cs_mgr s));
          saved 200 snap (s\<lparr>cs_db := d, cs_mgr := m\<rparr>) })"

section \<open>Sections\<close>

definition codex_value :: "codexConfigRequest \<Rightarrow> codex_config" where
  "codex_value rq = \<lparr>cx_Binary = cq_Binary rq, cx_PromptsFile = cq_PromptsFile rq,
     cx_Prompts = cleanStrings (cq_Prompts rq), cx_PromptsPersisted = True,
     cx_RequestTimeoutSecond = cq_RequestTimeoutSecond rq, cx_RetryMinSecond = cq_RetryMinSecond rq,
     cx_RetryMaxSecond = cq_RetryMaxSecond rq, cx_KeepaliveMinSecond = cq_KeepaliveMinSecond rq,
     cx_KeepaliveMaxSecond = cq_KeepaliveMaxSecond rq, cx_MaxParallel = cq_MaxParallel rq,
     cx_SuccessMessage = cq_SuccessMessage rq, cx_ReasoningEffort = cq_ReasoningEffort rq,
     cx_ConfigOverrides = cleanStrings (cq_ConfigOverrides rq), cx_Targets = []\<rparr>"

definition updateCodexConfig ::
  "crypto \<Rightarrow> go_net \<Rightarrow> (text \<Rightarrow> text option) \<Rightarrow> config_env \<Rightarrow> nat \<times> json option \<Rightarrow> config_server \<Rightarrow>
   (config_reply \<times> config_server) option" where
  "updateCodexConfig cr net files e body s =
     (case decodeJSON (request_tags HUpdateCodexConfig) decode_codex body of
        None \<Rightarrow> Some (Replied bad_format, s)
      | Some rq \<Rightarrow> (case ValidateCodex net (codex_value rq) of
          Some err \<Rightarrow> Some (InvalidValue err, s)
        | None \<Rightarrow> section_saved e True (UpdateCodex cr net files (ce_fault e) (codex_value rq) (cs_db s)) s))"

definition web_value :: "webConfigRequest \<Rightarrow> web_config" where
  "web_value rq = \<lparr>wb_ListenAddress = wq_ListenAddress rq, wb_AdminUsername = [], wb_AdminPasswordEnv = [],
     wb_CookieSecure = wq_CookieSecure rq, wb_TrustedProxies = cleanStrings (wq_TrustedProxies rq),
     wb_ActivityLimit = wq_ActivityLimit rq, wb_cookieSecureSet = False\<rparr>"

definition updateWebConfig ::
  "crypto \<Rightarrow> go_net \<Rightarrow> (text \<Rightarrow> text option) \<Rightarrow> config_env \<Rightarrow> nat \<times> json option \<Rightarrow> config_server \<Rightarrow>
   (config_reply \<times> config_server) option" where
  "updateWebConfig cr net files e body s =
     (case decodeJSON (request_tags HUpdateWebConfig) decode_web body of
        None \<Rightarrow> Some (Replied bad_format, s)
      | Some rq \<Rightarrow> (case ValidateWeb net (web_value rq) of
          Some err \<Rightarrow> Some (InvalidValue err, s)
        | None \<Rightarrow> section_saved e True (UpdateWeb cr net files (ce_fault e) (web_value rq) (cs_db s)) s))"

text \<open>The token asked for: none to keep the stored one, a new one, or the empty one to clear it.\<close>

definition requested_token :: "text \<Rightarrow> bool \<Rightarrow> text option" where
  "requested_token token clear =
     (if strings_TrimSpace token \<noteq> [] then Some (strings_TrimSpace token)
      else if clear then Some [] else None)"

definition openilink_value :: "openilink_config \<Rightarrow> openILinkConfigRequest \<Rightarrow> openilink_config" where
  "openilink_value current rq = oi_SetEnabledExplicit (oq_Enabled rq)
     \<lparr>oi_Enabled = oq_Enabled rq, oi_BaseURL = oq_BaseURL rq,
      oi_Token = (case requested_token (oq_Token rq) (oq_ClearToken rq) of None \<Rightarrow> oi_Token current | Some t \<Rightarrow> t),
      oi_TokenEnv = [], oi_AllowedUserIDs = cleanStrings (oq_AllowedUserIDs rq),
      oi_HTTPTimeoutSecond = oq_HTTPTimeoutSecond rq, oi_enabledSet = False\<rparr>"

definition updateOpenILinkConfig ::
  "crypto \<Rightarrow> go_net \<Rightarrow> (text \<Rightarrow> text option) \<Rightarrow> config_env \<Rightarrow> nat \<times> json option \<Rightarrow> config_server \<Rightarrow>
   (config_reply \<times> config_server) option" where
  "updateOpenILinkConfig cr net files e body s =
     (case decodeJSON (request_tags HUpdateOpenILinkConfig) decode_openilink body of
        None \<Rightarrow> Some (Replied bad_format, s)
      | Some rq \<Rightarrow>
          if oq_ClearToken rq \<and> oq_Enabled rq
          then Some (Replied (400, error_json [21482, 33021, 22312, 32, 79, 112, 101, 110, 73, 76, 105, 110, 107, 32, 20851, 38381, 26102, 28165, 38500, 32, 84, 111, 107, 101, 110]), s)
          else if oq_ClearToken rq \<and> strings_TrimSpace (oq_Token rq) \<noteq> []
          then Some (Replied (400, error_json [19981, 33021, 21516, 26102, 35774, 32622, 24182, 28165, 38500, 32, 84, 111, 107, 101, 110]), s)
          else let value = openilink_value (c_OpenILink (sp_Config (ws_config (cs_web s)))) rq in
            (case ValidateOpenILink net value of
               Some err \<Rightarrow> Some (InvalidValue err, s)
             | None \<Rightarrow> section_saved e False (UpdateOpenILink cr net files (ce_fault e) (ce_nonce e) value
                 (requested_token (oq_Token rq) (oq_ClearToken rq)) (cs_db s)) s))"

definition telegram_value :: "telegram_config \<Rightarrow> telegramConfigRequest \<Rightarrow> telegram_config" where
  "telegram_value current rq = tg_SetEnabledExplicit (gq_Enabled rq)
     \<lparr>tg_Enabled = gq_Enabled rq, tg_BaseURL = gq_BaseURL rq,
      tg_Token = (case requested_token (gq_Token rq) (gq_ClearToken rq) of None \<Rightarrow> tg_Token current | Some t \<Rightarrow> t),
      tg_TokenEnv = [], tg_AllowedUserIDs = cleanStrings (gq_AllowedUserIDs rq),
      tg_HTTPTimeoutSecond = gq_HTTPTimeoutSecond rq, tg_PollTimeoutSecond = gq_PollTimeoutSecond rq,
      tg_enabledSet = False\<rparr>"

definition updateTelegramConfig ::
  "crypto \<Rightarrow> go_net \<Rightarrow> (text \<Rightarrow> text option) \<Rightarrow> config_env \<Rightarrow> nat \<times> json option \<Rightarrow> config_server \<Rightarrow>
   (config_reply \<times> config_server) option" where
  "updateTelegramConfig cr net files e body s =
     (case decodeJSON (request_tags HUpdateTelegramConfig) decode_telegram body of
        None \<Rightarrow> Some (Replied bad_format, s)
      | Some rq \<Rightarrow>
          if gq_ClearToken rq \<and> gq_Enabled rq
          then Some (Replied (400, error_json [21482, 33021, 22312, 32, 84, 101, 108, 101, 103, 114, 97, 109, 32, 20851, 38381, 26102, 28165, 38500, 32, 84, 111, 107, 101, 110]), s)
          else if gq_ClearToken rq \<and> strings_TrimSpace (gq_Token rq) \<noteq> []
          then Some (Replied (400, error_json [19981, 33021, 21516, 26102, 35774, 32622, 24182, 28165, 38500, 32, 84, 111, 107, 101, 110]), s)
          else let value = telegram_value (c_Telegram (sp_Config (ws_config (cs_web s)))) rq in
            (case ValidateTelegram net value of
               Some err \<Rightarrow> Some (InvalidValue err, s)
             | None \<Rightarrow> section_saved e False (UpdateTelegram cr net files (ce_fault e) (ce_nonce e) value
                 (requested_token (gq_Token rq) (gq_ClearToken rq)) (cs_db s)) s))"

section \<open>Targets\<close>

definition targetFromRequest :: "targetConfigRequest \<Rightarrow> config_target" where
  "targetFromRequest rq = \<lparr>t_ID = 0,
     t_SortOrder = (case tq_SortOrder rq of None \<Rightarrow> -1 | Some n \<Rightarrow> n), t_Name = tq_Name rq,
     t_APIBaseURL = tq_APIBaseURL rq, t_APIKey = tq_APIKey rq, t_APIKeyEnv = [], t_Model = tq_Model rq,
     t_WireAPI = tq_WireAPI rq, t_ConfigOverrides = cleanStrings (tq_ConfigOverrides rq)\<rparr>"

text \<open>
  The callback \<open>persist\<close> of a handler, from the result of the store, and the reply to the manager's
  answer. The store's result counts only when the manager has called back (\<open>called\<close>).
\<close>

definition persist_of ::
  "storage_error + snapshot \<times> config_target \<Rightarrow> config_target \<Rightarrow> manager_error + config_target" where
  "persist_of r t = (case r of Inl e \<Rightarrow> Inl (ErrPersist []) | Inr (snap, t') \<Rightarrow> Inr t')"

definition target_saved ::
  "nat \<Rightarrow> bool \<Rightarrow> (storage_error + snapshot) \<times> db \<Rightarrow> manager_error option \<times> manager \<Rightarrow> config_server \<Rightarrow>
   (config_reply \<times> config_server) option" where
  "target_saved status called r mr s =
     (let s1 = s\<lparr>cs_db := (if called then snd r else cs_db s), cs_mgr := snd mr\<rparr> in
      case fst mr of
        Some err \<Rightarrow> Some (writeTargetError
          (if called then (case fst r of Inl e \<Rightarrow> Some e | Inr _ \<Rightarrow> None) else None) err, s1)
      | None \<Rightarrow> (case fst r of Inl e \<Rightarrow> None | Inr snap \<Rightarrow> saved status snap s1))"

definition createTarget ::
  "crypto \<Rightarrow> go_net \<Rightarrow> (text \<Rightarrow> text option) \<Rightarrow> config_env \<Rightarrow> nat \<times> json option \<Rightarrow> config_server \<Rightarrow>
   (config_reply \<times> config_server) option" where
  "createTarget cr net files e body s =
     (case decodeJSON (request_tags HCreateTarget) decode_target body of
        None \<Rightarrow> Some (Replied bad_format, s)
      | Some rq \<Rightarrow>
          let target = targetFromRequest rq;
              validationTarget = (if tq_SortOrder rq = None then (NormalizeTarget target)\<lparr>t_SortOrder := 0\<rparr>
                else NormalizeTarget target) in
          if strings_TrimSpace (t_APIKey target) = []
          then Some (Replied (400, error_json [21019, 24314, 32, 116, 97, 114, 103, 101, 116, 32, 26102, 24517, 39035, 25552, 20379, 32, 65, 80, 73, 32, 75, 101, 121]), s)
          else case ValidateTarget net validationTarget of
            Some err \<Rightarrow> Some (InvalidValue err, s)
          | None \<Rightarrow> do {
              let r = Storage.CreateTarget cr net files (ce_fault e) (ce_nonce e) target (cs_db s);
              mr \<leftarrow> Jobs.CreateTarget (Some target) (persist_of (fst r)) (cs_mgr s);
              target_saved 201 (m_targets (cs_mgr s) (normalizeName (t_Name target)) = None)
                (map_prod (map_sum id fst) id r) mr s })"

text \<open>
  \<open>updateTarget\<close> and \<open>deleteTarget\<close>: the manager first stops the target and waits for it
  (theory \<open>Scheduler\<close>); the section that commits sees the targets the handler has looked at, because
  only handlers change them.
\<close>

definition commit_called :: "manager \<Rightarrow> int \<Rightarrow> bool" where
  "commit_called m i =
     (case targetKeyByIDLocked m i of None \<Rightarrow> False | Some k \<Rightarrow> targetBusyLocked m k = Some False)"

definition requested_key :: "targetConfigRequest \<Rightarrow> text option" where
  "requested_key rq = (if strings_TrimSpace (tq_APIKey rq) \<noteq> [] then Some (strings_TrimSpace (tq_APIKey rq)) else None)"

definition updated_target :: "int \<Rightarrow> config_target \<Rightarrow> targetConfigRequest \<Rightarrow> config_target" where
  "updated_target i current rq = (targetFromRequest rq)\<lparr>t_ID := i,
     t_SortOrder := (case tq_SortOrder rq of None \<Rightarrow> t_SortOrder current | Some n \<Rightarrow> n),
     t_APIKey := (case requested_key rq of Some k \<Rightarrow> k | None \<Rightarrow> t_APIKey current)\<rparr>"

definition updateTarget ::
  "crypto \<Rightarrow> go_net \<Rightarrow> (text \<Rightarrow> text option) \<Rightarrow> config_env \<Rightarrow> text \<Rightarrow> nat \<times> json option \<Rightarrow> config_server \<Rightarrow>
   (config_reply \<times> config_server) option" where
  "updateTarget cr net files e param body s =
     (case parseTargetID param of
        None \<Rightarrow> Some (Replied (400, error_json [116, 97, 114, 103, 101, 116, 32, 73, 68, 32, 19981, 27491, 30830]), s)
      | Some i \<Rightarrow> (case decodeJSON (request_tags HUpdateTarget) decode_target body of
          None \<Rightarrow> Some (Replied bad_format, s)
        | Some rq \<Rightarrow> (case TargetByID (cs_mgr s) i of
            None \<Rightarrow> Some (target_missing, s)
          | Some current \<Rightarrow>
              let target = updated_target i current rq in
              (case ValidateTarget net (NormalizeTarget target) of
                 Some err \<Rightarrow> Some (InvalidValue err, s)
               | None \<Rightarrow> do {
                   let r = Storage.UpdateTarget cr net files (ce_fault e) (ce_nonce e) i target (requested_key rq) (cs_db s);
                   mr \<leftarrow> updateTargetCommit i target (persist_of (fst r)) (cs_mgr s);
                   target_saved 200 (commit_called (cs_mgr s) i \<and>
                       \<not> name_taken (cs_mgr s) (normalizeName (t_Name target)) i)
                     (map_prod (map_sum id fst) id r) mr s }))))"

definition deleteTarget ::
  "crypto \<Rightarrow> go_net \<Rightarrow> (text \<Rightarrow> text option) \<Rightarrow> config_env \<Rightarrow> text \<Rightarrow> config_server \<Rightarrow>
   (config_reply \<times> config_server) option" where
  "deleteTarget cr net files e param s =
     (case parseTargetID param of
        None \<Rightarrow> Some (Replied (400, error_json [116, 97, 114, 103, 101, 116, 32, 73, 68, 32, 19981, 27491, 30830]), s)
      | Some i \<Rightarrow> do {
          let r = Storage.DeleteTarget cr net files (ce_fault e) i (cs_db s);
          mr \<leftarrow> deleteTargetCommit i (case fst r of Inl _ \<Rightarrow> Some (ErrPersist []) | Inr _ \<Rightarrow> None) (cs_mgr s);
          target_saved 200 (commit_called (cs_mgr s) i) r mr s })"

section \<open>Accounts\<close>

text \<open>The parts of \<open>setup\<close> and \<open>updateAccount\<close> that concern the configuration.\<close>

definition setup_configuration ::
  "crypto \<Rightarrow> go_net \<Rightarrow> (text \<Rightarrow> text option) \<Rightarrow> config_env \<Rightarrow> nat list \<Rightarrow> text \<Rightarrow> text \<Rightarrow> config_server \<Rightarrow>
   config_reply option \<times> config_server" where
  "setup_configuration cr net files e salt username password s =
     (if strings_TrimSpace username = [] \<or> length password < MinimumAdminPasswordLength
      then (Some (Replied (400, error_json [29992, 25143, 21517, 19981, 33021, 20026, 31354, 65292, 23494, 30721, 33267, 23569, 38656, 35201, 32, 53, 32, 20010, 23383, 31526])), s)
      else case SetupAdmin cr net files (ce_fault e) salt (strings_TrimSpace username) password (cs_db s) of
        (Inl ErrAlreadySetup, d) \<Rightarrow> (Some (Replied (409, error_json [31649, 29702, 21592, 24050, 32463, 21021, 22987, 21270])), s\<lparr>cs_db := d\<rparr>)
      | (Inl err, d) \<Rightarrow> (Some (Replied (500, error_json [21021, 22987, 21270, 22833, 36133])), s\<lparr>cs_db := d\<rparr>)
      | (Inr snap, d) \<Rightarrow> (None, setConfiguration snap (s\<lparr>cs_db := d\<rparr>)))"

definition account_configuration ::
  "crypto \<Rightarrow> go_net \<Rightarrow> (text \<Rightarrow> text option) \<Rightarrow> config_env \<Rightarrow> nat list \<Rightarrow> text \<Rightarrow> accountUpdateRequest \<Rightarrow>
   config_server \<Rightarrow> account_outcome \<times> config_server" where
  "account_configuration cr net files e salt sessionUser rq s =
     (case updateAccount cr net files (ce_fault e) salt sessionUser
         (wb_AdminUsername (c_Web (sp_Config (ws_config (cs_web s))))) rq (cs_db s) of
        (AccountChanged snap, d) \<Rightarrow> (AccountChanged snap, setConfiguration snap (s\<lparr>cs_db := d\<rparr>))
      | (r, d) \<Rightarrow> (r, s\<lparr>cs_db := d\<rparr>))"

section \<open>Requests and start\<close>

datatype config_call =
    CallCodex "nat \<times> json option"
  | CallWeb "nat \<times> json option"
  | CallOpenILink "nat \<times> json option"
  | CallTelegram "nat \<times> json option"
  | CallCreateTarget "nat \<times> json option"
  | CallUpdateTarget "text" "nat \<times> json option"
  | CallDeleteTarget "text"

fun serve_config ::
  "crypto \<Rightarrow> go_net \<Rightarrow> (text \<Rightarrow> text option) \<Rightarrow> config_env \<Rightarrow> config_call \<Rightarrow> config_server \<Rightarrow>
   (config_reply \<times> config_server) option" where
  "serve_config cr net files e (CallCodex body) = updateCodexConfig cr net files e body"
| "serve_config cr net files e (CallWeb body) = updateWebConfig cr net files e body"
| "serve_config cr net files e (CallOpenILink body) = updateOpenILinkConfig cr net files e body"
| "serve_config cr net files e (CallTelegram body) = updateTelegramConfig cr net files e body"
| "serve_config cr net files e (CallCreateTarget body) = createTarget cr net files e body"
| "serve_config cr net files e (CallUpdateTarget param body) = updateTarget cr net files e param body"
| "serve_config cr net files e (CallDeleteTarget param) = deleteTarget cr net files e param"

text \<open>
  The part of \<open>main\<close> that builds the server: the configuration is loaded, its revision is recorded as
  the one loaded at start, and the manager is made from it and given its messenger. The Codex runner and
  its preflight check are left out.
\<close>

definition start_server ::
  "crypto \<Rightarrow> go_net \<Rightarrow> (text \<Rightarrow> text option) \<Rightarrow> (config_target \<Rightarrow> text) \<Rightarrow> messenger option \<Rightarrow> text \<Rightarrow> db \<Rightarrow>
   storage_error + config_server" where
  "start_server cr net files host messenger version d =
     and_then (loadFrom cr net files d) (\<lambda>snap.
       let cfg = sp_Config snap; snap1 = snap\<lparr>sp_LoadedStartupRevision := sp_Revision snap\<rparr> in
       Inr \<lparr>cs_web = \<lparr>ws_version = version, ws_hasStore = True, ws_startup = cfg, ws_config = snap1\<rparr>,
         cs_db = MarkStartupLoaded (sp_Revision snap) d,
         cs_mgr = SetMessenger messenger (New host (cx_Targets (c_Codex cfg)) None (KeepaliveMin cfg)
           (KeepaliveMax cfg) (cx_MaxParallel (c_Codex cfg)) (cx_SuccessMessage (c_Codex cfg)))\<rparr>)"

end
