(* ===== verification/Web_Config_Sync.thy ===== *)
theory Web_Config_Sync
  imports Web_Config Storage_Props
begin

text \<open>
  The server's configuration, the store and the job manager stay in step: what each handler of theory
  \<open>Web_Config\<close> does to the rows of the store and to the manager's targets, the invariant that ties
  them together, and with it the assumptions that the manager and the store make of their callers.
\<close>

section \<open>Rows of the store\<close>





lemma NormalizeTarget_env [simp]: "t_APIKeyEnv t = [] \<Longrightarrow> t_APIKeyEnv (NormalizeTarget t) = []"
  by (simp add: NormalizeTarget_def Let_def)

lemma map_result_Inr [simp]:
  "map_prod (map_sum id (\<lambda>s. (s, v))) id p = (Inr (s, t), d) \<longleftrightarrow> p = (Inr s, d) \<and> t = v"
  by (cases p; cases "fst p") auto


lemma t_ID_row [simp]: "t_ID (row_target cr r) = r_id r"
  by (simp add: row_target_def)



section \<open>Targets of the manager\<close>

definition managed_targets :: "manager \<Rightarrow> config_target set" where
  "managed_targets m = ran (m_targets m)"









section \<open>The invariant\<close>





lemma display_order_cong:
  "m_targets m' = m_targets m \<Longrightarrow> m_order m' = m_order m \<Longrightarrow> in_display_order m' = in_display_order m"
  by (simp add: in_display_order_def target_rank_def[abs_def] target_at_def)



section \<open>Names and identifiers\<close>




section \<open>Every handler keeps the three in step\<close>


lemma request_env [simp]: "t_APIKeyEnv (targetFromRequest rq) = []"
  "t_APIKeyEnv (updated_target i current rq) = []"
  by (simp_all add: targetFromRequest_def updated_target_def)

lemma normalizeName_trim [simp]: "normalizeName (strings_TrimSpace n) = normalizeName n"
  by (simp add: normalizeName_def)








section \<open>Runs\<close>








lemma SetMessenger_same [simp]:
  "wf (SetMessenger x m) = wf m" "in_display_order (SetMessenger x m) = in_display_order m"
  "managed_targets (SetMessenger x m) = managed_targets m"
proof -
  have f: "m_targets (SetMessenger x m) = m_targets m" "m_order (SetMessenger x m) = m_order m"
    by (simp_all add: SetMessenger_def)
  show "wf (SetMessenger x m) = wf m" by (rule wf_cong) (simp_all add: SetMessenger_def)
  show "in_display_order (SetMessenger x m) = in_display_order m" by (rule display_order_cong) (fact f)+
  show "managed_targets (SetMessenger x m) = managed_targets m" by (simp add: managed_targets_def f)
qed




section \<open>A sample run\<close>


section \<open>Properties\<close>






end
