(* ===== verification/Config_Save.thy ===== *)
theory Config_Save
  imports Config_Page Web_Config_Sync Api_Contract
begin




definition fits_int64 :: "int \<Rightarrow> bool" where
  "fits_int64 n \<longleftrightarrow> - (2 ^ 63) \<le> n \<and> n < 2 ^ 63"

section \<open>Lemmas\<close>

lemma cleanStrings_trimmed [simp]:
  "map strings_TrimSpace (cleanStrings vs) = cleanStrings vs" "cleanStrings (cleanStrings vs) = cleanStrings vs"
  by (induction vs) (simp_all add: cleanStrings_def)

lemma go_int_fits [simp]: "fits_int64 n \<Longrightarrow> go_int (JNum n) = Some n"
  by (simp add: go_int_def fits_int64_def)















lemma sample_trims [simp]:
  "strings_TrimSpace (asc ''codex'') = asc ''codex''" "strings_TrimSpace (asc ''p.txt'') = asc ''p.txt''"
  "strings_TrimSpace (asc ''hi '') = asc ''hi''" "strings_TrimSpace (asc ''hi'') = asc ''hi''"
  "strings_TrimSpace (asc ''ok'') = asc ''ok''" "strings_TrimSpace (asc ''low'') = asc ''low''"
  "asc ''codex'' \<noteq> []" "asc ''p.txt'' \<noteq> []" "asc ''hi'' \<noteq> []" "asc ''ok'' \<noteq> []" "asc ''low'' \<noteq> []"
  "strings_ToLower (asc ''low'') = asc ''low''"
  by (simp_all add: strings_TrimSpace_def unicode_IsSpace_def trim_by_def trim_left_by_def trim_right_by_def
      strings_ToLower_def unicode_ToLower_def)




section \<open>Properties\<close>



end
