(* ===== verification/Commands.thy ===== *)
theory Commands
  imports Hub Scheduler_Props
begin

text \<open>
  Chat commands (\<open>internal/commands/handler.go\<close>): parsing of messages, the check of the sender, the
  calls of the job manager a command leads to, the texts of the replies, and the loop that sends a
  reply. \<open>Start\<close> and \<open>StartKeepalive\<close> wait inside the manager, so a command that calls them is a caller
  of theory \<open>Scheduler\<close> and its reply is made when the call has returned.
\<close>

section \<open>Handlers\<close>

record handler =
  h_sender :: messenger
  h_allowed :: "text list"
  h_adapterKey :: "text"
  h_adapter :: "text"

definition NewAdapter :: "messenger \<Rightarrow> text list \<Rightarrow> text \<Rightarrow> handler" where
  "NewAdapter sender allowedUserIDs adapter =
     (let name = strings_TrimSpace adapter;
          name = (if name = [] then asc ''Messaging'' else name) in
      \<lparr>h_sender = sender,
       h_allowed = filter (\<lambda>i. i \<noteq> []) (map strings_TrimSpace allowedUserIDs),
       h_adapterKey = strings_ToLower name, h_adapter = name\<rparr>)"

definition isAllowed :: "handler \<Rightarrow> text \<Rightarrow> bool" where
  "isAllowed h sender \<longleftrightarrow> h_allowed h = [] \<or> sender \<in> set (h_allowed h)"

definition replyRecipient :: "incoming \<Rightarrow> text" where
  "replyRecipient i =
     (let recipient = strings_TrimSpace (in_ReplyTo i) in
      if recipient \<noteq> [] then recipient else in_SenderID i)"

section \<open>Parsing\<close>

definition splitFirstField :: "text \<Rightarrow> text \<times> text" where
  "splitFirstField value =
     (case dropWhile (\<lambda>r. \<not> unicode_IsSpace r) value of
        [] \<Rightarrow> (value, [])
      | rest \<Rightarrow> (takeWhile (\<lambda>r. \<not> unicode_IsSpace r) value, strings_TrimSpace rest))"

definition splitTargets :: "text \<Rightarrow> text list" where
  "splitTargets value = strings_FieldsFunc
     (\<lambda>r. unicode_IsSpace r \<or> r = 44 \<or> r = 65292 \<or> r = 59 \<or> r = 65307) value"

text \<open>The command without a bot name after \<open>@\<close>, in lower case, and its arguments.\<close>

definition parseCommand :: "text \<Rightarrow> (text \<times> text) option" where
  "parseCommand t =
     (case strings_TrimSpace t of
        [] \<Rightarrow> None
      | c # rest \<Rightarrow>
          if c \<noteq> 47 then None
          else
            let body = strings_TrimSpace rest in
            if body = [] then None
            else
              let (field, args) = splitFirstField body; command = takeWhile (\<lambda>r. r \<noteq> 64) field in
              if command = [] then None
              else Some (strings_ToLower command, strings_TrimSpace args))"

section \<open>Commands\<close>

text \<open>What a message leads to: a call of the manager or an answer without one.\<close>

datatype command =
    CmdDenied
  | CmdStart "text list"
  | CmdStop "text list"
  | CmdStatus "text list"
  | CmdKeepalive "text list"
  | CmdKeepaliveStatus "text list"
  | CmdList
  | CmdHelp

definition start_words :: "text list" where "start_words = [[24320, 25380], asc ''go'']"
definition start_word :: "text" where "start_word = asc ''start''"
definition stop_words :: "text list" where "stop_words = [[20572, 27490], [20572, 25380], asc ''stop'']"
definition status_words :: "text list" where "status_words = [[29366, 24577], asc ''status'']"
definition keepalive_words :: "text list" where "keepalive_words = [[20445, 27963], asc ''keepalive'']"
definition stop_keepalive_words :: "text list" where
  "stop_keepalive_words = [[20572, 27490, 20445, 27963], asc ''stop-keepalive'']"
definition keepalive_status_words :: "text list" where
  "keepalive_status_words = [[20445, 27963, 29366, 24577], asc ''keepalive-status'']"
definition list_words :: "text list" where
  "list_words = [[21015, 34920], [30446, 26631], asc ''list'', asc ''targets'']"
definition help_words :: "text list" where "help_words = [[24110, 21161], asc ''help'']"

text \<open>The \<open>switch\<close> over the command.\<close>

definition dispatch :: "handler \<Rightarrow> text \<Rightarrow> text \<Rightarrow> command option" where
  "dispatch h command args =
     (let targets = splitTargets args in
      if command \<in> set start_words then Some (CmdStart targets)
      else if command = start_word then
        (if h_adapterKey h = asc ''telegram'' \<and> strings_TrimSpace args = [] then Some CmdHelp
         else Some (CmdStart targets))
      else if command \<in> set stop_words then Some (CmdStop targets)
      else if command \<in> set status_words then Some (CmdStatus targets)
      else if command \<in> set keepalive_words then Some (CmdKeepalive targets)
      else if command \<in> set stop_keepalive_words then Some (CmdStop targets)
      else if command \<in> set keepalive_status_words then Some (CmdKeepaliveStatus targets)
      else if command \<in> set list_words then Some CmdList
      else if command \<in> set help_words then Some CmdHelp
      else None)"

definition Handle :: "handler \<Rightarrow> incoming \<Rightarrow> command option" where
  "Handle h i =
     (case parseCommand (in_Text i) of
        None \<Rightarrow> None
      | Some (command, args) \<Rightarrow>
          if \<not> isAllowed h (in_SenderID i) then Some CmdDenied else dispatch h command args)"

definition command_subscriber :: "handler \<Rightarrow> incoming \<Rightarrow> subscriber" where
  "command_subscriber h i =
     \<lparr>s_Recipient = replyRecipient i, s_TraceID = in_TraceID i,
      s_Key = h_adapterKey h @ asc '':'' @ replyRecipient i, s_Messenger = Some (h_sender h)\<rparr>"

section \<open>Reply texts\<close>

definition comma_join :: "text list \<Rightarrow> text" where
  "comma_join names = join_with [12289] names"

definition reply_part :: "text \<Rightarrow> text list \<Rightarrow> text list" where
  "reply_part label names = (if names = [] then [] else [label @ comma_join names])"

definition unknown_label :: "text" where "unknown_label = [26410, 30693, 30446, 26631, 65306]"

definition reply_lines :: "text \<Rightarrow> text \<Rightarrow> text list \<Rightarrow> text" where
  "reply_lines sep none lines = (if lines = [] then none else join_with sep lines)"

definition start_response :: "startResult \<Rightarrow> text" where
  "start_response r = reply_lines [10] [27809, 26377, 21487, 21551, 21160, 30340, 30446, 26631, 12290]
     (reply_part [24050, 24320, 22987, 65306] (sr_Started r) @
      reply_part [27491, 22312, 36827, 34892, 24182, 24050, 35746, 38405, 36890, 30693, 65306] (sr_Already r) @
      reply_part unknown_label (sr_Unknown r))"

definition formatStopResult :: "stopResult \<Rightarrow> text" where
  "formatStopResult r = reply_lines [10] [27809, 26377, 21487, 20572, 27490, 30340, 30446, 26631, 12290]
     (reply_part [24050, 20572, 27490, 65306] (st_Stopped r) @
      reply_part [26410, 22312, 36816, 34892, 65306] (st_Inactive r) @
      reply_part unknown_label (st_Unknown r))"

definition formatKeepaliveStartResult :: "startResult \<Rightarrow> text" where
  "formatKeepaliveStartResult r = reply_lines [10] [27809, 26377, 21487, 21551, 21160, 20445, 27963, 30340, 30446, 26631, 12290]
     (reply_part [24050, 24320, 22987, 20445, 27963, 65306] (sr_Started r) @
      reply_part [27491, 22312, 20445, 27963, 65306] (sr_Already r) @
      reply_part unknown_label (sr_Unknown r))"

definition relativeFuture :: "int \<Rightarrow> int \<Rightarrow> text" where
  "relativeFuture at now =
     (let remaining = round_second (at - now) in
      if remaining \<le> 0 then [39532, 19978] else duration_String remaining @ [21518])"

definition humanDuration :: "duration \<Rightarrow> text" where
  "humanDuration d =
     (if round_second d < second then [19981, 36275, 32, 49, 32, 31186] else duration_String (round_second d))"

definition next_text :: "gotime \<Rightarrow> int \<Rightarrow> text" where
  "next_text at now =
     (case at of None \<Rightarrow> [] | Some t \<Rightarrow> [65292, 19979, 27425, 32422, 32] @ relativeFuture t now)"

definition failure_text :: "text \<Rightarrow> text" where
  "failure_text e = [10, 10] @ [26368, 36817, 22833, 36133, 65306] @ truncate_text e 100"

definition formatSnapshot :: "queueSnapshot \<Rightarrow> int \<Rightarrow> text" where
  "formatSnapshot q now =
     (let prefix = qs_Name q @ [65306] in
      case qs_State q of
        StateRunning \<Rightarrow> prefix @ [25380, 38431, 20013, 65292, 31532, 32] @ dec (qs_Attempts q) @ [32, 27425] @
          next_text (qs_NextAttempt q) now @
          (if qs_LastError q = [] then [] else failure_text (qs_LastError q))
      | StateSucceeded \<Rightarrow> prefix @ [24050, 25104, 21151, 65292, 31532, 32] @ dec (qs_Attempts q) @ [32, 27425, 65292, 32791, 26102, 32] @
          humanDuration (case qs_FinishedAt q of
            None \<Rightarrow> (if qs_StartedAt q = None then 0 else - (2 ^ 63))
          | Some f \<Rightarrow> time_since (qs_StartedAt q) f)
      | StateStopped \<Rightarrow> prefix @ [24050, 20572, 27490, 65288, 20849, 23581, 35797, 32] @ dec (qs_Attempts q) @ [32, 27425, 65289]
      | StateIdle \<Rightarrow> prefix @ [26410, 21551, 21160])"

definition formatKeepaliveSnapshot :: "keepaliveSnapshot \<Rightarrow> int \<Rightarrow> text" where
  "formatKeepaliveSnapshot k now =
     ks_Name k @ [65306] @
     (let n = dec (ks_Requests k) in
      case ks_State k of
        KeepaliveStateRequesting \<Rightarrow> [35831, 27714, 20013, 65288, 20849, 35831, 27714, 32] @ n @ [32, 27425, 65289]
      | KeepaliveStateWaitingQueue \<Rightarrow> [31561, 24453, 25490, 38431, 20219, 21153, 32467, 26463, 65288, 20849, 35831, 27714, 32] @ n @ [32, 27425, 65289]
      | KeepaliveStateWaitingNext \<Rightarrow> [31561, 24453, 19979, 27425, 35831, 27714, 65288, 20849, 35831, 27714, 32] @ n @ [32, 27425, 65289] @
          next_text (ks_NextRequest k) now
      | KeepaliveStateStopped \<Rightarrow> [24050, 20572, 27490, 65288, 20849, 35831, 27714, 32] @ n @ [32, 27425, 65289]) @
     (if ks_LastFailure k = None then []
      else failure_text (if ks_LastError k = [] then [26080, 38169, 35823, 35814, 24773] else ks_LastError k))"

definition status_response :: "int \<Rightarrow> queueSnapshot list \<times> text list \<Rightarrow> text" where
  "status_response now = (\<lambda>(snapshots, unknown).
     reply_lines [10, 10] [27809, 26377, 21305, 37197, 30340, 30446, 26631, 12290]
       (map (\<lambda>q. formatSnapshot q now) snapshots @ reply_part unknown_label unknown))"

definition keepaliveStatus_response :: "int \<Rightarrow> keepaliveSnapshot list \<times> text list \<Rightarrow> text" where
  "keepaliveStatus_response now = (\<lambda>(snapshots, unknown).
     reply_lines [10, 10] [27809, 26377, 21305, 37197, 30340, 30446, 26631, 12290]
       (map (\<lambda>k. formatKeepaliveSnapshot k now) snapshots @ reply_part unknown_label unknown))"

definition list_response :: "queueSnapshot list \<Rightarrow> text" where
  "list_response snapshots = join_with [10]
     ([21487, 29992, 30446, 26631, 65306] #
      map (\<lambda>q. asc ''- '' @ qs_Name q @ [65288] @ qs_Model q @ asc '' @ '' @ qs_APIHost q @ [65289]) snapshots)"

definition denied_text :: "text" where "denied_text = [26080, 26435, 38480, 25191, 34892, 27492, 21629, 20196, 12290]"

definition helpText :: "text" where
  "helpText = join_with [10]
     [[21487, 29992, 21629, 20196, 65306] @ [10],
      [47, 24320, 25380, 32, 91, 30446, 26631, 124, 97, 108, 108, 93, 32, 8212, 32, 24320, 22987, 35831, 27714, 65307, 19981, 20889, 30446, 26631, 21017, 20840, 37096, 21551, 21160] @ [10],
      [47, 29366, 24577, 32, 91, 30446, 26631, 93, 32, 8212, 32, 26597, 30475, 23581, 35797, 27425, 25968, 12289, 26368, 36817, 38169, 35823, 21644, 19979, 27425, 37325, 35797] @ [10],
      [47, 20572, 27490, 32, 91, 30446, 26631, 124, 97, 108, 108, 93, 32, 8212, 32, 20572, 27490, 20219, 21153] @ [10],
      [47, 20445, 27963, 32, 91, 30446, 26631, 124, 97, 108, 108, 93, 32, 8212, 32, 21551, 21160, 38543, 26426, 38388, 38548, 20445, 27963] @ [10],
      [47, 20445, 27963, 29366, 24577, 32, 91, 30446, 26631, 93, 32, 8212, 32, 26597, 30475, 20445, 27963, 27425, 25968, 12289, 38454, 27573, 21644, 26368, 36817, 22833, 36133] @ [10],
      [47, 20572, 27490, 20445, 27963, 32, 91, 30446, 26631, 124, 97, 108, 108, 93, 32, 8212, 32, 20572, 27490, 20445, 27963] @ [10],
      [47, 21015, 34920, 32, 8212, 32, 26597, 30475, 24050, 37197, 32622, 30340, 32, 75, 101, 121, 47, 65, 80, 73, 32, 30446, 26631] @ [10],
      [47, 24110, 21161, 32, 8212, 32, 26174, 31034, 26412, 24110, 21161] @ [10],
      [22810, 20010, 30446, 26631, 21487, 29992, 31354, 26684, 25110, 36887, 21495, 20998, 38548, 12290] @ [10],
      [33521, 25991, 21035, 21517, 65306, 47, 115, 116, 97, 114, 116, 12289, 47, 115, 116, 97, 116, 117, 115, 12289, 47, 115, 116, 111, 112, 12289, 47, 107, 101, 101, 112, 97, 108, 105, 118, 101, 12289, 47, 107, 101, 101, 112, 97, 108, 105, 118, 101, 45, 115, 116, 97, 116, 117, 115, 12289] @
      [47, 115, 116, 111, 112, 45, 107, 101, 101, 112, 97, 108, 105, 118, 101, 12289, 47, 108, 105, 115, 116, 12289, 47, 104, 101, 108, 112, 12290]]"

section \<open>Replying\<close>

text \<open>
  The loop of \<open>reply\<close> from an attempt on: what is sent and waited for, and whether the reply was
  delivered. \<open>sent n\<close> is the result of the n-th \<open>Send\<close>, \<open>cancelled n\<close> that the context ends while
  waiting after it.
\<close>

datatype reply_event = SendReply "text" "text" "text" | WaitReply duration

function reply_from ::
  "text \<Rightarrow> text \<Rightarrow> text \<Rightarrow> (nat \<Rightarrow> bool) \<Rightarrow> (nat \<Rightarrow> bool) \<Rightarrow> nat \<Rightarrow> reply_event list \<times> bool" where
  "reply_from to content trace sent cancelled attempt =
     (if attempt < 3 then
        let first = SendReply to content trace; next = reply_from to content trace sent cancelled (attempt + 1) in
        if sent attempt then ([first], True)
        else if attempt < 2 then
          let w = WaitReply (int (attempt + 1) * second) in
          if cancelled attempt then ([first, w], False) else (first # w # fst next, snd next)
        else (first # fst next, snd next)
      else ([], False))"
  by pat_completeness auto
termination by (relation "measure (\<lambda>(to, content, trace, sent, cancelled, attempt). 3 - attempt)") auto

declare reply_from.simps [simp del]

definition reply :: "incoming \<Rightarrow> text \<Rightarrow> (nat \<Rightarrow> bool) \<Rightarrow> (nat \<Rightarrow> bool) \<Rightarrow> reply_event list \<times> bool" where
  "reply i content sent cancelled =
     (if strings_TrimSpace content = [] then ([], False)
      else reply_from (replyRecipient i) content (in_TraceID i) sent cancelled 0)"

section \<open>The bot\<close>

text \<open>
  The manager's world together with the chat: the commands that wait for \<open>Start\<close> or \<open>StartKeepalive\<close>
  to return (with the position of the call among the goroutines), and the replies handed to
  \<open>reply\<close> so far.
\<close>

record bot =
  b_world :: world
  b_waiting :: "(handler \<times> incoming \<times> nat) list"
  b_replies :: "(handler \<times> incoming \<times> text) list"

definition answer :: "handler \<Rightarrow> incoming \<Rightarrow> text \<Rightarrow> bot \<Rightarrow> bot" where
  "answer h i content b = b\<lparr>b_replies := b_replies b @ [(h, i, content)]\<rparr>"

definition no_subscriber :: subscriber where
  "no_subscriber = \<lparr>s_Recipient = [], s_TraceID = [], s_Key = [], s_Messenger = None\<rparr>"

definition call_mode :: "requestOwner \<Rightarrow> subscriber \<Rightarrow> text list \<Rightarrow> handler \<Rightarrow> incoming \<Rightarrow> bot \<Rightarrow> bot" where
  "call_mode desired s names h i b =
     (let w = b_world b; (keys, unknown) = resolveLocked (w_mgr w) names;
          call = ModeCall desired s keys \<lparr>sr_Started = [], sr_Already = [], sr_Unknown = unknown\<rparr> MPrepare in
      b\<lparr>b_world := w\<lparr>w_threads := w_threads w @ [call]\<rparr>,
        b_waiting := b_waiting b @ [(h, i, length (w_threads w))]\<rparr>)"

text \<open>\<open>Handle\<close> with the calls it makes; \<open>None\<close> is a panic of the manager.\<close>

definition run_command :: "int \<Rightarrow> handler \<Rightarrow> incoming \<Rightarrow> command \<Rightarrow> bot \<Rightarrow> bot option" where
  "run_command now h i c b =
     (let w = b_world b; m = w_mgr w in
      case c of
        CmdDenied \<Rightarrow> Some (answer h i denied_text b)
      | CmdStart names \<Rightarrow> Some (call_mode requestOwnerQueue (command_subscriber h i) names h i b)
      | CmdKeepalive names \<Rightarrow> Some (call_mode requestOwnerKeepalive no_subscriber names h i b)
      | CmdStop names \<Rightarrow> map_option (\<lambda>(res, m').
          answer h i (formatStopResult res) (b\<lparr>b_world := w\<lparr>w_mgr := m'\<rparr>\<rparr>)) (StopTask now names m)
      | CmdStatus names \<Rightarrow> map_option (\<lambda>r. answer h i (status_response now r) b) (Snapshots m names)
      | CmdKeepaliveStatus names \<Rightarrow>
          map_option (\<lambda>r. answer h i (keepaliveStatus_response now r) b) (KeepaliveSnapshots m names)
      | CmdList \<Rightarrow> map_option (\<lambda>r. answer h i (list_response (fst r)) b) (Snapshots m [])
      | CmdHelp \<Rightarrow> Some (answer h i helpText b))"

definition receive_message :: "int \<Rightarrow> handler \<Rightarrow> incoming \<Rightarrow> bot \<Rightarrow> bot option" where
  "receive_message now h i b =
     (case Handle h i of None \<Rightarrow> Some b | Some c \<Rightarrow> run_command now h i c b)"

text \<open>The rest of \<open>start\<close> and \<open>startKeepalive\<close>, once the manager has worked off all targets.\<close>

definition mode_response :: "thread \<Rightarrow> text option" where
  "mode_response th =
     (case th of
        ModeCall desired s [] res pc \<Rightarrow>
          Some (if desired = requestOwnerQueue then start_response res else formatKeepaliveStartResult res)
      | _ \<Rightarrow> None)"

definition mode_returned :: "nat \<Rightarrow> bot \<Rightarrow> bot option" where
  "mode_returned j b =
     (if j \<ge> length (b_waiting b) then None
      else let (h, i, n) = b_waiting b ! j in
        map_option (\<lambda>content. answer h i content
            (b\<lparr>b_waiting := take j (b_waiting b) @ drop (Suc j) (b_waiting b)\<rparr>))
          (mode_response (w_threads (b_world b) ! n)))"

inductive bot_step :: "bot \<Rightarrow> bot \<Rightarrow> bool" where
  bot_message: "receive_message now h i b = Some b' \<Longrightarrow> bot_step b b'"
| bot_returned: "mode_returned j b = Some b' \<Longrightarrow> bot_step b b'"
| bot_manager: "step (b_world b) w' \<Longrightarrow> bot_step b (b\<lparr>b_world := w'\<rparr>)"

inductive bot_start :: "bot \<Rightarrow> bool" where
  bot_startI: "initial w \<Longrightarrow> bot_start \<lparr>b_world = w, b_waiting = [], b_replies = []\<rparr>"

end
