(* ===== verification/Simulation.thy ===== *)
theory Simulation
  imports Systems
begin

text \<open>
  Refinement of one state machine by another: an abstraction of the states under which every step
  of the concrete machine is a sequence of steps of the abstract one. What holds in every
  reachable state of the abstract machine then holds of the abstraction of every reachable state.
\<close>

locale simulation =
  fixes init :: "'c \<Rightarrow> bool" and step :: "'c \<Rightarrow> 'c \<Rightarrow> bool" and abs :: "'c \<Rightarrow> 'a"
    and ainit :: "'a \<Rightarrow> bool" and astep :: "'a \<Rightarrow> 'a \<Rightarrow> bool"
  assumes init_abs: "init c \<Longrightarrow> ainit (abs c)"
    and step_abs: "step c c' \<Longrightarrow> astep\<^sup>*\<^sup>* (abs c) (abs c')"
begin

lemma steps_abs: "step\<^sup>*\<^sup>* c c' \<Longrightarrow> astep\<^sup>*\<^sup>* (abs c) (abs c')"
  by (induction rule: rtranclp_induct) (auto intro: rtranclp_trans step_abs)

lemma reachable_abs: "reachable init step c \<Longrightarrow> reachable ainit astep (abs c)"
  by (auto simp: reachable_def intro: steps_abs init_abs)

end

end
