(* ===== verification/Status_Store.thy ===== *)
theory Status_Store
  imports Hub Systems
begin

text \<open>
  The store of a connection status (\<open>StatusStore\<close> of \<open>internal/hub/client.go\<close>) with its observers. A Go
  channel is its capacity, what it buffers and whether it is still open; a closed channel can be
  read until it is empty. An observer whose buffer is full when the status changes is closed.
\<close>

record status_chan =
  sc_cap :: nat
  sc_buf :: "status_snapshot list"
  sc_open :: bool

record status_store =
  so_snapshot :: status_snapshot
  so_nextObserverID :: nat
  so_chans :: "nat \<rightharpoonup> status_chan"

definition NewStatusStore :: "hub_status \<Rightarrow> int \<Rightarrow> status_store" where
  "NewStatusStore state now =
     \<lparr>so_snapshot = \<lparr>ss_State = state, ss_Error = [], ss_UpdatedAt = Some now\<rparr>,
      so_nextObserverID = 0, so_chans = Map.empty\<rparr>"

definition observe_status :: "int \<Rightarrow> status_store \<Rightarrow> status_snapshot \<times> nat \<times> status_store" where
  "observe_status buffer s =
     (let cap = (if buffer \<le> 0 then 8 else nat buffer); i = Suc (so_nextObserverID s) in
      (so_snapshot s, i, s\<lparr>so_nextObserverID := i,
         so_chans := (so_chans s)(i \<mapsto> \<lparr>sc_cap = cap, sc_buf = [], sc_open = True\<rparr>)\<rparr>))"

definition push_status :: "status_snapshot \<Rightarrow> status_chan \<Rightarrow> status_chan" where
  "push_status x c =
     (if \<not> sc_open c then c
      else if length (sc_buf c) < sc_cap c then c\<lparr>sc_buf := sc_buf c @ [x]\<rparr>
      else c\<lparr>sc_open := False\<rparr>)"

definition set_status :: "hub_status \<Rightarrow> text \<Rightarrow> int \<Rightarrow> status_store \<Rightarrow> status_store" where
  "set_status state errorText now s =
     (let x = Set_status state errorText now in
      s\<lparr>so_snapshot := x, so_chans := map_option (push_status x) \<circ> so_chans s\<rparr>)"

text \<open>\<open>StatusSubscription.Close\<close>\<close>

definition close_status :: "nat \<Rightarrow> status_store \<Rightarrow> status_store" where
  "close_status i s = s\<lparr>so_chans := (so_chans s)(i := map_option (\<lambda>c. c\<lparr>sc_open := False\<rparr>) (so_chans s i))\<rparr>"

text \<open>Receiving from the channel of a subscription; \<open>None\<close> while it would block.\<close>

datatype received_status = StatusUpdate status_snapshot | StatusClosed

definition receive_status :: "nat \<Rightarrow> status_store \<Rightarrow> (received_status \<times> status_store) option" where
  "receive_status i s =
     (case so_chans s i of
        None \<Rightarrow> None
      | Some c \<Rightarrow>
          (case sc_buf c of
             x # xs \<Rightarrow> Some (StatusUpdate x, s\<lparr>so_chans := (so_chans s)(i \<mapsto> c\<lparr>sc_buf := xs\<rparr>)\<rparr>)
           | [] \<Rightarrow> if sc_open c then None else Some (StatusClosed, s)))"

section \<open>Following a store\<close>

text \<open>What a reader of the status sees: everything but the time.\<close>

definition status_view :: "status_snapshot \<Rightarrow> hub_status \<times> text" where
  "status_view x = (ss_State x, ss_Error x)"

definition clean_status :: "status_snapshot \<Rightarrow> bool" where
  "clean_status x \<longleftrightarrow> (\<exists>e. ss_Error x = ss_Error (Set_status StatusDisabled e 0))"

text \<open>Passing on a status through a second store does not change it again.\<close>

lemma trim_snoc_mark: "xs = [] \<or> \<not> unicode_IsSpace (hd xs) \<Longrightarrow> strings_TrimSpace (xs @ [8230]) = xs @ [8230]"
  unfolding strings_TrimSpace_def
  by (intro trimmed_by_id) (auto simp: trimmed_by_def unicode_IsSpace_def hd_append)

lemma Set_status_error_idem:
  "ss_Error (Set_status s (ss_Error (Set_status s' e now)) now') = ss_Error (Set_status s' e now)"
proof (cases "length (strings_TrimSpace e) > 600")
  case True
  let ?t = "strings_TrimSpace e"
  have "trimmed_by unicode_IsSpace ?t" by (simp add: strings_TrimSpace_def)
  then have "\<not> unicode_IsSpace (hd (take 600 ?t))" using True by (auto simp: trimmed_by_def hd_take)
  then show ?thesis using True trim_snoc_mark[of "take 600 ?t"] by (simp add: Set_status_def Let_def)
next
  case False
  then show ?thesis by (simp add: Set_status_def Let_def)
qed

lemma Set_status_state: "ss_State (Set_status s e now) = s"
  by (simp add: Set_status_def Let_def)

lemma pass_on_view:
  "clean_status x \<Longrightarrow> status_view (Set_status (ss_State x) (ss_Error x) now) = status_view x"
  by (auto simp: status_view_def clean_status_def Set_status_error_idem Set_status_state)

definition clean_store :: "status_store \<Rightarrow> bool" where
  "clean_store s \<longleftrightarrow> clean_status (so_snapshot s) \<and>
     (\<forall>i c. so_chans s i = Some c \<longrightarrow> list_all clean_status (sc_buf c)) \<and>
     (\<forall>i. so_chans s i \<noteq> None \<longrightarrow> i \<le> so_nextObserverID s)"

lemma clean_Set_status: "clean_status (Set_status s e now)"
  unfolding clean_status_def by (auto simp: Set_status_def Let_def)

lemma clean_NewStatusStore [simp]: "clean_store (NewStatusStore s now)"
  by (auto simp: clean_store_def NewStatusStore_def clean_status_def Set_status_def Let_def
      intro!: exI[of _ "[]"])

lemma clean_observe: "clean_store s \<Longrightarrow> observe_status b s = (x, i, s') \<Longrightarrow> clean_store s'"
  by (auto simp: clean_store_def observe_status_def Let_def le_Suc_eq split: if_splits)

lemma clean_set: "clean_store s \<Longrightarrow> clean_store (set_status st e now s)"
  by (auto simp: clean_store_def set_status_def Let_def push_status_def clean_Set_status split: if_splits)

lemma clean_close: "clean_store s \<Longrightarrow> clean_store (close_status i s)"
  by (auto simp: clean_store_def close_status_def)

lemma clean_receive: "clean_store s \<Longrightarrow> receive_status i s = Some (r, s') \<Longrightarrow> clean_store s'"
  by (auto simp: clean_store_def receive_status_def split: option.splits list.splits if_splits) fastforce+

text \<open>
  \<open>follows_by v x i s\<close>: who has seen \<open>x\<close> and then reads all that the open channel \<open>i\<close> buffers has seen
  the store's current status, as far as \<open>v\<close> tells it apart from others.
\<close>

definition follows_by :: "(status_snapshot \<Rightarrow> 'v) \<Rightarrow> status_snapshot \<Rightarrow> nat \<Rightarrow> status_store \<Rightarrow> bool" where
  "follows_by v x i s \<longleftrightarrow>
     (case so_chans s i of
        None \<Rightarrow> False
      | Some c \<Rightarrow> sc_open c \<longrightarrow> v (last (x # sc_buf c)) = v (so_snapshot s))"

abbreviation follows :: "status_snapshot \<Rightarrow> nat \<Rightarrow> status_store \<Rightarrow> bool" where
  "follows \<equiv> follows_by status_view"

lemma follows_observe: "observe_status b s = (x, i, s') \<Longrightarrow> follows_by v x i s'"
  by (auto simp: observe_status_def follows_by_def Let_def)

lemma follows_set: "follows_by v x i s \<Longrightarrow> follows_by v x i (set_status st e now s)"
  by (auto simp: follows_by_def set_status_def Let_def push_status_def split: option.splits)

lemma follows_receive:
  "follows_by v x i s \<Longrightarrow> receive_status i s = Some (StatusUpdate y, s') \<Longrightarrow> follows_by v y i s'"
  by (auto simp: follows_by_def receive_status_def split: option.splits list.splits if_splits)

lemma follows_view: "follows_by v x i s \<Longrightarrow> v y = v x \<Longrightarrow> follows_by v y i s"
  by (auto simp: follows_by_def split: option.splits)

lemma follows_blocked: "follows_by v x i s \<Longrightarrow> receive_status i s = None \<Longrightarrow> v x = v (so_snapshot s)"
  by (auto simp: follows_by_def receive_status_def split: option.splits list.splits if_splits)

text \<open>The status itself may be read past the channel at any time.\<close>

lemma follows_read: "follows_by v x i s \<Longrightarrow> follows_by v (so_snapshot s) i s"
  by (auto simp: follows_by_def split: option.splits)

text \<open>What others than observer \<open>i\<close> do with a store.\<close>

inductive status_step :: "nat \<Rightarrow> status_store \<Rightarrow> status_store \<Rightarrow> bool" for i where
  "status_step i s (set_status st e now s)"
| "observe_status b s = (x, j, s') \<Longrightarrow> status_step i s s'"
| "j \<noteq> i \<Longrightarrow> status_step i s (close_status j s)"
| "j \<noteq> i \<Longrightarrow> receive_status j s = Some (r, s') \<Longrightarrow> status_step i s s'"

text \<open>Observers' numbers are not given out again.\<close>

definition tracks :: "status_snapshot \<Rightarrow> nat \<Rightarrow> status_store \<Rightarrow> bool" where
  "tracks x i s \<longleftrightarrow> i \<le> so_nextObserverID s \<and> follows_by id x i s"

lemma tracks_observe: "observe_status b s = (x, i, s') \<Longrightarrow> tracks x i s'"
  using follows_observe[of b s x i s'] by (auto simp: tracks_def observe_status_def Let_def)

lemma tracks_step: "status_step i s s' \<Longrightarrow> tracks x i s \<Longrightarrow> tracks x i s'"
proof (induction rule: status_step.induct)
  case (1 s st e now)
  then show ?case using follows_set by (auto simp: tracks_def set_status_def Let_def)
qed (auto simp: tracks_def follows_by_def observe_status_def close_status_def receive_status_def Let_def
    split: option.splits list.splits if_splits)

lemma tracks_receive:
  "tracks x i s \<Longrightarrow> receive_status i s = Some (StatusUpdate y, s') \<Longrightarrow> tracks y i s'"
  using follows_receive[of id x i s y s']
  by (auto simp: tracks_def receive_status_def split: option.splits list.splits if_splits)

lemma tracks_read: "tracks x i s \<Longrightarrow> tracks (so_snapshot s) i s"
  using follows_read[of id x i s] by (simp add: tracks_def)

lemma tracks_blocked: "tracks x i s \<Longrightarrow> receive_status i s = None \<Longrightarrow> x = so_snapshot s"
  using follows_blocked[of id x i s] by (simp add: tracks_def)

text \<open>A closed channel stays closed.\<close>

definition shut :: "nat \<Rightarrow> status_store \<Rightarrow> bool" where
  "shut i s \<longleftrightarrow> i \<le> so_nextObserverID s \<and> (\<exists>c. so_chans s i = Some c \<and> \<not> sc_open c)"

lemma shut_close: "tracks x i s \<Longrightarrow> shut i (close_status i s)"
  by (auto simp: tracks_def shut_def follows_by_def close_status_def split: option.splits)

lemma shut_step: "status_step i s s' \<Longrightarrow> shut i s \<Longrightarrow> shut i s'"
  by (induction rule: status_step.induct)
    (auto simp: shut_def set_status_def push_status_def observe_status_def close_status_def
      receive_status_def Let_def split: option.splits list.splits if_splits)

end
