(* ===== verification/Messaging.thy ===== *)
theory Messaging
  imports Status_Store Config
begin

text \<open>
  The message runtime (\<open>cmd/codex-queue-bot/messages.go\<close>) with the proxies of
  \<open>internal/messaging/proxy.go\<close>: two adapters that a configuration reload replaces while goroutines that
  forward the status of replaced clients may still be running. \<open>Reload\<close> and \<open>Close\<close> exclude each other
  by \<open>reloadMu\<close>; each is a list of operations, one per critical section, between which the other
  goroutines run.
\<close>

section \<open>State\<close>

datatype adapter = OpenILinkAdapter | TelegramAdapter

text \<open>Clients are identified by the order in which they are allocated.\<close>

type_synonym client = nat

text \<open>
  The fields of \<open>messageRuntime\<close> that \<open>Reload\<close> and \<open>Close\<close> change, with their local variables. A
  \<open>Proxy\<close> is the client it holds; the default proxy holds one of the other two. \<open>k_cancelled\<close> are the
  clients whose context has been cancelled, \<open>k_wanted\<close> the adapters the last call was asked for.
\<close>

record control =
  k_generation :: nat
  k_client :: "adapter \<Rightarrow> client option"
  k_proxy :: "adapter \<Rightarrow> client option"
  k_default :: "adapter option"
  k_cancelled :: "client set"
  k_next :: client
  k_local :: nat
  k_old :: "adapter \<Rightarrow> client option"
  k_new :: client
  k_wanted :: "adapter \<Rightarrow> bool"

datatype fpc = FObserve | FSet status_snapshot | FSelect | FExit | FDone

record forwarder =
  f_adapter :: adapter
  f_generation :: nat
  f_client :: client
  f_sub :: nat
  f_pc :: fpc

datatype rop =
    Retire
  | ProxyNil adapter
  | DefaultNil
  | CancelOld adapter
  | StatusOp adapter hub_status
  | CreateClient adapter
  | ProxyNew adapter
  | DefaultTo adapter
  | DefaultIfNone adapter
  | Register adapter
  | Spawn adapter

record runtime =
  rt_ctl :: control
  rt_status :: "adapter \<Rightarrow> status_store"
  rt_source :: "client \<Rightarrow> status_store"
  rt_forwarders :: "forwarder list"
  rt_todo :: "rop list"
  rt_rootDone :: bool

section \<open>The proxies\<close>

text \<open>
  The client a message is handed to; \<open>None\<close> is \<open>ErrUnavailable\<close>. The manager sends through the
  default proxy, a subscriber through the proxy of its adapter.
\<close>

definition proxy_Send :: "adapter \<Rightarrow> runtime \<Rightarrow> client option" where
  "proxy_Send ad r = k_proxy (rt_ctl r) ad"

definition default_Send :: "runtime \<Rightarrow> client option" where
  "default_Send r = Option.bind (k_default (rt_ctl r)) (\<lambda>ad. proxy_Send ad r)"

section \<open>\<open>Reload\<close> and \<open>Close\<close>\<close>

definition retire_ops :: "rop list" where
  "retire_ops = [ProxyNil OpenILinkAdapter, ProxyNil TelegramAdapter, DefaultNil]"

definition cancel_ops :: "rop list" where
  "cancel_ops = [CancelOld OpenILinkAdapter, CancelOld TelegramAdapter]"

definition disable_ops :: "rop list" where
  "disable_ops = [StatusOp OpenILinkAdapter StatusDisabled, StatusOp TelegramAdapter StatusDisabled]"

definition reload_ops :: "(adapter \<Rightarrow> bool) \<Rightarrow> rop list" where
  "reload_ops wanted = Retire # retire_ops @ cancel_ops @ disable_ops @
     (if wanted OpenILinkAdapter then
        [CreateClient OpenILinkAdapter, ProxyNew OpenILinkAdapter, DefaultTo OpenILinkAdapter,
         StatusOp OpenILinkAdapter StatusConnecting, Register OpenILinkAdapter, Spawn OpenILinkAdapter]
      else []) @
     (if wanted TelegramAdapter then
        [CreateClient TelegramAdapter, ProxyNew TelegramAdapter, DefaultIfNone TelegramAdapter,
         StatusOp TelegramAdapter StatusConnecting, Register TelegramAdapter, Spawn TelegramAdapter]
      else [])"

definition close_ops :: "rop list" where
  "close_ops = Retire # cancel_ops @ retire_ops @ disable_ops"

text \<open>The condition under which \<open>Reload\<close> starts an adapter.\<close>

fun configured :: "config \<Rightarrow> adapter \<Rightarrow> bool" where
  "configured c OpenILinkAdapter = (IsOpenILinkEnabled (c_OpenILink c) \<and> oi_Token (c_OpenILink c) \<noteq> [])"
| "configured c TelegramAdapter = (IsTelegramEnabled (c_Telegram c) \<and> tg_Token (c_Telegram c) \<noteq> [])"

fun run_ctl :: "rop \<Rightarrow> control \<Rightarrow> control" where
  "run_ctl Retire k =
     k\<lparr>k_generation := Suc (k_generation k) mod 2 ^ 64, k_local := Suc (k_generation k) mod 2 ^ 64,
       k_old := k_client k, k_client := (\<lambda>_. None)\<rparr>"
| "run_ctl (ProxyNil ad) k = k\<lparr>k_proxy := (k_proxy k)(ad := None)\<rparr>"
| "run_ctl DefaultNil k = k\<lparr>k_default := None\<rparr>"
| "run_ctl (CancelOld ad) k =
     (case k_old k ad of None \<Rightarrow> k | Some c \<Rightarrow> k\<lparr>k_cancelled := insert c (k_cancelled k)\<rparr>)"
| "run_ctl (StatusOp ad state) k = k"
| "run_ctl (CreateClient ad) k = k\<lparr>k_new := k_next k, k_next := Suc (k_next k)\<rparr>"
| "run_ctl (ProxyNew ad) k = k\<lparr>k_proxy := (k_proxy k)(ad := Some (k_new k))\<rparr>"
| "run_ctl (DefaultTo ad) k = k\<lparr>k_default := Some ad\<rparr>"
| "run_ctl (DefaultIfNone ad) k = (if k_default k = None then k\<lparr>k_default := Some ad\<rparr> else k)"
| "run_ctl (Register ad) k = k\<lparr>k_client := (k_client k)(ad := Some (k_new k))\<rparr>"
| "run_ctl (Spawn ad) k = k"

definition new_forwarder :: "adapter \<Rightarrow> control \<Rightarrow> forwarder" where
  "new_forwarder ad k = \<lparr>f_adapter = ad, f_generation = k_local k, f_client = k_new k, f_sub = 0, f_pc = FObserve\<rparr>"

text \<open>One operation of the running \<open>Reload\<close> or \<open>Close\<close> at time \<open>now\<close>.\<close>

definition run_rop :: "int \<Rightarrow> rop \<Rightarrow> runtime \<Rightarrow> runtime" where
  "run_rop now op r =
     (let k = rt_ctl r; r1 = r\<lparr>rt_ctl := run_ctl op k\<rparr> in
      case op of
        StatusOp ad state \<Rightarrow> r1\<lparr>rt_status := (rt_status r)(ad := set_status state [] now (rt_status r ad))\<rparr>
      | CreateClient ad \<Rightarrow> r1\<lparr>rt_source := (rt_source r)(k_next k := NewStatusStore StatusConnecting now)\<rparr>
      | Spawn ad \<Rightarrow> r1\<lparr>rt_forwarders := rt_forwarders r @ [new_forwarder ad k]\<rparr>
      | _ \<Rightarrow> r1)"

definition start_ops :: "rop list \<Rightarrow> (adapter \<Rightarrow> bool) \<Rightarrow> runtime \<Rightarrow> runtime" where
  "start_ops ops wanted r = r\<lparr>rt_ctl := (rt_ctl r)\<lparr>k_wanted := wanted\<rparr>, rt_todo := ops\<rparr>"

definition Reload :: "config \<Rightarrow> runtime \<Rightarrow> runtime" where
  "Reload c r = start_ops (reload_ops (configured c)) (configured c) r"

definition Close_runtime :: "runtime \<Rightarrow> runtime" where
  "Close_runtime r = start_ops close_ops (\<lambda>_. False) r"

definition newMessageRuntime :: "status_store \<Rightarrow> status_store \<Rightarrow> runtime" where
  "newMessageRuntime openStatus telegramStatus =
     \<lparr>rt_ctl = \<lparr>k_generation = 0, k_client = (\<lambda>_. None), k_proxy = (\<lambda>_. None), k_default = None,
        k_cancelled = {}, k_next = 0, k_local = 0, k_old = (\<lambda>_. None), k_new = 0, k_wanted = (\<lambda>_. False)\<rparr>,
      rt_status = (\<lambda>ad. case ad of OpenILinkAdapter \<Rightarrow> openStatus | TelegramAdapter \<Rightarrow> telegramStatus),
      rt_source = (\<lambda>_. NewStatusStore StatusConnecting 0), rt_forwarders = [], rt_todo = [],
      rt_rootDone = False\<rparr>"

section \<open>Forwarding the status\<close>

definition setStatusIfCurrent ::
  "int \<Rightarrow> nat \<Rightarrow> client \<Rightarrow> adapter \<Rightarrow> status_snapshot \<Rightarrow> runtime \<Rightarrow> bool \<times> runtime" where
  "setStatusIfCurrent now generation c target update r =
     (let current = (generation = k_generation (rt_ctl r) \<and> k_client (rt_ctl r) target = Some c) in
      (current, if current
        then r\<lparr>rt_status := (rt_status r)(target :=
          set_status (ss_State update) (ss_Error update) now (rt_status r target))\<rparr>
        else r))"

text \<open>
  One step of the goroutine \<open>forwardStatus\<close>; \<open>pick\<close> is the choice of \<open>select\<close> when both channels are
  ready, \<open>None\<close> means that it waits.
\<close>

definition forward_step :: "int \<Rightarrow> bool \<Rightarrow> forwarder \<Rightarrow> runtime \<Rightarrow> (forwarder \<times> runtime) option" where
  "forward_step now pick f r =
     (let c = f_client f; source = rt_source r c;
          put = (\<lambda>s. r\<lparr>rt_source := (rt_source r)(c := s)\<rparr>);
          cancelled = (c \<in> k_cancelled (rt_ctl r) \<or> rt_rootDone r) in
      case f_pc f of
        FObserve \<Rightarrow> (let (x, i, s) = observe_status 16 source in Some (f\<lparr>f_sub := i, f_pc := FSet x\<rparr>, put s))
      | FSet x \<Rightarrow>
          (let (ok, r') = setStatusIfCurrent now (f_generation f) c (f_adapter f) x r in
           Some (f\<lparr>f_pc := if ok then FSelect else FExit\<rparr>, r'))
      | FSelect \<Rightarrow>
          (case receive_status (f_sub f) source of
             None \<Rightarrow> if cancelled then Some (f\<lparr>f_pc := FExit\<rparr>, r) else None
           | Some (x, s) \<Rightarrow>
               if cancelled \<and> pick then Some (f\<lparr>f_pc := FExit\<rparr>, r)
               else (case x of
                 StatusUpdate y \<Rightarrow> Some (f\<lparr>f_pc := FSet y\<rparr>, put s)
               | StatusClosed \<Rightarrow> Some (f\<lparr>f_pc := FExit\<rparr>, put s)))
      | FExit \<Rightarrow> Some (f\<lparr>f_pc := FDone\<rparr>, put (close_status (f_sub f) source))
      | FDone \<Rightarrow> None)"

section \<open>Interleavings\<close>

text \<open>
  \<open>rt_client\<close> is a client that changes its own status, from its listener or from a failed \<open>Send\<close>.
\<close>

inductive rt_step :: "runtime \<Rightarrow> runtime \<Rightarrow> bool" where
  rt_reload: "rt_todo r = [] \<Longrightarrow> rt_step r (Reload c r)"
| rt_close: "rt_todo r = [] \<Longrightarrow> rt_step r (Close_runtime r)"
| rt_op: "rt_todo r = op # ops \<Longrightarrow> rt_step r ((run_rop now op r)\<lparr>rt_todo := ops\<rparr>)"
| rt_forward: "j < length (rt_forwarders r) \<Longrightarrow> forward_step now pick (rt_forwarders r ! j) r = Some (f, r') \<Longrightarrow>
    rt_step r (r'\<lparr>rt_forwarders := (rt_forwarders r)[j := f]\<rparr>)"
| rt_client: "c < k_next (rt_ctl r) \<Longrightarrow> rt_step r (r\<lparr>rt_source := (rt_source r)(c := set_status state err now (rt_source r c))\<rparr>)"
| rt_root: "rt_step r (r\<lparr>rt_rootDone := True\<rparr>)"

inductive rt_start :: "runtime \<Rightarrow> bool" where
  rt_startI: "rt_start (newMessageRuntime (NewStatusStore StatusDisabled now) (NewStatusStore StatusDisabled now'))"

inductive_cases rt_step_cases: "rt_step r r'"

end
