(* ===== verification/Redaction.thy ===== *)
theory Redaction
  imports Hub "HOL-Library.Sublist"
begin

text \<open>
  What the removal of credentials from texts guarantees. The job manager, both message adapters and
  the Codex runner replace each secret by \<open>[REDACTED]\<close>; they share one argument, stated as a locale of
  filters that hide a secret, whatever they do to the text before and after.
\<close>

section \<open>Replacing\<close>

text \<open>
  A secret that neither contains a bracket nor is part of the word REDACTED cannot reappear by
  replacing something else; the mark of a cut text must not be part of it either.
\<close>

definition opaque :: "text \<Rightarrow> bool" where
  "opaque k \<longleftrightarrow> k \<noteq> [] \<and> 91 \<notin> set k \<and> 93 \<notin> set k \<and> 8230 \<notin> set k \<and> \<not> sublist k (asc ''REDACTED'')"

lemma redacted_split: "redacted = 91 # asc ''REDACTED'' @ [93]"
  by (simp add: redacted_def)

lemma sublist_around:
  assumes "sublist k (xs @ c # ys)" "c \<notin> set k"
  shows "sublist k xs \<or> sublist k ys"
proof -
  obtain ps ss where eq: "xs @ c # ys = ps @ k @ ss" using assms(1) by (auto simp: sublist_def)
  consider us where "xs = ps @ us" "us @ c # ys = k @ ss" | us where "xs @ us = ps" "c # ys = us @ k @ ss" "us \<noteq> []"
    using eq by (auto simp: append_eq_append_conv2) (metis append_Nil2)+
  then show ?thesis
  proof cases
    case 1
    then obtain vs where "us = k @ vs" using assms(2) by (auto simp: append_eq_append_conv2 Cons_eq_append_conv)
    with 1 show ?thesis by (auto simp: sublist_def)
  next
    case 2
    then show ?thesis by (auto simp: Cons_eq_append_conv sublist_def)
  qed
qed

lemma after_mark:
  assumes "opaque k" "sublist k (91 # asc ''REDACTED'' @ 93 # r)"
  shows "sublist k r"
proof -
  have k: "k \<noteq> []" "91 \<notin> set k" "93 \<notin> set k" "\<not> sublist k (asc ''REDACTED'')"
    using assms(1) unfolding opaque_def by blast+
  have "sublist k ([] @ 91 # asc ''REDACTED'' @ 93 # r)" using assms(2) unfolding append_Nil .
  then have "sublist k [] \<or> sublist k (asc ''REDACTED'' @ 93 # r)" by (rule sublist_around[OF _ k(2)])
  then have "sublist k (asc ''REDACTED'' @ 93 # r)" using k(1) unfolding sublist_Nil_right by blast
  then have "sublist k (asc ''REDACTED'') \<or> sublist k r" by (rule sublist_around[OF _ k(3)])
  with k(4) show ?thesis by blast
qed

lemma prefix_replace:
  assumes "prefix k (replace_all s redacted v)" "91 \<notin> set k"
  shows "prefix k v"
  using assms
proof (induction v arbitrary: k rule: length_induct)
  case (1 v)
  show ?case
  proof (cases "s = [] \<or> k = [] \<or> v = []")
    case True
    then show ?thesis using "1.prems"(1) by (auto simp: replace_all.simps[of "[]"])
  next
    case False
    then obtain x xs c cs where v: "v = c # cs" and k: "k = x # xs" by (meson neq_Nil_conv)
    show ?thesis
    proof (cases "strip_prefix s v")
      case None
      then have "prefix xs (replace_all s redacted cs)" "x = c"
        using "1.prems"(1) v k by (auto simp: replace_all_skip)
      then show ?thesis using "1.IH" "1.prems"(2) v k by auto
    next
      case (Some rest)
      then have "hd (replace_all s redacted v) = 91"
        using False by (simp add: replace_all_match strip_prefix_Some redacted_split)
      then show ?thesis using "1.prems" k False by (cases "replace_all s redacted v") auto
    qed
  qed
qed

lemma sublist_replace:
  assumes "opaque k" "sublist k (replace_all s redacted v)"
  shows "sublist k v"
  using assms(2)
proof (induction v rule: length_induct)
  case (1 v)
  show ?case
  proof (cases "strip_prefix s v")
    case None
    show ?thesis
    proof (cases v)
      case Nil
      then show ?thesis using "1.prems" by simp
    next
      case (Cons c cs)
      with "1.prems" None consider "prefix k (replace_all s redacted v)" | "sublist k (replace_all s redacted cs)"
        by (auto simp: replace_all_skip sublist_Cons_right)
      then show ?thesis
      proof cases
        case 1
        then have "prefix k v" using prefix_replace assms(1) by (simp add: opaque_def)
        then show ?thesis by (simp add: prefix_imp_sublist)
      next
        case 2
        then show ?thesis using "1.IH" Cons by (auto simp: sublist_Cons_right)
      qed
    qed
  next
    case (Some rest)
    show ?thesis
    proof (cases "s = []")
      case True
      then show ?thesis using "1.prems" by (simp add: replace_all.simps[of "[]"])
    next
      case False
      then have v: "v = s @ rest" "length rest < length v" using Some by (auto simp: strip_prefix_Some)
      have "sublist k (91 # asc ''REDACTED'' @ 93 # replace_all s redacted rest)"
        using "1.prems" False by (simp add: v(1) replace_all_match redacted_split)
      then have "sublist k (replace_all s redacted rest)" by (rule after_mark[OF assms(1)])
      then have "sublist k rest" using "1.IH" v(2) by blast
      then show ?thesis unfolding v(1) by (rule sublist_order.order_trans) simp
    qed
  qed
qed

lemma replace_removes:
  assumes "opaque k"
  shows "\<not> sublist k (replace_all k redacted v)"
proof (induction v rule: length_induct)
  case (1 v)
  have k: "k \<noteq> []" "91 \<notin> set k" using assms by (simp_all add: opaque_def)
  show ?case
  proof (cases "strip_prefix k v")
    case None
    show ?thesis
    proof (cases v)
      case Nil
      then show ?thesis using k by simp
    next
      case (Cons c cs)
      have "\<not> prefix k (replace_all k redacted v)"
        using prefix_replace[of k k v] k(2) None by (auto simp: strip_prefix_None prefix_def)
      then show ?thesis using "1.IH" None Cons by (simp add: replace_all_skip sublist_Cons_right)
    qed
  next
    case (Some rest)
    then have v: "v = k @ rest" by (simp add: strip_prefix_Some)
    show ?thesis
    proof
      assume "sublist k (replace_all k redacted v)"
      then have "sublist k (91 # asc ''REDACTED'' @ 93 # replace_all k redacted rest)"
        by (simp add: v replace_all_match k redacted_split)
      then have "sublist k (replace_all k redacted rest)" by (rule after_mark[OF assms])
      then show False using "1.IH" v k by simp
    qed
  qed
qed

lemma redact_keeps_hidden: "opaque k \<Longrightarrow> \<not> sublist k v \<Longrightarrow> \<not> sublist k (redact v secrets)"
proof (induction v secrets rule: redact.induct)
  case (2 v s ss)
  then have "\<not> sublist k (if s = [] then v else replace_all s redacted v)" using sublist_replace[of k s v] by auto
  with 2 show ?case by (simp del: if_split)
qed simp

lemma redact_hides:
  assumes "opaque k" "k \<in> set secrets"
  shows "\<not> sublist k (redact v secrets)"
  using assms(2)
proof (induction v secrets rule: redact.induct)
  case (2 v s ss)
  then show ?case
    using assms(1) replace_removes redact_keeps_hidden by (cases "s = k") (auto simp: opaque_def)
qed simp

section \<open>Trimming and cutting\<close>

lemma sublist_trim: "sublist (strings_TrimSpace v) v"
proof -
  have "sublist (dropWhile P v) v" for P by (metis sublist_append_leftI takeWhile_dropWhile_id)
  moreover have "sublist (trim_right_by P w) w" for P and w :: "text"
    by (metis sublist_append_rightI trim_right_by_split)
  ultimately show ?thesis
    unfolding strings_TrimSpace_def trim_by_def trim_left_by_def by (meson sublist_order.order_trans)
qed

lemma hidden_trim: "\<not> sublist k v \<Longrightarrow> \<not> sublist k (strings_TrimSpace v)"
  using sublist_trim sublist_order.order_trans by blast

lemma hidden_cut:
  assumes "opaque k" "\<not> sublist k v"
  shows "\<not> sublist k (take n v @ [8230])"
proof
  assume "sublist k (take n v @ [8230])"
  then have "sublist k (take n v) \<or> sublist k []" using sublist_around[of k "take n v" 8230 "[]"] assms(1)
    by (simp add: opaque_def)
  then show False using assms by (auto simp: opaque_def intro: sublist_order.order_trans sublist_take)
qed

lemma hidden_truncate: "opaque k \<Longrightarrow> \<not> sublist k v \<Longrightarrow> \<not> sublist k (truncate_text v n)"
  using hidden_trim hidden_cut by (auto simp: truncate_text_def Let_def)

lemma hidden_status: "opaque k \<Longrightarrow> \<not> sublist k v \<Longrightarrow> \<not> sublist k (ss_Error (Set_status st v now))"
  using hidden_trim hidden_cut by (auto simp: Set_status_def Let_def)

section \<open>Filters\<close>

text \<open>A filter hides a secret when no text that has gone through it contains the secret.\<close>

locale secret_filter =
  fixes clean :: "text \<Rightarrow> text" and secret :: "text"
  assumes hides: "opaque secret \<Longrightarrow> \<not> sublist secret (clean v)"
begin

lemma shown_hides: "opaque secret \<Longrightarrow> \<not> sublist secret (ss_Error (Set_status st (clean v) now))"
  using hidden_status hides by blast

lemma cut_hides: "opaque secret \<Longrightarrow> \<not> sublist secret (truncate_text (clean v) n)"
  using hidden_truncate hides by blast

end

interpretation hub_filter: secret_filter "hub_safeText token" token for token
  by unfold_locales (simp add: hub_safeText_def redact_hides del: redact.simps)

interpretation target_filter: secret_filter "sanitizeTargetError t" "t_APIKey t" for t
  by unfold_locales (simp add: sanitizeTargetError_def hidden_truncate redact_hides del: redact.simps)

end
