(* ===== verification/Listeners.thy ===== *)
theory Listeners
  imports Status_Store
begin

text \<open>
  What the message runtime relies on of an adapter's listener (\<open>Client.Run\<close> of \<open>internal/hub\<close> and
  \<open>internal/telegram\<close>): it never gives up silently. It returns without an error only when its context was
  cancelled, and with one only after it has made the rejection of the token visible.
\<close>

text \<open>Both listeners double the time between attempts up to thirty seconds.\<close>

lemma backoff_grows: "second \<le> b \<Longrightarrow> b \<le> 30 * second \<Longrightarrow> second \<le> next_backoff b \<and> next_backoff b \<le> 30 * second"
  by (simp add: next_backoff_def second_def)

locale listener = invariant_system init step inv
  for init :: "'s \<Rightarrow> bool" and step :: "'s \<Rightarrow> 's \<Rightarrow> bool" and inv :: "'s \<Rightarrow> bool" +
  fixes returned :: "'s \<Rightarrow> 'e option option" and stopped :: "'s \<Rightarrow> bool" and shown :: "'s \<Rightarrow> status_snapshot"
  assumes returned_nil: "inv s \<Longrightarrow> returned s = Some None \<Longrightarrow> stopped s"
    and returned_error: "inv s \<Longrightarrow> returned s = Some (Some e) \<Longrightarrow> ss_State (shown s) = StatusUnauthorized"
begin

lemma ends_with_reason:
  assumes "reachable init step s" "returned s \<noteq> None"
  shows "stopped s \<or> ss_State (shown s) = StatusUnauthorized"
  using reachable_inv[OF assms(1)] assms(2) returned_nil returned_error by (metis option.exhaust)

lemma keeps_listening:
  assumes "reachable init step s" "\<not> stopped s" "ss_State (shown s) \<noteq> StatusUnauthorized"
  shows "returned s = None"
  using ends_with_reason assms by blast

end

end
