(* ===== verification/Hub_Listener.thy ===== *)
theory Hub_Listener
  imports Redaction Listeners Json
begin

text \<open>
  The listener of the OpenILink adapter (\<open>Run\<close>, \<open>connect\<close>, \<open>readLoop\<close> and \<open>Send\<close> of
  \<open>internal/hub/client.go\<close>): connecting with back-off, reading events, and messages that are rejected
  while it runs. The WebSocket and HTTP exchanges are the environment.
\<close>

section \<open>Connecting and sending\<close>

datatype hub_error = HubUnauthorized | HubFailed "text"

fun hub_error_text :: "hub_error \<Rightarrow> text" where
  "hub_error_text HubUnauthorized = asc ''OpenILink Hub rejected the app token''"
| "hub_error_text (HubFailed t) = t"

definition compactBody :: "text \<Rightarrow> text" where
  "compactBody body = take 512 (join_with [32] (strings_FieldsFunc unicode_IsSpace body))"

text \<open>\<open>safeError\<close>, where \<open>None\<close> is \<open>nil\<close>.\<close>

definition hub_safeError :: "text \<Rightarrow> hub_error option \<Rightarrow> text" where
  "hub_safeError token e =
     (case e of None \<Rightarrow> asc ''connection closed'' | Some e \<Rightarrow> hub_safeText token (hub_error_text e))"

text \<open>The outcome of dialling: a connection, an HTTP response instead of one, or another error.\<close>

datatype dial = Dialled | Answered nat "text" | DialError "text"

definition connect :: "dial \<Rightarrow> hub_error option" where
  "connect d =
     (case d of
        Dialled \<Rightarrow> None
      | Answered status body \<Rightarrow>
          Some (if status = 401 \<or> status = 403 then HubUnauthorized
            else HubFailed (asc ''WebSocket handshake HTTP '' @ dec status @ asc '': '' @ compactBody body))
      | DialError e \<Rightarrow> Some (HubFailed e))"

text \<open>The reply to a message: the body and, when it is a JSON object, its value.\<close>

datatype hub_reply = HubNoReply "text" | HubReply nat "text" "json option"

definition says_no :: "string \<Rightarrow> json \<Rightarrow> bool" where
  "says_no key j \<longleftrightarrow> field key as_bool j = Some False"

text \<open>\<open>Send\<close> after the request; \<open>sprint\<close> is \<open>fmt.Sprint\<close> of the error the Hub reports.\<close>

definition hub_send_result :: "(json \<Rightarrow> text) \<Rightarrow> text \<Rightarrow> hub_reply \<Rightarrow> hub_error option" where
  "hub_send_result sprint token x =
     (case x of
        HubNoReply e \<Rightarrow> Some (HubFailed (asc ''send OpenILink message: '' @ hub_safeText token e))
      | HubReply status body parsed \<Rightarrow>
          if status = 401 \<or> status = 403 then Some HubUnauthorized
          else if status < 200 \<or> status \<ge> 300
          then Some (HubFailed (asc ''send OpenILink message: HTTP '' @ dec status @ asc '': '' @
            hub_safeText token (compactBody body)))
          else (case parsed of
            None \<Rightarrow> None
          | Some j \<Rightarrow>
              if body = [] then None
              else if says_no ''ok'' j
              then Some (HubFailed (asc ''send OpenILink message: '' @ hub_safeText token (sprint j)))
              else if says_no ''success'' j
              then Some (HubFailed (asc ''send OpenILink message failed: '' @ hub_safeText token (compactBody body)))
              else None))"

section \<open>Reading events\<close>

datatype ws_frame = BadFrame | Frame "text" ws_envelope

text \<open>The body of the loop of \<open>readLoop\<close>.\<close>

definition read_frame :: "ws_frame \<Rightarrow> seen_events \<Rightarrow> incoming option \<times> seen_events" where
  "read_frame f s =
     (case f of
        BadFrame \<Rightarrow> (None, s)
      | Frame typ w \<Rightarrow>
          if typ \<noteq> asc ''event'' then (None, s)
          else if we_EventID w = [] then (decodeIncoming w, s)
          else let (fresh, s') = rememberEvent (we_EventID w) s in
            (if fresh then decodeIncoming w else None, s'))"

section \<open>\<open>Run\<close>\<close>

datatype hub_pc =
    HEnter
  | HCheck
  | HDial
  | HRefused hub_error
  | HWait
  | HOpen
  | HRead
  | HLost "hub_error option"
  | HLostCtx "hub_error option"
  | HReport "hub_error option"
  | HReturned "hub_error option"

record hub_listener =
  hl_pc :: hub_pc
  hl_backoff :: duration
  hl_hasCancel :: bool
  hl_cancelled :: bool
  hl_status :: status_snapshot
  hl_seen :: seen_events
  hl_handled :: "incoming list"
  hl_closing :: nat

definition hub_new :: "int \<Rightarrow> hub_listener" where
  "hub_new now =
     \<lparr>hl_pc = HEnter, hl_backoff = second, hl_hasCancel = False, hl_cancelled = False,
      hl_status = \<lparr>ss_State = StatusConnecting, ss_Error = [], ss_UpdatedAt = Some now\<rparr>,
      hl_seen = no_events, hl_handled = [], hl_closing = 0\<rparr>"

text \<open>What the environment decides in a step: the dialling, what is read, the timer.\<close>

record hub_env =
  he_now :: int
  he_dial :: dial
  he_read :: "hub_error option + ws_frame"
  he_timer :: bool

definition hub_return :: "hub_error option \<Rightarrow> hub_listener \<Rightarrow> hub_listener" where
  "hub_return r s = s\<lparr>hl_pc := HReturned r, hl_hasCancel := False\<rparr>"

definition hub_run :: "text \<Rightarrow> hub_env \<Rightarrow> hub_listener \<Rightarrow> hub_listener option" where
  "hub_run token e s =
     (case hl_pc s of
        HEnter \<Rightarrow> Some (s\<lparr>hl_pc := HCheck, hl_hasCancel := True, hl_backoff := second,
          hl_status := Set_status StatusConnecting [] (he_now e)\<rparr>)
      | HCheck \<Rightarrow> Some (if hl_cancelled s then hub_return None s else s\<lparr>hl_pc := HDial\<rparr>)
      | HDial \<Rightarrow> Some (s\<lparr>hl_pc := case connect (he_dial e) of None \<Rightarrow> HOpen | Some err \<Rightarrow> HRefused err\<rparr>)
      | HRefused err \<Rightarrow>
          Some (if err = HubUnauthorized
            then hub_return (Some err) (s\<lparr>hl_status := Set_status StatusUnauthorized (hub_error_text err) (he_now e)\<rparr>)
            else s\<lparr>hl_pc := HWait,
              hl_status := Set_status StatusReconnecting (hub_safeError token (Some err)) (he_now e)\<rparr>)
      | HWait \<Rightarrow>
          if he_timer e then Some (s\<lparr>hl_pc := HCheck, hl_backoff := next_backoff (hl_backoff s)\<rparr>)
          else if hl_cancelled s then Some (hub_return None s) else None
      | HOpen \<Rightarrow> Some (s\<lparr>hl_pc := HRead, hl_backoff := second,
          hl_status := Set_status StatusConnected [] (he_now e)\<rparr>)
      | HRead \<Rightarrow>
          Some (case he_read e of
             Inl err \<Rightarrow> s\<lparr>hl_pc := HLost err\<rparr>
           | Inr f \<Rightarrow> (let (i, seen) = read_frame f (hl_seen s) in
               s\<lparr>hl_seen := seen, hl_handled := hl_handled s @ (case i of None \<Rightarrow> [] | Some i \<Rightarrow> [i])\<rparr>))
      | HLost err \<Rightarrow>
          Some (if ss_State (hl_status s) = StatusUnauthorized then hub_return (Some HubUnauthorized) s
            else s\<lparr>hl_pc := HLostCtx err\<rparr>)
      | HLostCtx err \<Rightarrow> Some (if hl_cancelled s then hub_return None s else s\<lparr>hl_pc := HReport err\<rparr>)
      | HReport err \<Rightarrow> Some (s\<lparr>hl_pc := HWait,
          hl_status := Set_status StatusReconnecting (hub_safeError token err) (he_now e)\<rparr>)
      | HReturned r \<Rightarrow> None)"

definition stopAdapter :: "hub_listener \<Rightarrow> hub_listener" where
  "stopAdapter s = s\<lparr>hl_cancelled := hl_cancelled s \<or> hl_hasCancel s\<rparr>"

text \<open>\<open>Send\<close>: a rejected one sets the status and then, in a second step, stops the listener.\<close>

definition hub_Send :: "(json \<Rightarrow> text) \<Rightarrow> text \<Rightarrow> int \<Rightarrow> hub_reply \<Rightarrow> hub_listener \<Rightarrow> hub_error option \<times> hub_listener" where
  "hub_Send sprint token now x s =
     (let r = hub_send_result sprint token x in
      (r, if r = Some HubUnauthorized
          then s\<lparr>hl_status := Set_status StatusUnauthorized (hub_error_text HubUnauthorized) now,
            hl_closing := Suc (hl_closing s)\<rparr>
          else s))"

inductive hub_step :: "(json \<Rightarrow> text) \<Rightarrow> text \<Rightarrow> hub_listener \<Rightarrow> hub_listener \<Rightarrow> bool"
  for sprint :: "json \<Rightarrow> text" and token :: "text" where
  hub_listens: "hub_run token e s = Some s' \<Longrightarrow> hub_step sprint token s s'"
| hub_sends: "hub_Send sprint token now x s = (r, s') \<Longrightarrow> hub_step sprint token s s'"
| hub_sent: "0 < hl_closing s \<Longrightarrow> hub_step sprint token s (stopAdapter (s\<lparr>hl_closing := hl_closing s - 1\<rparr>))"
| hub_closes: "hub_step sprint token s (stopAdapter s)"
| hub_context: "hub_step sprint token s (s\<lparr>hl_cancelled := True\<rparr>)"

inductive hub_start :: "hub_listener \<Rightarrow> bool" where
  hub_startI: "hub_start (hub_new now)"

section \<open>Invariant\<close>

definition hub_inv :: "hub_listener \<Rightarrow> bool" where
  "hub_inv s \<longleftrightarrow> second \<le> hl_backoff s \<and> hl_backoff s \<le> 30 * second \<and> seen_inv (hl_seen s) \<and>
     (hl_pc s = HReturned None \<longrightarrow> hl_cancelled s) \<and>
     (\<forall>e. hl_pc s = HReturned (Some e) \<longrightarrow> ss_State (hl_status s) = StatusUnauthorized)"

lemma read_frame_seen: "seen_inv s \<Longrightarrow> read_frame f s = (i, s') \<Longrightarrow> seen_inv s'"
  using rememberEvent_inv[of s]
  by (auto simp: read_frame_def split: ws_frame.splits if_splits prod.splits) (metis snd_conv)+

lemma hub_run_inv:
  assumes "hub_inv s" "hub_run token e s = Some s'"
  shows "hub_inv s'"
  using assms backoff_grows[of "hl_backoff s"] read_frame_seen[of "hl_seen s"]
  by (cases "hl_pc s")
    (auto simp: hub_run_def hub_inv_def hub_return_def Set_status_state second_def
      split: if_splits sum.splits prod.splits option.splits)

interpretation hub_runs: listener hub_start "hub_step sprint token" hub_inv
    "\<lambda>s. case hl_pc s of HReturned r \<Rightarrow> Some r | _ \<Rightarrow> None" hl_cancelled hl_status
  for sprint token
proof
  show "hub_inv s" if "hub_start s" for s
    using that no_events_inv by cases (auto simp: hub_new_def hub_inv_def second_def)
next
  fix s s' assume inv: "hub_inv s" and "hub_step sprint token s s'"
  from this(2) show "hub_inv s'"
  proof cases
    case (hub_listens e)
    then show ?thesis by (rule hub_run_inv[OF inv])
  qed (use inv in \<open>auto simp: hub_inv_def hub_Send_def stopAdapter_def Set_status_state Let_def split: if_splits\<close>)
qed (auto simp: hub_inv_def split: hub_pc.splits)

text \<open>
  A rejected \<open>Send\<close> stops the listener; one that is about to report a failed connection then overwrites the
  mark and ends as reconnecting.
\<close>

definition quiet_env :: hub_env where
  "quiet_env = \<lparr>he_now = 0, he_dial = DialError [], he_read = Inl None, he_timer = False\<rparr>"

lemma hub_rejection_overwritten:
  "\<exists>s s' s''. reachable hub_start (hub_step sprint token) s \<and>
     hub_Send sprint token 0 (HubReply 401 [] None) s = (Some HubUnauthorized, s') \<and>
     (hub_step sprint token)\<^sup>*\<^sup>* s' s'' \<and> hl_closing s'' = 0 \<and> hl_pc s'' = HReturned None \<and>
     ss_State (hl_status s'') = StatusReconnecting"
proof -
  let ?s1 = "(hub_new 0)\<lparr>hl_pc := HCheck, hl_hasCancel := True, hl_status := Set_status StatusConnecting [] 0\<rparr>"
  let ?s2 = "?s1\<lparr>hl_pc := HDial\<rparr>"
  let ?s3 = "?s1\<lparr>hl_pc := HRefused (HubFailed [])\<rparr>"
  let ?s4 = "snd (hub_Send sprint token 0 (HubReply 401 [] None) ?s3)"
  let ?s5 = "stopAdapter (?s4\<lparr>hl_closing := 0\<rparr>)"
  let ?s6 = "?s5\<lparr>hl_pc := HWait, hl_status := Set_status StatusReconnecting (hub_safeError token (Some (HubFailed []))) 0\<rparr>"
  note run = hub_run_def hub_new_def quiet_env_def connect_def hub_Send_def hub_send_result_def stopAdapter_def
  have steps: "hub_step sprint token (hub_new 0) ?s1" "hub_step sprint token ?s1 ?s2" "hub_step sprint token ?s2 ?s3"
    "hub_step sprint token ?s5 ?s6" "hub_step sprint token ?s6 (hub_return None ?s6)"
    by (rule hub_listens[of _ quiet_env]; simp add: run)+
  have "hub_step sprint token ?s4 ?s5"
    using hub_sent[of ?s4 sprint token] by (simp add: run)
  with steps have "reachable hub_start (hub_step sprint token) ?s3"
      "(hub_step sprint token)\<^sup>*\<^sup>* ?s4 (hub_return None ?s6)"
    using reachable_init[of hub_start, OF hub_startI[of 0]]
    by (blast intro: reachable_step, meson converse_rtranclp_into_rtranclp rtranclp.rtrancl_refl)
  then show ?thesis
    by (intro exI[of _ ?s3] exI[of _ ?s4] exI[of _ "hub_return None ?s6"])
      (auto simp: hub_Send_def hub_send_result_def hub_return_def stopAdapter_def Set_status_state hub_new_def)
qed

section \<open>Properties\<close>

text \<open>
  C23: the OpenILink listener never gives up silently. In any interleaving with messages that are sent,
  with reloads and with the end of the program, it has returned only if its context was cancelled
  or the status shows that the token was rejected; the time it waits before it connects again stays
  between one second and thirty, before jitter, and it never remembers more than 2048 events.
\<close>

theorem hub_listener_persists:
  assumes "reachable hub_start (hub_step sprint token) s"
  shows "(hl_pc s \<in> range HReturned \<longrightarrow> hl_cancelled s \<or> ss_State (hl_status s) = StatusUnauthorized) \<and>
    second \<le> hl_backoff s \<and> hl_backoff s \<le> 30 * second \<and> length (seen_order (hl_seen s)) \<le> maxRememberedEvent"
  using hub_runs.ends_with_reason[OF assms] hub_runs.reachable_inv[OF assms]
  by (auto simp: hub_inv_def seen_inv_def)

theorem hub_listener_persists_witness:
  "\<exists>s. reachable hub_start (hub_step (\<lambda>_. []) []) s \<and> hl_pc s = HReturned None \<and> (hl_cancelled s \<or> ss_State (hl_status s) = StatusUnauthorized)"
proof -
  obtain s s' s'' where r: "reachable hub_start (hub_step (\<lambda>_. []) []) s"
      "hub_Send (\<lambda>_. []) [] 0 (HubReply 401 [] None) s = (Some HubUnauthorized, s')"
      "(hub_step (\<lambda>_. []) [])\<^sup>*\<^sup>* s' s''" "hl_pc s'' = HReturned None"
    using hub_rejection_overwritten by blast
  have "hub_step (\<lambda>_. []) [] s s'" by (rule hub_sends[OF r(2)])
  with r(1,3) have s: "reachable hub_start (hub_step (\<lambda>_. []) []) s''"
    unfolding reachable_def by (meson rtranclp.rtrancl_into_rtrancl rtranclp_trans)
  from hub_listener_persists[OF s] r(4) s show ?thesis by auto
qed

end
