(* ===== verification/Telegram.thy ===== *)
theory Telegram
  imports Redaction Json Listeners
begin

text \<open>
  The Telegram adapter (\<open>internal/telegram/client.go\<close>): the classification of the replies of the Bot API,
  the long-polling loop with its offset and back-off, and its interleaving with messages that are
  sent meanwhile. The HTTP exchange is the environment.
\<close>

section \<open>Calls\<close>

definition maxResponseSize :: nat where "maxResponseSize = 2 ^ 20"

datatype tg_error = TgUnauthorized | TgContext | TgFailed "text"

text \<open>\<open>ErrUnauthorized.Error()\<close> and the texts of the other errors.\<close>

fun tg_error_text :: "tg_error \<Rightarrow> text" where
  "tg_error_text TgUnauthorized = asc ''Telegram Bot API rejected the bot token''"
| "tg_error_text TgContext = asc ''context canceled''"
| "tg_error_text (TgFailed t) = t"

definition tg_safeError :: "text \<Rightarrow> text \<Rightarrow> text" where
  "tg_safeError token value = truncate_text (redact value [token]) 600"

record 'a apiResponse =
  ap_OK :: bool
  ap_Result :: 'a
  ap_Description :: "text"
  ap_ErrorCode :: int

text \<open>What the HTTP exchange of a call can yield; error texts are those of Go's libraries.\<close>

datatype 'a exchange =
    NoRequest "text"
  | NoResponse "text" bool
  | NoBody "text"
  | Responded nat nat "text + 'a apiResponse"

text \<open>\<open>call\<close>; \<open>status_text\<close> is \<open>http.StatusText\<close>.\<close>

definition call :: "(nat \<Rightarrow> text) \<Rightarrow> text \<Rightarrow> text \<Rightarrow> 'a exchange \<Rightarrow> tg_error + 'a" where
  "call status_text token meth x =
     (case x of
        NoRequest e \<Rightarrow>
          Inl (TgFailed (asc ''create Telegram '' @ meth @ asc '' request: '' @ tg_safeError token e))
      | NoResponse e cancelled \<Rightarrow>
          Inl (if cancelled then TgContext
               else TgFailed (asc ''Telegram '' @ meth @ asc '' request: '' @ tg_safeError token e))
      | NoBody e \<Rightarrow> Inl (TgFailed (asc ''read Telegram '' @ meth @ asc '' response: '' @ e))
      | Responded status bytes body \<Rightarrow>
          if bytes > maxResponseSize
          then Inl (TgFailed (asc ''Telegram '' @ meth @ asc '' response is too large''))
          else (case body of
            Inl e \<Rightarrow> Inl (TgFailed (asc ''decode Telegram '' @ meth @ asc '' response: '' @ e))
          | Inr r \<Rightarrow>
              if status = 401 \<or> ap_ErrorCode r = 401 \<or> status = 404 \<and> ap_ErrorCode r = 404
              then Inl TgUnauthorized
              else if status < 200 \<or> status \<ge> 300 \<or> \<not> ap_OK r
              then let d = truncate_text (ap_Description r) 300;
                       d = (if d = [] then status_text status else d) in
                Inl (TgFailed (asc ''Telegram '' @ meth @ asc '' failed: HTTP '' @ dec status @ asc '': '' @ d))
              else Inr (ap_Result r)))"

section \<open>Updates\<close>

record tg_message =
  me_MessageID :: int
  me_From :: "int option"
  me_Chat :: int
  me_Text :: "text"

record tg_update =
  up_UpdateID :: int
  up_Message :: "tg_message option"

text \<open>The message an update is passed on as, if any.\<close>

definition update_incoming :: "tg_update \<Rightarrow> incoming option" where
  "update_incoming u =
     (case up_Message u of
        None \<Rightarrow> None
      | Some m \<Rightarrow> (case me_From m of
          None \<Rightarrow> None
        | Some from \<Rightarrow>
            if strings_TrimSpace (me_Text m) = [] then None
            else Some \<lparr>in_EventID = show_int (up_UpdateID u), in_TraceID = show_int (me_MessageID m),
              in_SenderID = show_int from, in_ReplyTo = show_int (me_Chat m), in_Text = me_Text m\<rparr>))"

definition next_offset :: "tg_update \<Rightarrow> int \<Rightarrow> int" where
  "next_offset u offset = (if up_UpdateID u \<ge> offset then wrap64 (up_UpdateID u + 1) else offset)"

section \<open>\<open>Run\<close>\<close>

text \<open>The points of \<open>Run\<close> between which other goroutines can act.\<close>

datatype tg_pc =
    TEnter
  | TCheck
  | TPoll
  | TError tg_error
  | TReport tg_error
  | TWait
  | TAnswered "tg_update list"
  | TConnect "tg_update list"
  | THandle "tg_update list"
  | TReturned "tg_error option"

text \<open>
  The listener, the context of \<open>Run\<close>, the status, what has been handed to the handler, and on the
  side of the Bot API the first update it has not been told to forget. \<open>tg_closing\<close> counts senders
  between their two steps: a rejected \<open>Send\<close> sets the status and then cancels the listener.
\<close>

record tg_listener =
  tg_pc :: tg_pc
  tg_offset :: int
  tg_backoff :: duration
  tg_hasCancel :: bool
  tg_cancelled :: bool
  tg_status :: status_snapshot
  tg_handled :: "incoming list"
  tg_confirmed :: int
  tg_closing :: nat

definition tg_new :: "int \<Rightarrow> int \<Rightarrow> tg_listener" where
  "tg_new now confirmed =
     \<lparr>tg_pc = TEnter, tg_offset = 0, tg_backoff = second, tg_hasCancel = False, tg_cancelled = False,
      tg_status = \<lparr>ss_State = StatusConnecting, ss_Error = [], ss_UpdatedAt = Some now\<rparr>,
      tg_handled = [], tg_confirmed = confirmed, tg_closing = 0\<rparr>"

definition tg_return :: "tg_error option \<Rightarrow> tg_listener \<Rightarrow> tg_listener" where
  "tg_return r s = s\<lparr>tg_pc := TReturned r, tg_hasCancel := False\<rparr>"

text \<open>
  One step of \<open>Run\<close>. \<open>poll\<close> is the result of \<open>getUpdates\<close>, which also tells the Bot API to forget all
  updates before the offset; \<open>timer\<close> says that the timer of \<open>wait\<close> fires first.
\<close>

definition tg_run ::
  "text \<Rightarrow> int \<Rightarrow> tg_error + tg_update list \<Rightarrow> bool \<Rightarrow> tg_listener \<Rightarrow> tg_listener option" where
  "tg_run token now poll timer s =
     (case tg_pc s of
        TEnter \<Rightarrow> Some (s\<lparr>tg_pc := TCheck, tg_hasCancel := True, tg_offset := 0, tg_backoff := second,
          tg_status := Set_status StatusConnecting [] now\<rparr>)
      | TCheck \<Rightarrow> Some (if tg_cancelled s then tg_return None s else s\<lparr>tg_pc := TPoll\<rparr>)
      | TPoll \<Rightarrow>
          (case poll of
             Inl e \<Rightarrow> Some (s\<lparr>tg_pc := TError e\<rparr>)
           | Inr us \<Rightarrow> Some (s\<lparr>tg_pc := TAnswered us, tg_confirmed := max (tg_confirmed s) (tg_offset s)\<rparr>))
      | TError e \<Rightarrow> Some (if tg_cancelled s then tg_return None s else s\<lparr>tg_pc := TReport e\<rparr>)
      | TReport e \<Rightarrow>
          Some (if e = TgUnauthorized
            then tg_return (Some e) (s\<lparr>tg_status := Set_status StatusUnauthorized (tg_error_text e) now\<rparr>)
            else s\<lparr>tg_pc := TWait,
              tg_status := Set_status StatusReconnecting (tg_safeError token (tg_error_text e)) now\<rparr>)
      | TWait \<Rightarrow>
          if timer then Some (s\<lparr>tg_pc := TCheck, tg_backoff := next_backoff (tg_backoff s)\<rparr>)
          else if tg_cancelled s then Some (tg_return None s) else None
      | TAnswered us \<Rightarrow>
          Some (if ss_State (tg_status s) \<noteq> StatusConnected then s\<lparr>tg_pc := TConnect us\<rparr>
            else s\<lparr>tg_pc := THandle us, tg_backoff := second\<rparr>)
      | TConnect us \<Rightarrow>
          Some (s\<lparr>tg_pc := THandle us, tg_backoff := second, tg_status := Set_status StatusConnected [] now\<rparr>)
      | THandle us \<Rightarrow>
          (case us of
             [] \<Rightarrow> Some (s\<lparr>tg_pc := TCheck\<rparr>)
           | u # us' \<Rightarrow> Some (s\<lparr>tg_pc := THandle us', tg_offset := next_offset u (tg_offset s),
               tg_handled := tg_handled s @ (case update_incoming u of None \<Rightarrow> [] | Some i \<Rightarrow> [i])\<rparr>))
      | TReturned r \<Rightarrow> None)"

text \<open>\<open>Close\<close> and the second half of a rejected \<open>Send\<close>: cancel the context of a running \<open>Run\<close>.\<close>

definition tg_Close :: "tg_listener \<Rightarrow> tg_listener" where
  "tg_Close s = s\<lparr>tg_cancelled := tg_cancelled s \<or> tg_hasCancel s\<rparr>"

definition tg_send_rejected :: "int \<Rightarrow> tg_listener \<Rightarrow> tg_listener" where
  "tg_send_rejected now s =
     s\<lparr>tg_status := Set_status StatusUnauthorized (tg_error_text TgUnauthorized) now, tg_closing := Suc (tg_closing s)\<rparr>"

text \<open>\<open>Send\<close>, from the result of \<open>call\<close> on; only an unauthorised one concerns the listener.\<close>

definition tg_Send :: "int \<Rightarrow> tg_error + unit \<Rightarrow> tg_listener \<Rightarrow> tg_error option \<times> tg_listener" where
  "tg_Send now r s =
     (case r of
        Inl TgUnauthorized \<Rightarrow> (Some TgUnauthorized, tg_send_rejected now s)
      | Inl e \<Rightarrow> (Some e, s)
      | Inr _ \<Rightarrow> (None, s))"

text \<open>
  The Bot API's side: \<open>stream\<close> holds all updates there ever are, in order. A poll yields an error, or the
  first few of those not yet forgotten. The rest of the world sends messages, closes the client and
  ends the context.
\<close>

inductive tg_step :: "text \<Rightarrow> tg_update list \<Rightarrow> tg_listener \<Rightarrow> tg_listener \<Rightarrow> bool"
  for token :: "text" and stream :: "tg_update list" where
  tg_listens: "tg_run token now poll timer s = Some s' \<Longrightarrow>
    (\<And>us. poll = Inr us \<Longrightarrow> \<exists>n. us = take n (filter (\<lambda>u. max (tg_confirmed s) (tg_offset s) \<le> up_UpdateID u) stream)) \<Longrightarrow>
    tg_step token stream s s'"
| tg_sends: "tg_Send now r s = (e, s') \<Longrightarrow> tg_step token stream s s'"
| tg_sent: "0 < tg_closing s \<Longrightarrow> tg_step token stream s (tg_Close (s\<lparr>tg_closing := tg_closing s - 1\<rparr>))"
| tg_closes: "tg_step token stream s (tg_Close s)"
| tg_context: "tg_step token stream s (s\<lparr>tg_cancelled := True\<rparr>)"

inductive tg_start :: "int \<Rightarrow> tg_listener \<Rightarrow> bool" for confirmed :: int where
  tg_startI: "tg_start confirmed (tg_new now confirmed)"

section \<open>The stream of updates\<close>

text \<open>What the Bot API promises of its updates: increasing identifiers, far from the end of the range.\<close>

definition update_stream :: "tg_update list \<Rightarrow> bool" where
  "update_stream us \<longleftrightarrow> sorted_wrt (<) (map up_UpdateID us) \<and>
     list_all (\<lambda>u. 0 < up_UpdateID u \<and> up_UpdateID u < 2 ^ 63 - 1) us"

definition passed_on :: "tg_update list \<Rightarrow> incoming list" where
  "passed_on us = List.map_filter update_incoming us"

lemma passed_on_append: "passed_on (us @ vs) = passed_on us @ passed_on vs"
  by (simp add: passed_on_def List.map_filter_def)

lemma passed_on_single: "passed_on [u] = (case update_incoming u of None \<Rightarrow> [] | Some i \<Rightarrow> [i])"
  by (simp add: passed_on_def List.map_filter_def split: option.split)

definition between :: "int \<Rightarrow> int \<Rightarrow> tg_update list \<Rightarrow> tg_update list" where
  "between a b us = filter (\<lambda>u. a \<le> up_UpdateID u \<and> up_UpdateID u < b) us"

lemma stream_advance:
  assumes "sorted_wrt (<) (map up_UpdateID us)" "filter (\<lambda>u. m \<le> up_UpdateID u) us = v # vs" "a \<le> m"
  shows "filter (\<lambda>u. up_UpdateID v + 1 \<le> up_UpdateID u) us = vs"
    "between a (up_UpdateID v + 1) us = between a m us @ [v]"
proof -
  have "filter (\<lambda>u. up_UpdateID v + 1 \<le> up_UpdateID u) us = vs \<and>
      between a (up_UpdateID v + 1) us = between a m us @ [v]"
    using assms
  proof (induction us)
    case (Cons u us)
    show ?case
    proof (cases "m \<le> up_UpdateID u")
      case True
      then have v: "v = u" "vs = filter (\<lambda>u. m \<le> up_UpdateID u) us" using Cons.prems(2) by auto
      have gt: "\<forall>x\<in>set us. up_UpdateID u < up_UpdateID x" using Cons.prems(1) by auto
      then have "filter (\<lambda>x. up_UpdateID u + 1 \<le> up_UpdateID x) us = us" "vs = us"
        "between a (up_UpdateID u + 1) us = []" "between a m us = []"
        using True v(2) by (auto simp: between_def filter_id_conv filter_empty_conv)
      then show ?thesis using True v(1) Cons.prems(3) by (auto simp: between_def)
    next
      case False
      then have "up_UpdateID u < up_UpdateID v"
        using Cons.prems(2) by (metis (mono_tags, lifting) filter_eq_Cons_iff le_less_trans not_le)
      then show ?thesis using False Cons by (auto simp: between_def)
    qed
  qed simp
  then show "filter (\<lambda>u. up_UpdateID v + 1 \<le> up_UpdateID u) us = vs"
    "between a (up_UpdateID v + 1) us = between a m us @ [v]" by auto
qed

section \<open>Invariant of the listener\<close>

fun pending :: "tg_pc \<Rightarrow> tg_update list option" where
  "pending (TAnswered us) = Some us"
| "pending (TConnect us) = Some us"
| "pending (THandle us) = Some us"
| "pending _ = None"

definition tg_inv :: "int \<Rightarrow> tg_update list \<Rightarrow> tg_listener \<Rightarrow> bool" where
  "tg_inv first stream s \<longleftrightarrow>
     tg_handled s = passed_on (between first (tg_offset s) stream) \<and>
     0 \<le> tg_offset s \<and> first \<le> tg_confirmed s \<and> tg_confirmed s \<le> max first (tg_offset s) \<and>
     (tg_pc s = TEnter \<longrightarrow> tg_offset s = 0) \<and>
     (\<forall>us. pending (tg_pc s) = Some us \<longrightarrow>
        (\<exists>n. us = take n (filter (\<lambda>u. max first (tg_offset s) \<le> up_UpdateID u) stream))) \<and>
     second \<le> tg_backoff s \<and> tg_backoff s \<le> 30 * second"

lemma between_max: "between a (max a b) us = between a b us"
  by (auto simp: between_def max_def intro!: filter_cong)

lemma handle_inv:
  assumes "update_stream stream" "tg_inv first stream s" "tg_pc s = THandle (u # us)"
  shows "tg_inv first stream (s\<lparr>tg_pc := THandle us, tg_offset := next_offset u (tg_offset s),
    tg_handled := tg_handled s @ (case update_incoming u of None \<Rightarrow> [] | Some i \<Rightarrow> [i])\<rparr>)" (is "tg_inv _ _ ?s")
proof -
  let ?m = "max first (tg_offset s)"
  from assms(2,3) obtain n where n: "u # us = take n (filter (\<lambda>u. ?m \<le> up_UpdateID u) stream)"
    by (auto simp: tg_inv_def)
  then obtain rest where rest: "filter (\<lambda>u. ?m \<le> up_UpdateID u) stream = u # rest" "us = take (n - 1) rest"
    by (cases n; cases "filter (\<lambda>u. ?m \<le> up_UpdateID u) stream") auto
  have "u \<in> set (filter (\<lambda>u. ?m \<le> up_UpdateID u) stream)" unfolding rest(1) by simp
  then have u: "u \<in> set stream" "?m \<le> up_UpdateID u" by (simp_all only: set_filter mem_Collect_eq)
  then have id: "next_offset u (tg_offset s) = up_UpdateID u + 1"
    using assms(1) by (auto simp: update_stream_def list_all_iff next_offset_def intro!: wrap64_id)
  have sorted: "sorted_wrt (<) (map up_UpdateID stream)" using assms(1) by (simp add: update_stream_def)
  note adv = stream_advance[OF sorted rest(1)]
  have "between first (up_UpdateID u + 1) stream = between first (tg_offset s) stream @ [u]"
    using adv(2)[of first] by (simp add: between_max)
  moreover have "max first (up_UpdateID u + 1) = up_UpdateID u + 1" using u(2) by simp
  ultimately show ?thesis
    using assms(2) adv(1)[of first] rest(2) u(2) id
    by (auto simp: tg_inv_def passed_on_append passed_on_single)
qed

lemma tg_run_inv:
  assumes "update_stream stream" "tg_inv first stream s" "tg_run token now poll timer s = Some s'"
    and "\<And>us. poll = Inr us \<Longrightarrow>
      \<exists>n. us = take n (filter (\<lambda>u. max (tg_confirmed s) (tg_offset s) \<le> up_UpdateID u) stream)"
  shows "tg_inv first stream s'"
proof (cases "tg_pc s")
  case (THandle us)
  show ?thesis
  proof (cases us)
    case Nil
    then show ?thesis using THandle assms(2,3) by (auto simp: tg_run_def tg_inv_def)
  next
    case (Cons u us')
    then show ?thesis using THandle assms(3) handle_inv[OF assms(1,2), of u us'] by (simp add: tg_run_def)
  qed
next
  case TPoll
  have "max (tg_confirmed s) (tg_offset s) = max first (tg_offset s)" using assms(2) by (auto simp: tg_inv_def)
  then show ?thesis using TPoll assms(2-4) by (cases poll) (auto simp: tg_run_def tg_inv_def)
next
  case TEnter
  then show ?thesis using assms(2,3) by (auto simp: tg_run_def tg_inv_def second_def)
next
  case TWait
  then show ?thesis using assms(2,3) backoff_grows[of "tg_backoff s"]
    by (auto simp: tg_run_def tg_inv_def tg_return_def split: if_splits)
next
  case (TReport e)
  then show ?thesis using assms(2,3) by (auto simp: tg_run_def tg_inv_def tg_return_def split: if_splits)
next
  case (TConnect us)
  then show ?thesis using assms(2,3) by (auto simp: tg_run_def tg_inv_def second_def)
next
  case (TAnswered us)
  then show ?thesis using assms(2,3) by (auto simp: tg_run_def tg_inv_def second_def split: if_splits)
qed (use assms(2,3) in \<open>auto simp: tg_run_def tg_inv_def tg_return_def split: if_splits\<close>)

interpretation tg_runs: invariant_system "tg_start first" "tg_step token stream" "\<lambda>s. update_stream stream \<longrightarrow> tg_inv first stream s"
  for first token stream
proof
  fix s assume "tg_start first s"
  then show "update_stream stream \<longrightarrow> tg_inv first stream s"
    by cases (auto simp: tg_new_def tg_inv_def passed_on_def between_def List.map_filter_def update_stream_def
        list_all_iff second_def filter_empty_conv)
next
  fix s s' assume inv: "update_stream stream \<longrightarrow> tg_inv first stream s" and "tg_step token stream s s'"
  from this(2) show "update_stream stream \<longrightarrow> tg_inv first stream s'"
  proof cases
    case (tg_listens now poll timer)
    then show ?thesis using inv tg_run_inv by blast
  next
    case (tg_sends now r e)
    then show ?thesis using inv
      by (auto simp: tg_Send_def tg_send_rejected_def tg_inv_def split: sum.splits tg_error.splits)
  qed (use inv in \<open>auto simp: tg_inv_def tg_Close_def\<close>)
qed

text \<open>The listener ends only when it is told to, or when the token is rejected.\<close>

definition tg_end_inv :: "tg_listener \<Rightarrow> bool" where
  "tg_end_inv s \<longleftrightarrow> (tg_pc s = TReturned None \<longrightarrow> tg_cancelled s) \<and>
     (\<forall>e. tg_pc s = TReturned (Some e) \<longrightarrow> ss_State (tg_status s) = StatusUnauthorized)"

interpretation tg_ends: listener "tg_start first" "tg_step token stream" tg_end_inv
    "\<lambda>s. case tg_pc s of TReturned r \<Rightarrow> Some r | _ \<Rightarrow> None" tg_cancelled tg_status
  for first token stream
proof
  show "tg_end_inv s" if "tg_start first s" for s
    using that by cases (simp add: tg_new_def tg_end_inv_def)
next
  fix s s' assume inv: "tg_end_inv s" and "tg_step token stream s s'"
  from this(2) show "tg_end_inv s'"
  proof cases
    case (tg_listens now poll timer)
    then show ?thesis using inv
      by (auto simp: tg_run_def tg_end_inv_def tg_return_def Set_status_state
          split: tg_pc.splits if_splits sum.splits list.splits)
  next
    case (tg_sends now r e)
    then show ?thesis using inv
      by (auto simp: tg_Send_def tg_send_rejected_def tg_end_inv_def Set_status_state split: sum.splits tg_error.splits)
  qed (use inv in \<open>auto simp: tg_end_inv_def tg_Close_def\<close>)
qed (auto simp: tg_end_inv_def split: tg_pc.splits)

interpretation tg_filter: secret_filter "tg_safeError token" token for token
  by unfold_locales (simp add: tg_safeError_def hidden_truncate redact_hides del: redact.simps)

section \<open>Runs\<close>

text \<open>A schedule of the listener's own steps, each with the result of a poll and the choice of the timer.\<close>

fun tg_exec :: "text \<Rightarrow> (tg_error + tg_update list) list \<Rightarrow> tg_listener \<Rightarrow> tg_listener option" where
  "tg_exec token [] s = Some s"
| "tg_exec token (p # ps) s =
     (case tg_run token 0 p False s of None \<Rightarrow> None | Some s' \<Rightarrow> tg_exec token ps s')"

definition no_poll :: "tg_error + tg_update list" where "no_poll = Inl TgContext"

lemma tg_exec_step:
  assumes "tg_run token 0 no_poll False s = Some s'"
  shows "tg_step token stream s s'"
  by (rule tg_listens[OF assms]) (simp add: no_poll_def)

lemma tg_exec_steps: "tg_exec token (replicate n no_poll) s = Some s' \<Longrightarrow> (tg_step token stream)\<^sup>*\<^sup>* s s'"
proof (induction n arbitrary: s)
  case (Suc n)
  then obtain s1 where "tg_run token 0 no_poll False s = Some s1" "tg_exec token (replicate n no_poll) s1 = Some s'"
    by (auto split: option.splits)
  then show ?case using tg_exec_step Suc.IH by (meson converse_rtranclp_into_rtranclp)
qed simp

definition demo_update :: tg_update where
  "demo_update = \<lparr>up_UpdateID = 5,
     up_Message = Some \<lparr>me_MessageID = 1, me_From = Some 7, me_Chat = 7, me_Text = asc ''/go''\<rparr>\<rparr>"

definition tg_polled :: "tg_update list \<Rightarrow> tg_listener" where
  "tg_polled us = (tg_new 0 5)\<lparr>tg_pc := TAnswered us, tg_hasCancel := True,
     tg_status := Set_status StatusConnecting [] 0, tg_confirmed := 5\<rparr>"

lemma tg_polled_reachable:
  assumes "us = take n (filter (\<lambda>u. 5 \<le> up_UpdateID u) stream)"
  shows "reachable (tg_start 5) (tg_step token stream) (tg_polled us)"
proof -
  let ?s = "(tg_new 0 5)\<lparr>tg_pc := TPoll, tg_hasCancel := True, tg_status := Set_status StatusConnecting [] 0\<rparr>"
  have "tg_exec token (replicate 2 no_poll) (tg_new 0 5) = Some ?s"
    by (simp add: numeral_2_eq_2 tg_run_def tg_new_def)
  then have "reachable (tg_start 5) (tg_step token stream) ?s"
    using tg_exec_steps tg_startI[of 5 0] unfolding reachable_def by blast
  moreover have "tg_step token stream ?s (tg_polled us)"
    by (rule tg_listens[of token 0 "Inr us" False]) (use assms in \<open>auto simp: tg_run_def tg_new_def tg_polled_def\<close>)
  ultimately show ?thesis by (rule reachable_step)
qed

lemma trim_go: "strings_TrimSpace (asc ''/go'') = asc ''/go''"
  by (simp add: strings_TrimSpace_def trim_by_def trim_left_by_def trim_right_by_def unicode_IsSpace_def)

text \<open>
  A client replaced by a reload can have handled updates the Bot API has not been told to forget: they
  are acknowledged only by the next poll, which a cancelled client does not make. The client that
  takes over is given them again.
\<close>

lemma reload_repeats_commands:
  "\<exists>s s'. reachable (tg_start 5) (tg_step token [demo_update]) s \<and> tg_pc s = TReturned None \<and>
     reachable (tg_start (tg_confirmed s)) (tg_step token [demo_update]) s' \<and>
     tg_handled s \<noteq> [] \<and> tg_handled s' = tg_handled s"
proof -
  let ?st = "[demo_update]"
  let ?h = "(tg_polled ?st)\<lparr>tg_pc := THandle [], tg_offset := 6, tg_status := Set_status StatusConnected [] 0,
    tg_handled := [the (update_incoming demo_update)]\<rparr>"
  have inc: "update_incoming demo_update \<noteq> None" using trim_go by (auto simp: demo_update_def update_incoming_def)
  have p: "reachable (tg_start 5) (tg_step token ?st) (tg_polled ?st)"
    by (rule tg_polled_reachable[where n = 1]) (simp add: demo_update_def)
  have "tg_exec token (replicate 3 no_poll) (tg_polled ?st) = Some ?h"
    using inc by (auto simp: numeral_3_eq_3 tg_run_def tg_polled_def tg_new_def Set_status_def next_offset_def
        demo_update_def wrap64_def)
  from tg_exec_steps[OF this, of ?st] p have h: "reachable (tg_start 5) (tg_step token ?st) ?h"
    unfolding reachable_def by (meson rtranclp_trans)
  then have c: "reachable (tg_start 5) (tg_step token ?st) (tg_Close ?h)" by (rule reachable_step) (rule tg_closes)
  have "tg_exec token (replicate 2 no_poll) (tg_Close ?h) = Some (tg_return None (tg_Close ?h))"
    by (simp add: numeral_2_eq_2 tg_run_def tg_Close_def tg_polled_def tg_new_def tg_return_def)
  from tg_exec_steps[OF this, of ?st] c
  have "reachable (tg_start 5) (tg_step token ?st) (tg_return None (tg_Close ?h))"
    unfolding reachable_def by (meson rtranclp_trans)
  moreover have "tg_confirmed (tg_return None (tg_Close ?h)) = 5"
    by (simp add: tg_return_def tg_Close_def tg_polled_def)
  ultimately show ?thesis
    using h by (intro exI[of _ "tg_return None (tg_Close ?h)"] exI[of _ ?h]) (simp add: tg_return_def tg_Close_def)
qed

text \<open>
  A \<open>Send\<close> the Bot API rejects marks the client as unauthorised and stops the listener, but a listener
  that has just been answered overwrites the mark: it ends as connected.
\<close>

lemma rejection_overwritten:
  "\<exists>s s' s''. reachable (tg_start 5) (tg_step token []) s \<and>
     tg_Send 0 (Inl TgUnauthorized) s = (Some TgUnauthorized, s') \<and> ss_State (tg_status s') = StatusUnauthorized \<and>
     (tg_step token [])\<^sup>*\<^sup>* s' s'' \<and> tg_closing s'' = 0 \<and> tg_pc s'' = TReturned None \<and>
     ss_State (tg_status s'') = StatusConnected"
proof -
  let ?s = "(tg_polled [])\<lparr>tg_pc := TConnect []\<rparr>"
  let ?s' = "tg_send_rejected 0 ?s"
  let ?c = "tg_Close (?s'\<lparr>tg_closing := 0\<rparr>)"
  let ?e = "tg_return None (?c\<lparr>tg_pc := TCheck, tg_status := Set_status StatusConnected [] 0\<rparr>)"
  have "reachable (tg_start 5) (tg_step token []) (tg_polled [])" by (rule tg_polled_reachable[where n = 0]) simp
  moreover have "tg_step token [] (tg_polled []) ?s"
    by (rule tg_exec_step) (simp add: tg_run_def tg_polled_def tg_new_def Set_status_def)
  ultimately have "reachable (tg_start 5) (tg_step token []) ?s" by (rule reachable_step)
  moreover have "tg_step token [] ?s' ?c"
    using tg_sent[of ?s' token "[]"] by (simp add: tg_send_rejected_def tg_polled_def tg_new_def)
  moreover have "tg_exec token (replicate 3 no_poll) ?c = Some ?e"
    by (simp add: numeral_3_eq_3 tg_run_def tg_Close_def tg_send_rejected_def tg_polled_def tg_new_def tg_return_def
        second_def)
  ultimately show ?thesis
    using tg_exec_steps[of token 3 ?c ?e "[]"]
    by (intro exI[of _ ?s] exI[of _ ?s'] exI[of _ ?e])
      (auto simp: tg_Send_def tg_send_rejected_def Set_status_state tg_return_def tg_Close_def
        intro: converse_rtranclp_into_rtranclp)
qed

section \<open>Properties\<close>

text \<open>
  C22: the listener hands on every message once and in order. When the Bot API delivers updates with
  increasing identifiers and honours the offset, then at any moment of any run, whatever polls fail
  and whatever is sent meanwhile, exactly the messages of the updates below the offset, from the
  first one not confirmed before, have been handed on, in the order of the stream; the time until
  the next attempt after a failure stays between one and thirty seconds; and the listener has
  returned only if its context was cancelled or the status shows that the token was rejected.
\<close>

theorem updates_handled_once:
  assumes "update_stream stream" "reachable (tg_start first) (tg_step token stream) s"
  shows "tg_handled s = passed_on (between first (tg_offset s) stream) \<and>
    second \<le> tg_backoff s \<and> tg_backoff s \<le> 30 * second \<and>
    (tg_pc s \<in> range TReturned \<longrightarrow> tg_cancelled s \<or> ss_State (tg_status s) = StatusUnauthorized)"
  using tg_runs.reachable_inv[OF assms(2)] tg_ends.ends_with_reason[OF assms(2)] assms(1)
  by (auto simp: tg_inv_def)

theorem updates_handled_once_witness:
  "\<exists>s. reachable (tg_start 5) (tg_step [] [demo_update]) s \<and> tg_handled s \<noteq> [] \<and>
     tg_handled s = passed_on (between 5 (tg_offset s) [demo_update])"
proof -
  have "update_stream [demo_update]" by (simp add: update_stream_def demo_update_def)
  moreover obtain s where "reachable (tg_start 5) (tg_step [] [demo_update]) s" "tg_handled s \<noteq> []"
    using reload_repeats_commands by blast
  ultimately show ?thesis using updates_handled_once by blast
qed

end
