(* ===== verification/Proxyenv.thy ===== *)
theory Proxyenv
  imports Sanitize
begin

text \<open>
  The proxy settings (\<open>internal/proxyenv/proxyenv.go\<close>): what the environment variables mean, the
  environment handed to child processes, and the proxy chosen for a request. An environment is a
  list of entries \<open>name=value\<close>. Go's URL parser and the matcher for \<open>NO_PROXY\<close>
  (\<open>golang.org/x/net/http/httpproxy\<close>) are parameters.
\<close>

section \<open>Environments\<close>

text \<open>\<open>strings.Cut(item, "=")\<close>; \<open>None\<close> when there is no separator.\<close>

definition cut_item :: "text \<Rightarrow> (text \<times> text) option" where
  "cut_item item =
     (case dropWhile (\<lambda>r. r \<noteq> 61) item of
        [] \<Rightarrow> None
      | _ # value \<Rightarrow> Some (takeWhile (\<lambda>r. r \<noteq> 61) item, value))"

definition proxyVariableNames :: "text list" where
  "proxyVariableNames = map asc
     [''HTTP_PROXY'', ''HTTPS_PROXY'', ''ALL_PROXY'', ''NO_PROXY'',
      ''http_proxy'', ''https_proxy'', ''all_proxy'', ''no_proxy'']"

definition isProxyVariable :: "text \<Rightarrow> bool" where
  "isProxyVariable name \<longleftrightarrow> name \<in> set proxyVariableNames"

text \<open>\<open>environmentMap\<close>: a later entry replaces an earlier one; a missing name reads as the empty text.\<close>

definition environmentMap :: "text list \<Rightarrow> text \<Rightarrow> text" where
  "environmentMap environ = fold (\<lambda>item values.
     case cut_item item of None \<Rightarrow> values | Some (name, value) \<Rightarrow> values(name := strings_TrimSpace value))
     environ (\<lambda>_. [])"

fun firstNonEmpty :: "text list \<Rightarrow> text" where
  "firstNonEmpty [] = []"
| "firstNonEmpty (v # vs) = (if v \<noteq> [] then v else firstNonEmpty vs)"

definition appendProxyPair :: "text \<Rightarrow> text \<Rightarrow> text \<Rightarrow> text list \<Rightarrow> text list" where
  "appendProxyPair upper lower value environ =
     (if value = [] then environ else environ @ [upper @ asc ''='' @ value, lower @ asc ''='' @ value])"

section \<open>Proxy URLs\<close>

record proxy_url =
  pu_Scheme :: "text"
  pu_Opaque :: "text"
  pu_Host :: "text"

type_synonym url_parser = "text \<Rightarrow> proxy_url option"

definition supported_scheme :: "text \<Rightarrow> bool" where
  "supported_scheme s \<longleftrightarrow> strings_ToLower s \<in> {asc ''http'', asc ''https'', asc ''socks5'', asc ''socks5h''}"

definition normalizeProxyURL :: "url_parser \<Rightarrow> text \<Rightarrow> text" where
  "normalizeProxyURL parse raw =
     (let raw = strings_TrimSpace raw in
      if raw = [] then []
      else case parse raw of
        None \<Rightarrow> raw
      | Some u \<Rightarrow>
          if pu_Scheme u = [] \<or> pu_Host u \<noteq> [] \<or> pu_Opaque u = [] then raw
          else if supported_scheme (pu_Scheme u)
          then strings_ToLower (pu_Scheme u) @ asc ''://'' @ pu_Opaque u
          else raw)"

text \<open>The result of \<open>parseProxyURL\<close>: an error, or a pointer to a URL that may be \<open>nil\<close>.\<close>

datatype parsed_proxy = ProxyInvalid | ProxyNilURL | ProxyParsed proxy_url

definition parseProxyURL :: "url_parser \<Rightarrow> text \<Rightarrow> parsed_proxy" where
  "parseProxyURL parse raw =
     (let raw = normalizeProxyURL parse raw in
      if strings_TrimSpace raw = [] then ProxyInvalid
      else case parse raw of
        None \<Rightarrow> ProxyInvalid
      | Some u \<Rightarrow>
          if pu_Host u = [] then ProxyNilURL
          else if supported_scheme (pu_Scheme u) then ProxyParsed u else ProxyInvalid)"

section \<open>Configuration\<close>

record proxy_config =
  pc_HTTPProxy :: "text"
  pc_HTTPSProxy :: "text"
  pc_AllProxy :: "text"
  pc_NoProxy :: "text"

text \<open>A single configured proxy also serves the other protocols.\<close>

definition fill_proxies :: "text \<Rightarrow> text \<Rightarrow> text \<Rightarrow> text \<Rightarrow> proxy_config" where
  "fill_proxies http https all no_proxy =
     (let http' = (if http = [] then firstNonEmpty [all, https] else http);
          https' = (if https = [] then firstNonEmpty [all, http'] else https);
          all' = (if all = [] \<and> http' = https' then http' else all) in
      \<lparr>pc_HTTPProxy = http', pc_HTTPSProxy = https', pc_AllProxy = all', pc_NoProxy = no_proxy\<rparr>)"

definition FromEnvironment :: "url_parser \<Rightarrow> text list \<Rightarrow> proxy_config" where
  "FromEnvironment parse environ =
     (let v = environmentMap environ; pick = (\<lambda>upper lower. firstNonEmpty [v (asc upper), v (asc lower)]) in
      fill_proxies (normalizeProxyURL parse (pick ''HTTP_PROXY'' ''http_proxy''))
        (normalizeProxyURL parse (pick ''HTTPS_PROXY'' ''https_proxy''))
        (normalizeProxyURL parse (pick ''ALL_PROXY'' ''all_proxy''))
        (pick ''NO_PROXY'' ''no_proxy''))"

text \<open>The entries of the environment that are no proxy variables, followed by the given settings.\<close>

definition without_proxies :: "text list \<Rightarrow> text list" where
  "without_proxies environ =
     filter (\<lambda>item. case cut_item item of None \<Rightarrow> True | Some (name, value) \<Rightarrow> \<not> isProxyVariable name) environ"

definition with_proxies :: "proxy_config \<Rightarrow> text list \<Rightarrow> text list" where
  "with_proxies c environ =
     appendProxyPair (asc ''NO_PROXY'') (asc ''no_proxy'') (pc_NoProxy c)
      (appendProxyPair (asc ''ALL_PROXY'') (asc ''all_proxy'') (pc_AllProxy c)
       (appendProxyPair (asc ''HTTPS_PROXY'') (asc ''https_proxy'') (pc_HTTPSProxy c)
        (appendProxyPair (asc ''HTTP_PROXY'') (asc ''http_proxy'') (pc_HTTPProxy c)
         (without_proxies environ))))"

definition Normalize :: "url_parser \<Rightarrow> text list \<Rightarrow> text list" where
  "Normalize parse environ = with_proxies (FromEnvironment parse environ) environ"

text \<open>\<open>NormalizeEnvironment\<close> of a resolver that holds the settings \<open>c\<close>; \<open>None\<close> is a \<open>nil\<close> resolver.\<close>

definition NormalizeEnvironment :: "url_parser \<Rightarrow> proxy_config option \<Rightarrow> text list \<Rightarrow> text list" where
  "NormalizeEnvironment parse c environ =
     (case c of None \<Rightarrow> Normalize parse environ | Some c \<Rightarrow> with_proxies c environ)"

definition proxies_Enabled :: "proxy_config \<Rightarrow> bool" where
  "proxies_Enabled c \<longleftrightarrow> pc_HTTPProxy c \<noteq> [] \<or> pc_HTTPSProxy c \<noteq> [] \<or> pc_AllProxy c \<noteq> []"

section \<open>The resolver\<close>

definition rejected_setting :: "url_parser \<Rightarrow> text \<Rightarrow> bool" where
  "rejected_setting parse raw \<longleftrightarrow> strings_TrimSpace raw \<noteq> [] \<and> parseProxyURL parse raw = ProxyInvalid"

text \<open>\<open>Resolve\<close>: \<open>None\<close> is the error for an invalid proxy URL.\<close>

definition Resolve :: "url_parser \<Rightarrow> text list \<Rightarrow> proxy_config option" where
  "Resolve parse environ =
     (let c = FromEnvironment parse environ in
      if list_ex (rejected_setting parse) [pc_HTTPProxy c, pc_HTTPSProxy c, pc_AllProxy c] then None
      else Some c)"

definition proxyForScheme :: "proxy_config \<Rightarrow> text \<Rightarrow> text" where
  "proxyForScheme c scheme =
     (let s = strings_ToLower (strings_TrimSpace scheme) in
      if s \<in> {asc ''http'', asc ''ws''}
      then firstNonEmpty [pc_HTTPProxy c, pc_AllProxy c, pc_HTTPSProxy c]
      else if s \<in> {asc ''https'', asc ''wss''}
      then firstNonEmpty [pc_HTTPSProxy c, pc_AllProxy c, pc_HTTPProxy c]
      else firstNonEmpty [pc_AllProxy c, pc_HTTPSProxy c, pc_HTTPProxy c])"

text \<open>
  \<open>proxyURL\<close>: a direct connection, an error, or a proxy. \<open>bypassed\<close> tells whether \<open>NO_PROXY\<close> covers a
  request, given its scheme (with \<open>ws\<close> and \<open>wss\<close> read as \<open>http\<close> and \<open>https\<close>) and host.
\<close>

datatype proxy_route = Direct | RouteError | Via proxy_url

definition match_scheme :: "text \<Rightarrow> text" where
  "match_scheme scheme =
     (if scheme = asc ''ws'' then asc ''http'' else if scheme = asc ''wss'' then asc ''https'' else scheme)"

definition proxyURL ::
  "url_parser \<Rightarrow> (text \<Rightarrow> text \<Rightarrow> text \<Rightarrow> bool) \<Rightarrow> proxy_config \<Rightarrow> text \<Rightarrow> text \<Rightarrow> proxy_route" where
  "proxyURL parse bypassed c scheme host =
     (if bypassed (pc_NoProxy c) (match_scheme scheme) host then Direct
      else let raw = proxyForScheme c scheme in
        if raw = [] then Direct
        else case parseProxyURL parse raw of
          ProxyInvalid \<Rightarrow> RouteError | ProxyNilURL \<Rightarrow> Direct | ProxyParsed u \<Rightarrow> Via u)"

text \<open>\<open>ProxyFunc\<close>, for HTTP transports, which do not know \<open>socks5h\<close>.\<close>

definition ProxyFunc ::
  "url_parser \<Rightarrow> (text \<Rightarrow> text \<Rightarrow> text \<Rightarrow> bool) \<Rightarrow> proxy_config \<Rightarrow> text \<Rightarrow> text \<Rightarrow> proxy_route" where
  "ProxyFunc parse bypassed c scheme host =
     (case proxyURL parse bypassed c scheme host of
        Via u \<Rightarrow> Via (if strings_ToLower (pu_Scheme u) = asc ''socks5h'' then u\<lparr>pu_Scheme := asc ''socks5''\<rparr> else u)
      | r \<Rightarrow> r)"



section \<open>Reading what was written\<close>

text \<open>
  What is used of the URL parser: a text with \<open>://\<close> after its scheme has no opaque part.
\<close>

definition lawful_parser :: "url_parser \<Rightarrow> bool" where
  "lawful_parser parse \<longleftrightarrow>
     (\<forall>s r u. supported_scheme s \<and> parse (s @ asc ''://'' @ r) = Some u \<longrightarrow> pu_Opaque u = [])"

lemma trimmed_TrimSpace: "strings_TrimSpace x = x \<longleftrightarrow> trimmed_by unicode_IsSpace x"
  unfolding strings_TrimSpace_def by (metis trim_by_trimmed trimmed_by_id)

lemma supported_scheme_trimmed:
  "supported_scheme s \<Longrightarrow> strings_ToLower s \<noteq> [] \<and> \<not> unicode_IsSpace (hd (strings_ToLower s))"
  by (auto simp: supported_scheme_def unicode_IsSpace_def)

lemma supported_lower: "supported_scheme (strings_ToLower s) = supported_scheme s"
  by (simp add: supported_scheme_def)

lemma normalizeProxyURL_stable:
  assumes "lawful_parser parse" "strings_TrimSpace (normalizeProxyURL parse raw) = normalizeProxyURL parse raw"
  shows "normalizeProxyURL parse (normalizeProxyURL parse raw) = normalizeProxyURL parse raw"
proof (cases "normalizeProxyURL parse raw = strings_TrimSpace raw")
  case True
  then show ?thesis by (simp add: normalizeProxyURL_def Let_def)
next
  case False
  then obtain u where "parse (strings_TrimSpace raw) = Some u" and "supported_scheme (pu_Scheme u)"
    and n: "normalizeProxyURL parse raw = strings_ToLower (pu_Scheme u) @ asc ''://'' @ pu_Opaque u" (is "_ = ?x")
    by (auto simp: normalizeProxyURL_def Let_def split: option.splits if_splits)
  then have "pu_Opaque v = []" if "parse ?x = Some v" for v
    using assms(1) that supported_lower unfolding lawful_parser_def by blast
  then show ?thesis
    using assms(2) unfolding n by (auto simp: normalizeProxyURL_def Let_def split: option.split)
qed

lemma cut_item_entry: "61 \<notin> set name \<Longrightarrow> cut_item (name @ asc ''='' @ value) = Some (name, value)"
proof -
  assume "61 \<notin> set name"
  then have "dropWhile (\<lambda>r. r \<noteq> 61) (name @ 61 # value) = 61 # value \<and>
      takeWhile (\<lambda>r. r \<noteq> 61) (name @ 61 # value) = name"
    by (induction name) auto
  then show ?thesis by (simp add: cut_item_def)
qed

lemma environmentMap_snoc:
  "environmentMap (env @ [item]) = (case cut_item item of None \<Rightarrow> environmentMap env
     | Some (name, value) \<Rightarrow> (environmentMap env)(name := strings_TrimSpace value))"
  by (cases "cut_item item") (simp_all add: environmentMap_def split: prod.split)

lemma environmentMap_absent:
  "\<forall>item\<in>set env. \<forall>value. cut_item item \<noteq> Some (name, value) \<Longrightarrow> environmentMap env name = []"
proof (induction env rule: rev_induct)
  case (snoc item env)
  then show ?case by (auto simp: environmentMap_snoc split: option.splits)
qed (simp add: environmentMap_def)

lemma environmentMap_without: "isProxyVariable name \<Longrightarrow> environmentMap (without_proxies env) name = []"
  by (rule environmentMap_absent) (auto simp: without_proxies_def)

lemma environmentMap_pair:
  assumes "61 \<notin> set upper" "61 \<notin> set lower" "environmentMap env upper = []" "environmentMap env lower = []"
  shows "environmentMap (appendProxyPair upper lower value env) =
    (environmentMap env)(upper := strings_TrimSpace value, lower := strings_TrimSpace value)"
proof (cases "value = []")
  case True
  then show ?thesis using assms(3,4) by (simp add: appendProxyPair_def fun_upd_idem)
next
  case False
  have "environmentMap (env @ [upper @ asc ''='' @ value, lower @ asc ''='' @ value]) =
      environmentMap ((env @ [upper @ asc ''='' @ value]) @ [lower @ asc ''='' @ value])" by simp
  then show ?thesis
    using False assms(1,2) unfolding environmentMap_snoc appendProxyPair_def by (simp add: cut_item_entry del: asc_Cons)
qed

text \<open>The values of the eight variables after the settings have been written out.\<close>

lemmas variable_names = proxyVariableNames_def isProxyVariable_def

lemma written_proxies:
  fixes env :: "text list" and c :: proxy_config
  defines "v \<equiv> environmentMap (with_proxies c env)"
  shows "v (asc ''HTTP_PROXY'') = strings_TrimSpace (pc_HTTPProxy c)"
    "v (asc ''HTTPS_PROXY'') = strings_TrimSpace (pc_HTTPSProxy c)"
    "v (asc ''ALL_PROXY'') = strings_TrimSpace (pc_AllProxy c)"
    "v (asc ''NO_PROXY'') = strings_TrimSpace (pc_NoProxy c)"
    "v (asc ''http_proxy'') = strings_TrimSpace (pc_HTTPProxy c)"
    "v (asc ''https_proxy'') = strings_TrimSpace (pc_HTTPSProxy c)"
    "v (asc ''all_proxy'') = strings_TrimSpace (pc_AllProxy c)"
    "v (asc ''no_proxy'') = strings_TrimSpace (pc_NoProxy c)"
proof -
  have none: "environmentMap (without_proxies env) name = []" if "name \<in> set proxyVariableNames" for name
    using environmentMap_without that by (simp add: isProxyVariable_def)
  note none' = none[unfolded proxyVariableNames_def, simplified]
  have "v = (environmentMap (without_proxies env))
      (asc ''HTTP_PROXY'' := strings_TrimSpace (pc_HTTPProxy c), asc ''http_proxy'' := strings_TrimSpace (pc_HTTPProxy c),
       asc ''HTTPS_PROXY'' := strings_TrimSpace (pc_HTTPSProxy c), asc ''https_proxy'' := strings_TrimSpace (pc_HTTPSProxy c),
       asc ''ALL_PROXY'' := strings_TrimSpace (pc_AllProxy c), asc ''all_proxy'' := strings_TrimSpace (pc_AllProxy c),
       asc ''NO_PROXY'' := strings_TrimSpace (pc_NoProxy c), asc ''no_proxy'' := strings_TrimSpace (pc_NoProxy c))"
    by (simp add: v_def with_proxies_def environmentMap_pair none')
  then show "v (asc ''HTTP_PROXY'') = strings_TrimSpace (pc_HTTPProxy c)"
    "v (asc ''HTTPS_PROXY'') = strings_TrimSpace (pc_HTTPSProxy c)"
    "v (asc ''ALL_PROXY'') = strings_TrimSpace (pc_AllProxy c)"
    "v (asc ''NO_PROXY'') = strings_TrimSpace (pc_NoProxy c)"
    "v (asc ''http_proxy'') = strings_TrimSpace (pc_HTTPProxy c)"
    "v (asc ''https_proxy'') = strings_TrimSpace (pc_HTTPSProxy c)"
    "v (asc ''all_proxy'') = strings_TrimSpace (pc_AllProxy c)"
    "v (asc ''no_proxy'') = strings_TrimSpace (pc_NoProxy c)"
    by simp_all
qed

lemma without_pair:
  assumes "61 \<notin> set upper" "61 \<notin> set lower" "isProxyVariable upper" "isProxyVariable lower"
  shows "without_proxies (appendProxyPair upper lower value es) = without_proxies es"
  using assms by (simp add: appendProxyPair_def without_proxies_def cut_item_entry del: asc_Cons)

lemma proxy_names:
  "isProxyVariable (asc ''HTTP_PROXY'')" "isProxyVariable (asc ''HTTPS_PROXY'')" "isProxyVariable (asc ''ALL_PROXY'')"
  "isProxyVariable (asc ''NO_PROXY'')" "isProxyVariable (asc ''http_proxy'')" "isProxyVariable (asc ''https_proxy'')"
  "isProxyVariable (asc ''all_proxy'')" "isProxyVariable (asc ''no_proxy'')"
  "61 \<notin> set (asc ''HTTP_PROXY'')" "61 \<notin> set (asc ''HTTPS_PROXY'')" "61 \<notin> set (asc ''ALL_PROXY'')"
  "61 \<notin> set (asc ''NO_PROXY'')" "61 \<notin> set (asc ''http_proxy'')" "61 \<notin> set (asc ''https_proxy'')"
  "61 \<notin> set (asc ''all_proxy'')" "61 \<notin> set (asc ''no_proxy'')"
  by (simp_all add: variable_names)

lemma without_with_proxies: "without_proxies (with_proxies c env) = without_proxies env"
proof -
  have "without_proxies (without_proxies env) = without_proxies env" by (simp add: without_proxies_def)
  then show ?thesis by (simp add: with_proxies_def without_pair proxy_names del: asc_Cons)
qed

lemma firstNonEmpty_trimmed:
  "\<forall>v\<in>set vs. strings_TrimSpace v = v \<Longrightarrow> strings_TrimSpace (firstNonEmpty vs) = firstNonEmpty vs"
  by (induction vs) auto

lemma environmentMap_trimmed: "strings_TrimSpace (environmentMap env name) = environmentMap env name"
proof (induction env rule: rev_induct)
  case (snoc item env)
  then show ?case by (auto simp: environmentMap_snoc split: option.split)
qed (simp add: environmentMap_def)

lemma fill_stable:
  "fill_proxies (pc_HTTPProxy (fill_proxies h t a n)) (pc_HTTPSProxy (fill_proxies h t a n))
     (pc_AllProxy (fill_proxies h t a n)) n = fill_proxies h t a n"
  by (simp add: fill_proxies_def Let_def)

lemma fill_values:
  "pc_HTTPProxy (fill_proxies h t a n) \<in> {h, t, a, []}" "pc_HTTPSProxy (fill_proxies h t a n) \<in> {h, t, a, []}"
  "pc_AllProxy (fill_proxies h t a n) \<in> {h, t, a, []}" "pc_NoProxy (fill_proxies h t a n) = n"
  by (simp_all add: fill_proxies_def Let_def)



lemma fill_keeps:
  assumes "strings_TrimSpace (pc_HTTPProxy (fill_proxies h t a n)) = pc_HTTPProxy (fill_proxies h t a n)"
    "strings_TrimSpace (pc_HTTPSProxy (fill_proxies h t a n)) = pc_HTTPSProxy (fill_proxies h t a n)"
    "strings_TrimSpace (pc_AllProxy (fill_proxies h t a n)) = pc_AllProxy (fill_proxies h t a n)"
  shows "strings_TrimSpace h = h \<and> strings_TrimSpace t = t \<and> strings_TrimSpace a = a"
  using assms by (auto simp: fill_proxies_def Let_def split: if_splits)

text \<open>A setting can only end in a blank when its URL has one before a question mark or a hash sign.\<close>

definition clean_settings :: "proxy_config \<Rightarrow> bool" where
  "clean_settings c \<longleftrightarrow> list_all (\<lambda>s. strings_TrimSpace s = s) [pc_HTTPProxy c, pc_HTTPSProxy c, pc_AllProxy c]"

lemma FromEnvironment_stable:
  assumes "lawful_parser parse" "clean_settings (FromEnvironment parse env)"
  shows "FromEnvironment parse (with_proxies (FromEnvironment parse env) env') = FromEnvironment parse env"
proof -
  obtain h t a n where n: "strings_TrimSpace n = n"
    and c: "FromEnvironment parse env = fill_proxies (normalizeProxyURL parse h) (normalizeProxyURL parse t)
      (normalizeProxyURL parse a) n" (is "_ = ?c")
  proof
    let ?n = "firstNonEmpty [environmentMap env (asc ''NO_PROXY''), environmentMap env (asc ''no_proxy'')]"
    show "strings_TrimSpace ?n = ?n"
      by (rule firstNonEmpty_trimmed) (simp add: environmentMap_trimmed del: asc_Cons)
  qed (simp only: FromEnvironment_def Let_def)
  have "strings_TrimSpace (normalizeProxyURL parse x) = normalizeProxyURL parse x" if "x \<in> {h, t, a}" for x
    using assms(2) fill_keeps[of "normalizeProxyURL parse h" "normalizeProxyURL parse t" "normalizeProxyURL parse a" n] that
    unfolding c by (auto simp: clean_settings_def)
  then have norm: "\<forall>x\<in>{normalizeProxyURL parse h, normalizeProxyURL parse t, normalizeProxyURL parse a, []}.
      normalizeProxyURL parse x = x \<and> strings_TrimSpace x = x"
    using normalizeProxyURL_stable[OF assms(1)] by (auto simp: normalizeProxyURL_def[of parse "[]"])
  have pick: "firstNonEmpty [x, x] = x" for x by simp
  show ?thesis
    unfolding FromEnvironment_def[of parse "with_proxies _ _"] Let_def written_proxies pick c
    using norm n fill_values[of "normalizeProxyURL parse h" "normalizeProxyURL parse t" "normalizeProxyURL parse a" n]
      fill_stable[of "normalizeProxyURL parse h" "normalizeProxyURL parse t" "normalizeProxyURL parse a" n] by metis
qed

text \<open>
  A setting without a host, such as \<open>proxy:8080\<close>, is neither rejected nor used: \<open>parseProxyURL\<close> returns
  no URL and no error for it.
\<close>

lemma hostless_proxy_ignored:
  assumes "parse raw = Some u" "pu_Host u = []" "\<not> supported_scheme (pu_Scheme u)"
    "strings_TrimSpace raw = raw" "raw \<noteq> []"
  shows "\<exists>c. Resolve parse [asc ''HTTP_PROXY='' @ raw] = Some c \<and> proxies_Enabled c \<and>
    proxyURL parse bypassed c scheme host = Direct"
proof -
  have item: "[asc ''HTTP_PROXY='' @ raw] = [] @ [asc ''HTTP_PROXY'' @ asc ''='' @ raw]" by simp
  have "environmentMap [asc ''HTTP_PROXY='' @ raw] = (\<lambda>_. [])(asc ''HTTP_PROXY'' := raw)"
    unfolding item environmentMap_snoc using assms(4)
    by (simp add: cut_item_entry proxy_names environmentMap_def del: asc_Cons)
  moreover have norm: "normalizeProxyURL parse raw = raw" "normalizeProxyURL parse [] = []"
    using assms by (simp_all add: normalizeProxyURL_def Let_def)
  ultimately have c: "FromEnvironment parse [asc ''HTTP_PROXY='' @ raw] =
      \<lparr>pc_HTTPProxy = raw, pc_HTTPSProxy = raw, pc_AllProxy = raw, pc_NoProxy = []\<rparr>" (is "_ = ?c")
    using assms(5) by (simp add: FromEnvironment_def Let_def fill_proxies_def)
  have nil: "parseProxyURL parse raw = ProxyNilURL"
    using assms by (simp add: parseProxyURL_def norm Let_def)
  then have "Resolve parse [asc ''HTTP_PROXY='' @ raw] = Some ?c"
    unfolding Resolve_def c by (simp add: rejected_setting_def)
  moreover have "proxyURL parse bypassed ?c scheme host = Direct"
    using nil by (auto simp: proxyURL_def proxyForScheme_def Let_def)
  ultimately show ?thesis using assms(5) by (auto simp: proxies_Enabled_def)
qed

section \<open>Properties\<close>

text \<open>
  C37: the environment for child processes says what the bot itself uses. Normalising keeps every other
  variable, in order; reading the normalised environment gives the same settings again; and
  normalising twice is normalising once, for settings without a blank at either end.
\<close>

theorem normalized_environment_agrees:
  assumes "lawful_parser parse" "clean_settings (FromEnvironment parse env)"
  shows "FromEnvironment parse (Normalize parse env) = FromEnvironment parse env \<and>
    without_proxies (Normalize parse env) = without_proxies env \<and>
    Normalize parse (Normalize parse env) = Normalize parse env"
proof -
  have 1: "FromEnvironment parse (Normalize parse env) = FromEnvironment parse env"
    unfolding Normalize_def by (rule FromEnvironment_stable[OF assms])
  moreover have 2: "without_proxies (Normalize parse env) = without_proxies env"
    unfolding Normalize_def by (rule without_with_proxies)
  moreover have "Normalize parse (Normalize parse env) = with_proxies (FromEnvironment parse env) (Normalize parse env)"
    unfolding Normalize_def[of parse "Normalize parse env"] 1 ..
  moreover have "with_proxies c (Normalize parse env) = with_proxies c env" for c
    unfolding with_proxies_def 2 ..
  ultimately show ?thesis by (simp add: Normalize_def)
qed

definition plain_parser :: url_parser where
  "plain_parser raw = Some \<lparr>pu_Scheme = asc ''http'', pu_Opaque = [], pu_Host = raw\<rparr>"

theorem normalized_environment_agrees_witness:
  "FromEnvironment plain_parser (Normalize plain_parser [asc ''A=b'', asc ''http_proxy=p'']) =
   FromEnvironment plain_parser [asc ''A=b'', asc ''http_proxy=p'']"
proof -
  have law: "lawful_parser plain_parser" by (simp add: lawful_parser_def plain_parser_def)
  have "normalizeProxyURL plain_parser raw = strings_TrimSpace raw" for raw
    by (simp add: normalizeProxyURL_def plain_parser_def Let_def)
  then have "clean_settings (FromEnvironment plain_parser env)" for env
    by (simp add: clean_settings_def FromEnvironment_def Let_def fill_proxies_def del: asc_Cons)
  from normalized_environment_agrees[OF law this] show ?thesis by blast
qed



end
