(* ===== verification/Utf8.thy ===== *)
theory Utf8
  imports Sanitize "HOL-Library.Sublist"
begin

text \<open>
  Bytes and code points: Go's decoding of a byte sequence into runes (\<open>[]rune(s)\<close>, \<open>range s\<close>), which reads
  a byte that is not part of a valid encoding as U+FFFD.
\<close>

definition cont_byte :: "nat \<Rightarrow> bool" where
  "cont_byte b \<longleftrightarrow> 128 \<le> b \<and> b \<le> 191"

text \<open>Sequences of two, three and four bytes, with the first one given; a wrong one is one byte long.\<close>

definition decode2 :: "nat \<Rightarrow> nat list \<Rightarrow> rune \<times> nat" where
  "decode2 b0 rest =
     (case rest of
        b1 # _ \<Rightarrow> if cont_byte b1 then ((b0 - 192) * 64 + (b1 - 128), 2) else (65533, 1)
      | _ \<Rightarrow> (65533, 1))"

definition decode3 :: "nat \<Rightarrow> nat list \<Rightarrow> rune \<times> nat" where
  "decode3 b0 rest =
     (case rest of
        b1 # b2 # _ \<Rightarrow>
          if cont_byte b1 \<and> (b0 = 224 \<longrightarrow> 160 \<le> b1) \<and> (b0 = 237 \<longrightarrow> b1 \<le> 159) \<and> cont_byte b2
          then ((b0 - 224) * 4096 + (b1 - 128) * 64 + (b2 - 128), 3) else (65533, 1)
      | _ \<Rightarrow> (65533, 1))"

definition decode4 :: "nat \<Rightarrow> nat list \<Rightarrow> rune \<times> nat" where
  "decode4 b0 rest =
     (case rest of
        b1 # b2 # b3 # _ \<Rightarrow>
          if cont_byte b1 \<and> (b0 = 240 \<longrightarrow> 144 \<le> b1) \<and> (b0 = 244 \<longrightarrow> b1 \<le> 143) \<and> cont_byte b2 \<and> cont_byte b3
          then ((b0 - 240) * 262144 + (b1 - 128) * 4096 + (b2 - 128) * 64 + (b3 - 128), 4)
          else (65533, 1)
      | _ \<Rightarrow> (65533, 1))"

text \<open>\<open>utf8.DecodeRune\<close>: the code point and the number of bytes it takes.\<close>

definition decode_rune :: "nat list \<Rightarrow> rune \<times> nat" where
  "decode_rune bs =
     (case bs of
        [] \<Rightarrow> (65533, 0)
      | b0 # rest \<Rightarrow>
          if b0 < 128 then (b0, 1)
          else if 194 \<le> b0 \<and> b0 \<le> 223 then decode2 b0 rest
          else if 224 \<le> b0 \<and> b0 \<le> 239 then decode3 b0 rest
          else if 240 \<le> b0 \<and> b0 \<le> 244 then decode4 b0 rest
          else (65533, 1))"

lemma decode_rune_width: "bs \<noteq> [] \<Longrightarrow> 0 < snd (decode_rune bs)"
  by (auto simp: decode_rune_def decode2_def decode3_def decode4_def split: list.splits)

function go_runes :: "nat list \<Rightarrow> text" where
  "go_runes bs = (if bs = [] then [] else fst (decode_rune bs) # go_runes (drop (snd (decode_rune bs)) bs))"
  by pat_completeness auto
termination
  by (relation "measure length") (auto simp: decode_rune_width)

declare go_runes.simps [simp del]

lemma go_runes_Nil [simp]: "go_runes [] = []"
  by (simp add: go_runes.simps)

definition valid_rune :: "rune \<Rightarrow> bool" where
  "valid_rune r \<longleftrightarrow> r < 55296 \<or> 57344 \<le> r \<and> r \<le> 1114111"

definition utf8_bytes :: "text \<Rightarrow> nat list" where
  "utf8_bytes t = concat (map utf8 t)"

text \<open>The digits of an encoding in base 64.\<close>

lemma two_bytes:
  fixes x y :: nat
  assumes "y < 64"
  shows "(x * 64 + y) div 64 = x" "(x * 64 + y) mod 64 = y"
  using assms by simp_all

lemma three_bytes:
  fixes x y z :: nat
  assumes "y < 64" "z < 64"
  shows "(x * 4096 + y * 64 + z) div 4096 = x" "(x * 4096 + y * 64 + z) div 64 mod 64 = y"
    "(x * 4096 + y * 64 + z) mod 64 = z"
proof -
  have e: "x * 4096 + y * 64 + z = (x * 64 + y) * 64 + z" by simp
  have d: "n div 4096 = n div 64 div 64" for n :: nat by (simp add: div_mult2_eq[symmetric])
  show "(x * 4096 + y * 64 + z) div 4096 = x" "(x * 4096 + y * 64 + z) div 64 mod 64 = y"
    "(x * 4096 + y * 64 + z) mod 64 = z"
    unfolding e d by (simp_all only: two_bytes[OF assms(2)] two_bytes[OF assms(1)])
qed

lemma four_bytes:
  fixes w x y z :: nat
  assumes "x < 64" "y < 64" "z < 64"
  shows "(w * 262144 + x * 4096 + y * 64 + z) div 262144 = w"
    "(w * 262144 + x * 4096 + y * 64 + z) div 4096 mod 64 = x"
    "(w * 262144 + x * 4096 + y * 64 + z) div 64 mod 64 = y" "(w * 262144 + x * 4096 + y * 64 + z) mod 64 = z"
proof -
  have e: "w * 262144 + x * 4096 + y * 64 + z = ((w * 64 + x) * 64 + y) * 64 + z" by simp
  have d: "n div 262144 = n div 64 div 64 div 64" "n div 4096 = n div 64 div 64" for n :: nat
    by (simp_all add: div_mult2_eq[symmetric])
  show "(w * 262144 + x * 4096 + y * 64 + z) div 262144 = w"
    "(w * 262144 + x * 4096 + y * 64 + z) div 4096 mod 64 = x"
    "(w * 262144 + x * 4096 + y * 64 + z) div 64 mod 64 = y" "(w * 262144 + x * 4096 + y * 64 + z) mod 64 = z"
    unfolding e d by (simp_all only: two_bytes[OF assms(3)] two_bytes[OF assms(2)] two_bytes[OF assms(1)])
qed

text \<open>A decoded code point comes from its encoding.\<close>

lemma decode2_bytes:
  assumes "194 \<le> b0" "b0 \<le> 223" "decode2 b0 rest = (r, n)" "r \<noteq> 65533"
  shows "take n (b0 # rest) = utf8 r"
proof -
  obtain b1 more where b: "rest = b1 # more" "cont_byte b1" "r = (b0 - 192) * 64 + (b1 - 128)" "n = 2"
    using assms(3,4) by (auto simp: decode2_def split: list.splits if_splits)
  obtain x y where xy: "b0 = 192 + x" "b1 = 128 + y" "2 \<le> x" "x < 32" "y < 64"
    using assms(1,2) b(2) by (auto simp: cont_byte_def dest!: le_Suc_ex)
  then have "r = x * 64 + y" using b(3) by simp
  then show ?thesis using b xy two_bytes[of y x] by (simp add: utf8_def)
qed

lemma decode3_bytes:
  assumes "224 \<le> b0" "b0 \<le> 239" "decode3 b0 rest = (r, n)" "r \<noteq> 65533"
  shows "take n (b0 # rest) = utf8 r"
proof -
  obtain b1 b2 more where b: "rest = b1 # b2 # more" "cont_byte b1" "cont_byte b2" "b0 = 224 \<longrightarrow> 160 \<le> b1"
      "r = (b0 - 224) * 4096 + (b1 - 128) * 64 + (b2 - 128)" "n = 3"
    using assms(3,4) by (auto simp: decode3_def split: list.splits if_splits)
  obtain x y z where xy: "b0 = 224 + x" "b1 = 128 + y" "b2 = 128 + z" "x < 16" "y < 64" "z < 64"
    using assms(1,2) b(2,3) by (auto simp: cont_byte_def dest!: le_Suc_ex)
  then have r: "r = x * 4096 + y * 64 + z" "x = 0 \<longrightarrow> 32 \<le> y" using b(4,5) by auto
  then have "2048 \<le> r" "r < 65536" using xy by (cases "x = 0"; simp)+
  then show ?thesis using b xy r(1) three_bytes[of y z x] by (simp add: utf8_def)
qed

lemma decode4_bytes:
  assumes "240 \<le> b0" "b0 \<le> 244" "decode4 b0 rest = (r, n)" "r \<noteq> 65533"
  shows "take n (b0 # rest) = utf8 r"
proof -
  obtain b1 b2 b3 more where b: "rest = b1 # b2 # b3 # more" "cont_byte b1" "cont_byte b2" "cont_byte b3"
      "b0 = 240 \<longrightarrow> 144 \<le> b1" "r = (b0 - 240) * 262144 + (b1 - 128) * 4096 + (b2 - 128) * 64 + (b3 - 128)" "n = 4"
    using assms(3,4) by (auto simp: decode4_def split: list.splits if_splits)
  obtain w x y z where xy: "b0 = 240 + w" "b1 = 128 + x" "b2 = 128 + y" "b3 = 128 + z" "x < 64" "y < 64" "z < 64"
    using assms(1) b(2-4) by (auto simp: cont_byte_def dest!: le_Suc_ex)
  then have r: "r = w * 262144 + x * 4096 + y * 64 + z" "w = 0 \<longrightarrow> 16 \<le> x" using b(5,6) by auto
  then have "65536 \<le> r" by (cases "w = 0"; simp)
  then show ?thesis using b xy r(1) four_bytes[of x y z w] by (simp add: utf8_def)
qed

lemma decode_rune_bytes:
  assumes "decode_rune bs = (r, n)" "r \<noteq> 65533"
  shows "take n bs = utf8 r"
  using assms decode2_bytes decode3_bytes decode4_bytes
  by (cases bs) (auto simp: decode_rune_def utf8_def[of r] split: if_splits)

text \<open>An encoding decodes to its code point.\<close>

lemma div_split: "(n :: nat) div 64 = n div 4096 * 64 + n div 64 mod 64" "n = n div 64 * 64 + n mod 64"
proof -
  have "n div 4096 = n div 64 div 64" by (simp add: div_mult2_eq[symmetric])
  then show "n div 64 = n div 4096 * 64 + n div 64 mod 64" by (metis div_mult_mod_eq)
qed simp

lemma decode_utf8_3:
  assumes "2048 \<le> r" "r < 65536" "valid_rune r"
  shows "decode_rune (utf8 r @ rest) = (r, 3)"
proof -
  define x y z where d: "x = r div 4096" "y = r div 64 mod 64" "z = r mod 64"
  have r: "r = x * 4096 + y * 64 + z" unfolding d using div_split[of r] by linarith
  have b: "y < 64" "z < 64" by (simp_all add: d)
  have x: "x < 16" using assms(2) r by simp
  have low: "x = 0 \<Longrightarrow> 32 \<le> y" using assms(1) r b by simp
  have high: "x = 13 \<Longrightarrow> y \<le> 31" using assms(3) r b by (auto simp: valid_rune_def)
  have "utf8 r @ rest = (224 + x) # (128 + y) # (128 + z) # rest" using assms(1,2) by (simp add: utf8_def d)
  then show ?thesis using x b low high r by (auto simp: decode_rune_def decode3_def cont_byte_def)
qed

lemma decode_utf8_4:
  assumes "65536 \<le> r" "valid_rune r"
  shows "decode_rune (utf8 r @ rest) = (r, 4)"
proof -
  define w x y z where d: "w = r div 262144" "x = r div 4096 mod 64" "y = r div 64 mod 64" "z = r mod 64"
  have q: "r div 262144 = r div 64 div 4096" "r div 4096 = r div 64 div 64" by (simp_all add: div_mult2_eq[symmetric])
  have "r div 64 = w * 4096 + x * 64 + y"
    unfolding d q using div_split[of "r div 64"] by linarith
  then have r: "r = w * 262144 + x * 4096 + y * 64 + z" using div_split(2)[of r] d(4) by linarith
  have b: "x < 64" "y < 64" "z < 64" by (simp_all add: d)
  have "r \<le> 1114111" using assms by (auto simp: valid_rune_def)
  then have w: "w \<le> 4" "w = 4 \<Longrightarrow> x \<le> 15" using r by auto
  have low: "w = 0 \<Longrightarrow> 16 \<le> x" using assms(1) r b by simp
  have "utf8 r @ rest = (240 + w) # (128 + x) # (128 + y) # (128 + z) # rest" using assms(1) by (simp add: utf8_def d)
  then show ?thesis using w b low r by (auto simp: decode_rune_def decode4_def cont_byte_def)
qed

lemma decode_utf8:
  assumes "valid_rune r"
  shows "decode_rune (utf8 r @ rest) = (r, length (utf8 r))"
proof -
  consider "r < 128" | "128 \<le> r" "r < 2048" | "2048 \<le> r" "r < 65536" | "65536 \<le> r" by linarith
  then show ?thesis
  proof cases
    case 2
    define x y where d: "x = r div 64" "y = r mod 64"
    have r: "r = x * 64 + y" "y < 64" using div_split(2)[of r] by (simp_all add: d)
    then have "2 \<le> x" "x < 32" using 2 by simp_all
    moreover have "utf8 r = [192 + x, 128 + y]" using 2 by (simp add: utf8_def d)
    ultimately show ?thesis using r by (simp add: decode_rune_def decode2_def cont_byte_def)
  qed (use assms decode_utf8_3 decode_utf8_4 in \<open>auto simp: decode_rune_def utf8_def\<close>)
qed

lemma go_runes_utf8:
  assumes "valid_rune r"
  shows "go_runes (utf8 r @ rest) = r # go_runes rest"
proof -
  have "utf8 r \<noteq> []" by (simp add: utf8_def)
  then show ?thesis by (subst go_runes.simps) (simp add: decode_utf8[OF assms])
qed

lemma go_runes_utf8_bytes: "list_all valid_rune t \<Longrightarrow> go_runes (utf8_bytes t) = t"
  by (induction t) (simp_all add: utf8_bytes_def go_runes_utf8)

lemma prefix_runes:
  assumes "prefix k (go_runes bs)" "65533 \<notin> set k"
  shows "prefix (utf8_bytes k) bs"
  using assms
proof (induction k arbitrary: bs)
  case (Cons r k)
  then have bs: "bs \<noteq> []" by auto
  then have "prefix (r # k) (fst (decode_rune bs) # go_runes (drop (snd (decode_rune bs)) bs))"
    using Cons.prems(1) by (subst (asm) go_runes.simps) simp
  then have r: "fst (decode_rune bs) = r" and k: "prefix k (go_runes (drop (snd (decode_rune bs)) bs))" by auto
  have "take (snd (decode_rune bs)) bs = utf8 r"
    using decode_rune_bytes[of bs r "snd (decode_rune bs)"] r Cons.prems(2) by (simp add: prod_eq_iff)
  then have "bs = utf8 r @ drop (snd (decode_rune bs)) bs" by (metis append_take_drop_id)
  moreover have "prefix (utf8_bytes k) (drop (snd (decode_rune bs)) bs)" using Cons.IH[OF k] Cons.prems(2) by simp
  ultimately show ?case by (metis concat.simps(2) list.simps(9) same_prefix_prefix utf8_bytes_def)
qed (simp add: utf8_bytes_def)

text \<open>A text found among the decoded code points has its encoding among the bytes.\<close>

lemma sublist_runes:
  assumes "sublist k (go_runes bs)" "65533 \<notin> set k"
  shows "sublist (utf8_bytes k) bs"
  using assms(1)
proof (induction bs rule: go_runes.induct)
  case (1 bs)
  show ?case
  proof (cases "bs = []")
    case True
    then show ?thesis using "1.prems" by (simp add: utf8_bytes_def)
  next
    case False
    then have "go_runes bs = fst (decode_rune bs) # go_runes (drop (snd (decode_rune bs)) bs)"
      by (subst go_runes.simps) simp
    then consider "prefix k (go_runes bs)" | "sublist k (go_runes (drop (snd (decode_rune bs)) bs))"
      using "1.prems" by (metis sublist_Cons_right)
    then show ?thesis
    proof cases
      case 1
      then show ?thesis using prefix_runes[OF _ assms(2)] by (simp add: prefix_imp_sublist)
    next
      case 2
      then have "sublist (utf8_bytes k) (drop (snd (decode_rune bs)) bs)" using "1.IH" False by blast
      then show ?thesis by (rule sublist_order.order_trans) simp
    qed
  qed
qed

end
