(* ===== verification/Codex_Runner.thy ===== *)
theory Codex_Runner
  imports Proxyenv Utf8 Redaction Scheduler
begin

text \<open>
  The Codex runner (\<open>internal/codex/runner.go\<close>, \<open>internal/codex/process.go\<close>): how the command line, the
  environment and the input of a Codex process are made, what is kept of its output, and how its
  end becomes the result the job manager works with. What the operating system answers is a record
  of environment inputs.
\<close>

section \<open>Settings\<close>

definition apiKeyEnvName :: "text" where "apiKeyEnvName = asc ''CODEX_QUEUE_TARGET_API_KEY''"
definition maxOutputLen :: nat where "maxOutputLen = 64 * 1024"
definition maxDiagnosticLen :: nat where "maxDiagnosticLen = 4096"
definition ExitCodeUnavailable :: int where "ExitCodeUnavailable = - 1"

record runner =
  ru_Binary :: "text"
  ru_PromptsFile :: "text"
  ru_Prompts :: "text list"
  ru_PromptsPersisted :: bool
  ru_Timeout :: duration
  ru_ReasoningEffort :: "text"
  ru_Overrides :: "text list"
  ru_Proxy :: "proxy_config option"

definition UpdateRuntime :: "duration \<Rightarrow> text \<Rightarrow> text list \<Rightarrow> runner \<Rightarrow> runner" where
  "UpdateRuntime timeout reasoningEffort overrides r =
     r\<lparr>ru_Timeout := timeout, ru_ReasoningEffort := reasoningEffort, ru_Overrides := overrides\<rparr>"

definition UpdatePaths :: "text \<Rightarrow> text \<Rightarrow> text list \<Rightarrow> bool option \<Rightarrow> runner \<Rightarrow> runner" where
  "UpdatePaths binary promptsFile prompts promptsPersisted r =
     (let b = strings_TrimSpace binary; f = strings_TrimSpace promptsFile in
      r\<lparr>ru_Binary := if b = [] then ru_Binary r else b,
        ru_PromptsFile := if f = [] then ru_PromptsFile r else f,
        ru_Prompts := prompts,
        ru_PromptsPersisted := promptsPersisted = None \<or> promptsPersisted = Some True\<rparr>)"

section \<open>Prompts\<close>

datatype runner_error =
    PromptsUnreadable "text"
  | PromptLineTooLong
  | NoUsablePrompts
  | PromptListEmpty
  | PromptListHasEmpty
  | BinaryNotFound "text"

text \<open>
  \<open>bufio.ScanLines\<close>: the lines without their line feed, and then without one carriage return at their end.
\<close>

definition dropCR :: "text \<Rightarrow> text" where
  "dropCR l = (if l \<noteq> [] \<and> last l = 13 then butlast l else l)"

function go_lines :: "text \<Rightarrow> text list" where
  "go_lines s = (if s = [] then [] else
     takeWhile (\<lambda>r. r \<noteq> 10) s # go_lines (drop 1 (dropWhile (\<lambda>r. r \<noteq> 10) s)))"
  by pat_completeness auto
termination
proof (relation "measure length")
  fix s :: "text" assume "s \<noteq> []"
  then have "0 < length s" by simp
  then have "length (drop 1 (dropWhile (\<lambda>r. r \<noteq> 10) s)) < length s"
    unfolding length_drop using length_dropWhile_le[of "\<lambda>r. r \<noteq> 10" s] by linarith
  then show "(drop 1 (dropWhile (\<lambda>r. r \<noteq> 10) s), s) \<in> measure length" by simp
qed simp

text \<open>A line of 64 KiB and more ends the scanner with an error.\<close>

definition readPrompts :: "text + text \<Rightarrow> runner_error + text list" where
  "readPrompts file =
     (case file of
        Inl e \<Rightarrow> Inl (PromptsUnreadable e)
      | Inr content \<Rightarrow>
          let lines = go_lines content;
              usable = filter (\<lambda>l. let t = strings_TrimSpace l in t \<noteq> [] \<and> hd t \<noteq> 35) (map (dropCR \<circ> dropCR) lines) in
          if list_ex (\<lambda>l. length (utf8_bytes l) \<ge> 65536) lines then Inl PromptLineTooLong
          else if usable = [] then Inl NoUsablePrompts else Inr usable)"

text \<open>\<open>pickPromptFromSettings\<close>; \<open>draw\<close> is the random number.\<close>

definition pickPromptFromSettings :: "(text \<Rightarrow> text + text) \<Rightarrow> nat \<Rightarrow> runner \<Rightarrow> runner_error + text" where
  "pickPromptFromSettings files draw r =
     (if ru_PromptsPersisted r then
        (if ru_Prompts r = [] then Inl PromptListEmpty
         else Inr (ru_Prompts r ! (draw mod length (ru_Prompts r))))
      else case readPrompts (files (ru_PromptsFile r)) of
        Inl e \<Rightarrow> Inl e | Inr ps \<Rightarrow> Inr (ps ! (draw mod length ps)))"

text \<open>\<open>Check\<close>; \<open>resolved\<close> is the absolute path of the executable, if it is found.\<close>

definition Check_runner :: "(text \<Rightarrow> text + text) \<Rightarrow> (text \<Rightarrow> text option) \<Rightarrow> runner \<Rightarrow> runner_error option \<times> runner" where
  "Check_runner files resolved r =
     (case resolved (ru_Binary r) of
        None \<Rightarrow> (Some (BinaryNotFound (ru_Binary r)), r)
      | Some path \<Rightarrow>
          (if \<not> ru_PromptsPersisted r
           then (case readPrompts (files (ru_PromptsFile r)) of Inl e \<Rightarrow> Some e | Inr ps \<Rightarrow> None)
           else first_error
             [fail_if (ru_Prompts r = []) PromptListEmpty,
              fail_if (list_ex (\<lambda>p. strings_TrimSpace p = []) (ru_Prompts r)) PromptListHasEmpty],
           r\<lparr>ru_Binary := path\<rparr>))"

section \<open>The command\<close>

text \<open>\<open>strconv.Quote\<close>; \<open>is_print\<close> is \<open>unicode.IsPrint\<close> beyond ASCII.\<close>

definition hex_low :: "nat \<Rightarrow> rune" where
  "hex_low n = (if n < 10 then 48 + n else 87 + n)"

fun hex_digits :: "nat \<Rightarrow> nat \<Rightarrow> text" where
  "hex_digits 0 n = []"
| "hex_digits (Suc k) n = hex_digits k (n div 16) @ [hex_low (n mod 16)]"

definition quote_rune :: "(rune \<Rightarrow> bool) \<Rightarrow> rune \<Rightarrow> text" where
  "quote_rune is_print r =
     (if r = 34 \<or> r = 92 then [92, r]
      else if 32 \<le> r \<and> r < 127 \<or> 128 \<le> r \<and> is_print r then [r]
      else if r = 7 then asc [CHR 92, CHR ''a''] else if r = 8 then asc [CHR 92, CHR ''b'']
      else if r = 12 then asc [CHR 92, CHR ''f''] else if r = 10 then asc [CHR 92, CHR ''n'']
      else if r = 13 then asc [CHR 92, CHR ''r''] else if r = 9 then asc [CHR 92, CHR ''t'']
      else if r = 11 then asc [CHR 92, CHR ''v'']
      else if r < 32 \<or> r = 127 then [92, 120] @ hex_digits 2 r
      else if r < 65536 then [92, 117] @ hex_digits 4 r
      else [92, 85] @ hex_digits 8 r)"

definition strconv_Quote :: "(rune \<Rightarrow> bool) \<Rightarrow> text \<Rightarrow> text" where
  "strconv_Quote is_print t = [34] @ concat (map (quote_rune is_print) t) @ [34]"

definition tomlAssignment :: "(rune \<Rightarrow> bool) \<Rightarrow> text \<Rightarrow> text \<Rightarrow> text" where
  "tomlAssignment is_print key value = key @ asc ''='' @ strconv_Quote is_print value"

definition provider_key :: "string \<Rightarrow> text" where
  "provider_key field = asc ''model_providers.queue_proxy.'' @ asc field"

definition config_flags :: "text list \<Rightarrow> text list" where
  "config_flags overrides = concat (map (\<lambda>v. [asc ''-c'', v]) overrides)"

definition shell_policy :: "text" where
  "shell_policy = asc ''shell_environment_policy.inherit='' @ [34] @ asc ''none'' @ [34]"

definition argsWithSettings :: "(rune \<Rightarrow> bool) \<Rightarrow> runner \<Rightarrow> config_target \<Rightarrow> text \<Rightarrow> text \<Rightarrow> text \<Rightarrow> text list" where
  "argsWithSettings is_print r t workspace responsePath prompt =
     map asc [''exec'', ''--ignore-user-config'', ''--ephemeral'', ''--skip-git-repo-check'',
       ''--ignore-rules'', ''--sandbox'', ''read-only'', ''--color'', ''never''] @
     [asc ''-C'', workspace, asc ''-m'', t_Model t] @
     config_flags
       [tomlAssignment is_print (asc ''model_provider'') (asc ''queue_proxy''),
        tomlAssignment is_print (provider_key ''name'') (t_Name t),
        tomlAssignment is_print (provider_key ''base_url'') (t_APIBaseURL t),
        tomlAssignment is_print (provider_key ''env_key'') apiKeyEnvName,
        tomlAssignment is_print (provider_key ''wire_api'') (t_WireAPI t),
        provider_key ''requires_openai_auth=false'',
        tomlAssignment is_print (asc ''model_reasoning_effort'') (ru_ReasoningEffort r),
        asc ''project_doc_max_bytes=0'', asc ''history.persistence='' @ [34] @ asc ''none'' @ [34],
        asc ''features.memories=false'', asc ''features.skills=false'', asc ''features.multi_agent=false'',
        asc ''features.shell_snapshot=false'', asc ''notify=[]'', asc ''disable_response_storage=true''] @
     config_flags (ru_Overrides r) @ config_flags (t_ConfigOverrides t) @ config_flags [shell_policy] @
     [asc ''--output-last-message'', responsePath, prompt]"

section \<open>The environment of the process\<close>

definition allowed_names :: "text list" where
  "allowed_names = map asc
     [''PATH'', ''HOME'', ''USER'', ''LOGNAME'', ''TMPDIR'', ''TMP'', ''TEMP'', ''LANG'', ''LANGUAGE'', ''TZ'',
      ''HTTP_PROXY'', ''HTTPS_PROXY'', ''ALL_PROXY'', ''NO_PROXY'', ''http_proxy'', ''https_proxy'',
      ''all_proxy'', ''no_proxy'', ''SSL_CERT_FILE'', ''SSL_CERT_DIR'', ''REQUESTS_CA_BUNDLE'',
      ''CURL_CA_BUNDLE'', ''NODE_EXTRA_CA_CERTS'']"

definition allowedCodexEnvironmentVariable :: "text \<Rightarrow> bool" where
  "allowedCodexEnvironmentVariable name \<longleftrightarrow> take 3 name = asc ''LC_'' \<or> name \<in> set allowed_names"

definition passed_item :: "text \<Rightarrow> bool" where
  "passed_item item \<longleftrightarrow>
     (case cut_item item of
        None \<Rightarrow> False
      | Some (name, value) \<Rightarrow> name \<noteq> apiKeyEnvName \<and> allowedCodexEnvironmentVariable name)"

text \<open>Both functions of this name: the method applies the runner's proxy settings first.\<close>

definition codexEnvironment :: "url_parser \<Rightarrow> text list \<Rightarrow> text \<Rightarrow> text list" where
  "codexEnvironment parse base apiKey =
     filter passed_item (Normalize parse base) @ [apiKeyEnvName @ asc ''='' @ apiKey]"

definition proxied :: "url_parser \<Rightarrow> runner \<Rightarrow> text list \<Rightarrow> text list" where
  "proxied parse r base =
     (case ru_Proxy r of None \<Rightarrow> base | Some c \<Rightarrow> NormalizeEnvironment parse (Some c) base)"

definition runner_environment :: "url_parser \<Rightarrow> runner \<Rightarrow> text list \<Rightarrow> text \<Rightarrow> text list" where
  "runner_environment parse r base apiKey =
     codexEnvironment parse (proxied parse r base) apiKey"

section \<open>Output\<close>

record tail_buffer =
  tb_data :: "nat list"
  tb_max :: nat

definition newTailBuffer :: "nat \<Rightarrow> tail_buffer" where
  "newTailBuffer maximum = \<lparr>tb_data = [], tb_max = maximum\<rparr>"

definition Write_tail :: "nat list \<Rightarrow> tail_buffer \<Rightarrow> tail_buffer" where
  "Write_tail p b =
     (if tb_max b = 0 then b
      else if length p \<ge> tb_max b then b\<lparr>tb_data := drop (length p - tb_max b) p\<rparr>
      else let overflow = int (length (tb_data b)) + int (length p) - int (tb_max b);
               kept = (if overflow > 0 then drop (nat overflow) (tb_data b) else tb_data b) in
        b\<lparr>tb_data := kept @ p\<rparr>)"

definition cleanDiagnostic :: "text \<Rightarrow> text" where
  "cleanDiagnostic raw =
     (let t = join_with [32] (strings_FieldsFunc unicode_IsSpace (strings_TrimSpace raw)) in
      if length t > maxDiagnosticLen then drop (length t - maxDiagnosticLen) t else t)"

section \<open>Stopping a process\<close>

text \<open>
  \<open>runCommand\<close>: the signals it sends and the error it returns. \<open>ended_first\<close> says that the process ends
  before the context, \<open>ended_in_time\<close> that it ends within the five seconds of grace.
\<close>

datatype signal = Terminate | Kill

definition runCommand :: "text option \<Rightarrow> bool \<Rightarrow> bool \<Rightarrow> text option \<Rightarrow> signal list \<times> text option" where
  "runCommand start_error ended_first ended_in_time wait_error =
     (case start_error of
        Some e \<Rightarrow> ([], Some e)
      | None \<Rightarrow> (if ended_first then [] else if ended_in_time then [Terminate] else [Terminate, Kill], wait_error))"

section \<open>Running\<close>

datatype ctx_end = CtxDeadline | CtxCancelled

text \<open>
  What happens around one process: the temporary directory and file or the error in making them,
  the bot's own environment, what the process writes piece by piece, its exit code if it has one,
  the error in starting it, whether it ends before its context and within the grace, the error of
  waiting for it, the response file, how the context has ended if it has, the time taken.
\<close>

record run_env =
  re_workspace :: "text + text"
  re_responseFile :: "text + text"
  re_environ :: "text list"
  re_writes :: "nat list list"
  re_exit :: "int option"
  re_start :: "text option"
  re_endedFirst :: bool
  re_endedInTime :: bool
  re_wait :: "text option"
  re_response :: "text + nat list"
  re_ctx :: "ctx_end option"
  re_duration :: duration

record codex_command =
  cm_binary :: "text"
  cm_args :: "text list"
  cm_dir :: "text"
  cm_env :: "text list"
  cm_stdin :: "text"

definition failed :: "text \<Rightarrow> duration \<Rightarrow> codex_result" where
  "failed e d = \<lparr>r_Success = False, r_Response = [], r_ProcessOutput = [], r_ExitCode = ExitCodeUnavailable,
     r_Error = e, r_Duration = d\<rparr>"

definition with_diagnostic :: "text \<Rightarrow> text \<Rightarrow> text" where
  "with_diagnostic e diagnostic = (if diagnostic = [] then e else e @ asc '': '' @ diagnostic)"

definition process_output :: "text \<Rightarrow> nat list list \<Rightarrow> text" where
  "process_output apiKey writes =
     strings_TrimSpace (go_runes
       (redact (tb_data (fold Write_tail writes (newTailBuffer maxOutputLen))) [utf8_bytes apiKey]))"

text \<open>The result of a process that was started, or could not be.\<close>

definition process_result :: "runner \<Rightarrow> config_target \<Rightarrow> run_env \<Rightarrow> codex_result" where
  "process_result r t e =
     (let out = process_output (t_APIKey t) (re_writes e); diagnostic = cleanDiagnostic out;
          response = (case re_response e of Inl _ \<Rightarrow> [] | Inr bs \<Rightarrow> strings_TrimSpace (go_runes bs));
          err = (case re_ctx e of
              Some CtxDeadline \<Rightarrow> Some (asc ''request timed out after '' @ duration_String (ru_Timeout r))
            | Some CtxCancelled \<Rightarrow> Some (asc ''request cancelled'')
            | None \<Rightarrow> (case snd (runCommand (re_start e) (re_endedFirst e) (re_endedInTime e) (re_wait e)) of
                Some x \<Rightarrow> Some (with_diagnostic (asc ''codex exit failed: '' @ x) diagnostic)
              | None \<Rightarrow> (case re_response e of
                  Inl x \<Rightarrow> Some (asc ''read Codex response: '' @ x)
                | Inr _ \<Rightarrow>
                    if response = []
                    then Some (with_diagnostic
                      (asc ''Codex exited successfully but returned an empty final response'') diagnostic)
                    else None))) in
      \<lparr>r_Success = (err = None), r_Response = response, r_ProcessOutput = out,
       r_ExitCode = (case re_exit e of None \<Rightarrow> ExitCodeUnavailable | Some c \<Rightarrow> c),
       r_Error = (case err of None \<Rightarrow> [] | Some x \<Rightarrow> x), r_Duration = re_duration e\<rparr>)"

definition runPrompt ::
  "url_parser \<Rightarrow> (rune \<Rightarrow> bool) \<Rightarrow> run_env \<Rightarrow> config_target \<Rightarrow> text \<Rightarrow> runner \<Rightarrow> codex_result \<times> codex_command option" where
  "runPrompt parse is_print e t prompt r =
     (case re_workspace e of
        Inl x \<Rightarrow> (failed (asc ''create temporary workspace: '' @ x) (re_duration e), None)
      | Inr workspace \<Rightarrow> (case re_responseFile e of
          Inl x \<Rightarrow> (failed (asc ''create response file: '' @ x) (re_duration e), None)
        | Inr path \<Rightarrow>
            (process_result r t e,
             Some \<lparr>cm_binary = ru_Binary r, cm_args = argsWithSettings is_print r t workspace path (asc ''-''),
               cm_dir = workspace, cm_env = runner_environment parse r (re_environ e) (t_APIKey t),
               cm_stdin = prompt\<rparr>)))"

definition RunPrompt ::
  "url_parser \<Rightarrow> (rune \<Rightarrow> bool) \<Rightarrow> run_env \<Rightarrow> config_target \<Rightarrow> text \<Rightarrow> runner \<Rightarrow> codex_result \<times> codex_command option" where
  "RunPrompt parse is_print e t prompt r =
     (if strings_TrimSpace prompt = [] then (failed (asc ''prompt must not be empty'') (re_duration e), None)
      else runPrompt parse is_print e t prompt r)"

text \<open>\<open>Run\<close>; \<open>show_error\<close> is \<open>Error()\<close> of a prompt error, \<open>requestID\<close> the new request's identifier.\<close>

definition full_prompt :: "text \<Rightarrow> text \<Rightarrow> nat \<Rightarrow> text" where
  "full_prompt prompt requestID attempt =
     prompt @ [10, 10] @
     asc ''Answer concisely in at most 80 words. Do not inspect local files, run commands, browse, or use tools. Request ID: '' @
     requestID @ asc ''. Attempt: '' @ dec attempt"

definition Run_codex ::
  "url_parser \<Rightarrow> (rune \<Rightarrow> bool) \<Rightarrow> (runner_error \<Rightarrow> text) \<Rightarrow> (text \<Rightarrow> text + text) \<Rightarrow> nat \<Rightarrow> text \<Rightarrow> run_env \<Rightarrow>
   config_target \<Rightarrow> nat \<Rightarrow> runner \<Rightarrow> codex_result \<times> codex_command option" where
  "Run_codex parse is_print show_error files draw requestID e t attempt r =
     (case pickPromptFromSettings files draw r of
        Inl x \<Rightarrow> (failed (show_error x) (re_duration e), None)
      | Inr prompt \<Rightarrow> runPrompt parse is_print e t (full_prompt prompt requestID attempt) r)"

section \<open>The kept output\<close>

text \<open>The specification of the buffer: the last bytes of all that was written.\<close>

definition last_n :: "nat \<Rightarrow> 'a list \<Rightarrow> 'a list" where
  "last_n n xs = drop (length xs - n) xs"

lemma last_n_append: "last_n n (last_n n xs @ ys) = last_n n (xs @ ys)"
  by (cases "n \<le> length xs") (simp_all add: last_n_def add.commute)

lemma Write_tail_data: "length (tb_data b) \<le> tb_max b \<Longrightarrow> tb_data (Write_tail p b) = last_n (tb_max b) (tb_data b @ p)"
  by (auto simp: Write_tail_def last_n_def Let_def nat_diff_distrib nat_int_add)

lemma Write_tail_max [simp]: "tb_max (Write_tail p b) = tb_max b"
  by (simp add: Write_tail_def Let_def)

lemma length_last_n: "length (last_n n xs) \<le> n"
  by (simp add: last_n_def)

lemma tail_writes:
  "length (tb_data b) \<le> tb_max b \<Longrightarrow>
   tb_data (fold Write_tail ws b) = last_n (tb_max b) (tb_data b @ concat ws)"
proof (induction ws arbitrary: b)
  case Nil
  then show ?case by (simp add: last_n_def)
next
  case (Cons w ws)
  have "length (tb_data (Write_tail w b)) \<le> tb_max (Write_tail w b)"
    using Write_tail_data[OF Cons.prems, of w] length_last_n by simp
  from Cons.IH[OF this] show ?case
    using Write_tail_data[OF Cons.prems, of w] last_n_append[of "tb_max b" "tb_data b @ w" "concat ws"] by simp
qed

section \<open>The environment\<close>

lemma pair_items:
  assumes "item \<in> set (appendProxyPair upper lower val es)" "61 \<notin> set upper" "61 \<notin> set lower"
    "isProxyVariable upper" "isProxyVariable lower"
  shows "item \<in> set es \<or> (\<exists>name value. cut_item item = Some (name, value) \<and> isProxyVariable name)"
  using assms by (auto simp: appendProxyPair_def cut_item_entry simp del: asc_Cons split: if_splits)

lemma environment_items:
  assumes "item \<in> set (with_proxies c env)"
  shows "item \<in> set env \<or> (\<exists>name value. cut_item item = Some (name, value) \<and> isProxyVariable name)"
proof -
  have "item \<in> set (without_proxies env) \<or> (\<exists>name value. cut_item item = Some (name, value) \<and> isProxyVariable name)"
    using assms[unfolded with_proxies_def] pair_items[OF _ proxy_names(12,16,4,8)] pair_items[OF _ proxy_names(11,15,3,7)]
      pair_items[OF _ proxy_names(10,14,2,6)] pair_items[OF _ proxy_names(9,13,1,5)] by blast
  then show ?thesis by (auto simp: without_proxies_def)
qed

text \<open>What an entry of a process's environment may be, given the bot's own environment.\<close>

definition closed_item :: "text list \<Rightarrow> text \<Rightarrow> bool" where
  "closed_item environ item \<longleftrightarrow>
     (case cut_item item of
        None \<Rightarrow> False
      | Some (name, value) \<Rightarrow> name \<noteq> apiKeyEnvName \<and> allowedCodexEnvironmentVariable name \<and>
          (item \<in> set environ \<or> isProxyVariable name))"

lemma passed_closed:
  "list_all (closed_item base) (filter passed_item (Normalize parse (proxied parse r base)))"
proof -
  have "item \<in> set base \<or> (\<exists>name value. cut_item item = Some (name, value) \<and> isProxyVariable name)"
    if "item \<in> set (Normalize parse (proxied parse r base))" for item
    using environment_items[of item _ "proxied parse r base"] environment_items[of item _ base] that
    by (auto simp: Normalize_def NormalizeEnvironment_def proxied_def split: option.splits)
  then show ?thesis
    by (fastforce simp: list_all_iff closed_item_def passed_item_def split: option.splits)
qed

section \<open>The command line\<close>

lemma three_front: "\<exists>args. a @ b @ c @ rest = args @ rest"
  by (rule exI[of _ "a @ b @ c"]) simp

lemma argument_order:
  "\<exists>args. argsWithSettings is_print r t workspace path prompt =
     args @ config_flags (ru_Overrides r) @ config_flags (t_ConfigOverrides t) @ config_flags [shell_policy] @
     [asc ''--output-last-message'', path, prompt]"
  unfolding argsWithSettings_def by (rule three_front)

lemma policy_flags: "config_flags [shell_policy] = [asc ''-c'', shell_policy]"
  by (simp add: config_flags_def del: asc_Cons)

section \<open>Secrets in the output\<close>

lemma utf8_ascii: "list_all (\<lambda>r. r < 128) k \<Longrightarrow> utf8_bytes k = k"
  by (induction k) (auto simp: utf8_bytes_def utf8_def)



text \<open>
  The output is cut to its last 64 KiB before the key is removed from it: what the cut leaves of a key
  stays visible.
\<close>

lemma cut_key_stays:
  assumes "concat ws = a @ k1 @ k2 @ rest" "length (k2 @ rest) = maxOutputLen" "k = k1 @ k2" "k1 \<noteq> []"
    and "list_all (\<lambda>r. r < 128) k" "\<not> sublist k (k2 @ rest)" "list_all (\<lambda>r. r < 128) rest" "k2 \<noteq> []"
    and "\<not> unicode_IsSpace (hd k2)" "rest \<noteq> []" "\<not> unicode_IsSpace (last rest)"
  shows "process_output k ws = k2 @ rest"
proof -
  have tail: "tb_data (fold Write_tail ws (newTailBuffer maxOutputLen)) = k2 @ rest"
    using tail_writes[of "newTailBuffer maxOutputLen" ws] assms(1,2)
    by (simp add: newTailBuffer_def last_n_def)
  have "replace_all k redacted v = v" if "\<not> sublist k v" for v
    using that
  proof (induction v)
    case (Cons c cs)
    then have "strip_prefix k (c # cs) = None" by (auto simp: strip_prefix_None sublist_def) (metis append_Nil)
    moreover have "\<not> sublist k cs" using Cons.prems by (auto simp: sublist_Cons_right)
    ultimately show ?case using Cons.IH by (simp add: replace_all_skip)
  qed simp
  then have red: "redact (k2 @ rest) [k] = k2 @ rest" using assms(3,4,6) by simp
  have ascii: "list_all (\<lambda>r. r < 128) (k2 @ rest)" using assms(3,5,7) by simp
  moreover have "valid_rune x" if "x < 128" for x using that by (simp add: valid_rune_def)
  ultimately have "list_all valid_rune (k2 @ rest)" by (auto simp: list_all_iff)
  then have "go_runes (k2 @ rest) = k2 @ rest"
    using go_runes_utf8_bytes[of "k2 @ rest"] utf8_ascii[OF ascii] by simp
  moreover have "strings_TrimSpace (k2 @ rest) = k2 @ rest"
    using assms(8-11) by (simp add: trimmed_TrimSpace trimmed_by_def)
  ultimately show ?thesis
    unfolding process_output_def tail utf8_ascii[OF assms(5)] red by simp
qed

definition idle_runner :: runner where
  "idle_runner = \<lparr>ru_Binary = [], ru_PromptsFile = [], ru_Prompts = [], ru_PromptsPersisted = True, ru_Timeout = 0,
     ru_ReasoningEffort = [], ru_Overrides = [], ru_Proxy = None\<rparr>"

section \<open>Properties\<close>

text \<open>
  C26: the buffer for the output of a process is equivalent to keeping everything and taking the last bytes
  at the end, however the process cuts its output into pieces, and it never holds more than its limit.
\<close>

theorem tail_buffer_exact:
  "tb_data (fold Write_tail ws (newTailBuffer n)) = last_n n (concat ws) \<and>
   length (tb_data (fold Write_tail ws (newTailBuffer n))) \<le> n"
  using tail_writes[of "newTailBuffer n" ws] length_last_n[of n "concat ws"] by (simp add: newTailBuffer_def)




text \<open>
  C25: a Codex process learns nothing of the bot's environment but what it needs. Every entry of its
  environment is an allowed variable, taken over unchanged or one of the proxy variables, except the
  last, which is the key of its target; no other entry has the key's name; and the policy that keeps
  the environment from commands run by the model comes after all overrides of the command line.
\<close>

theorem child_environment_closed:
  assumes "snd (runPrompt parse is_print e t prompt r) = Some c"
  shows "\<exists>items args path. cm_env c = items @ [apiKeyEnvName @ asc ''='' @ t_APIKey t] \<and>
    list_all (closed_item (re_environ e)) items \<and>
    cm_args c = args @ config_flags (ru_Overrides r) @ config_flags (t_ConfigOverrides t) @
      config_flags [shell_policy] @ [asc ''--output-last-message'', path, asc ''-'']"
proof -
  obtain w path where c: "c = \<lparr>cm_binary = ru_Binary r, cm_args = argsWithSettings is_print r t w path (asc ''-''),
      cm_dir = w, cm_env = runner_environment parse r (re_environ e) (t_APIKey t), cm_stdin = prompt\<rparr>"
    using assms by (auto simp: runPrompt_def split: sum.splits)
  obtain args where "cm_args c = args @ config_flags (ru_Overrides r) @ config_flags (t_ConfigOverrides t) @
      config_flags [shell_policy] @ [asc ''--output-last-message'', path, asc ''-'']"
    using argument_order[of is_print r t w path "asc ''-''"] unfolding c codex_command.simps by blast
  moreover have "cm_env c = filter passed_item (Normalize parse (proxied parse r (re_environ e))) @
      [apiKeyEnvName @ asc ''='' @ t_APIKey t]"
    by (simp add: c runner_environment_def codexEnvironment_def)
  ultimately show ?thesis using passed_closed[of "re_environ e" parse r] by blast
qed

theorem child_environment_closed_witness:
  "\<exists>items args path. runner_environment (\<lambda>_. None) idle_runner [asc ''PATH=/bin'', asc ''TELEGRAM_TOKEN=1''] [] =
      items @ [apiKeyEnvName @ asc ''='' @ []] \<and>
    list_all (closed_item [asc ''PATH=/bin'', asc ''TELEGRAM_TOKEN=1'']) items \<and>
    argsWithSettings (\<lambda>_. True) idle_runner zero_target [] [] (asc ''-'') =
      args @ config_flags [] @ config_flags [] @ config_flags [shell_policy] @ [asc ''--output-last-message'', path, asc ''-'']"
proof -
  let ?e = "\<lparr>re_workspace = Inr [], re_responseFile = Inr [], re_environ = [asc ''PATH=/bin'', asc ''TELEGRAM_TOKEN=1''],
    re_writes = [], re_exit = None, re_start = None, re_endedFirst = True, re_endedInTime = False, re_wait = None,
    re_response = Inr [], re_ctx = None, re_duration = 0\<rparr>"
  let ?c = "\<lparr>cm_binary = [], cm_args = argsWithSettings (\<lambda>_. True) idle_runner zero_target [] [] (asc ''-''),
    cm_dir = [], cm_env = runner_environment (\<lambda>_. None) idle_runner (re_environ ?e) (t_APIKey zero_target), cm_stdin = []\<rparr>"
  have "snd (runPrompt (\<lambda>_. None) (\<lambda>_. True) ?e zero_target [] idle_runner) = Some ?c"
    by (simp add: runPrompt_def idle_runner_def del: asc_Cons)
  from child_environment_closed[OF this] show ?thesis
    by (simp add: idle_runner_def zero_target_def del: asc_Cons)
qed

text \<open>
  The result of a request tells whether it worked. It is a success just when the temporary files could be
  made, the process ran to its end without error while its context was still alive, and the response file
  could be read and holds more than white space; the response is then that text. A result that is not
  a success always carries an error text.
\<close>

lemma run_result_classified:
  "let x = fst (runPrompt parse is_print e t prompt r) in
   (r_Success x \<longleftrightarrow> (\<exists>w f bs. re_workspace e = Inr w \<and> re_responseFile e = Inr f \<and> re_ctx e = None \<and>
      re_start e = None \<and> re_wait e = None \<and> re_response e = Inr bs \<and> strings_TrimSpace (go_runes bs) \<noteq> [] \<and>
      r_Response x = strings_TrimSpace (go_runes bs))) \<and>
   (r_Success x \<longleftrightarrow> r_Error x = [])"
  by (cases "re_workspace e"; cases "re_responseFile e"; cases "re_ctx e"; cases "re_start e"; cases "re_wait e";
      cases "re_response e")
     (auto simp: runPrompt_def failed_def process_result_def runCommand_def with_diagnostic_def Let_def
       split: ctx_end.splits)

end
