(* ===== verification/Observers.thy ===== *)
theory Observers
  imports Scheduler_Props
begin

text \<open>
  What the observers of the job manager learn. A step of the manager either leaves the visible
  state (the snapshot of \<open>snapshotLocked\<close>) and the observers as they are, or it ends in a state whose
  snapshot has been published to all of them. So whoever took a snapshot with \<open>Observe\<close> and has read
  its channel to the end has the current snapshot, unless its channel was closed.
\<close>

section \<open>Published steps\<close>

definition seat :: "manager \<Rightarrow> (nat \<times> event_chan) list \<times> nat" where
  "seat m = (m_observers m, m_nextObserverID m)"

definition unseen :: "manager \<Rightarrow> manager \<Rightarrow> bool" where
  "unseen m m' \<longleftrightarrow> seat m' = seat m \<and> snapshotLocked m' = snapshotLocked m"

definition published :: "manager \<Rightarrow> manager \<Rightarrow> bool" where
  "published m m' \<longleftrightarrow> m_nextObserverID m' = m_nextObserverID m \<and>
     (\<exists>ev. snapshotLocked m' = Some (ev_Snapshot ev) \<and>
        m_observers m' = List.map_filter (publish_one ev) (m_observers m))"

definition told :: "manager \<Rightarrow> manager \<Rightarrow> bool" where
  "told m m' \<longleftrightarrow> unseen m m' \<or> published m m'"

lemma unseen_refl [simp]: "unseen m m"
  by (simp add: unseen_def)

lemma told_refl [simp]: "told m m"
  by (simp add: told_def)

lemma told_unseen: "unseen m m' \<Longrightarrow> told m m'"
  by (simp add: told_def)

lemma told_then: "told m m1 \<Longrightarrow> unseen m1 m2 \<Longrightarrow> told m m2"
  by (auto simp: told_def unseen_def published_def seat_def)

section \<open>The visible state\<close>

lemma snapshot_cong:
  assumes "m_order m' = m_order m" "m_currentProcesses m' = m_currentProcesses m"
    "m_maxParallel m' = m_maxParallel m" "\<And>k. targetSnapshotLocked m' k = targetSnapshotLocked m k"
  shows "snapshotLocked m' = snapshotLocked m"
proof -
  have "targetSnapshotLocked m' = targetSnapshotLocked m" using assms(4) by (rule ext)
  then show ?thesis using assms(1-3) by (simp add: snapshotLocked_def)
qed

lemmas target_snapshot_defs = targetSnapshotLocked_def queueSnapshotLocked_def
  keepaliveSnapshotLocked_def targetBusyLocked_def

lemma snapshot_same_maps:
  assumes "m_order m' = m_order m" "m_currentProcesses m' = m_currentProcesses m"
    "m_maxParallel m' = m_maxParallel m" "m_targetHost m' = m_targetHost m" "m_targets m' = m_targets m"
    "m_jobs m' = m_jobs m" "m_keepalives m' = m_keepalives m" "m_arbiters m' = m_arbiters m"
  shows "snapshotLocked m' = snapshotLocked m"
  by (rule snapshot_cong) (use assms in \<open>simp_all add: target_snapshot_defs target_at_def\<close>)

lemma snapshot_frame [simp]:
  "snapshotLocked (m_messenger_update f1 m) = snapshotLocked m"
  "snapshotLocked (m_keepaliveMin_update f2 m) = snapshotLocked m"
  "snapshotLocked (m_keepaliveMax_update f2 m) = snapshotLocked m"
  "snapshotLocked (m_successMessage_update f3 m) = snapshotLocked m"
  "snapshotLocked (m_slotsInUse_update f4 m) = snapshotLocked m"
  "snapshotLocked (m_nextEventID_update f4 m) = snapshotLocked m"
  "snapshotLocked (m_nextObserverID_update f4 m) = snapshotLocked m"
  "snapshotLocked (m_nextAdhocRunID_update f4 m) = snapshotLocked m"
  "snapshotLocked (m_observers_update f5 m) = snapshotLocked m"
  "snapshotLocked (m_runWG_update f4 m) = snapshotLocked m"
  "snapshotLocked (m_shuttingDown_update f6 m) = snapshotLocked m"
  "snapshotLocked (m_parallelChanged_update f4 m) = snapshotLocked m"
  "snapshotLocked (m_nextCtx_update f4 m) = snapshotLocked m"
  "snapshotLocked (m_cancelled_update f7 m) = snapshotLocked m"
  "snapshotLocked (m_rootDone_update f6 m) = snapshotLocked m"
  by (rule snapshot_same_maps; simp)+

text \<open>What a reader sees of a queue job besides whether it counts as busy.\<close>

definition same_job :: "job \<Rightarrow> job \<Rightarrow> bool" where
  "same_job j j' \<longleftrightarrow> j_state j' = j_state j \<and> j_attempts j' = j_attempts j \<and>
     j_startedAt j' = j_startedAt j \<and> j_lastAttempt j' = j_lastAttempt j \<and>
     j_nextAttempt j' = j_nextAttempt j \<and> j_finishedAt j' = j_finishedAt j \<and>
     j_lastError j' = j_lastError j \<and>
     (j_state j = StateRunning \<or> j_workers j' = j_workers j)"

lemma snapshot_jobs:
  "m_jobs m k = Some j \<Longrightarrow> same_job j j' \<Longrightarrow>
   snapshotLocked (m\<lparr>m_jobs := (m_jobs m)(k \<mapsto> j')\<rparr>) = snapshotLocked m"
  by (rule snapshot_cong) (auto simp: target_snapshot_defs target_at_def same_job_def)

definition same_keepalive :: "keepaliveJob \<Rightarrow> keepaliveJob \<Rightarrow> bool" where
  "same_keepalive ka ka' \<longleftrightarrow> k_state ka' = k_state ka \<and> k_requests ka' = k_requests ka \<and>
     k_startedAt ka' = k_startedAt ka \<and> k_lastRequest ka' = k_lastRequest ka \<and>
     k_lastSuccess ka' = k_lastSuccess ka \<and> k_lastFailure ka' = k_lastFailure ka \<and>
     k_nextRequest ka' = k_nextRequest ka \<and> k_stoppedAt ka' = k_stoppedAt ka \<and>
     k_lastError ka' = k_lastError ka \<and>
     (k_state ka \<noteq> KeepaliveStateStopped \<or> k_workers ka' = k_workers ka)"

lemma snapshot_keepalives:
  "m_keepalives m k = Some ka \<Longrightarrow> same_keepalive ka ka' \<Longrightarrow>
   snapshotLocked (m\<lparr>m_keepalives := (m_keepalives m)(k \<mapsto> ka')\<rparr>) = snapshotLocked m"
  by (rule snapshot_cong) (auto simp: target_snapshot_defs target_at_def same_keepalive_def)

text \<open>Ownership by a worker does not show while the target is busy anyway.\<close>

definition worked :: "manager \<Rightarrow> key \<Rightarrow> bool" where
  "worked m k \<longleftrightarrow> (\<exists>j ka. m_jobs m k = Some j \<and> m_keepalives m k = Some ka \<and>
     (j_state j = StateRunning \<or> j_workers j > 0 \<or> k_state ka \<noteq> KeepaliveStateStopped \<or> k_workers ka > 0))"

lemma snapshot_arbiters:
  assumes "m_arbiters m k = Some a" "a_owner a = a_owner a' \<or>
    worked m k \<and> a_owner a \<noteq> requestOwnerAdhoc \<and> a_owner a' \<noteq> requestOwnerAdhoc"
  shows "snapshotLocked (m\<lparr>m_arbiters := (m_arbiters m)(k \<mapsto> a')\<rparr>) = snapshotLocked m"
  by (rule snapshot_cong) (use assms in \<open>auto simp: target_snapshot_defs target_at_def worked_def\<close>)

section \<open>Sections\<close>

lemma seat_frame [simp]:
  "seat (m_messenger_update f1 m) = seat m" "seat (m_keepaliveMin_update f2 m) = seat m"
  "seat (m_keepaliveMax_update f2 m) = seat m" "seat (m_successMessage_update f3 m) = seat m"
  "seat (m_slotsInUse_update f4 m) = seat m" "seat (m_nextEventID_update f4 m) = seat m"
  "seat (m_nextAdhocRunID_update f4 m) = seat m" "seat (m_runWG_update f4 m) = seat m"
  "seat (m_shuttingDown_update f6 m) = seat m" "seat (m_parallelChanged_update f4 m) = seat m"
  "seat (m_nextCtx_update f4 m) = seat m" "seat (m_cancelled_update f7 m) = seat m"
  "seat (m_rootDone_update f6 m) = seat m" "seat (m_jobs_update f8 m) = seat m"
  "seat (m_keepalives_update f9 m) = seat m" "seat (m_arbiters_update f10 m) = seat m"
  "seat (m_targets_update f11 m) = seat m" "seat (m_order_update f12 m) = seat m"
  "seat (m_currentProcesses_update f4 m) = seat m" "seat (m_maxParallel_update f13 m) = seat m"
  "seat (cancel_ctx c m) = seat m" "seat (signalParallelLocked m) = seat m"
  "seat (stopAdhocLocked k m) = seat m" "seat (add_entry t m) = seat m"
  "seat (sortTargetsLocked m) = seat m" "seat (rename_entry old new m) = seat m"
  "seat (remove_entry k m) = seat m" "seat (snd (with_cancel m)) = seat m"
  by (simp_all add: seat_def cancel_ctx_def signalParallelLocked_def stopAdhocLocked_def add_entry_def
      sortTargetsLocked_def rename_entry_def remove_entry_def with_cancel_def Let_def split: option.split)

lemma snapshot_calls [simp]:
  "snapshotLocked (cancel_ctx c m) = snapshotLocked m"
  "snapshotLocked (signalParallelLocked m) = snapshotLocked m"
  by (simp_all add: cancel_ctx_def signalParallelLocked_def split: option.split)

lemma told_wg [simp]: "told m (m\<lparr>m_runWG := n\<rparr>)"
  by (simp add: told_def unseen_def)

lemma broadcast_told:
  "broadcastStateLocked m1 = Some m' \<Longrightarrow> seat m1 = seat m \<Longrightarrow> told m m'"
  by (auto simp: broadcastStateLocked_def publishLocked_def told_def published_def seat_def
      split: bind_splits) (metis mgr_event.select_convs(2))

lemma signal_unseen: "signalTargetLocked k m = Some m' \<Longrightarrow> unseen m m'"
  by (auto simp: signalTargetLocked_def unseen_def snapshot_arbiters split: bind_splits)

lemma unseen_seat: "unseen m m' \<Longrightarrow> seat m' = seat m"
  by (simp add: unseen_def)

lemma release_seat: "releaseTargetLocked k ow run m = Some m' \<Longrightarrow> seat m' = seat m"
  by (auto simp: releaseTargetLocked_def dest!: signal_unseen unseen_seat split: bind_splits if_splits)

lemma worked_arbiters [simp]: "worked (m_arbiters_update f m) k = worked m k"
  by (simp add: worked_def)

lemma release_unseen:
  assumes "releaseTargetLocked k ow run m = Some m'" "worked m k" "ow \<noteq> requestOwnerAdhoc"
  shows "unseen m m'"
  using assms
  by (auto simp: releaseTargetLocked_def unseen_def snapshot_arbiters dest!: signal_unseen
      split: bind_splits if_splits)

lemma releaseD:
  "releaseTargetLocked k ow run m = Some m' \<Longrightarrow> seat m' = seat m \<and>
   (worked m k \<longrightarrow> ow \<noteq> requestOwnerAdhoc \<longrightarrow> snapshotLocked m' = snapshotLocked m)"
  using release_seat release_unseen by (auto simp: unseen_def)

lemma stop_seat:
  "stopQueueLocked now k m = Some m' \<Longrightarrow> seat m' = seat m"
  "stopKeepaliveLocked now k m = Some m' \<Longrightarrow> seat m' = seat m"
  by (auto simp: stopQueueLocked_def stopKeepaliveLocked_def Let_def dest!: signal_unseen unseen_seat
      split: option.splits bind_splits if_splits)

lemma stop_target_seat:
  assumes "stop_target now k m = Some (b, m')"
  shows "seat m' = seat m" "\<not> b \<Longrightarrow> m' = m"
  using assms by (auto simp: stop_target_def Let_def dest!: stop_seat split: bind_splits if_splits)

lemma stop_targets_seat:
  assumes "stop_targets now ks (res, ch, m) = Some (res', ch', m')"
  shows "seat m' = seat m \<and> (ch \<longrightarrow> ch') \<and> (\<not> ch' \<longrightarrow> m' = m)"
  using assms
proof (induction ks arbitrary: res ch m)
  case (Cons k ks)
  then obtain b m1 where b: "stop_target now k m = Some (b, m1)" by (auto split: bind_splits)
  note 1 = stop_target_seat[OF b]
  from Cons.prems b Cons.IH show ?case using 1 by (cases b) (fastforce simp: Let_def)+
qed simp

text \<open>The sections of the workers; those that give up the target without a broadcast run while a
  worker is counted.\<close>

lemma told_queue:
  "acquireQueueTarget k run m = Some (r, m') \<Longrightarrow> worked m k \<Longrightarrow> told m m'"
  "beginAttempt now k run m = Some (r', m') \<Longrightarrow> told m m'"
  "markFailure k run x m = Some (b, m') \<Longrightarrow> worked m k \<Longrightarrow> told m m'"
  "markSuccess now k run m = Some (s, m') \<Longrightarrow> worked m k \<Longrightarrow> told m m'"
  "markQueueCancelled now k run m = Some m' \<Longrightarrow> worked m k \<Longrightarrow> told m m'"
  "finishQueueWorker k m = Some m' \<Longrightarrow> told m m'"
  "finishProcess m = Some m' \<Longrightarrow> told m m'"
  "acquire_slot m = (r, m') \<Longrightarrow> told m m'"
  "told m (releaseSlot m)"
  by (auto simp: acquireQueueTarget_def beginAttempt_def markFailure_def markSuccess_def
      markQueueCancelled_def finishQueueWorker_def finishProcess_def releaseSlot_def acquire_slot_def
      Let_def unseen_def snapshot_arbiters
      intro!: told_unseen elim!: broadcast_told dest!: releaseD signal_unseen
      split: bind_splits if_splits option.splits)

lemma told_keepalive:
  "beginKeepaliveCheck k run m = Some (r, m') \<Longrightarrow> told m m'"
  "beginKeepaliveCommit now k run m = Some (r', m') \<Longrightarrow> told m m'"
  "finishKeepaliveRequest now d k run x m = Some (b, m') \<Longrightarrow> worked m k \<Longrightarrow> told m m'"
  "markKeepaliveCancelled now k run m = Some m' \<Longrightarrow> worked m k \<Longrightarrow> told m m'"
  "finishKeepaliveWorker k m = Some m' \<Longrightarrow> told m m'"
  by (auto simp: beginKeepaliveCheck_def beginKeepaliveCommit_def finishKeepaliveRequest_def
      markKeepaliveCancelled_def finishKeepaliveWorker_def Let_def unseen_def snapshot_keepalives
      same_keepalive_def
      intro!: told_unseen elim!: broadcast_told dest!: releaseD signal_unseen
      split: bind_splits if_splits option.splits)

lemma told_adhoc:
  "reserveAdhoc i m = Some (r, m') \<Longrightarrow> told m m'"
  "startAdhocProcess k run m = Some (b, m') \<Longrightarrow> told m m'"
  by (auto simp: reserveAdhoc_def startAdhocProcess_def with_cancel_def Let_def
      elim!: broadcast_told split: bind_splits if_splits option.splits)

lemma told_wg_after: "told m m1 \<Longrightarrow> told m (m1\<lparr>m_runWG := n\<rparr>)"
  by (erule told_then) (simp add: unseen_def)

lemma told_finishAdhoc: "finishAdhocRequest k run slot proc m = Some m' \<Longrightarrow> told m m'"
  by (auto simp: finishAdhocRequest_def Let_def intro!: told_wg_after elim!: broadcast_told
      dest!: signal_unseen unseen_seat split: bind_splits if_splits option.splits)

section \<open>Calls\<close>

lemma told_stop: "StopTask now names m = Some (res, m') \<Longrightarrow> told m m'"
  by (auto simp: StopTask_def Let_def elim!: broadcast_told dest!: stop_targets_seat
      split: bind_splits if_splits prod.splits)

lemma told_prepare: "prepareMode now k ow m = Some (r, m') \<Longrightarrow> told m m'"
  by (auto simp: prepareMode_def Let_def elim!: broadcast_told dest!: stop_seat
      split: bind_splits if_splits)

lemma told_quiesce: "quiesceTarget now i m = Some (r, m') \<Longrightarrow> told m m'"
  by (auto simp: quiesceTarget_def elim!: broadcast_told dest!: stop_seat
      split: bind_splits if_splits option.splits)

lemma told_refused:
  "queueRefused k s m = Some (r, m') \<Longrightarrow> told m m'"
  "keepaliveRefused k m = Some (r, m') \<Longrightarrow> told m m'"
  by (auto simp: queueRefused_def keepaliveRefused_def unseen_def addSubscriberLocked_def same_job_def
      Let_def intro!: told_unseen snapshot_jobs split: option.splits if_splits bind_splits)

lemma told_targets:
  "CreateTarget target persist m = Some (r, m') \<Longrightarrow> told m m'"
  "updateTargetCommit i t persist m = Some (r, m') \<Longrightarrow> told m m'"
  "deleteTargetCommit i e m = Some (r, m') \<Longrightarrow> told m m'"
  by (auto simp: CreateTarget_def updateTargetCommit_def deleteTargetCommit_def Let_def
      elim!: broadcast_told split: option.splits sum.splits if_splits bind_splits)

lemma told_settings: "UpdateSettings now draw kmin kmax n msg m = Some m' \<Longrightarrow> told m m'"
  by (auto simp: UpdateSettings_def Let_def elim!: broadcast_told split: if_splits)

text \<open>A start is published before the worker is counted, which then does not show any more.\<close>

lemma broadcast_jobs: "broadcastStateLocked m = Some m' \<Longrightarrow> m_jobs m' = m_jobs m \<and> m_keepalives m' = m_keepalives m"
  by (auto simp: broadcastStateLocked_def publishLocked_def split: bind_splits)

lemma signal_jobs: "signalTargetLocked k m = Some m' \<Longrightarrow> m_jobs m' = m_jobs m \<and> m_keepalives m' = m_keepalives m"
  by (auto simp: signalTargetLocked_def split: bind_splits)

lemma counted_queue:
  assumes "broadcastStateLocked m1 = Some m2" "signalTargetLocked k m2 = Some m3" "seat m1 = seat m"
    "m_jobs m1 k = Some j" "j_state j = StateRunning"
  shows "told m (m3\<lparr>m_runWG := n, m_jobs := (m_jobs m3)(k \<mapsto> j\<lparr>j_workers := w\<rparr>)\<rparr>)"
proof (rule told_then[OF broadcast_told[OF assms(1,3)]])
  have "m_jobs (m3\<lparr>m_runWG := n\<rparr>) k = Some j"
    using broadcast_jobs[OF assms(1)] signal_jobs[OF assms(2)] assms(4) by simp
  from snapshot_jobs[OF this, of "j\<lparr>j_workers := w\<rparr>"] signal_unseen[OF assms(2)]
  show "unseen m2 (m3\<lparr>m_runWG := n, m_jobs := (m_jobs m3)(k \<mapsto> j\<lparr>j_workers := w\<rparr>)\<rparr>)"
    using assms(5) by (simp add: unseen_def same_job_def)
qed

lemma counted_keepalive:
  assumes "broadcastStateLocked m1 = Some m2" "signalTargetLocked k m2 = Some m3" "seat m1 = seat m"
    "m_keepalives m1 k = Some ka" "k_state ka \<noteq> KeepaliveStateStopped"
  shows "told m (m3\<lparr>m_runWG := n, m_keepalives := (m_keepalives m3)(k \<mapsto> ka\<lparr>k_workers := w\<rparr>)\<rparr>)"
proof (rule told_then[OF broadcast_told[OF assms(1,3)]])
  have "m_keepalives (m3\<lparr>m_runWG := n\<rparr>) k = Some ka"
    using broadcast_jobs[OF assms(1)] signal_jobs[OF assms(2)] assms(4) by simp
  from snapshot_keepalives[OF this, of "ka\<lparr>k_workers := w\<rparr>"] signal_unseen[OF assms(2)]
  show "unseen m2 (m3\<lparr>m_runWG := n, m_keepalives := (m_keepalives m3)(k \<mapsto> ka\<lparr>k_workers := w\<rparr>)\<rparr>)"
    using assms(5) by (simp add: unseen_def same_keepalive_def)
qed

lemma subscriber_unseen:
  "m_jobs m k = Some j \<Longrightarrow> unseen m (m\<lparr>m_jobs := (m_jobs m)(k \<mapsto> addSubscriberLocked s j)\<rparr>)"
  by (simp add: unseen_def snapshot_jobs addSubscriberLocked_def same_job_def Let_def)

lemma told_startQueue: "startQueueCommit now k s m = Some (r, m') \<Longrightarrow> told m m'"
  by (auto simp: startQueueCommit_def with_cancel_def Let_def told_unseen subscriber_unseen
      intro: counted_queue split: option.splits if_splits bind_splits)

lemma told_startKeepalive: "startKeepaliveCommit now k m = Some (r, m') \<Longrightarrow> told m m'"
  by (auto simp: startKeepaliveCommit_def with_cancel_def Let_def
      intro: counted_keepalive split: option.splits if_splits bind_splits)

section \<open>Goroutines\<close>

definition tells :: "manager \<Rightarrow> 'pc outcome \<Rightarrow> bool" where
  "tells m out \<longleftrightarrow> (case out of Step pc new m' \<Rightarrow> told m m' | _ \<Rightarrow> True)"

lemma tells_simps [simp]:
  "tells m Blocked" "tells m Panic" "tells m (Step pc new m') \<longleftrightarrow> told m m'"
  "tells m (map_outcome f out) \<longleftrightarrow> tells m out"
  "tells m (select_ctx e done ready a b m)"
  by (cases out; simp add: tells_def select_ctx_def)+

lemma tells_branch: "(\<And>x m'. r = Some (x, m') \<Longrightarrow> told m m') \<Longrightarrow> tells m (branch r f)"
  by (auto simp: branch_def split: option.split)

lemma tells_onto: "(\<And>m'. r = Some m' \<Longrightarrow> told m m') \<Longrightarrow> tells m (onto pc r)"
  by (auto simp: onto_def split: option.split)

lemma counted_worked:
  assumes "stands ps m i p" "p_count p"
  shows "worked m (p_key p)"
proof -
  obtain c where c: "cells m (p_key p) = Some c" "cell_inv ps (p_key p) c"
    using stands_cell[OF assms(1)] assms(2) by blast
  have "p_ok p" using assms(1) by (auto simp: stands_def list_all_length)
  moreover have "0 < cnt (is_worker (p_kind p) (p_key p)) ps"
    using cnt_pos[of i ps "is_worker (p_kind p) (p_key p)"] assms by (simp add: is_worker_def stands_def)
  ultimately have "0 < c_workers c \<or> 0 < c_kworkers c"
    using cell_invD(1,2)[OF c(2)] assms(2) by (auto simp: p_ok_def)
  then show ?thesis using c(1) by (auto simp: cells_Some cell_of_def worked_def)
qed

lemma queue_tells:
  assumes "p_count (queue_prof k run pc) \<Longrightarrow> worked m k"
  shows "tells m (queue_step e k run c pc m)"
  using assms
  by (cases pc) (auto intro!: tells_branch tells_onto
      intro: told_queue told_unseen release_unseen split: option.splits)

lemma keepalive_tells:
  assumes "p_count (keepalive_prof k run pc) \<Longrightarrow> worked m k"
  shows "tells m (keepalive_step e k run c pc m)"
  using assms
  by (cases pc) (auto intro!: tells_branch tells_onto
      intro: told_queue told_keepalive split: option.splits)

lemma adhoc_tells: "tells m (adhoc_step e k run c pc m)"
proof (cases pc)
  case (AFinish slot proc r)
  have "told m m'" if "finishAdhocRequest k run slot proc (cancel_ctx (Some c) m) = Some m'" for m'
    using told_finishAdhoc[OF that] by (simp add: told_def unseen_def published_def seat_def cancel_ctx_def)
  then show ?thesis using AFinish by (auto intro: tells_onto)
qed (auto intro!: tells_branch intro: told_queue told_adhoc)

lemma mode_done_tells: "(\<And>x m'. r = Some (x, m') \<Longrightarrow> told m m') \<Longrightarrow> tells m (mode_done ow k ks res r)"
  by (auto simp: mode_done_def split: option.split commit_result.split)

lemma mode_tells: "tells m (mode_step e ow s ks res pc m)"
proof (cases ks)
  case (Cons k ks')
  then show ?thesis
    by (cases pc) (auto simp: mode_step_def idle_check_def intro!: tells_branch mode_done_tells
        intro: told_prepare told_refused told_startQueue told_startKeepalive
        split: option.splits if_splits)
qed (simp add: mode_step_def)

lemma change_tells: "tells m (change_step e ch pc m)"
  by (cases pc) (auto simp: change_step_def idle_check_def intro!: tells_branch
      intro: told_quiesce told_targets split: change.split option.splits)

lemma notify_tells: "tells m (notify_step e s msg d pc m)"
  by (cases pc) (auto simp: notify_step_def)

lemma thread_tells:
  assumes "inv w" "i < length (w_threads w)"
  shows "tells (w_mgr w) (run_thread e (w_threads w ! i) (w_mgr w))"
proof -
  let ?th = "w_threads w ! i"
  have "stands (map prof_of (w_threads w)) (w_mgr w) i (prof_of ?th)"
    using assms by (simp add: stands_def inv_def)
  from counted_worked[OF this] have w: "p_count (prof_of ?th) \<Longrightarrow> worked (w_mgr w) (p_key (prof_of ?th))" .
  show ?thesis
  proof (cases ?th)
    case (QueueWorker k run c pc)
    moreover have "p_key (queue_prof k run pc) = k" by (cases pc) simp_all
    ultimately show ?thesis using w by (simp add: run_thread_def queue_tells)
  next
    case (KeepaliveWorker k run c pc)
    moreover have "p_key (keepalive_prof k run pc) = k" by (cases pc) simp_all
    ultimately show ?thesis using w by (simp add: run_thread_def keepalive_tells)
  qed (simp_all add: run_thread_def adhoc_tells notify_tells mode_tells change_tells)
qed

section \<open>Steps\<close>

text \<open>Each step publishes what it changes, or is the opening, closing or reading of a channel.\<close>

lemma step_told:
  assumes "inv w" "step w w'"
  shows "told (w_mgr w) (w_mgr w') \<or> (\<exists>b x ob. Observe b (w_mgr w) = Some (x, ob, w_mgr w')) \<or>
    (\<exists>ob. w_mgr w' = closeObserver ob (w_mgr w)) \<or>
    (\<exists>ob ev. receiveEvent ob (w_mgr w) = Some (ev, w_mgr w'))"
  using assms(2)
proof cases
  case (step_thread i e th new m')
  from thread_tells[OF assms(1) step_thread(2), of e] step_thread show ?thesis by simp
next
  case (step_stop now names res m')
  then show ?thesis by (simp add: told_stop)
next
  case (step_adhoc i k run c t m')
  then show ?thesis by (simp add: told_adhoc)
next
  case (step_create persist target res m')
  then show ?thesis by (simp add: told_targets)
next
  case (step_settings now draw kmin kmax n msg m')
  then show ?thesis by (simp add: told_settings)
qed (auto simp: told_def unseen_def SetMessenger_def BeginShutdown_def)

text \<open>The observers' numbers are distinct and all have been given out.\<close>

definition seated :: "manager \<Rightarrow> bool" where
  "seated m \<longleftrightarrow> distinct (map fst (m_observers m)) \<and> fst ` set (m_observers m) \<subseteq> {..m_nextObserverID m}"

lemma publish_one_fst: "publish_one ev x = Some y \<Longrightarrow> fst y = fst x"
  by (auto simp: publish_one_def split: if_splits)

lemma published_fst: "fst ` set (List.map_filter (publish_one ev) xs) \<subseteq> fst ` set xs"
  by (induction xs) (auto simp: List.map_filter_simps split: option.split dest: publish_one_fst)

lemma published_distinct:
  "distinct (map fst xs) \<Longrightarrow> distinct (map fst (List.map_filter (publish_one ev) xs))"
proof (induction xs)
  case (Cons x xs)
  then have "fst x \<notin> fst ` set (List.map_filter (publish_one ev) xs)"
    using published_fst[of ev xs] by auto
  then show ?case
    using Cons by (auto simp: List.map_filter_simps image_iff split: option.split dest!: publish_one_fst)
qed (simp add: List.map_filter_simps)

lemma map_of_published:
  assumes "distinct (map fst xs)"
  shows "map_of (List.map_filter (publish_one ev) xs) ob =
    (case map_of xs ob of None \<Rightarrow> None
     | Some ch \<Rightarrow> if length (ch_buf ch) < ch_cap ch then Some (ch\<lparr>ch_buf := ch_buf ch @ [ev]\<rparr>) else None)"
  using assms
proof (induction xs)
  case (Cons x xs)
  obtain i ch where x: "x = (i, ch)" by (cases x)
  have "map_of xs i = None" "map_of (List.map_filter (publish_one ev) xs) i = None"
    using Cons.prems published_fst[of ev xs] x by (auto simp: map_of_eq_None_iff)
  moreover have "publish_one ev (i, ch) =
      (if length (ch_buf ch) < ch_cap ch then Some (i, ch\<lparr>ch_buf := ch_buf ch @ [ev]\<rparr>) else None)"
    by (simp add: publish_one_def)
  ultimately show ?case using Cons x by (simp add: List.map_filter_simps)
qed (simp add: List.map_filter_simps)

lemma seated_told: "told m m' \<Longrightarrow> seated m \<Longrightarrow> seated m'"
proof -
  assume t: "told m m'" and s: "seated m"
  from t consider "seat m' = seat m"
    | ev where "m_nextObserverID m' = m_nextObserverID m" "m_observers m' = List.map_filter (publish_one ev) (m_observers m)"
    by (auto simp: told_def unseen_def published_def)
  then show ?thesis
  proof cases
    case 2
    then show ?thesis using s published_distinct subset_trans[OF published_fst] by (simp add: seated_def)
  qed (use s in \<open>simp add: seated_def seat_def\<close>)
qed

lemma seated_observe: "Observe b m = Some (x, ob, m') \<Longrightarrow> seated m \<Longrightarrow> seated m'"
  by (fastforce simp: Observe_def Let_def seated_def split: bind_splits)

lemma seated_close: "seated m \<Longrightarrow> seated (closeObserver ob m)"
  by (auto simp: closeObserver_def seated_def distinct_map_filter)

lemma AList_update_fst: "map_of xs k \<noteq> None \<Longrightarrow> map fst (AList.update k v xs) = map fst xs"
  by (induction xs) auto

lemma seated_receive: "receiveEvent ob m = Some (ev, m') \<Longrightarrow> seated m \<Longrightarrow> seated m'"
proof -
  assume r: "receiveEvent ob m = Some (ev, m')" and s: "seated m"
  from r obtain c where m': "m' = m\<lparr>m_observers := AList.update ob c (m_observers m)\<rparr>"
    and "map_of (m_observers m) ob \<noteq> None"
    by (auto simp: receiveEvent_def split: option.splits list.splits)
  then have "map fst (m_observers m') = map fst (m_observers m)" by (simp add: AList_update_fst)
  moreover from this have "fst ` set (m_observers m') = fst ` set (m_observers m)" by (metis set_map)
  ultimately show ?thesis using s m' by (simp add: seated_def)
qed

lemma step_seated: "inv w \<Longrightarrow> step w w' \<Longrightarrow> seated (w_mgr w) \<Longrightarrow> seated (w_mgr w')"
  using step_told[of w w'] seated_told seated_observe seated_close seated_receive by metis

lemma initial_seated: "initial w \<Longrightarrow> seated (w_mgr w)"
proof -
  have "seat (fold add_entry ts m) = seat m" for ts m by (induction ts arbitrary: m) simp_all
  then show "initial w \<Longrightarrow> seated (w_mgr w)"
    by (auto elim!: initial_cases simp: New_def seat_def seated_def empty_manager_def)
qed

section \<open>Following the manager\<close>

text \<open>
  \<open>informed x ob m\<close>: who has seen the snapshot \<open>x\<close> and then reads all that the channel of observer \<open>ob\<close>
  buffers has seen the current snapshot, unless the channel was closed.
\<close>

definition informed :: "managerSnapshot \<Rightarrow> nat \<Rightarrow> manager \<Rightarrow> bool" where
  "informed x ob m \<longleftrightarrow> ob \<le> m_nextObserverID m \<and>
     (case map_of (m_observers m) ob of None \<Rightarrow> True
      | Some ch \<Rightarrow> snapshotLocked m = Some (last (x # map ev_Snapshot (ch_buf ch))))"

lemma informed_told: "told m m' \<Longrightarrow> seated m \<Longrightarrow> informed x ob m \<Longrightarrow> informed x ob m'"
  by (auto simp: told_def unseen_def seat_def published_def seated_def informed_def map_of_published
      split: option.splits if_splits)

lemma informed_observe:
  assumes "Observe b m = Some (y, ob', m')" "seated m"
  shows "informed y ob' m'" "informed x ob m \<Longrightarrow> informed x ob m'"
proof -
  have n: "map_of (m_observers m) (Suc (m_nextObserverID m)) = None"
    using assms(2) by (force simp: seated_def map_of_eq_None_iff)
  show "informed y ob' m'"
    using assms(1) n by (auto simp: Observe_def Let_def informed_def map_add_def split: bind_splits)
  show "informed x ob m \<Longrightarrow> informed x ob m'"
    using assms(1) by (auto simp: Observe_def Let_def informed_def map_add_def split: bind_splits option.splits)
qed

lemma informed_close: "informed x ob m \<Longrightarrow> informed x ob (closeObserver ob' m)"
proof -
  have "map_of (filter (\<lambda>x. fst x \<noteq> ob') xs) ob = (if ob = ob' then None else map_of xs ob)"
    for xs :: "(nat \<times> event_chan) list" by (induction xs) auto
  then show "informed x ob m \<Longrightarrow> informed x ob (closeObserver ob' m)"
    by (auto simp: informed_def closeObserver_def split: option.splits)
qed

lemma informed_receive:
  assumes "receiveEvent ob' m = Some (ev, m')" "informed x ob m"
  shows "ob' \<noteq> ob \<Longrightarrow> informed x ob m'" "ob' = ob \<Longrightarrow> informed (ev_Snapshot ev) ob m'"
  using assms by (auto simp: receiveEvent_def informed_def update_conv' split: option.splits list.splits)

lemma informed_step:
  assumes "inv w" "seated (w_mgr w)" "step w w'" "\<nexists>ev. receiveEvent ob (w_mgr w) = Some (ev, w_mgr w')"
    "informed x ob (w_mgr w)"
  shows "informed x ob (w_mgr w')"
proof -
  consider "told (w_mgr w) (w_mgr w')" | b y ob' where "Observe b (w_mgr w) = Some (y, ob', w_mgr w')"
    | ob' where "w_mgr w' = closeObserver ob' (w_mgr w)"
    | ob' ev where "receiveEvent ob' (w_mgr w) = Some (ev, w_mgr w')" "ob' \<noteq> ob"
    using step_told[OF assms(1,3)] assms(4) by blast
  then show ?thesis
    using informed_told informed_observe(2) informed_close informed_receive(1) assms(2,5) by cases auto
qed

lemma informed_blocked:
  "informed x ob m \<Longrightarrow> map_of (m_observers m) ob = Some ch \<Longrightarrow> ch_buf ch = [] \<Longrightarrow> snapshotLocked m = Some x"
  by (simp add: informed_def)

lemma informed_read: "informed x ob m \<Longrightarrow> snapshotLocked m = Some y \<Longrightarrow> informed y ob m"
  by (auto simp: informed_def split: option.splits)

text \<open>A closed observer does not come back.\<close>

definition gone :: "nat \<Rightarrow> manager \<Rightarrow> bool" where
  "gone ob m \<longleftrightarrow> ob \<le> m_nextObserverID m \<and> map_of (m_observers m) ob = None"

lemma gone_close: "informed x ob m \<Longrightarrow> gone ob (closeObserver ob m)"
  by (auto simp: informed_def gone_def closeObserver_def map_of_eq_None_iff)

lemma gone_told: "told m m' \<Longrightarrow> seated m \<Longrightarrow> gone ob m \<Longrightarrow> gone ob m'"
  by (auto simp: told_def unseen_def seat_def published_def seated_def gone_def map_of_published)

lemma gone_others:
  "Observe b m = Some (y, ob', m') \<Longrightarrow> gone ob m \<Longrightarrow> gone ob m'"
  "gone ob m \<Longrightarrow> gone ob (closeObserver ob' m)"
  by (auto simp: gone_def Observe_def Let_def closeObserver_def map_of_eq_None_iff split: bind_splits)

lemma gone_receive: "receiveEvent ob' m = Some (ev, m') \<Longrightarrow> gone ob m \<Longrightarrow> gone ob m'"
  by (auto simp: gone_def receiveEvent_def update_conv' split: option.splits list.splits)

lemma gone_step:
  "inv w \<Longrightarrow> seated (w_mgr w) \<Longrightarrow> step w w' \<Longrightarrow> gone ob (w_mgr w) \<Longrightarrow> gone ob (w_mgr w')"
  using step_told[of w w'] gone_told gone_others gone_receive by metis

interpretation seats: invariant_system initial step "\<lambda>w. inv w \<and> seated (w_mgr w)"
  by unfold_locales (auto simp: initial_inv initial_seated intro: step_inv step_seated)

end
