(* ===== verification/Event_Stream.thy ===== *)
theory Event_Stream
  imports Observers Status_Store Web_Sessions Console
begin

text \<open>
  The event stream of the web server (\<open>internal/web/sse.go\<close>) among everything that changes what it
  shows: the job manager with its goroutines, the two connection statuses, the configuration, the
  sessions. The handler is a program of operations, each of which is one section under a lock, one
  channel operation or one write; between two of them anything else may happen. Where the handler
  waits in its \<open>select\<close>, its program is empty and any ready branch may be taken. The response headers and
  the \<open>retry\<close> line, which are always the same, are left out.
\<close>

section \<open>State\<close>

datatype sse_event = EventSnapshot | EventState | EventShutdown | EventAuthExpired | EventHeartbeat

fun sse_event_text :: "sse_event \<Rightarrow> text" where
  "sse_event_text EventSnapshot = asc ''snapshot''"
| "sse_event_text EventState = asc ''state''"
| "sse_event_text EventShutdown = asc ''shutdown''"
| "sse_event_text EventAuthExpired = asc ''auth_expired''"
| "sse_event_text EventHeartbeat = asc ''heartbeat''"

record sse_frame =
  fr_event :: sse_event
  fr_id :: "text"
  fr_data :: json

text \<open>What \<open>writeSSE\<close> sends for a frame; \<open>encode\<close> is \<open>json.Marshal\<close>.\<close>

definition sse_text :: "(json \<Rightarrow> text) \<Rightarrow> sse_frame \<Rightarrow> text" where
  "sse_text encode f =
     (if fr_id f \<noteq> [] then asc ''id: '' @ fr_id f @ [10] else []) @
     asc ''event: '' @ sse_event_text (fr_event f) @ [10] @ asc ''data: '' @ encode (fr_data f) @ [10, 10]"

definition write_deadline :: "duration \<Rightarrow> duration" where
  "write_deadline heartbeat =
     (if heartbeat > 0 \<and> heartbeat * 2 > 30 * second then heartbeat * 2 else 30 * second)"

datatype stream_op =
    ObserveManager | ObserveStatus | ObserveTelegram
  | ReadManager | ReadStatus | ReadTelegram | ReadConfiguration
  | WriteState sse_event "text" | WriteNote sse_event
  | TakeConfiguration | TakeSessions | LookUpSession
  | CloseTelegram | CloseStatus | CloseManager

text \<open>
  The local variables of the handler: its session, the operations before the next \<open>select\<close>, whether
  it has not begun to return, its subscriptions and the channels of changes it listens to, the parts
  of the payload that is being put together, the frames written so far. \<open>sv_left\<close> is what the channel
  of the manager still buffered when the manager closed it.
\<close>

record sse_stream =
  sv_session :: "text"
  sv_expires :: int
  sv_ops :: "stream_op list"
  sv_open :: bool
  sv_manager :: nat
  sv_left :: "mgr_event list"
  sv_status :: nat
  sv_telegram :: nat
  sv_configuration :: nat
  sv_sessions :: nat
  sv_ms :: managerSnapshot
  sv_hub :: status_snapshot
  sv_tg :: status_snapshot
  sv_conf :: snapshot
  sv_frames :: "sse_frame list"

record stream_world =
  x_world :: world
  x_hub :: status_store
  x_tg :: status_store
  x_server :: web_server
  x_changed :: nat
  x_table :: session_table
  x_shutdown :: bool
  x_stream :: sse_stream

definition on_stream :: "(sse_stream \<Rightarrow> sse_stream) \<Rightarrow> stream_world \<Rightarrow> stream_world" where
  "on_stream f x = x\<lparr>x_stream := f (x_stream x)\<rparr>"

abbreviation x_mgr :: "stream_world \<Rightarrow> manager" where
  "x_mgr x \<equiv> w_mgr (x_world x)"

definition set_mgr :: "manager \<Rightarrow> stream_world \<Rightarrow> stream_world" where
  "set_mgr m x = x\<lparr>x_world := (x_world x)\<lparr>w_mgr := m\<rparr>\<rparr>"

section \<open>The handler\<close>

text \<open>The deferred calls run in the opposite order.\<close>

definition closing :: "stream_op list" where
  "closing = [CloseTelegram, CloseStatus, CloseManager]"

definition leave :: "stream_op list \<Rightarrow> sse_stream \<Rightarrow> sse_stream" where
  "leave ops st = st\<lparr>sv_open := False, sv_ops := ops @ closing\<rparr>"

definition write_frame :: "bool \<Rightarrow> sse_frame \<Rightarrow> sse_stream \<Rightarrow> sse_stream" where
  "write_frame ok f st = (if ok then st\<lparr>sv_frames := sv_frames st @ [f]\<rparr> else leave [] st)"

definition payload :: "(int \<Rightarrow> text) \<Rightarrow> int \<Rightarrow> stream_world \<Rightarrow> json" where
  "payload fmt now x = statePayload fmt now ((x_server x)\<lparr>ws_config := sv_conf (x_stream x)\<rparr>)
     (sv_ms (x_stream x)) (sv_hub (x_stream x)) (sv_tg (x_stream x))"

definition note_data :: "(int \<Rightarrow> text) \<Rightarrow> int \<Rightarrow> json" where
  "note_data fmt now = JObj [(''at'', JStr (fmt now))]"

fun run_stream_op :: "(int \<Rightarrow> text) \<Rightarrow> int \<Rightarrow> int \<Rightarrow> bool \<Rightarrow> stream_op \<Rightarrow> stream_world \<Rightarrow> stream_world option" where
  "run_stream_op fmt buffer now ok ObserveManager x =
     (case Observe buffer (x_mgr x) of
        None \<Rightarrow> None
      | Some (ms, ob, m) \<Rightarrow> Some (on_stream (\<lambda>st. st\<lparr>sv_manager := ob, sv_ms := ms\<rparr>) (set_mgr m x)))"
| "run_stream_op fmt buffer now ok ObserveStatus x =
     (case observe_status 8 (x_hub x) of
        (y, i, s) \<Rightarrow> Some (on_stream (\<lambda>st. st\<lparr>sv_status := i, sv_hub := y\<rparr>) (x\<lparr>x_hub := s\<rparr>)))"
| "run_stream_op fmt buffer now ok ObserveTelegram x =
     (case observe_status 8 (x_tg x) of
        (y, i, s) \<Rightarrow> Some (on_stream (\<lambda>st. st\<lparr>sv_telegram := i, sv_tg := y\<rparr>) (x\<lparr>x_tg := s\<rparr>)))"
| "run_stream_op fmt buffer now ok ReadManager x =
     (case snapshotLocked (x_mgr x) of
        None \<Rightarrow> None
      | Some ms \<Rightarrow> Some (on_stream (\<lambda>st. st\<lparr>sv_ms := ms\<rparr>) x))"
| "run_stream_op fmt buffer now ok ReadStatus x =
     Some (on_stream (\<lambda>st. st\<lparr>sv_hub := so_snapshot (x_hub x)\<rparr>) x)"
| "run_stream_op fmt buffer now ok ReadTelegram x =
     Some (on_stream (\<lambda>st. st\<lparr>sv_tg := so_snapshot (x_tg x)\<rparr>) x)"
| "run_stream_op fmt buffer now ok ReadConfiguration x =
     Some (on_stream (\<lambda>st. st\<lparr>sv_conf := ws_config (x_server x)\<rparr>) x)"
| "run_stream_op fmt buffer now ok (WriteState ev i) x =
     Some (on_stream (write_frame ok \<lparr>fr_event = ev, fr_id = i, fr_data = payload fmt now x\<rparr>) x)"
| "run_stream_op fmt buffer now ok (WriteNote ev) x =
     Some (on_stream (write_frame ok \<lparr>fr_event = ev, fr_id = [], fr_data = note_data fmt now\<rparr>) x)"
| "run_stream_op fmt buffer now ok TakeConfiguration x =
     Some (on_stream (\<lambda>st. st\<lparr>sv_configuration := x_changed x\<rparr>) x)"
| "run_stream_op fmt buffer now ok TakeSessions x =
     Some (on_stream (\<lambda>st. st\<lparr>sv_sessions := st_changed (x_table x)\<rparr>) x)"
| "run_stream_op fmt buffer now ok LookUpSession x =
     Some (on_stream (\<lambda>st. if sessionExists now (sv_session st) (x_table x) then st
       else leave [WriteNote EventAuthExpired] st) x)"
| "run_stream_op fmt buffer now ok CloseTelegram x =
     Some (x\<lparr>x_tg := close_status (sv_telegram (x_stream x)) (x_tg x)\<rparr>)"
| "run_stream_op fmt buffer now ok CloseStatus x =
     Some (x\<lparr>x_hub := close_status (sv_status (x_stream x)) (x_hub x)\<rparr>)"
| "run_stream_op fmt buffer now ok CloseManager x =
     Some (set_mgr (closeObserver (sv_manager (x_stream x)) (x_mgr x)) x)"

text \<open>The programs: up to the first \<open>select\<close>, and the branches that write a state.\<close>

definition first_program :: "stream_op list" where
  "first_program = [ObserveManager, ObserveStatus, ObserveTelegram, ReadConfiguration,
     WriteState EventSnapshot [], TakeConfiguration, TakeSessions]"

definition manager_branch :: "nat \<Rightarrow> stream_op list" where
  "manager_branch i = [ReadStatus, ReadTelegram, ReadConfiguration, WriteState EventState (dec i)]"

definition status_branch :: "stream_op list" where
  "status_branch = [ReadManager, ReadTelegram, ReadConfiguration, WriteState EventState []]"

definition telegram_branch :: "stream_op list" where
  "telegram_branch = [ReadManager, ReadStatus, ReadConfiguration, WriteState EventState []]"

definition configuration_branch :: "stream_op list" where
  "configuration_branch =
     [TakeConfiguration, ReadManager, ReadStatus, ReadTelegram, ReadConfiguration, WriteState EventState []]"

definition sessions_branch :: "stream_op list" where
  "sessions_branch = [TakeSessions, LookUpSession]"

text \<open>The handler waits in its \<open>select\<close>.\<close>

definition selecting :: "stream_world \<Rightarrow> bool" where
  "selecting x \<longleftrightarrow> sv_open (x_stream x) \<and> sv_ops (x_stream x) = []"

definition left_over :: "nat \<Rightarrow> manager \<Rightarrow> manager \<Rightarrow> mgr_event list \<Rightarrow> mgr_event list" where
  "left_over ob m m' old =
     (case map_of (m_observers m) ob of
        None \<Rightarrow> old
      | Some ch \<Rightarrow> if map_of (m_observers m') ob = None then ch_buf ch else [])"

section \<open>Runs\<close>

text \<open>What others do with the table of sessions.\<close>

inductive table_use :: "session_table \<Rightarrow> session_table \<Rightarrow> bool" where
  "table_use s (dropSession i s)"
| "table_use s (revokeSessions s)"
| "establishSession ttl now token u s = (c, t) \<Longrightarrow> table_use s t"
| "requireSession now cookie s = (r, t) \<Longrightarrow> table_use s t"

text \<open>
  A step of the handler or of its environment. In the environment the manager takes any step but
  that of receiving from the channel of this stream, and so do the users of the status stores.
\<close>

inductive stream_step :: "(int \<Rightarrow> text) \<Rightarrow> int \<Rightarrow> stream_world \<Rightarrow> stream_world \<Rightarrow> bool" for fmt buffer where
  op: "sv_ops (x_stream x) = p # ops \<Longrightarrow>
    run_stream_op fmt buffer now ok p (on_stream (\<lambda>st. st\<lparr>sv_ops := ops\<rparr>) x) = Some x' \<Longrightarrow>
    stream_step fmt buffer x x'"
| disconnected: "selecting x \<Longrightarrow> stream_step fmt buffer x (on_stream (leave []) x)"
| shutdown: "selecting x \<Longrightarrow> x_shutdown x \<Longrightarrow>
    stream_step fmt buffer x (on_stream (leave [WriteNote EventShutdown]) x)"
| expired: "selecting x \<Longrightarrow> sv_expires (x_stream x) \<le> now \<Longrightarrow>
    stream_step fmt buffer x (on_stream (leave [WriteNote EventAuthExpired]) x)"
| event: "selecting x \<Longrightarrow> receiveEvent (sv_manager (x_stream x)) (x_mgr x) = Some (ev, m) \<Longrightarrow>
    stream_step fmt buffer x (on_stream (\<lambda>st. st\<lparr>sv_ms := ev_Snapshot ev,
      sv_ops := manager_branch (ev_ID ev)\<rparr>) (set_mgr m x))"
| left_event: "selecting x \<Longrightarrow> map_of (m_observers (x_mgr x)) (sv_manager (x_stream x)) = None \<Longrightarrow>
    sv_left (x_stream x) = ev # evs \<Longrightarrow>
    stream_step fmt buffer x (on_stream (\<lambda>st. st\<lparr>sv_ms := ev_Snapshot ev, sv_left := evs,
      sv_ops := manager_branch (ev_ID ev)\<rparr>) x)"
| events_closed: "selecting x \<Longrightarrow> map_of (m_observers (x_mgr x)) (sv_manager (x_stream x)) = None \<Longrightarrow>
    sv_left (x_stream x) = [] \<Longrightarrow> stream_step fmt buffer x (on_stream (leave []) x)"
| status_update: "selecting x \<Longrightarrow>
    receive_status (sv_status (x_stream x)) (x_hub x) = Some (StatusUpdate y, s) \<Longrightarrow>
    stream_step fmt buffer x (on_stream (\<lambda>st. st\<lparr>sv_hub := y, sv_ops := status_branch\<rparr>) (x\<lparr>x_hub := s\<rparr>))"
| status_closed: "selecting x \<Longrightarrow>
    receive_status (sv_status (x_stream x)) (x_hub x) = Some (StatusClosed, s) \<Longrightarrow>
    stream_step fmt buffer x (on_stream (leave []) x)"
| telegram_update: "selecting x \<Longrightarrow>
    receive_status (sv_telegram (x_stream x)) (x_tg x) = Some (StatusUpdate y, s) \<Longrightarrow>
    stream_step fmt buffer x (on_stream (\<lambda>st. st\<lparr>sv_tg := y, sv_ops := telegram_branch\<rparr>) (x\<lparr>x_tg := s\<rparr>))"
| telegram_closed: "selecting x \<Longrightarrow>
    receive_status (sv_telegram (x_stream x)) (x_tg x) = Some (StatusClosed, s) \<Longrightarrow>
    stream_step fmt buffer x (on_stream (leave []) x)"
| configuration: "selecting x \<Longrightarrow> sv_configuration (x_stream x) \<noteq> x_changed x \<Longrightarrow>
    stream_step fmt buffer x (on_stream (\<lambda>st. st\<lparr>sv_ops := configuration_branch\<rparr>) x)"
| sessions: "selecting x \<Longrightarrow> sv_sessions (x_stream x) \<noteq> st_changed (x_table x) \<Longrightarrow>
    stream_step fmt buffer x (on_stream (\<lambda>st. st\<lparr>sv_ops := sessions_branch\<rparr>) x)"
| heartbeat: "selecting x \<Longrightarrow>
    stream_step fmt buffer x (on_stream (\<lambda>st. st\<lparr>sv_ops := [WriteNote EventHeartbeat]\<rparr>) x)"
| manager: "step (x_world x) w \<Longrightarrow>
    \<nexists>ev. receiveEvent (sv_manager (x_stream x)) (x_mgr x) = Some (ev, w_mgr w) \<Longrightarrow>
    stream_step fmt buffer x (on_stream (\<lambda>st. st\<lparr>sv_left :=
      left_over (sv_manager st) (x_mgr x) (w_mgr w) (sv_left st)\<rparr>) (x\<lparr>x_world := w\<rparr>))"
| status: "status_step (sv_status (x_stream x)) (x_hub x) s \<Longrightarrow> stream_step fmt buffer x (x\<lparr>x_hub := s\<rparr>)"
| telegram: "status_step (sv_telegram (x_stream x)) (x_tg x) s \<Longrightarrow> stream_step fmt buffer x (x\<lparr>x_tg := s\<rparr>)"
| configured: "stream_step fmt buffer x
    (x\<lparr>x_server := (x_server x)\<lparr>ws_config := snap\<rparr>, x_changed := Suc (x_changed x)\<rparr>)"
| table: "table_use (x_table x) t \<Longrightarrow> stream_step fmt buffer x (x\<lparr>x_table := t\<rparr>)"
| stopping: "stream_step fmt buffer x (x\<lparr>x_shutdown := True\<rparr>)"

text \<open>The handler starts at any time of the program's run.\<close>

definition stream_start :: "text \<Rightarrow> int \<Rightarrow> snapshot \<Rightarrow> sse_stream" where
  "stream_start i expires conf = \<lparr>sv_session = i, sv_expires = expires, sv_ops = first_program,
     sv_open = True, sv_manager = 0, sv_left = [], sv_status = 0, sv_telegram = 0, sv_configuration = 0,
     sv_sessions = 0, sv_ms = \<lparr>ms_Targets = [], ms_CurrentProcesses = 0, ms_MaxParallel = 0\<rparr>,
     sv_hub = \<lparr>ss_State = StatusDisabled, ss_Error = [], ss_UpdatedAt = None\<rparr>,
     sv_tg = \<lparr>ss_State = StatusDisabled, ss_Error = [], ss_UpdatedAt = None\<rparr>,
     sv_conf = conf, sv_frames = []\<rparr>"

definition stream_initial :: "stream_world \<Rightarrow> bool" where
  "stream_initial x \<longleftrightarrow> reachable initial step (x_world x) \<and>
     (\<exists>i expires. x_stream x = stream_start i expires (ws_config (x_server x)))"

section \<open>The invariant\<close>

definition shows_state :: "sse_frame \<Rightarrow> bool" where
  "shows_state f \<longleftrightarrow> fr_event f = EventSnapshot \<or> fr_event f = EventState"

definition state_frames :: "stream_world \<Rightarrow> sse_frame list" where
  "state_frames x = filter shows_state (sv_frames (x_stream x))"

fun writes :: "stream_op list \<Rightarrow> bool" where
  "writes [] \<longleftrightarrow> False"
| "writes (WriteState ev i # ops) \<longleftrightarrow> True"
| "writes (_ # ops) \<longleftrightarrow> writes ops"

definition observing :: "stream_op set" where
  "observing = {ObserveManager, ObserveStatus, ObserveTelegram}"

text \<open>
  The form of the programs, when \<open>n\<close> states have been written: what is read is written afterwards,
  and the channel of configuration changes is taken before the configuration is read, except at
  the start.
\<close>

fun served :: "nat \<Rightarrow> stream_op list \<Rightarrow> bool" where
  "served n [] \<longleftrightarrow> True"
| "served n (p # ops) \<longleftrightarrow>
     (case p of
        WriteState ev i \<Rightarrow> (ev = EventSnapshot \<or> ev = EventState) \<and> \<not> writes ops \<and>
          set ops \<inter> observing = {} \<and> served (Suc n) ops
      | WriteNote ev \<Rightarrow> ev = EventHeartbeat \<and> ops = []
      | TakeConfiguration \<Rightarrow> (ReadConfiguration \<in> set ops \<or> n \<le> 1 \<and> \<not> writes ops) \<and>
          set ops \<inter> observing = {} \<and> served n ops
      | TakeSessions \<Rightarrow> \<not> writes ops \<and> set ops \<inter> observing = {} \<and> served n ops
      | LookUpSession \<Rightarrow> ops = []
      | CloseTelegram \<Rightarrow> False | CloseStatus \<Rightarrow> False | CloseManager \<Rightarrow> False
      | ObserveManager \<Rightarrow> writes ops \<and> ObserveManager \<notin> set ops \<and> served n ops
      | ObserveStatus \<Rightarrow> writes ops \<and> set ops \<inter> {ObserveManager, ObserveStatus} = {} \<and> served n ops
      | _ \<Rightarrow> writes ops \<and> set ops \<inter> observing = {} \<and> served n ops)"

definition conf_ok :: "stream_world \<Rightarrow> bool" where
  "conf_ok x \<longleftrightarrow> sv_configuration (x_stream x) < x_changed x \<or> sv_conf (x_stream x) = ws_config (x_server x)"

definition open_inv :: "(int \<Rightarrow> text) \<Rightarrow> stream_world \<Rightarrow> bool" where
  "open_inv fmt x \<longleftrightarrow> (let st = x_stream x; ops = set (sv_ops st); n = length (state_frames x) in
     served n (sv_ops st) \<and>
     (ObserveManager \<in> ops \<or> informed (sv_ms st) (sv_manager st) (x_mgr x)) \<and>
     (ObserveStatus \<in> ops \<or> tracks (sv_hub st) (sv_status st) (x_hub x)) \<and>
     (ObserveTelegram \<in> ops \<or> tracks (sv_tg st) (sv_telegram st) (x_tg x)) \<and>
     sv_configuration st \<le> x_changed x \<and>
     (ReadConfiguration \<in> ops \<or> conf_ok x \<or> n = 0 \<or> n = 1 \<and> \<not> writes (sv_ops st)) \<and>
     (writes (sv_ops st) \<or> (0 < n \<and> (\<exists>t. fr_data (last (state_frames x)) = payload fmt t x))))"

definition closed_inv :: "stream_world \<Rightarrow> bool" where
  "closed_inv x \<longleftrightarrow> (let st = x_stream x; ops = set (sv_ops st) in
     (sv_ops st \<in> {closing, [CloseStatus, CloseManager], [CloseManager], []} \<or>
      (\<exists>ev. sv_ops st = WriteNote ev # closing)) \<and>
     (if CloseManager \<in> ops then informed (sv_ms st) (sv_manager st) (x_mgr x)
      else gone (sv_manager st) (x_mgr x)) \<and>
     (if CloseStatus \<in> ops then tracks (sv_hub st) (sv_status st) (x_hub x) else shut (sv_status st) (x_hub x)) \<and>
     (if CloseTelegram \<in> ops then tracks (sv_tg st) (sv_telegram st) (x_tg x) else shut (sv_telegram st) (x_tg x)))"

definition stream_inv :: "(int \<Rightarrow> text) \<Rightarrow> stream_world \<Rightarrow> bool" where
  "stream_inv fmt x \<longleftrightarrow> inv (x_world x) \<and> seated (x_mgr x) \<and>
     (if sv_open (x_stream x) then open_inv fmt x else closed_inv x)"

lemma stream_fields [simp]:
  "x_stream (on_stream f x) = f (x_stream x)" "x_world (on_stream f x) = x_world x"
  "x_hub (on_stream f x) = x_hub x" "x_tg (on_stream f x) = x_tg x" "x_server (on_stream f x) = x_server x"
  "x_changed (on_stream f x) = x_changed x" "x_table (on_stream f x) = x_table x"
  "x_shutdown (on_stream f x) = x_shutdown x"
  "x_stream (set_mgr m x) = x_stream x" "x_world (set_mgr m x) = (x_world x)\<lparr>w_mgr := m\<rparr>"
  "x_hub (set_mgr m x) = x_hub x"
  "x_tg (set_mgr m x) = x_tg x" "x_server (set_mgr m x) = x_server x" "x_changed (set_mgr m x) = x_changed x"
  by (simp_all add: on_stream_def set_mgr_def)

lemma inv_frame:
  "inv (x_world x) \<Longrightarrow> Observe b (x_mgr x) = Some (y, ob, m) \<Longrightarrow> inv ((x_world x)\<lparr>w_mgr := m\<rparr>)"
  "inv (x_world x) \<Longrightarrow> inv ((x_world x)\<lparr>w_mgr := closeObserver ob (x_mgr x)\<rparr>)"
  "inv (x_world x) \<Longrightarrow> receiveEvent ob (x_mgr x) = Some (ev, m) \<Longrightarrow> inv ((x_world x)\<lparr>w_mgr := m\<rparr>)"
  using step_inv step_observe[of b "x_world x" y ob m] step_close[of "x_world x" ob]
    step_receive[of ob "x_world x" ev m] by auto

lemma payload_cong:
  "sv_conf (x_stream x') = sv_conf (x_stream x) \<Longrightarrow> sv_ms (x_stream x') = sv_ms (x_stream x) \<Longrightarrow>
   sv_hub (x_stream x') = sv_hub (x_stream x) \<Longrightarrow> sv_tg (x_stream x') = sv_tg (x_stream x) \<Longrightarrow>
   (x_server x')\<lparr>ws_config := c\<rparr> = (x_server x)\<lparr>ws_config := c\<rparr> \<Longrightarrow>
   payload fmt t x' = payload fmt t x"
  unfolding payload_def by (metis web_server.update_convs(4) web_server.surjective web_server.ext_inject)

lemma stream_inv_start: "stream_initial x \<Longrightarrow> stream_inv fmt x"
  using seats.reachable_inv[of "x_world x"]
  by (auto simp: stream_initial_def stream_inv_def open_inv_def stream_start_def first_program_def
      state_frames_def observing_def)

lemma snapshot_defined: "inv w \<Longrightarrow> snapshotLocked (w_mgr w) \<noteq> None"
  using snapshot_wf[of "w_mgr w"] by (auto simp: inv_def dest: ledger_wf)

text \<open>Leaving the loop hands the subscriptions over to the deferred calls.\<close>

lemma leave_inv:
  assumes "inv (x_world x)" "seated (x_mgr x)" "informed (sv_ms (x_stream x)) (sv_manager (x_stream x)) (x_mgr x)"
    "tracks (sv_hub (x_stream x)) (sv_status (x_stream x)) (x_hub x)"
    "tracks (sv_tg (x_stream x)) (sv_telegram (x_stream x)) (x_tg x)" "ops = [] \<or> (\<exists>ev. ops = [WriteNote ev])"
  shows "stream_inv fmt (on_stream (leave ops) x)"
  using assms by (auto simp: stream_inv_def closed_inv_def leave_def closing_def)

lemmas open_defs = stream_inv_def open_inv_def Let_def conf_ok_def state_frames_def observing_def payload_def

lemma observe_op_inv:
  assumes "stream_inv fmt x" "sv_open (x_stream x)" "sv_ops (x_stream x) = p # ops" "p \<in> observing"
    "run_stream_op fmt buffer now ok p (on_stream (\<lambda>st. st\<lparr>sv_ops := ops\<rparr>) x) = Some x'"
  shows "stream_inv fmt x'"
proof -
  from assms(1,2) have i: "inv (x_world x)" "seated (x_mgr x)" and o': "open_inv fmt x"
    by (simp_all add: stream_inv_def)
  from assms(4) consider "p = ObserveManager" | "p = ObserveStatus" | "p = ObserveTelegram"
    by (auto simp: observing_def)
  then show ?thesis
  proof cases
    case 1
    then obtain ms ob m where ob: "Observe buffer (x_mgr x) = Some (ms, ob, m)"
      and x': "x' = on_stream (\<lambda>st. st\<lparr>sv_ops := ops, sv_manager := ob, sv_ms := ms\<rparr>) (set_mgr m x)"
      using assms(5) by (auto simp: on_stream_def set_mgr_def split: option.splits)
    show ?thesis
      using o' assms(2,3) 1 inv_frame(1)[OF i(1) ob] seated_observe[OF ob i(2)] informed_observe(1)[OF ob i(2)]
      by (auto simp: x' open_defs)
  next
    case 2
    obtain y n s where ob: "observe_status 8 (x_hub x) = (y, n, s)" by (cases "observe_status 8 (x_hub x)")
    have x': "x' = on_stream (\<lambda>st. st\<lparr>sv_ops := ops, sv_status := n, sv_hub := y\<rparr>) (x\<lparr>x_hub := s\<rparr>)"
      using assms(5) 2 ob by (auto simp: on_stream_def)
    show ?thesis using o' assms(2,3) 2 i tracks_observe[OF ob] by (auto simp: x' open_defs)
  next
    case 3
    obtain y n s where ob: "observe_status 8 (x_tg x) = (y, n, s)" by (cases "observe_status 8 (x_tg x)")
    have x': "x' = on_stream (\<lambda>st. st\<lparr>sv_ops := ops, sv_telegram := n, sv_tg := y\<rparr>) (x\<lparr>x_tg := s\<rparr>)"
      using assms(5) 3 ob by (auto simp: on_stream_def)
    show ?thesis using o' assms(2,3) 3 i tracks_observe[OF ob] by (auto simp: x' open_defs)
  qed
qed

definition reading :: "stream_op set" where
  "reading = {ReadManager, ReadStatus, ReadTelegram, ReadConfiguration, TakeConfiguration, TakeSessions}"

lemma read_op_inv:
  assumes "stream_inv fmt x" "sv_open (x_stream x)" "sv_ops (x_stream x) = p # ops" "p \<in> reading"
    "run_stream_op fmt buffer now ok p (on_stream (\<lambda>st. st\<lparr>sv_ops := ops\<rparr>) x) = Some x'"
  shows "stream_inv fmt x'"
proof -
  from assms(1,2) have i: "inv (x_world x)" "seated (x_mgr x)" and o': "open_inv fmt x"
    by (simp_all add: stream_inv_def)
  let ?at = "\<lambda>f. on_stream (\<lambda>st. f (st\<lparr>sv_ops := ops\<rparr>)) x"
  from assms(4) consider "p = ReadManager" | "p = ReadStatus" | "p = ReadTelegram" | "p = ReadConfiguration"
    | "p = TakeConfiguration" | "p = TakeSessions" by (auto simp: reading_def)
  then show ?thesis
  proof cases
    case 1
    then obtain ms where ms: "snapshotLocked (x_mgr x) = Some ms" and x': "x' = ?at (\<lambda>st. st\<lparr>sv_ms := ms\<rparr>)"
      using assms(5) by (auto simp: on_stream_def split: option.splits)
    have "informed (sv_ms (x_stream x)) (sv_manager (x_stream x)) (x_mgr x)"
      using o' assms(3) 1 by (auto simp: open_defs)
    from informed_read[OF this ms] show ?thesis using o' assms(2,3) 1 i by (auto simp: x' open_defs)
  next
    case 2
    then have x': "x' = ?at (\<lambda>st. st\<lparr>sv_hub := so_snapshot (x_hub x)\<rparr>)"
      using assms(5) by (auto simp: on_stream_def)
    have "tracks (sv_hub (x_stream x)) (sv_status (x_stream x)) (x_hub x)"
      using o' assms(3) 2 by (auto simp: open_defs)
    from tracks_read[OF this] show ?thesis using o' assms(2,3) 2 i by (auto simp: x' open_defs)
  next
    case 3
    then have x': "x' = ?at (\<lambda>st. st\<lparr>sv_tg := so_snapshot (x_tg x)\<rparr>)"
      using assms(5) by (auto simp: on_stream_def)
    have "tracks (sv_tg (x_stream x)) (sv_telegram (x_stream x)) (x_tg x)"
      using o' assms(3) 3 by (auto simp: open_defs)
    from tracks_read[OF this] show ?thesis using o' assms(2,3) 3 i by (auto simp: x' open_defs)
  next
    case 4
    then have x': "x' = ?at (\<lambda>st. st\<lparr>sv_conf := ws_config (x_server x)\<rparr>)"
      using assms(5) by (auto simp: on_stream_def)
    show ?thesis using o' assms(2,3) 4 i by (auto simp: x' open_defs)
  next
    case 5
    then have x': "x' = ?at (\<lambda>st. st\<lparr>sv_configuration := x_changed x\<rparr>)"
      using assms(5) by (auto simp: on_stream_def)
    show ?thesis using o' assms(2,3) 5 i by (auto simp: x' open_defs le_Suc_eq)
  next
    case 6
    then have x': "x' = ?at (\<lambda>st. st\<lparr>sv_sessions := st_changed (x_table x)\<rparr>)"
      using assms(5) by (auto simp: on_stream_def)
    show ?thesis using o' assms(2,3) 6 i by (auto simp: x' open_defs)
  qed
qed

text \<open>A handler that has subscribed may leave.\<close>

lemma subscribed_leave_inv:
  assumes "stream_inv fmt x" "sv_open (x_stream x)" "set (sv_ops (x_stream x)) \<inter> observing = {}"
    "ops = [] \<or> (\<exists>ev. ops = [WriteNote ev])"
  shows "stream_inv fmt (on_stream (leave ops) x)"
  using assms by (intro leave_inv) (auto simp: stream_inv_def open_inv_def Let_def observing_def)

lemma write_op_inv:
  assumes "stream_inv fmt x" "sv_open (x_stream x)" "sv_ops (x_stream x) = p # ops"
    "p = WriteState ev d \<or> p = WriteNote ev \<or> p = LookUpSession"
    "run_stream_op fmt buffer now ok p (on_stream (\<lambda>st. st\<lparr>sv_ops := ops\<rparr>) x) = Some x'"
  shows "stream_inv fmt x'"
proof -
  from assms(1,2) have i: "inv (x_world x)" "seated (x_mgr x)" and o': "open_inv fmt x"
    by (simp_all add: stream_inv_def)
  have "served (length (state_frames x)) (p # ops)" using o' assms(3) by (simp add: open_inv_def Let_def)
  then have s: "set (sv_ops (x_stream x)) \<inter> observing = {}"
    using assms(3,4) by (elim disjE) (simp_all add: observing_def)
  let ?at = "\<lambda>f. on_stream (\<lambda>st. f (st\<lparr>sv_ops := ops\<rparr>)) x"
  from assms(4) consider "p = WriteState ev d" | "p = WriteNote ev" | "p = LookUpSession" by blast
  then show ?thesis
  proof cases
    case 1
    show ?thesis
    proof (cases ok)
      case True
      let ?f = "\<lparr>fr_event = ev, fr_id = d, fr_data = payload fmt now x\<rparr>"
      have x': "x' = ?at (\<lambda>st. st\<lparr>sv_frames := sv_frames st @ [?f]\<rparr>)"
        using assms(5) 1 True by (auto simp: on_stream_def write_frame_def payload_def)
      have "shows_state ?f" using o' assms(3) 1 by (simp add: open_inv_def Let_def shows_state_def)
      then show ?thesis using o' assms(2,3) 1 i by (auto simp: x' open_defs)
    next
      case False
      then have "x' = on_stream (leave []) x"
        using assms(5) 1 by (auto simp: on_stream_def write_frame_def leave_def)
      then show ?thesis using subscribed_leave_inv[OF assms(1,2) s, of "[]"] by simp
    qed
  next
    case 2
    show ?thesis
    proof (cases ok)
      case True
      let ?f = "\<lparr>fr_event = ev, fr_id = [], fr_data = note_data fmt now\<rparr>"
      have x': "x' = ?at (\<lambda>st. st\<lparr>sv_frames := sv_frames st @ [?f]\<rparr>)"
        using assms(5) 2 True by (auto simp: on_stream_def write_frame_def)
      have "\<not> shows_state ?f" and "ops = []"
        using o' assms(3) 2 by (simp_all add: open_inv_def Let_def shows_state_def)
      then show ?thesis using o' assms(2,3) 2 i by (auto simp: x' open_defs)
    next
      case False
      then have "x' = on_stream (leave []) x"
        using assms(5) 2 by (auto simp: on_stream_def write_frame_def leave_def)
      then show ?thesis using subscribed_leave_inv[OF assms(1,2) s, of "[]"] by simp
    qed
  next
    case 3
    show ?thesis
    proof (cases "sessionExists now (sv_session (x_stream x)) (x_table x)")
      case True
      then have x': "x' = ?at id" using assms(5) 3 by (auto simp: on_stream_def)
      show ?thesis using o' assms(2,3) 3 i by (auto simp: x' open_defs)
    next
      case False
      then have "x' = on_stream (leave [WriteNote EventAuthExpired]) x"
        using assms(5) 3 by (auto simp: on_stream_def leave_def)
      then show ?thesis using subscribed_leave_inv[OF assms(1,2) s, of "[WriteNote EventAuthExpired]"] by simp
    qed
  qed
qed

lemma open_op_inv:
  assumes "stream_inv fmt x" "sv_open (x_stream x)" "sv_ops (x_stream x) = p # ops"
    "run_stream_op fmt buffer now ok p (on_stream (\<lambda>st. st\<lparr>sv_ops := ops\<rparr>) x) = Some x'"
  shows "stream_inv fmt x'"
proof -
  have "served (length (state_frames x)) (p # ops)"
    using assms(1-3) by (simp add: stream_inv_def open_inv_def Let_def)
  then have "p \<in> observing \<or> p \<in> reading \<or> (\<exists>ev d. p = WriteState ev d \<or> p = WriteNote ev \<or> p = LookUpSession)"
    by (cases p) (auto simp: observing_def reading_def)
  then show ?thesis
    using observe_op_inv[OF assms(1-3) _ assms(4)] read_op_inv[OF assms(1-3) _ assms(4)]
      write_op_inv[OF assms(1-3) _ assms(4)] by blast
qed

lemma closed_op_inv:
  assumes "stream_inv fmt x" "\<not> sv_open (x_stream x)" "sv_ops (x_stream x) = p # ops"
    "run_stream_op fmt buffer now ok p (on_stream (\<lambda>st. st\<lparr>sv_ops := ops\<rparr>) x) = Some x'"
  shows "stream_inv fmt x'"
proof -
  from assms(1,2) have i: "inv (x_world x)" "seated (x_mgr x)" and c: "closed_inv x"
    by (simp_all add: stream_inv_def)
  note defs = stream_inv_def closed_inv_def Let_def closing_def
  from c assms(3) consider "p = CloseTelegram" "ops = [CloseStatus, CloseManager]"
    | "p = CloseStatus" "ops = [CloseManager]" | "p = CloseManager" "ops = []" | ev where "p = WriteNote ev" "ops = closing"
    by (auto simp: closed_inv_def closing_def Let_def)
  then show ?thesis
  proof cases
    case 1
    then show ?thesis using c i assms(2-4) by (auto simp: defs shut_close)
  next
    case 2
    then show ?thesis using c i assms(2-4) by (auto simp: defs shut_close)
  next
    case 3
    then show ?thesis
      using c i assms(2-4) inv_frame(2)[OF i(1)] by (auto simp: defs gone_close seated_close)
  next
    case 4
    then show ?thesis
      using c i assms(2,3) assms(4)[symmetric] by (cases ok) (simp_all add: defs write_frame_def leave_def)
  qed
qed

section \<open>The invariant holds\<close>

text \<open>The branches of the \<open>select\<close>.\<close>

lemmas branch_defs = manager_branch_def status_branch_def telegram_branch_def configuration_branch_def
  sessions_branch_def

lemma select_inv:
  assumes "stream_inv fmt x" "selecting x"
  shows "sv_open (x_stream x)" "open_inv fmt x" "inv (x_world x)" "seated (x_mgr x)" "sv_ops (x_stream x) = []"
    "informed (sv_ms (x_stream x)) (sv_manager (x_stream x)) (x_mgr x)"
    "tracks (sv_hub (x_stream x)) (sv_status (x_stream x)) (x_hub x)"
    "tracks (sv_tg (x_stream x)) (sv_telegram (x_stream x)) (x_tg x)"
    "ops = [] \<or> (\<exists>ev. ops = [WriteNote ev]) \<Longrightarrow> stream_inv fmt (on_stream (leave ops) x)"
  using assms subscribed_leave_inv[of fmt x ops] by (auto simp: selecting_def stream_inv_def open_inv_def Let_def)

lemma payload_server: "payload fmt t (x\<lparr>x_server := (x_server x)\<lparr>ws_config := c\<rparr>, x_changed := n\<rparr>) = payload fmt t x"
  by (simp add: payload_def)

lemma manager_step_inv:
  assumes "stream_inv fmt x" "step (x_world x) w"
    "\<nexists>ev. receiveEvent (sv_manager (x_stream x)) (x_mgr x) = Some (ev, w_mgr w)"
  shows "stream_inv fmt (on_stream (\<lambda>st. st\<lparr>sv_left := l st\<rparr>) (x\<lparr>x_world := w\<rparr>))"
proof -
  from assms(1) have i: "inv (x_world x)" "seated (x_mgr x)" by (simp_all add: stream_inv_def)
  note w = step_inv[OF i(1) assms(2)] step_seated[OF i(1) assms(2) i(2)]
    informed_step[OF i assms(2,3)] gone_step[OF i assms(2)]
  show ?thesis
  proof (cases "sv_open (x_stream x)")
    case True
    then show ?thesis using assms(1) w by (auto simp: open_defs)
  next
    case False
    then show ?thesis using assms(1) w by (auto simp: stream_inv_def closed_inv_def Let_def)
  qed
qed

lemma status_step_inv:
  assumes "stream_inv fmt x"
  shows "status_step (sv_status (x_stream x)) (x_hub x) s \<Longrightarrow> stream_inv fmt (x\<lparr>x_hub := s\<rparr>)"
    "status_step (sv_telegram (x_stream x)) (x_tg x) s \<Longrightarrow> stream_inv fmt (x\<lparr>x_tg := s\<rparr>)"
proof -
  assume s: "status_step (sv_status (x_stream x)) (x_hub x) s"
  from assms tracks_step[OF s] shut_step[OF s] show "stream_inv fmt (x\<lparr>x_hub := s\<rparr>)"
    by (cases "sv_open (x_stream x)") (auto simp: open_defs closed_inv_def)
next
  assume s: "status_step (sv_telegram (x_stream x)) (x_tg x) s"
  from assms tracks_step[OF s] shut_step[OF s] show "stream_inv fmt (x\<lparr>x_tg := s\<rparr>)"
    by (cases "sv_open (x_stream x)") (auto simp: open_defs closed_inv_def)
qed

lemma stream_step_inv:
  assumes "stream_inv fmt x" "stream_step fmt buffer x x'"
  shows "stream_inv fmt x'"
  using assms(2,1)
proof induction
  case (op x p ops now ok x')
  then show ?case using open_op_inv closed_op_inv by blast
next
  case (event x ev m)
  note s = select_inv[OF event(3,1)]
  from s(1-3,5-8) inv_frame(3)[OF s(3) event(2)] seated_receive[OF event(2) s(4)]
    informed_receive(2)[OF event(2) s(6) refl]
  show ?case by (auto simp: open_defs branch_defs)
next
  case (left_event x ev evs)
  note s = select_inv[OF left_event(4,1)]
  then show ?case using left_event(2) by (auto simp: open_defs branch_defs informed_def)
next
  case (status_update x y s)
  note i = select_inv[OF status_update(3,1)]
  then show ?case using tracks_receive[OF i(7) status_update(2)] by (auto simp: open_defs branch_defs)
next
  case (telegram_update x y s)
  note i = select_inv[OF telegram_update(3,1)]
  then show ?case using tracks_receive[OF i(8) telegram_update(2)] by (auto simp: open_defs branch_defs)
next
  case (configuration x)
  then show ?case using select_inv(1-8)[OF configuration(3,1)] by (auto simp: open_defs branch_defs)
next
  case (sessions x)
  then show ?case using select_inv(1-8)[OF sessions(3,1)] by (auto simp: open_defs branch_defs)
next
  case (heartbeat x)
  then show ?case using select_inv(1-8)[OF heartbeat(2,1)] by (auto simp: open_defs)
next
  case (manager x w)
  then show ?case by (intro manager_step_inv)
next
  case (configured x snap)
  then show ?case by (cases "sv_open (x_stream x)") (auto simp: open_defs closed_inv_def)
next
  case (table x t)
  then show ?case by (cases "sv_open (x_stream x)") (auto simp: open_defs closed_inv_def)
next
  case (stopping x)
  then show ?case by (cases "sv_open (x_stream x)") (auto simp: open_defs closed_inv_def)
qed (use select_inv(9) status_step_inv in blast)+

interpretation streams: invariant_system stream_initial "stream_step fmt buffer" "stream_inv fmt" for fmt buffer
  by unfold_locales (auto intro: stream_inv_start stream_step_inv)

section \<open>A run\<close>

text \<open>The next \<open>n\<close> operations of the handler, all writes succeeding.\<close>

fun run_ops :: "(int \<Rightarrow> text) \<Rightarrow> int \<Rightarrow> int \<Rightarrow> nat \<Rightarrow> stream_world \<Rightarrow> stream_world option" where
  "run_ops fmt buffer now 0 x = Some x"
| "run_ops fmt buffer now (Suc n) x =
     (case sv_ops (x_stream x) of
        [] \<Rightarrow> None
      | p # ops \<Rightarrow> Option.bind (run_stream_op fmt buffer now True p (on_stream (\<lambda>st. st\<lparr>sv_ops := ops\<rparr>) x))
          (run_ops fmt buffer now n))"

lemma run_ops_reachable:
  "run_ops fmt buffer now n x = Some x' \<Longrightarrow> reachable stream_initial (stream_step fmt buffer) x \<Longrightarrow>
   reachable stream_initial (stream_step fmt buffer) x'"
proof (induction n arbitrary: x)
  case (Suc n)
  then obtain p ops y where "sv_ops (x_stream x) = p # ops" "run_ops fmt buffer now n y = Some x'"
    "run_stream_op fmt buffer now True p (on_stream (\<lambda>st. st\<lparr>sv_ops := ops\<rparr>) x) = Some y"
    by (auto split: list.splits bind_splits)
  then show ?case using Suc.IH reachable_step[OF Suc.prems(2)] stream_step.op by metis
qed simp

lemma Observe_facts:
  assumes "Observe b m = Some (ms, ob, m')" "seated m"
  shows "snapshotLocked m' = Some ms" "\<exists>ch. map_of (m_observers m') ob = Some ch \<and> ch_buf ch = []"
proof -
  have "map_of (m_observers m) (Suc (m_nextObserverID m)) = None"
    using assms(2) by (force simp: seated_def map_of_eq_None_iff)
  then show "snapshotLocked m' = Some ms" "\<exists>ch. map_of (m_observers m') ob = Some ch \<and> ch_buf ch = []"
    using assms(1) by (auto simp: Observe_def Let_def map_add_def split: bind_splits)
qed

text \<open>Everything the handler listens to is silent.\<close>

definition awaiting :: "stream_world \<Rightarrow> bool" where
  "awaiting x \<longleftrightarrow> selecting x \<and>
     (\<exists>ch. map_of (m_observers (x_mgr x)) (sv_manager (x_stream x)) = Some ch \<and> ch_buf ch = []) \<and>
     receive_status (sv_status (x_stream x)) (x_hub x) = None \<and>
     receive_status (sv_telegram (x_stream x)) (x_tg x) = None \<and>
     sv_configuration (x_stream x) = x_changed x"

definition demo_stream :: stream_world where
  "demo_stream = \<lparr>x_world = demo_running, x_hub = NewStatusStore StatusConnected 0,
     x_tg = NewStatusStore StatusDisabled 0, x_server = demo_server, x_changed = 0,
     x_table = \<lparr>st_sessions = [[49] \<mapsto> \<lparr>se_Username = [97], se_ExpiresAt = 100\<rparr>], st_changed = 1\<rparr>,
     x_shutdown = False, x_stream = stream_start [49] 100 (ws_config demo_server)\<rparr>"

definition next_snapshot :: snapshot where
  "next_snapshot = (ws_config demo_server)\<lparr>sp_Revision := 2\<rparr>"

lemma next_snapshot_revision: "sp_Revision next_snapshot = 2"
  by (simp add: next_snapshot_def)

definition reconfigured :: "stream_world \<Rightarrow> stream_world" where
  "reconfigured x = x\<lparr>x_server := (x_server x)\<lparr>ws_config := next_snapshot\<rparr>, x_changed := Suc (x_changed x)\<rparr>"

lemma demo_stream_reachable: "reachable stream_initial (stream_step fmt buffer) demo_stream"
  by (rule reachable_init) (auto simp: stream_initial_def demo_stream_def demo_running_reachable)

lemma reconfigured_step: "stream_step fmt buffer x (reconfigured x)"
  unfolding reconfigured_def by (rule stream_step.configured)

lemma demo_observed:
  obtains ms ob m where "Observe 32 (w_mgr demo_running) = Some (ms, ob, m)" "snapshotLocked m = Some ms"
    "\<exists>ch. map_of (m_observers m) ob = Some ch \<and> ch_buf ch = []"
proof -
  have i: "inv demo_running" "seated (w_mgr demo_running)"
    using seats.reachable_inv[OF demo_running_reachable] by simp_all
  from snapshot_defined[OF i(1)] obtain ms ob m where o': "Observe 32 (w_mgr demo_running) = Some (ms, ob, m)"
    by (auto simp: Observe_def Let_def)
  from that[OF o'] Observe_facts[OF o' i(2)] show thesis by blast
qed

lemmas demo_stream_defs = demo_stream_def stream_start_def first_program_def observe_status_def
  NewStatusStore_def write_frame_def payload_def awaiting_def selecting_def state_frames_def shows_state_def
  receive_status_def reconfigured_def eval_nat_numeral on_stream_def set_mgr_def

text \<open>The configuration changes after the first snapshot was written and before the handler listens.\<close>

lemma demo_missed:
  "\<exists>x1 x2. run_ops (\<lambda>_. [49]) 32 0 5 demo_stream = Some x1 \<and> run_ops (\<lambda>_. [49]) 32 0 2 (reconfigured x1) = Some x2 \<and>
     awaiting x2 \<and> (\<exists>f ms hub tg. state_frames x2 = [f] \<and>
       fr_data f = statePayload (\<lambda>_. [49]) 0 demo_server ms hub tg) \<and>
     sp_Revision (ws_config (x_server x2)) = 2"
proof -
  obtain ms ob m where o': "Observe 32 (w_mgr demo_running) = Some (ms, ob, m)" "snapshotLocked m = Some ms"
    "\<exists>ch. map_of (m_observers m) ob = Some ch \<and> ch_buf ch = []" by (rule demo_observed)
  show ?thesis using o' by (auto simp: demo_stream_defs next_snapshot_def)
qed

text \<open>The configuration changes once the handler listens.\<close>

lemma demo_updated:
  "\<exists>x1 x2. run_ops (\<lambda>_. [49]) 32 0 7 demo_stream = Some x1 \<and> selecting (reconfigured x1) \<and>
     sv_configuration (x_stream (reconfigured x1)) \<noteq> x_changed (reconfigured x1) \<and>
     run_ops (\<lambda>_. [49]) 32 0 6 (on_stream (\<lambda>st. st\<lparr>sv_ops := configuration_branch\<rparr>) (reconfigured x1)) = Some x2 \<and>
     awaiting x2 \<and> 1 < length (state_frames x2) \<and> ws_config (x_server x2) = next_snapshot"
proof -
  obtain ms ob m where o': "Observe 32 (w_mgr demo_running) = Some (ms, ob, m)" "snapshotLocked m = Some ms"
    "\<exists>ch. map_of (m_observers m) ob = Some ch \<and> ch_buf ch = []" by (rule demo_observed)
  show ?thesis using o' by (auto simp: demo_stream_defs configuration_branch_def)
qed

section \<open>Properties\<close>

text \<open>
  C10: the event stream does not fall behind. Whenever its handler waits and nothing it listens to is
  ready, the last state it wrote was put together from the manager's current snapshot and the two
  current connection statuses, however the goroutines, the callers, the messaging runtime and the
  handler were interleaved, and a page that receives it shows exactly that; from the second state on it
  also shows the current configuration.
\<close>

theorem stream_up_to_date:
  assumes "reachable stream_initial (stream_step fmt buffer) x" "awaiting x"
  shows "\<exists>ms conf now. snapshotLocked (x_mgr x) = Some ms \<and> state_frames x \<noteq> [] \<and>
    dash_view (on_state (Some (fr_data (last (state_frames x)))) p) =
      Some (dashboard_view fmt now ((x_server x)\<lparr>ws_config := conf\<rparr>) ms
        (so_snapshot (x_hub x)) (so_snapshot (x_tg x))) \<and>
    (1 < length (state_frames x) \<longrightarrow> conf = ws_config (x_server x))"
proof -
  let ?st = "x_stream x"
  have i: "stream_inv fmt x" by (rule streams.reachable_inv[OF assms(1)])
  note s = select_inv[OF i] assms(2)[unfolded awaiting_def]
  have ms: "snapshotLocked (x_mgr x) = Some (sv_ms ?st)" using s informed_blocked by blast
  have h: "sv_hub ?st = so_snapshot (x_hub x)" "sv_tg ?st = so_snapshot (x_tg x)"
    using s tracks_blocked by blast+
  have o': "open_inv fmt x" "sv_ops ?st = []" "sv_configuration ?st = x_changed x" using s by blast+
  then obtain t where t: "state_frames x \<noteq> []" "fr_data (last (state_frames x)) = payload fmt t x"
    by (auto simp: open_inv_def Let_def)
  moreover have "1 < length (state_frames x) \<longrightarrow> sv_conf ?st = ws_config (x_server x)"
    using o' by (auto simp: open_inv_def Let_def conf_ok_def)
  ultimately show ?thesis
    using ms on_state_view[OF read_statePayload] by (metis h payload_def)
qed

theorem stream_up_to_date_witness:
  "\<exists>x ms now. reachable stream_initial (stream_step (\<lambda>_. [49]) 32) x \<and> awaiting x \<and>
     snapshotLocked (x_mgr x) = Some ms \<and> sp_Revision (ws_config (x_server x)) = 2 \<and>
     dash_view (on_state (Some (fr_data (last (state_frames x)))) dash_mounted) =
       Some (dashboard_view (\<lambda>_. [49]) now (x_server x) ms (so_snapshot (x_hub x)) (so_snapshot (x_tg x)))"
proof -
  let ?F = "\<lambda>_::int. [49::nat]"
  obtain x1 x2 where x: "run_ops ?F 32 0 7 demo_stream = Some x1" "selecting (reconfigured x1)"
    "sv_configuration (x_stream (reconfigured x1)) \<noteq> x_changed (reconfigured x1)"
    "run_ops ?F 32 0 6 (on_stream (\<lambda>st. st\<lparr>sv_ops := configuration_branch\<rparr>) (reconfigured x1)) = Some x2"
    "awaiting x2" "1 < length (state_frames x2)" "ws_config (x_server x2) = next_snapshot"
    using demo_updated by blast
  have "reachable stream_initial (stream_step ?F 32) (reconfigured x1)"
    using run_ops_reachable[OF x(1) demo_stream_reachable] reconfigured_step by (rule reachable_step)
  from reachable_step[OF this stream_step.configuration[OF x(2,3)]]
  have r: "reachable stream_initial (stream_step ?F 32) x2" by (rule run_ops_reachable[OF x(4)])
  from stream_up_to_date[OF r x(5), of dash_mounted] obtain ms conf now
    where v: "snapshotLocked (x_mgr x2) = Some ms" "1 < length (state_frames x2) \<longrightarrow> conf = ws_config (x_server x2)"
    "dash_view (on_state (Some (fr_data (last (state_frames x2)))) dash_mounted) =
      Some (dashboard_view ?F now ((x_server x2)\<lparr>ws_config := conf\<rparr>) ms (so_snapshot (x_hub x2))
        (so_snapshot (x_tg x2)))" by blast
  have "(x_server x2)\<lparr>ws_config := conf\<rparr> = x_server x2" using v(2) x(6) by simp
  then show ?thesis using r v(1,3) x(5,7) by (metis next_snapshot_revision)
qed

text \<open>
  A configuration saved between the first snapshot and the moment the handler starts listening is
  not sent: everything is silent and the page still has the old revision.
\<close>

lemma early_configuration_missed:
  "\<exists>x f ms hub tg. reachable stream_initial (stream_step (\<lambda>_. [49]) 32) x \<and> awaiting x \<and> state_frames x = [f] \<and>
     fr_data f = statePayload (\<lambda>_. [49]) 0 demo_server ms hub tg \<and> sp_Revision (ws_config demo_server) = 1 \<and>
     sp_Revision (ws_config (x_server x)) = 2"
proof -
  obtain x1 x2 f ms hub tg where x: "run_ops (\<lambda>_. [49]) 32 0 5 demo_stream = Some x1"
    "run_ops (\<lambda>_. [49]) 32 0 2 (reconfigured x1) = Some x2" "awaiting x2" "state_frames x2 = [f]"
    "fr_data f = statePayload (\<lambda>_. [49]) 0 demo_server ms hub tg" "sp_Revision (ws_config (x_server x2)) = 2"
    using demo_missed by blast
  from run_ops_reachable[OF x(2) reachable_step[OF run_ops_reachable[OF x(1) demo_stream_reachable] reconfigured_step]]
  have "reachable stream_initial (stream_step (\<lambda>_. [49]) 32) x2" .
  moreover have "sp_Revision (ws_config demo_server) = 1" by (simp add: demo_server_def)
  ultimately show ?thesis using x(3-6) by blast
qed

text \<open>A handler that has returned leaves no subscription behind.\<close>

lemma ended_stream_leaves_nothing:
  assumes "reachable stream_initial (stream_step fmt buffer) x" "\<not> sv_open (x_stream x)" "sv_ops (x_stream x) = []"
  shows "sv_manager (x_stream x) \<notin> fst ` set (m_observers (x_mgr x))"
    "\<exists>c. so_chans (x_hub x) (sv_status (x_stream x)) = Some c \<and> \<not> sc_open c"
    "\<exists>c. so_chans (x_tg x) (sv_telegram (x_stream x)) = Some c \<and> \<not> sc_open c"
  using streams.reachable_inv[OF assms(1)] assms(2,3)
  by (auto simp: stream_inv_def closed_inv_def Let_def gone_def shut_def map_of_eq_None_iff)

end
