(* ===== verification/Web_Assets.thy ===== *)
theory Web_Assets
  imports Sanitize Secrets Web_Config
begin

text \<open>
  Parts of \<open>internal/web/server.go\<close> around the handlers: the construction of the server from its
  options, the session cookie, and the delivery of the web client's files for every path that is no
  route of the interface. The embedded files, the table of content types and the guessing of a content
  type are parameters.
\<close>

section \<open>Paths\<close>

text \<open>
  Go's \<open>path.Clean\<close> on the components between slashes, kept in reverse: empty components and single
  dots vanish, two dots remove the component before them, at the root they vanish as well.
\<close>

definition dot :: "text" where "dot = asc ''.''"
definition dotdot :: "text" where "dotdot = asc ''..''"

definition clean_component :: "bool \<Rightarrow> text \<Rightarrow> text list \<Rightarrow> text list" where
  "clean_component rooted c st =
     (if c = [] \<or> c = dot then st
      else if c = dotdot then
        (case st of
           [] \<Rightarrow> if rooted then [] else [dotdot]
         | x # xs \<Rightarrow> if x = dotdot then dotdot # st else xs)
      else c # st)"

definition clean_components :: "bool \<Rightarrow> text list \<Rightarrow> text list" where
  "clean_components rooted cs = rev (fold (clean_component rooted) cs [])"

definition path_Clean :: "text \<Rightarrow> text" where
  "path_Clean p =
     (let rooted = (p \<noteq> [] \<and> hd p = 47); cs = clean_components rooted (split_on 47 p) in
      if rooted then 47 # join_with [47] cs else if cs = [] then dot else join_with [47] cs)"

text \<open>\<open>path.Ext\<close>: from the last dot of the last component.\<close>

definition path_Ext :: "text \<Rightarrow> text" where
  "path_Ext p =
     (let r = rev p; back = takeWhile (\<lambda>c. c \<noteq> 46 \<and> c \<noteq> 47) r in
      if length back < length r \<and> r ! length back = 46 then 46 # rev back else [])"

section \<open>Files\<close>

datatype ui_reply =
    APINotFound
  | AssetNotFound
  | UINotFound
  | UIFile "text" "text" "text" "nat list"

definition serveUI ::
  "(text \<Rightarrow> nat list option) \<Rightarrow> (text \<Rightarrow> text) \<Rightarrow> (nat list \<Rightarrow> text) \<Rightarrow> text \<Rightarrow> ui_reply" where
  "serveUI assets mime detect urlPath =
     (if strip_prefix (asc ''/api/'') urlPath \<noteq> None then APINotFound
      else
        let cleaned = path_Clean urlPath;
            trimmed = (case strip_prefix (asc ''/'') cleaned of None \<Rightarrow> cleaned | Some r \<Rightarrow> r);
            requested = (if trimmed = dot \<or> trimmed = [] then asc ''index.html'' else trimmed);
            found = (case assets requested of
                Some d \<Rightarrow> Inr (requested, Some d)
              | None \<Rightarrow> if path_Ext requested \<noteq> [] then Inl AssetNotFound
                  else Inr (asc ''index.html'', assets (asc ''index.html'')))
        in case found of
             Inl r \<Rightarrow> r
           | Inr (name, None) \<Rightarrow> UINotFound
           | Inr (name, Some d) \<Rightarrow>
               let t = mime (path_Ext name); contentType = (if t = [] then detect d else t) in
               UIFile name contentType
                 (if name = asc ''index.html'' then asc ''no-cache''
                  else asc ''public, max-age=31536000, immutable'') d)"

section \<open>Cookies\<close>

record session_cookie =
  ck_Name :: "text"
  ck_Value :: "text"
  ck_Path :: "text"
  ck_MaxAge :: int
  ck_HttpOnly :: bool
  ck_Secure :: bool
  ck_SameSiteStrict :: bool

definition setSessionCookie :: "bool \<Rightarrow> text \<Rightarrow> int \<Rightarrow> session_cookie" where
  "setSessionCookie cookieSecure v maxAge =
     \<lparr>ck_Name = asc ''codex_queue_session'', ck_Value = v, ck_Path = asc ''/'', ck_MaxAge = maxAge,
      ck_HttpOnly = True, ck_Secure = cookieSecure, ck_SameSiteStrict = True\<rparr>"

section \<open>Construction\<close>

text \<open>\<open>op_load\<close>: there is a store, and what its \<open>Load\<close> answers.\<close>

record web_options =
  op_manager :: bool
  op_username :: "text"
  op_password :: "text"
  op_load :: "(text + snapshot) option"
  op_initial :: snapshot
  op_version :: "text"
  op_sessionTTL :: duration
  op_heartbeat :: duration
  op_observerBuffer :: int
  op_trustedProxies :: "text list"

datatype new_error = NoManager | NoUsername | ShortPassword | LoadFailed "text" | BadProxies

record new_server =
  ns_server :: web_server
  ns_username :: "text"
  ns_sessionTTL :: duration
  ns_heartbeat :: duration
  ns_observerBuffer :: int

definition option_default :: "int \<Rightarrow> int \<Rightarrow> int" where
  "option_default d v = (if v \<le> 0 then d else v)"

definition zero_config_server :: "snapshot \<Rightarrow> text \<Rightarrow> bool \<Rightarrow> web_server" where
  "zero_config_server snap version hasStore =
     \<lparr>ws_version = (if version = [] then asc ''dev'' else version), ws_hasStore = hasStore,
      ws_startup = sp_Config snap, ws_config = snap\<rparr>"

text \<open>\<open>accepts\<close>: what gin's \<open>SetTrustedProxies\<close> accepts. Without a store the configuration is not used.\<close>

definition New_web :: "(text list \<Rightarrow> bool) \<Rightarrow> web_options \<Rightarrow> new_error + new_server" where
  "New_web accepts opt =
     (let username = strings_TrimSpace (op_username opt);
          start = (case op_load opt of
              None \<Rightarrow>
                if username = [] then Inl NoUsername
                else if length (op_password opt) < MinimumAdminPasswordLength then Inl ShortPassword
                else Inr (op_initial opt)
            | Some loaded \<Rightarrow>
                if sp_Revision (op_initial opt) = 0
                then (case loaded of Inl e \<Rightarrow> Inl (LoadFailed e) | Inr snap \<Rightarrow> Inr snap)
                else Inr (op_initial opt))
      in if \<not> op_manager opt then Inl NoManager
         else case start of
           Inl e \<Rightarrow> Inl e
         | Inr snap \<Rightarrow>
             if \<not> accepts (cleanStrings (op_trustedProxies opt)) then Inl BadProxies
             else Inr \<lparr>ns_server = zero_config_server snap (op_version opt) (op_load opt \<noteq> None),
               ns_username = username,
               ns_sessionTTL = option_default (12 * 3600 * second) (op_sessionTTL opt),
               ns_heartbeat = option_default (15 * second) (op_heartbeat opt),
               ns_observerBuffer = option_default 32 (op_observerBuffer opt)\<rparr>)"

section \<open>Lemmas\<close>

text \<open>A component as a file system accepts it.\<close>

definition plain_component :: "text \<Rightarrow> bool" where
  "plain_component c \<longleftrightarrow> c \<noteq> [] \<and> c \<noteq> dot \<and> c \<noteq> dotdot \<and> 47 \<notin> set c"

lemma split_on_items: "c \<in> set (split_on d t) \<Longrightarrow> d \<notin> set c"
proof (induction t arbitrary: c)
  case (Cons x t)
  have "hd (split_on d t) \<in> set (split_on d t)" by simp
  moreover have "set (tl (split_on d t)) \<subseteq> set (split_on d t)" by (meson list.set_sel(2) split_on_nonempty subsetI)
  ultimately show ?case using Cons by (auto split: if_splits)
qed simp

lemma clean_component_plain:
  assumes "list_all plain_component st" "47 \<notin> set c"
  shows "list_all plain_component (clean_component True c st)"
  using assms by (cases st) (auto simp: clean_component_def plain_component_def)

lemma clean_components_plain:
  assumes "\<And>c. c \<in> set cs \<Longrightarrow> 47 \<notin> set c"
  shows "list_all plain_component (clean_components True cs)"
proof -
  have "list_all plain_component st \<Longrightarrow> (\<And>c. c \<in> set cs \<Longrightarrow> 47 \<notin> set c) \<Longrightarrow>
      list_all plain_component (fold (clean_component True) cs st)" for st
    by (induction cs arbitrary: st) (simp_all add: clean_component_plain)
  from this[of "[]"] assms show ?thesis by (simp add: clean_components_def)
qed

lemma clean_rooted: "hd p = 47 \<Longrightarrow> p \<noteq> [] \<Longrightarrow> \<exists>cs. path_Clean p = 47 # join_with [47] cs \<and> list_all plain_component cs"
  using clean_components_plain[of "split_on 47 p"] split_on_items by (auto simp: path_Clean_def)

lemma index_plain: "plain_component (asc ''index.html'')"
  by (simp add: plain_component_def dot_def dotdot_def)

text \<open>
  For the path of a request, which begins with a slash, only files inside the directory of the web
  client are delivered: the name is made of components that are neither empty nor dots. A path of the
  interface never gets a file.
\<close>

lemma ui_files_inside:
  assumes "serveUI assets mime detect (47 # p) = UIFile name contentType cache d"
  shows "assets name = Some d" "\<exists>cs. cs \<noteq> [] \<and> name = join_with [47] cs \<and> list_all plain_component cs"
    "\<And>r. 47 # p \<noteq> asc ''/api/'' @ r" "cache = asc ''no-cache'' \<longleftrightarrow> name = asc ''index.html''"
proof -
  obtain cs where cs: "path_Clean (47 # p) = 47 # join_with [47] cs" "list_all plain_component cs"
    using clean_rooted[of "47 # p"] by auto
  have a: "strip_prefix (asc ''/api/'') (47 # p) = None" using assms by (auto simp: serveUI_def split: if_splits)
  then show "\<And>r. 47 # p \<noteq> asc ''/api/'' @ r" unfolding strip_prefix_None by blast
  let ?n = "join_with [47] cs"
  let ?q = "if ?n = dot \<or> ?n = [] then asc ''index.html'' else ?n"
  have t: "strip_prefix (asc ''/'') (47 # ?n) = Some ?n" by simp
  have c: "asc ''public, max-age=31536000, immutable'' \<noteq> asc ''no-cache''" by simp
  have n: "assets name = Some d \<and> (name = asc ''index.html'' \<or> name = ?n \<and> ?n \<noteq> []) \<and>
      (cache = asc ''no-cache'' \<longleftrightarrow> name = asc ''index.html'')"
    using assms a unfolding serveUI_def cs(1) t Let_def
    by (auto simp: c simp del: asc_Cons split: option.splits if_splits sum.splits prod.splits)
  then show "assets name = Some d" "cache = asc ''no-cache'' \<longleftrightarrow> name = asc ''index.html''" by blast+
  from n show "\<exists>cs. cs \<noteq> [] \<and> name = join_with [47] cs \<and> list_all plain_component cs"
    using index_plain cs(2) join_with.simps(2)[of "[47]" "asc ''index.html''"]
    by (metis join_with.simps(1) list.pred_inject list.distinct(1))
qed

text \<open>A page address whose last part contains a dot is taken for a missing file, not for the application.\<close>

lemma dotted_route_missing:
  "assets (asc ''targets/gpt-5.1'') = None \<Longrightarrow> serveUI assets mime detect (asc ''/targets/gpt-5.1'') = AssetNotFound"
  by (simp add: serveUI_def path_Clean_def clean_components_def clean_component_def dot_def dotdot_def path_Ext_def Let_def)

text \<open>A server that is constructed has positive intervals and, without a store, usable credentials.\<close>

lemma New_web_ok:
  assumes "New_web accepts opt = Inr s"
  shows "0 < ns_sessionTTL s \<and> 0 < ns_heartbeat s \<and> 0 < ns_observerBuffer s \<and> ws_version (ns_server s) \<noteq> []"
    "op_load opt = None \<Longrightarrow> ns_username s \<noteq> [] \<and> MinimumAdminPasswordLength \<le> length (op_password opt)"
    "op_load opt \<noteq> None \<Longrightarrow> ws_startup (ns_server s) = sp_Config (ws_config (ns_server s))"
  using assms by (auto simp: New_web_def Let_def option_default_def zero_config_server_def second_def
      split: if_splits option.splits sum.splits)

end
