(* ===== verification/Spec2Isabelle.thy ===== *)
theory Spec2Isabelle
  imports Manager_Theorems Storage_Props Api_Contract Console Navigation Adhoc_Dialog Config_Save
    Commands_Props Messaging_Props Hub_Listener Telegram Codex_Runner Event_Stream
    Web_Assets
begin

text \<open>
  A model of \<open>codex-queue-bot\<close> and the theorems that make it correct.

  \<^bold>\<open>The program.\<close> A service keeps a list of API targets. For each target it can press into the
  queue (start Codex processes until one succeeds), keep a session alive at random intervals, or run
  one manual request. \<open>internal/jobs\<close> schedules these tasks with one goroutine per task and a limit
  on parallel processes; \<open>internal/config\<close> holds and validates the configuration;
  \<open>internal/storage\<close> keeps it in a database with encrypted secrets; \<open>internal/web\<close> serves the HTTP
  interface and the server-sent events; \<open>frontend/src\<close> is the web client; \<open>internal/hub\<close> and
  \<open>internal/telegram\<close> connect to message services, whose chat commands \<open>internal/commands\<close> turns into
  calls of the manager; \<open>cmd/codex-queue-bot/messages.go\<close> replaces these adapters when the configuration
  changes; \<open>internal/codex\<close> starts the Codex processes and \<open>internal/proxyenv\<close> chooses the proxies.

  \<^bold>\<open>Shared theories.\<close> \<open>Prelude\<close>: texts as lists of code points, the parts of Go's \<open>strings\<close> and
  \<open>unicode\<close> that are used, times, counting. \<open>Systems\<close>: reachability and the interface
  \<open>invariant_system\<close>, which every stateful component interprets; \<open>Simulation\<close>: the interface
  \<open>simulation\<close> of a system whose steps are steps, or pauses, of another. \<open>Utf8\<close>: bytes as Go turns them
  into runes. \<open>Redaction\<close>: the interface \<open>secret_filter\<close> of every routine that removes a secret.
  \<open>Listeners\<close>: the interface \<open>listener\<close> of the loops of both adapters. \<open>JS\<close>: UTF-16 code units,
  \<open>Array.from\<close>, white space and lines of JavaScript. \<open>Json\<close>: JSON values, access to properties and
  their text.

  \<^bold>\<open>The job manager\<close> (\<open>internal/jobs/manager.go\<close>). \<open>Jobs\<close> has the records of the manager and one
  definition per section between lock and unlock; \<open>Sanitize\<close> the redaction of error texts; \<open>Jobs_View\<close>,
  \<open>Jobs_Effects\<close> and \<open>Jobs_Targets\<close> what each section does to a target's cell; \<open>Accounting\<close> the
  ledger that ties the manager's counters to the goroutines; \<open>Scheduler\<close> the goroutines as program
  counters and all interleavings as a step relation, where process results, timers, random
  numbers and message delivery are the environment; \<open>Scheduler_Inv\<close>, \<open>Scheduler_Safety\<close> and
  \<open>Scheduler_Props\<close> the invariant and its consequences; \<open>Demo_Run\<close> a concrete run;
  \<open>Manager_Theorems\<close> the properties: one process per target, exact counters, the process limit, no
  deadlock, exclusive modes, no missing map entry, shutdown, updates and deletions of idle targets only.
  A loop of a goroutine is a sequence of steps, so no bound on iterations is chosen anywhere.

  \<^bold>\<open>Configuration\<close> (\<open>internal/config/config.go\<close>): \<open>Config\<close> has the records, defaults, normalisation
  and validators, and a characterisation of what is accepted.

  \<^bold>\<open>The store\<close> (\<open>internal/storage/storage.go\<close>): \<open>Secrets\<close> has the encoding of encrypted values and of
  password hashes, with AES-GCM and Argon2id as a record of functions; the properties assume of it that
  decryption inverts encryption and is bound to the additional data, and \<open>plain_crypto\<close> shows that
  these assumptions can hold. \<open>Storage\<close> has the tables, loading and every update as one transaction
  that may fail before or after its commit; \<open>Storage_Props\<close> shows that the store always loads, that
  updates are all or nothing, and what an update leaves behind.

  \<^bold>\<open>The web server\<close> (\<open>internal/web\<close>): \<open>Web_Http\<close> has the routes, body decoding, actions and manual
  requests; \<open>Web_Models\<close> the dashboard, configuration and secrets payloads; \<open>Web_Sessions\<close> the table of
  sessions, logins, logouts, account changes and event streams with their interleavings; \<open>Web_Config\<close> the
  handlers that change the configuration, each with its store transaction and its calls of the
  manager, and the start of the server; \<open>Web_Config_Sync\<close> shows that store, server and manager agree
  after any sequence of these calls, whichever of them fail. \<open>Observers\<close> shows that every step of the
  manager publishes what it changes of the visible state; \<open>Event_Stream\<close> is \<open>sse.go\<close>: the handler of the
  event stream as programs of single operations, interleaved with the manager's goroutines, the status
  stores, configuration changes and sessions, and shows that whenever it waits with nothing to read the
  page has been sent the current state, and that it leaves no subscription behind. \<open>Web_Assets\<close> has the
  construction of the server, the session cookie and the delivery of the client's files.

  \<^bold>\<open>The web client\<close> (\<open>frontend/src\<close>): \<open>Api\<close> is \<open>lib/api.ts\<close>; \<open>Widgets\<close> is \<open>lib/utils.ts\<close> and the shared
  parts of \<open>App.tsx\<close>; \<open>Auth_Pages\<close>, \<open>Dashboard_Page\<close> and \<open>Config_Page\<close> are the pages of \<open>App.tsx\<close>;
  \<open>Navigation\<close> is the frame around them; \<open>Adhoc_Dialog\<close> is \<open>components/adhoc-run-dialog.tsx\<close>. A component is the record of its state; an
  event handler is split at each \<open>await\<close>, the continuation taking the response and the values its
  closure has captured; \<open>disabled\<close> attributes and conditional rendering are the guards of the user's
  events; a step relation lets events and responses come in any order, and an interpretation of
  \<open>invariant_system\<close> gives what holds in every reachable state.

  \<^bold>\<open>Composition.\<close> \<open>Api_Contract\<close> relates the client's requests to the server's handlers and replies;
  \<open>Console\<close> relates the dashboard to the manager behind it: what is shown is the manager's state, and
  what a row offers the manager accepts; \<open>Auth_Pages\<close> relates the setup form to the store;
  \<open>Config_Save\<close> follows a saved card from the page through server, store and manager back to the page.

  \<^bold>\<open>Messages.\<close> \<open>Commands\<close> is \<open>internal/commands/handler.go\<close>: parsing, permissions, every command with its
  call of the manager, every reply; \<open>Commands_Props\<close> shows by \<open>simulation\<close> that the manager behind the
  chat only takes steps of its own model, that names written in a command reach their targets, and
  that replies end. \<open>Hub\<close> has the status, the window of remembered events, the decoding of events and the
  back-off of \<open>internal/hub/client.go\<close>, \<open>Status_Store\<close> its status store with observers, \<open>Hub_Listener\<close> its
  \<open>Run\<close>, \<open>connect\<close>, \<open>readLoop\<close> and \<open>Send\<close>; \<open>Telegram\<close> is \<open>internal/telegram/client.go\<close>. A listener is a program
  counter that runs between senders, reloads and the end of its context; the lemmas show that it
  ends only for a reason the status gives, and that updates are handed on once and in order.
  \<open>Messaging\<close> is \<open>messages.go\<close> with \<open>internal/messaging/proxy.go\<close>: a reload is a list of critical sections
  between which status forwarders of old and new clients run; \<open>Messaging_Props\<close> shows that proxies and
  shown status belong to the current clients when it is done.

  \<^bold>\<open>Processes.\<close> \<open>Codex_Runner\<close> is \<open>internal/codex\<close>: prompts, command line, environment, output buffer and
  classification of results, with the operating system as a record of inputs; \<open>Proxyenv\<close> is the part of
  \<open>internal/proxyenv/proxyenv.go\<close> that reads, writes and applies the settings. The lemmas show that output
  and errors never show a key, that a process gets a closed environment, that the buffer holds exactly the
  last bytes, and that no request goes around a configured proxy.

  \<^bold>\<open>Parameters.\<close> Parsers of Go's \<open>net\<close> and \<open>net/url\<close>, cryptography, the file system, the formatting of
  dates and \<open>fetch\<close> are arguments or environment inputs; no property assumes more of them than its
  statement says.

  \<^bold>\<open>Not modelled.\<close> Markup, icons, style sheets and class names of the web client (no behaviour); its
  built bundle under \<open>internal/web/ui/dist\<close> (generated); fractional numbers in number fields;
  the encoding and the write deadlines of events, security headers; the SQLite file, migrations and file
  permissions; the bytes on WebSockets and in HTTP exchanges of the adapters, and the CONNECT dialogue
  with a proxy, whose outcomes are inputs; \<open>proxyenv.Apply\<close>, which changes the environment of the
  program itself; flags, signals and logging of \<open>main\<close>.
\<close>

end
